(* ===== verification/Prelude.thy ===== *)
theory Prelude
  imports Complex_Main
begin

text \<open>
  Shared vocabulary of the development: identifiers, timestamps and the error values that the
  services throw; JavaScript truthiness of optional strings; the theorem collections used by the
  component theories; generic lemmas on lists and options.
\<close>

section \<open>Identifiers, time and errors\<close>

type_synonym uuid = string
type_synonym timestamp = int

text \<open>
  The HTTP exception classes of NestJS that the services throw.  \<open>Internal\<close> is an exception that
  is not an \<open>HttpException\<close> and becomes a status 500 (for instance a violated database constraint).
\<close>

datatype http_kind =
    BadRequest
  | Unauthorized
  | Forbidden
  | NotFound
  | Conflict
  | Unprocessable
  | TooManyRequests
  | Internal

text \<open>
  A thrown exception: its class, the machine readable \<open>code\<close> of its body, and the identifiers the
  body carries beside the message (empty for most).  Message texts are not modelled.
\<close>

datatype api_error = ApiError (err_kind: http_kind) (err_code: string) (err_ids: "uuid list")

abbreviation fail_with :: "http_kind \<Rightarrow> string \<Rightarrow> api_error + 'a" where
  "fail_with k c \<equiv> Inl (ApiError k c [])"

text \<open>The result of a handler: what it throws or returns, and the state it leaves.\<close>

type_synonym ('a, 's) outcome = "(api_error + 'a) \<times> 's"

section \<open>JavaScript truthiness of optional strings\<close>

text \<open>\<open>if (x)\<close> and \<open>x || null\<close> on a value that is a string, \<open>null\<close> or \<open>undefined\<close>.\<close>

fun truthy :: "string option \<Rightarrow> bool" where
  "truthy None = False"
| "truthy (Some s) = (s \<noteq> [])"

definition or_null :: "string option \<Rightarrow> string option" where
  "or_null x = (if truthy x then x else None)"

lemma truthy_iff: "truthy x \<longleftrightarrow> (\<exists>s. x = Some s \<and> s \<noteq> [])"
  by (cases x) auto

lemma or_null_simps [simp]:
  "or_null None = None"
  "or_null (Some []) = None"
  "s \<noteq> [] \<Longrightarrow> or_null (Some s) = Some s"
  by (simp_all add: or_null_def)

section \<open>Strings\<close>

text \<open>JavaScript \<open>join\<close> and \<open>split\<close> with a separator of one character.\<close>

fun join_with :: "string \<Rightarrow> string list \<Rightarrow> string" where
  "join_with sep [] = []"
| "join_with sep [s] = s"
| "join_with sep (s # t # ss) = s @ sep @ join_with sep (t # ss)"

fun split_on :: "char \<Rightarrow> string \<Rightarrow> string list" where
  "split_on sep [] = [[]]"
| "split_on sep (c # s) =
     (if c = sep then [] # split_on sep s
      else case split_on sep s of [] \<Rightarrow> [[c]] | p # ps \<Rightarrow> (c # p) # ps)"

section \<open>Collections\<close>

named_theorems handler_defs "definitions of the request handlers"
named_theorems row_defs "definitions of row updates"

section \<open>Generic lemmas\<close>

lemma filter_eq_length_1:
  "distinct xs \<Longrightarrow> x \<in> set xs \<Longrightarrow> (\<And>y. y \<in> set xs \<Longrightarrow> P y \<longleftrightarrow> y = x) \<Longrightarrow> filter P xs = [x]"
proof (induction xs)
  case Nil
  then show ?case by simp
next
  case (Cons a xs)
  show ?case
  proof (cases "a = x")
    case True
    with Cons.prems have "filter P xs = []"
      by (auto simp: filter_empty_conv)
    with True Cons.prems show ?thesis by simp
  next
    case False
    with Cons show ?thesis by auto
  qed
qed

lemma list_all_map_cong: "(\<And>x. x \<in> set xs \<Longrightarrow> P (f x)) \<Longrightarrow> list_all P (map f xs)"
  by (simp add: list_all_iff)

end
