(* ===== verification/Tables.thy ===== *)
theory Tables
  imports Prelude
begin

text \<open>
  Database tables as lists of rows in insertion order, with the Prisma operations the services use:
  \<open>findUnique\<close>, \<open>update\<close>, \<open>updateMany\<close> (with the count of matched rows) and \<open>create\<close>.
  A conditional \<open>updateMany\<close> followed by a test of the count is how the services claim a row
  exactly once; its contract is the locale \<open>claiming\<close>.
\<close>

section \<open>Operations\<close>

definition find_row :: "('r \<Rightarrow> 'k) \<Rightarrow> 'k \<Rightarrow> 'r list \<Rightarrow> 'r option" where
  "find_row key k rows = List.find (\<lambda>r. key r = k) rows"

definition update_where :: "('r \<Rightarrow> bool) \<Rightarrow> ('r \<Rightarrow> 'r) \<Rightarrow> 'r list \<Rightarrow> 'r list" where
  "update_where P f rows = map (\<lambda>r. if P r then f r else r) rows"

definition count_where :: "('r \<Rightarrow> bool) \<Rightarrow> 'r list \<Rightarrow> nat" where
  "count_where P rows = length (filter P rows)"

definition update_row :: "('r \<Rightarrow> 'k) \<Rightarrow> 'k \<Rightarrow> ('r \<Rightarrow> 'r) \<Rightarrow> 'r list \<Rightarrow> 'r list" where
  "update_row key k f rows = update_where (\<lambda>r. key r = k) f rows"

text \<open>
  \<open>updateMany({where: {id, ...}, data})\<close> on one key: the matched count and the new table.
  \<open>open_row\<close> is the part of the \<open>where\<close> clause beside the key.
\<close>

definition claim :: "('r \<Rightarrow> 'k) \<Rightarrow> ('r \<Rightarrow> bool) \<Rightarrow> ('r \<Rightarrow> 'r) \<Rightarrow> 'k \<Rightarrow> 'r list \<Rightarrow> nat \<times> 'r list" where
  "claim key open_row take_row k rows =
     (count_where (\<lambda>r. key r = k \<and> open_row r) rows,
      update_where (\<lambda>r. key r = k \<and> open_row r) take_row rows)"

abbreviation unique_keys :: "('r \<Rightarrow> 'k) \<Rightarrow> 'r list \<Rightarrow> bool" where
  "unique_keys key rows \<equiv> distinct (map key rows)"

section \<open>Lemmas\<close>

lemma find_row_simps [simp]:
  "find_row key k [] = None"
  "find_row key k (r # rows) = (if key r = k then Some r else find_row key k rows)"
  by (simp_all add: find_row_def)

lemma find_row_SomeD: "find_row key k rows = Some r \<Longrightarrow> r \<in> set rows \<and> key r = k"
  by (induction rows) (auto split: if_splits)

lemma find_row_None_iff: "find_row key k rows = None \<longleftrightarrow> (\<forall>r \<in> set rows. key r \<noteq> k)"
  by (induction rows) auto

lemma find_row_None_iff_keys: "find_row key k rows = None \<longleftrightarrow> k \<notin> key ` set rows"
  by (induction rows) auto

lemma find_row_unique:
  "unique_keys key rows \<Longrightarrow> r \<in> set rows \<Longrightarrow> find_row key (key r) rows = Some r"
  by (induction rows) (auto simp: image_iff)

lemma find_row_eq_iff:
  "unique_keys key rows \<Longrightarrow> find_row key k rows = Some r \<longleftrightarrow> r \<in> set rows \<and> key r = k"
  using find_row_unique find_row_SomeD by metis

lemma find_row_append:
  "find_row key k (xs @ ys) = (case find_row key k xs of None \<Rightarrow> find_row key k ys | Some r \<Rightarrow> Some r)"
  by (induction xs) auto

lemma find_row_update_where:
  "(\<And>r. key (f r) = key r) \<Longrightarrow>
   find_row key k (update_where P f rows) = map_option (\<lambda>r. if P r then f r else r) (find_row key k rows)"
  by (induction rows) (auto simp: update_where_def)

lemma find_row_update_row:
  "(\<And>r. key (f r) = key r) \<Longrightarrow>
   find_row key k (update_row key j f rows) =
     (if k = j then map_option f (find_row key k rows) else find_row key k rows)"
  by (induction rows) (auto simp: update_row_def update_where_def)

lemma map_key_update_where:
  "(\<And>r. g (f r) = g r) \<Longrightarrow> map g (update_where P f rows) = map g rows"
  by (induction rows) (auto simp: update_where_def)

lemma map_key_update_row:
  "(\<And>r. g (f r) = g r) \<Longrightarrow> map g (update_row key k f rows) = map g rows"
  by (simp add: update_row_def map_key_update_where)

lemma length_update_where [simp]: "length (update_where P f rows) = length rows"
  by (simp add: update_where_def)

lemma length_update_row [simp]: "length (update_row key k f rows) = length rows"
  by (simp add: update_row_def)

lemma set_update_where: "set (update_where P f rows) = (\<lambda>r. if P r then f r else r) ` set rows"
  by (simp add: update_where_def)

lemma set_update_row: "set (update_row key k f rows) = (\<lambda>r. if key r = k then f r else r) ` set rows"
  by (simp add: update_row_def set_update_where)

lemma update_where_None: "count_where P rows = 0 \<Longrightarrow> update_where P f rows = rows"
  by (induction rows) (auto simp: count_where_def update_where_def split: if_splits)

lemma update_where_cong:
  "(\<And>r. r \<in> set rows \<Longrightarrow> P r = Q r) \<Longrightarrow> update_where P f rows = update_where Q f rows"
  by (simp add: update_where_def)

lemma update_row_as_where:
  "unique_keys key rows \<Longrightarrow> find_row key k rows = Some r \<Longrightarrow> Q r \<Longrightarrow>
   update_where (\<lambda>x. key x = k \<and> Q x) f rows = update_row key k f rows"
  unfolding update_row_def
  by (rule update_where_cong) (metis find_row_eq_iff option.inject)

lemma count_where_key:
  assumes "unique_keys key rows"
  shows "count_where (\<lambda>r. key r = k \<and> Q r) rows =
    (case find_row key k rows of None \<Rightarrow> 0 | Some r \<Rightarrow> if Q r then 1 else 0)"
  using assms
proof (induction rows)
  case Nil
  then show ?case by (simp add: count_where_def)
next
  case (Cons a rows)
  have "key a = k \<Longrightarrow> find_row key k rows = None"
    using Cons.prems by (auto simp: find_row_None_iff_keys)
  with Cons show ?case by (auto simp: count_where_def)
qed

section \<open>Claims\<close>

text \<open>
  The contract of a conditional update: it keeps the key, and a row it has taken is no longer open
  to the same claim.  From it follow that a claim matches at most one row, that it takes exactly
  the open row with that key, that every other row keeps its value, and that of two claims on one
  key at most one wins.
\<close>

locale claiming =
  fixes key :: "'r \<Rightarrow> 'k"
    and open_row :: "'r \<Rightarrow> bool"
    and take_row :: "'r \<Rightarrow> 'r"
  assumes key_take: "key (take_row r) = key r"
    and take_closes: "open_row r \<Longrightarrow> \<not> open_row (take_row r)"
begin

lemma keys_claim: "map key (snd (claim key open_row take_row k rows)) = map key rows"
  by (simp add: claim_def map_key_update_where key_take)

lemma unique_claim:
  "unique_keys key rows \<Longrightarrow> unique_keys key (snd (claim key open_row take_row k rows))"
  by (simp add: keys_claim)

lemma find_claim:
  "find_row key j (snd (claim key open_row take_row k rows)) =
     map_option (\<lambda>r. if j = k \<and> open_row r then take_row r else r) (find_row key j rows)"
  by (induction rows) (auto simp: claim_def update_where_def key_take)

lemma claim_count:
  "unique_keys key rows \<Longrightarrow>
   fst (claim key open_row take_row k rows) =
     (case find_row key k rows of None \<Rightarrow> 0 | Some r \<Rightarrow> if open_row r then 1 else 0)"
  by (simp add: claim_def count_where_key)

lemma claim_won_iff:
  "unique_keys key rows \<Longrightarrow>
   fst (claim key open_row take_row k rows) = 1 \<longleftrightarrow> (\<exists>r. find_row key k rows = Some r \<and> open_row r)"
  by (auto simp: claim_count split: option.splits)

lemma claim_lost:
  "unique_keys key rows \<Longrightarrow> fst (claim key open_row take_row k rows) \<noteq> 1 \<Longrightarrow>
   snd (claim key open_row take_row k rows) = rows"
  by (auto simp: claim_def count_where_key update_where_None split: option.splits if_splits)

lemma claim_won_row:
  "unique_keys key rows \<Longrightarrow> fst (claim key open_row take_row k rows) = 1 \<Longrightarrow>
   snd (claim key open_row take_row k rows) = update_row key k take_row rows"
  unfolding claim_won_iff by (auto simp: claim_def update_row_as_where)

text \<open>The claim as a case distinction on the row: the form the handler proofs rewrite with.\<close>

lemma claim_eq:
  assumes "unique_keys key rows"
  shows "claim key open_row take_row k rows =
    (case find_row key k rows of
       None \<Rightarrow> (0, rows)
     | Some r \<Rightarrow> if open_row r then (1, update_row key k take_row rows) else (0, rows))"
proof (cases "\<exists>r. find_row key k rows = Some r \<and> open_row r")
  case True
  with assms show ?thesis
    by (auto simp: claim_count claim_won_row claim_won_iff prod_eq_iff)
next
  case False
  then have "fst (claim key open_row take_row k rows) = 0"
    using assms by (auto simp: claim_count split: option.splits)
  moreover from this have "snd (claim key open_row take_row k rows) = rows"
    using assms claim_lost by simp
  ultimately show ?thesis
    using False by (auto simp: prod_eq_iff split: option.splits)
qed

lemma claim_at_most_once:
  "unique_keys key rows \<Longrightarrow> fst (claim key open_row take_row k rows) = 1 \<Longrightarrow>
   fst (claim key open_row take_row k (snd (claim key open_row take_row k rows))) = 0"
  unfolding claim_won_iff
  by (auto simp: claim_count[OF unique_claim] find_claim take_closes)

lemma claim_frame:
  "j \<noteq> k \<Longrightarrow> find_row key j (snd (claim key open_row take_row k rows)) = find_row key j rows"
  by (cases "find_row key j rows") (simp_all add: find_claim)

lemma claim_set:
  "set (snd (claim key open_row take_row k rows)) =
     (\<lambda>r. if key r = k \<and> open_row r then take_row r else r) ` set rows"
  by (simp add: claim_def set_update_where)

end

section \<open>Status graphs\<close>

text \<open>
  The contract of a status column with final values: no allowed transition leaves a final status.
  Then a run of transitions from a final status stays there.
\<close>

locale status_graph =
  fixes edge :: "'s \<Rightarrow> 's \<Rightarrow> bool"
    and final :: "'s \<Rightarrow> bool"
  assumes final_stuck: "final s \<Longrightarrow> edge s t \<Longrightarrow> t = s"
begin

lemma final_stable: "edge\<^sup>*\<^sup>* s t \<Longrightarrow> final s \<Longrightarrow> t = s"
  by (induction rule: rtranclp_induct) (auto dest: final_stuck)

lemma final_unique: "edge\<^sup>*\<^sup>* s t \<Longrightarrow> edge\<^sup>*\<^sup>* s u \<Longrightarrow> final s \<Longrightarrow> t = u"
  using final_stable by blast

end

section \<open>Tables whose status column follows a graph\<close>

text \<open>
  \<open>table_step key get edge\<close> relates two versions of a table in which every row of the first is still
  present in the second and its status has stayed or moved along one edge.  \<open>table_run\<close> is the same
  for any number of edges.
\<close>

definition table_step :: "('r \<Rightarrow> 'k) \<Rightarrow> ('r \<Rightarrow> 's) \<Rightarrow> ('s \<Rightarrow> 's \<Rightarrow> bool) \<Rightarrow> 'r list \<Rightarrow> 'r list \<Rightarrow> bool" where
  "table_step key get edge rows rows' \<longleftrightarrow>
     (\<forall>k r. find_row key k rows = Some r \<longrightarrow>
        (\<exists>r'. find_row key k rows' = Some r' \<and> (get r' = get r \<or> edge (get r) (get r'))))"

definition table_run :: "('r \<Rightarrow> 'k) \<Rightarrow> ('r \<Rightarrow> 's) \<Rightarrow> ('s \<Rightarrow> 's \<Rightarrow> bool) \<Rightarrow> 'r list \<Rightarrow> 'r list \<Rightarrow> bool" where
  "table_run key get edge rows rows' \<longleftrightarrow>
     (\<forall>k r. find_row key k rows = Some r \<longrightarrow>
        (\<exists>r'. find_row key k rows' = Some r' \<and> edge\<^sup>*\<^sup>* (get r) (get r')))"

lemma table_step_refl [simp]: "table_step key get edge rows rows"
  by (auto simp: table_step_def)

lemma table_run_refl [simp]: "table_run key get edge rows rows"
  by (auto simp: table_run_def)

lemma table_step_run: "table_step key get edge rows rows' \<Longrightarrow> table_run key get edge rows rows'"
  unfolding table_step_def table_run_def by (metis r_into_rtranclp rtranclp.rtrancl_refl)

lemma table_run_trans:
  "table_run key get edge a b \<Longrightarrow> table_run key get edge b c \<Longrightarrow> table_run key get edge a c"
  unfolding table_run_def by (meson rtranclp_trans)

lemma table_step_append: "table_step key get edge rows (rows @ new)"
  by (auto simp: table_step_def find_row_append)

lemma table_step_update_row:
  assumes "\<And>r. key (f r) = key r"
    and "\<And>r. find_row key k rows = Some r \<Longrightarrow> get (f r) = get r \<or> edge (get r) (get (f r))"
  shows "table_step key get edge rows (update_row key k f rows)"
  using assms by (auto simp: table_step_def find_row_update_row)

text \<open>A claim that also moves a status column along an edge of a graph.\<close>

locale edge_claiming = claiming key open_row take_row
  for key :: "'r \<Rightarrow> 'k" and open_row :: "'r \<Rightarrow> bool" and take_row :: "'r \<Rightarrow> 'r" +
  fixes get :: "'r \<Rightarrow> 's"
    and edge :: "'s \<Rightarrow> 's \<Rightarrow> bool"
  assumes take_edge: "open_row r \<Longrightarrow> edge (get r) (get (take_row r))"
begin

lemma step_claim: "table_step key get edge rows (snd (claim key open_row take_row k rows))"
  by (auto simp: table_step_def find_claim take_edge)

end

end
