(* ===== verification/Json.thy ===== *)
theory Json
  imports Tables
begin

text \<open>
  JSON values as the services build, store and inspect them: property access, truthiness, \<open>||\<close> and
  the spread of an object.  Text that \<open>JSON.stringify\<close> writes and \<open>JSON.parse\<close> reads is represented by
  the value itself, a date by its time in milliseconds.
\<close>

section \<open>JSON values\<close>

datatype json =
    JNull
  | JBool bool
  | JNum rat
  | JStr string
  | JList "json list"
  | JObj "(string \<times> json) list"

text \<open>Property access: \<open>None\<close> is \<open>undefined\<close>.\<close>

fun jget :: "string \<Rightarrow> json \<Rightarrow> json option" where
  "jget k (JObj kvs) = map_of kvs k"
| "jget k _ = None"

fun jtruthy :: "json option \<Rightarrow> bool" where
  "jtruthy None = False"
| "jtruthy (Some JNull) = False"
| "jtruthy (Some (JBool b)) = b"
| "jtruthy (Some (JNum x)) = (x \<noteq> 0)"
| "jtruthy (Some (JStr s)) = (s \<noteq> [])"
| "jtruthy (Some (JList _)) = True"
| "jtruthy (Some (JObj _)) = True"

text \<open>\<open>a || b\<close> on two optional JSON values.\<close>

definition jor :: "json option \<Rightarrow> json option \<Rightarrow> json option" where
  "jor a b = (if jtruthy a then a else b)"

text \<open>\<open>{...body, idempotent: true}\<close>: spreading a value that is no object copies nothing.\<close>

fun with_idempotent :: "json \<Rightarrow> json" where
  "with_idempotent (JObj kvs) = JObj ((''idempotent'', JBool True) # filter (\<lambda>(k, v). k \<noteq> ''idempotent'') kvs)"
| "with_idempotent _ = JObj [(''idempotent'', JBool True)]"

definition jopt :: "string option \<Rightarrow> json" where
  "jopt x = (case x of None \<Rightarrow> JNull | Some s \<Rightarrow> JStr s)"

section \<open>Texts\<close>

text \<open>\<open>toLowerCase\<close> on Latin letters without accents.\<close>

definition lower_char :: "char \<Rightarrow> char" where
  "lower_char c = (let n = of_char c :: nat in if 65 \<le> n \<and> n \<le> 90 then char_of (n + 32) else c)"

definition lower :: "string \<Rightarrow> string" where
  "lower s = map lower_char s"

definition blank :: "char \<Rightarrow> bool" where
  "blank c \<longleftrightarrow> (of_char c :: nat) \<in> {9, 10, 11, 12, 13, 32, 160}"

definition trim :: "string \<Rightarrow> string" where
  "trim s = rev (dropWhile blank (rev (dropWhile blank s)))"

end
