(* ===== verification/Redis.thy ===== *)
theory Redis
  imports Json
begin

text \<open>
  The Redis wrapper \<open>src/src/common/redis/redis.service.ts\<close>: key/value cache, revocation keys with
  the in-process set of keys whose revocation state is uncertain, fixed window rate limits, SET NX
  and the Lua compare-and-set on sequence numbers.

  The Redis server is the map \<open>rd_data\<close> from keys to a value and an optional expiry time.  A command
  may throw: \<open>rd_oracle\<close> lists, command by command, whether it succeeds (an empty list means that
  every further command succeeds), so a theorem over all states covers every pattern of failures.
  Times are milliseconds, TTL arguments seconds, as in the code.
\<close>

section \<open>State\<close>

text \<open>A value is a string, a counter, or a string that is the text of a JSON value.\<close>

datatype rvalue = RStr string | RNum int | RJson json

record redis =
  rd_connected :: bool
  rd_oracle :: "bool list"
  rd_data :: "string \<rightharpoonup> rvalue \<times> timestamp option"
  rd_uncertain :: "(string \<times> timestamp) list"
  rd_published :: "(string \<times> json) list"

definition maxUncertainRevocationKeys :: nat where
  "maxUncertainRevocationKeys = 10000"

definition uncertainRevocationTtlMs :: int where
  "uncertainRevocationTtlMs = 15 * 60 * 1000"

text \<open>One command is sent: whether it succeeds, and the remaining oracle.\<close>

definition send_command :: "redis \<Rightarrow> bool \<times> redis" where
  "send_command st =
     (case rd_oracle st of [] \<Rightarrow> (True, st) | b # bs \<Rightarrow> (b, st\<lparr>rd_oracle := bs\<rparr>))"

text \<open>The value of a key that has not expired.\<close>

definition live :: "redis \<Rightarrow> timestamp \<Rightarrow> string \<Rightarrow> rvalue option" where
  "live st now k =
     (case rd_data st k of
        None \<Rightarrow> None
      | Some (v, None) \<Rightarrow> Some v
      | Some (v, Some e) \<Rightarrow> if now < e then Some v else None)"

definition store :: "string \<Rightarrow> rvalue \<Rightarrow> timestamp option \<Rightarrow> redis \<Rightarrow> redis" where
  "store k v e st = st\<lparr>rd_data := (rd_data st)(k \<mapsto> (v, e))\<rparr>"

section \<open>Plain keys\<close>

definition redis_get :: "string \<Rightarrow> timestamp \<Rightarrow> redis \<Rightarrow> rvalue option \<times> redis" where
  "redis_get k now st =
     (if \<not> rd_connected st then (None, st)
      else let (ok, st') = send_command st in (if ok then live st' now k else None, st'))"

definition redis_set :: "string \<Rightarrow> rvalue \<Rightarrow> int \<Rightarrow> timestamp \<Rightarrow> redis \<Rightarrow> redis" where
  "redis_set k v ttlSeconds now st =
     (if \<not> rd_connected st then st
      else let (ok, st') = send_command st in
        if ok then store k v (Some (now + ttlSeconds * 1000)) st' else st')"

definition publish :: "string \<Rightarrow> json \<Rightarrow> redis \<Rightarrow> redis" where
  "publish channel message st =
     (if \<not> rd_connected st then st
      else let (ok, st') = send_command st in
        if ok then st'\<lparr>rd_published := rd_published st' @ [(channel, message)]\<rparr> else st')"

section \<open>Revocation keys\<close>

definition pruneUncertainRevocationKeys :: "timestamp \<Rightarrow> redis \<Rightarrow> redis" where
  "pruneUncertainRevocationKeys now st =
     st\<lparr>rd_uncertain := filter (\<lambda>(k, e). \<not> e \<le> now) (rd_uncertain st)\<rparr>"

text \<open>JavaScript \<open>Map.set\<close>: an existing key keeps its place, a new key goes last.\<close>

fun js_map_set :: "'k \<Rightarrow> 'v \<Rightarrow> ('k \<times> 'v) list \<Rightarrow> ('k \<times> 'v) list" where
  "js_map_set k v [] = [(k, v)]"
| "js_map_set k v ((j, w) # m) = (if j = k then (j, v) # m else (j, w) # js_map_set k v m)"

definition js_map_delete :: "'k \<Rightarrow> ('k \<times> 'v) list \<Rightarrow> ('k \<times> 'v) list" where
  "js_map_delete k m = filter (\<lambda>(j, w). j \<noteq> k) m"

definition js_map_has :: "'k \<Rightarrow> ('k \<times> 'v) list \<Rightarrow> bool" where
  "js_map_has k m = (k \<in> set (map fst m))"

definition evict_oldest :: "(string \<times> timestamp) list \<Rightarrow> (string \<times> timestamp) list" where
  "evict_oldest m =
     (case m of [] \<Rightarrow> m | (oldestKey, e) # _ \<Rightarrow> if truthy (Some oldestKey) then js_map_delete oldestKey m else m)"

definition markRevocationUncertain :: "string \<Rightarrow> timestamp \<Rightarrow> redis \<Rightarrow> redis" where
  "markRevocationUncertain k now st =
     (let st1 = pruneUncertainRevocationKeys now st;
          m = rd_uncertain st1;
          m' = (if \<not> js_map_has k m \<and> maxUncertainRevocationKeys \<le> length m then evict_oldest m else m)
      in st1\<lparr>rd_uncertain := js_map_set k (now + uncertainRevocationTtlMs) m'\<rparr>)"

definition isRevoked :: "string \<Rightarrow> timestamp \<Rightarrow> redis \<Rightarrow> bool option \<times> redis" where
  "isRevoked k now st =
     (let st1 = pruneUncertainRevocationKeys now st in
      if js_map_has k (rd_uncertain st1) \<or> \<not> rd_connected st1 then (None, st1)
      else let (ok, st2) = send_command st1 in
        if ok then (Some (live st2 now k \<noteq> None), st2)
        else (None, markRevocationUncertain k now st2))"

definition setRevocation :: "string \<Rightarrow> int \<Rightarrow> timestamp \<Rightarrow> redis \<Rightarrow> redis" where
  "setRevocation k ttlSeconds now st =
     (let st1 = pruneUncertainRevocationKeys now st in
      if \<not> rd_connected st1 then markRevocationUncertain k now st1
      else let (ok, st2) = send_command st1 in
        if ok
        then (store k (RStr ''revoked'') (Some (now + ttlSeconds * 1000)) st2)
               \<lparr>rd_uncertain := js_map_delete k (rd_uncertain st2)\<rparr>
        else markRevocationUncertain k now st2)"

section \<open>Rate limits, SET NX and sequence numbers\<close>

text \<open>
  \<open>INCR\<close> keeps the expiry of an existing key, creates a missing key without one and is an error on
  a value that is not a number; the separate \<open>EXPIRE\<close> command sets the expiry on the first count
  of a window.
\<close>

definition incr_value :: "rvalue option \<Rightarrow> int option" where
  "incr_value v = (case v of None \<Rightarrow> Some 1 | Some (RNum n) \<Rightarrow> Some (n + 1) | Some _ \<Rightarrow> None)"

definition incrRateLimit :: "string \<Rightarrow> int \<Rightarrow> timestamp \<Rightarrow> redis \<Rightarrow> int \<times> redis" where
  "incrRateLimit k windowSeconds now st =
     (if \<not> rd_connected st then (1, st)
      else let (ok, st1) = send_command st in
        if \<not> ok then (1, st1)
        else case incr_value (live st1 now k) of
               None \<Rightarrow> (1, st1)
             | Some n \<Rightarrow>
                 let e = (if live st1 now k = None then None else snd (the (rd_data st1 k)));
                     st2 = store k (RNum n) e st1
                 in if n = 1 then
                      (let (ok', st3) = send_command st2 in
                       if ok' then (n, store k (RNum n) (Some (now + windowSeconds * 1000)) st3)
                       else (1, st3))
                    else (n, st2))"

definition resetRateLimit :: "string \<Rightarrow> redis \<Rightarrow> redis" where
  "resetRateLimit k st =
     (if \<not> rd_connected st then st
      else let (ok, st') = send_command st in
        if ok then st'\<lparr>rd_data := (rd_data st')(k := None)\<rparr> else st')"

definition setNxEx :: "string \<Rightarrow> string \<Rightarrow> int \<Rightarrow> timestamp \<Rightarrow> redis \<Rightarrow> bool \<times> redis" where
  "setNxEx k v ttlSeconds now st =
     (if \<not> rd_connected st then (True, st)
      else let (ok, st') = send_command st in
        if \<not> ok then (True, st')
        else if live st' now k = None
             then (True, store k (RStr v) (Some (now + ttlSeconds * 1000)) st')
             else (False, st'))"

text \<open>
  The Lua script of \<open>verifyAndSetSequence\<close>, run atomically by the server.  The sequence keys are
  written by this script only, so they hold numbers.
\<close>

definition verifyAndSetSequence :: "string \<Rightarrow> int \<Rightarrow> int \<Rightarrow> timestamp \<Rightarrow> redis \<Rightarrow> bool \<times> redis" where
  "verifyAndSetSequence k s ttlSeconds now st =
     (if \<not> rd_connected st then (True, st)
      else let (ok, st') = send_command st in
        if \<not> ok then (True, st')
        else case live st' now k of
               Some (RNum current) \<Rightarrow>
                 if s \<le> current then (False, st')
                 else (True, store k (RNum s) (Some (now + ttlSeconds * 1000)) st')
             | _ \<Rightarrow> (True, store k (RNum s) (Some (now + ttlSeconds * 1000)) st'))"

lemmas redis_ops_defs = redis_get_def redis_set_def publish_def pruneUncertainRevocationKeys_def
  markRevocationUncertain_def isRevoked_def setRevocation_def incrRateLimit_def resetRateLimit_def
  setNxEx_def verifyAndSetSequence_def

end
