(* ===== verification/DataModel.thy ===== *)
theory DataModel
  imports Redis
begin

text \<open>
  The relational data model that the delivery, stop, proof-of-delivery, conflict and route services
  share: the enums and rows of \<open>prisma/schema.prisma\<close>, the emitted realtime events and
  the record \<open>world\<close> of all tables.  The columns \<open>createdAt\<close> and \<open>updatedAt\<close>, which the database
  fills in, are left out, and so is \<open>geom\<close>, which a trigger derives from the coordinates.
\<close>

section \<open>Enums\<close>

datatype delivery_status = DRAFT | ASSIGNED | ACCEPTED | EN_ROUTE | COMPLETED | CANCELLED | FAILED

datatype stop_status =
  S_PENDING | S_EN_ROUTE | S_ARRIVED | S_UNLOADING | S_DELIVERED | S_FAILED | S_SKIPPED

datatype route_mode = MODE_MANUAL | MODE_RECOMMENDED_2OPT

datatype route_source = SRC_MANUAL | SRC_RECOMMENDED_2OPT | SRC_EXTERNAL_OSRM

datatype conflict_status = OPEN | RESOLVED_OVERRIDDEN | RESOLVED_DISCARDED

fun delivery_status_name :: "delivery_status \<Rightarrow> string" where
  "delivery_status_name DRAFT = ''DRAFT''"
| "delivery_status_name ASSIGNED = ''ASSIGNED''"
| "delivery_status_name ACCEPTED = ''ACCEPTED''"
| "delivery_status_name EN_ROUTE = ''EN_ROUTE''"
| "delivery_status_name COMPLETED = ''COMPLETED''"
| "delivery_status_name CANCELLED = ''CANCELLED''"
| "delivery_status_name FAILED = ''FAILED''"

fun stop_status_name :: "stop_status \<Rightarrow> string" where
  "stop_status_name S_PENDING = ''PENDING''"
| "stop_status_name S_EN_ROUTE = ''EN_ROUTE''"
| "stop_status_name S_ARRIVED = ''ARRIVED''"
| "stop_status_name S_UNLOADING = ''UNLOADING''"
| "stop_status_name S_DELIVERED = ''DELIVERED''"
| "stop_status_name S_FAILED = ''FAILED''"
| "stop_status_name S_SKIPPED = ''SKIPPED''"

fun source_name :: "route_source \<Rightarrow> string" where
  "source_name SRC_MANUAL = ''MANUAL''"
| "source_name SRC_RECOMMENDED_2OPT = ''RECOMMENDED_2OPT''"
| "source_name SRC_EXTERNAL_OSRM = ''EXTERNAL_OSRM''"

fun conflict_status_name :: "conflict_status \<Rightarrow> string" where
  "conflict_status_name OPEN = ''OPEN''"
| "conflict_status_name RESOLVED_OVERRIDDEN = ''RESOLVED_OVERRIDDEN''"
| "conflict_status_name RESOLVED_DISCARDED = ''RESOLVED_DISCARDED''"

section \<open>Rows\<close>

record delivery =
  dlv_id :: uuid
  dlv_code :: string
  dlv_driverId :: "uuid option"
  dlv_vehicleId :: "uuid option"
  dlv_organizationId :: "uuid option"
  dlv_status :: delivery_status
  dlv_routeMode :: route_mode
  dlv_plannedStartAt :: "timestamp option"
  dlv_startedAt :: "timestamp option"
  dlv_completedAt :: "timestamp option"
  dlv_createdBy :: uuid

record delivery_item =
  itm_deliveryId :: uuid
  itm_itemCode :: string
  itm_itemName :: string
  itm_quantity :: int
  itm_unit :: string
  itm_weightKg :: "rat option"
  itm_volumeM3 :: "rat option"

record delivery_stop =
  stp_id :: uuid
  stp_deliveryId :: uuid
  stp_sequence :: int
  stp_destinationName :: string
  stp_address :: string
  stp_latitude :: rat
  stp_longitude :: rat
  stp_geofenceRadiusM :: int
  stp_status :: stop_status
  stp_arrivedAt :: "timestamp option"
  stp_completedAt :: "timestamp option"

record route =
  rte_id :: uuid
  rte_deliveryId :: uuid
  rte_version :: int
  rte_source :: route_source
  rte_totalDistanceM :: rat
  rte_estimatedDurationS :: int
  rte_selectedAt :: timestamp

record route_stop =
  rst_routeId :: uuid
  rst_deliveryStopId :: uuid
  rst_sequence :: int

record delivery_event =
  evt_deliveryId :: uuid
  evt_stopId :: "uuid option"
  evt_type :: string
  evt_actorUserId :: uuid
  evt_metadata :: json

record proof_of_delivery =
  pod_id :: uuid
  pod_deliveryStopId :: uuid
  pod_receiverName :: string
  pod_signatureFileId :: "uuid option"
  pod_photoFileId :: "uuid option"
  pod_notes :: "string option"
  pod_completedAt :: timestamp
  pod_createdBy :: uuid

record delivery_conflict =
  cfl_id :: uuid
  cfl_deliveryId :: uuid
  cfl_clientEventId :: string
  cfl_conflictType :: string
  cfl_serverState :: string
  cfl_clientPayload :: json
  cfl_status :: conflict_status
  cfl_resolvedBy :: "uuid option"
  cfl_resolutionNotes :: "string option"
  cfl_resolvedAt :: "timestamp option"

record audit_log =
  aud_actorUserId :: "uuid option"
  aud_action :: string
  aud_entityType :: string
  aud_entityId :: string
  aud_result :: string
  aud_afterJson :: json

record idempotency_record =
  idm_key :: "uuid \<times> uuid \<times> string"
  idm_responseStatus :: int
  idm_responseBody :: json
  idm_expiresAt :: timestamp

record driver =
  drv_id :: uuid
  drv_userId :: uuid
  drv_organizationId :: "uuid option"

section \<open>Realtime events\<close>

text \<open>
  An event handed to Socket.IO: the room, the event name, and the payload and actor of the envelope
  of \<open>formatRealtimeEvent\<close> (\<open>realtime-envelope.dto.ts\<close>).  The generated parts of the envelope
  (event id, correlation id, version 1 and the time) are left out.
\<close>

record event_actor =
  ea_userId :: uuid
  ea_role :: string
  ea_driverId :: "uuid option"

record emission =
  em_room :: string
  em_event :: string
  em_payload :: json
  em_actor :: event_actor

section \<open>All tables\<close>

record world =
  deliveries :: "delivery list"
  deliveryItems :: "delivery_item list"
  deliveryStops :: "delivery_stop list"
  routes :: "route list"
  routeStops :: "route_stop list"
  deliveryEvents :: "delivery_event list"
  proofs :: "proof_of_delivery list"
  conflicts :: "delivery_conflict list"
  auditLogs :: "audit_log list"
  idempotencyRecords :: "idempotency_record list"
  drivers :: "driver list"
  vehicles :: "uuid list"
  redisState :: redis
  gatewayUp :: bool
  emitted :: "emission list"

definition emit :: "emission list \<Rightarrow> world \<Rightarrow> world" where
  "emit es w = (if gatewayUp w then w\<lparr>emitted := emitted w @ es\<rparr> else w)"

definition add_audit :: "audit_log \<Rightarrow> world \<Rightarrow> world" where
  "add_audit a w = w\<lparr>auditLogs := auditLogs w @ [a]\<rparr>"

definition add_event :: "delivery_event \<Rightarrow> world \<Rightarrow> world" where
  "add_event e w = w\<lparr>deliveryEvents := deliveryEvents w @ [e]\<rparr>"

definition success_audit :: "uuid \<Rightarrow> string \<Rightarrow> string \<Rightarrow> string \<Rightarrow> json \<Rightarrow> audit_log" where
  "success_audit actorUserId action entityType entityId afterJson =
     \<lparr>aud_actorUserId = Some actorUserId, aud_action = action, aud_entityType = entityType,
      aud_entityId = entityId, aud_result = ''SUCCESS'', aud_afterJson = afterJson\<rparr>"

text \<open>Emitting, auditing and logging an event leave every other table alone.\<close>

lemma emit_frame [simp]:
  "deliveries (emit es w) = deliveries w"
  "deliveryItems (emit es w) = deliveryItems w"
  "deliveryStops (emit es w) = deliveryStops w"
  "routes (emit es w) = routes w"
  "routeStops (emit es w) = routeStops w"
  "deliveryEvents (emit es w) = deliveryEvents w"
  "proofs (emit es w) = proofs w"
  "conflicts (emit es w) = conflicts w"
  "auditLogs (emit es w) = auditLogs w"
  "idempotencyRecords (emit es w) = idempotencyRecords w"
  "drivers (emit es w) = drivers w"
  "vehicles (emit es w) = vehicles w"
  "redisState (emit es w) = redisState w"
  "gatewayUp (emit es w) = gatewayUp w"
  by (simp_all add: emit_def)

lemma add_audit_frame [simp]:
  "deliveries (add_audit a w) = deliveries w"
  "deliveryItems (add_audit a w) = deliveryItems w"
  "deliveryStops (add_audit a w) = deliveryStops w"
  "routes (add_audit a w) = routes w"
  "routeStops (add_audit a w) = routeStops w"
  "deliveryEvents (add_audit a w) = deliveryEvents w"
  "proofs (add_audit a w) = proofs w"
  "conflicts (add_audit a w) = conflicts w"
  "auditLogs (add_audit a w) = auditLogs w @ [a]"
  "idempotencyRecords (add_audit a w) = idempotencyRecords w"
  "drivers (add_audit a w) = drivers w"
  "vehicles (add_audit a w) = vehicles w"
  "redisState (add_audit a w) = redisState w"
  "gatewayUp (add_audit a w) = gatewayUp w"
  "emitted (add_audit a w) = emitted w"
  by (simp_all add: add_audit_def)

lemma add_event_frame [simp]:
  "deliveries (add_event e w) = deliveries w"
  "deliveryItems (add_event e w) = deliveryItems w"
  "deliveryStops (add_event e w) = deliveryStops w"
  "routes (add_event e w) = routes w"
  "routeStops (add_event e w) = routeStops w"
  "deliveryEvents (add_event e w) = deliveryEvents w @ [e]"
  "proofs (add_event e w) = proofs w"
  "conflicts (add_event e w) = conflicts w"
  "auditLogs (add_event e w) = auditLogs w"
  "idempotencyRecords (add_event e w) = idempotencyRecords w"
  "drivers (add_event e w) = drivers w"
  "vehicles (add_event e w) = vehicles w"
  "redisState (add_event e w) = redisState w"
  "gatewayUp (add_event e w) = gatewayUp w"
  "emitted (add_event e w) = emitted w"
  by (simp_all add: add_event_def)

end
