(* ===== verification/Deliveries.thy ===== *)
theory Deliveries
  imports DataModel
begin

text \<open>
  The delivery lifecycle: \<open>deliveries.service.ts\<close> and the request bodies of \<open>create-delivery.dto.ts\<close>,
  \<open>assign-delivery.dto.ts\<close>.  A handler takes its arguments, the current time where the code reads it,
  and the world; it returns what the code returns or throws together with the new world.  The
  handlers that read a row, check it and then write in a later query are split into the guard
  (the reads and checks) and the write, so that other requests can be placed between the two.
\<close>

section \<open>Actors and request bodies\<close>

record delivery_actor =
  act_userId :: uuid
  act_role :: string
  act_driverId :: "uuid option"
  act_organizationId :: "uuid option"

record create_item_dto =
  ci_itemCode :: string
  ci_itemName :: string
  ci_quantity :: int
  ci_unit :: string
  ci_weightKg :: "rat option"
  ci_volumeM3 :: "rat option"

record create_stop_dto =
  cs_sequence :: int
  cs_destinationName :: string
  cs_address :: string
  cs_latitude :: rat
  cs_longitude :: rat
  cs_geofenceRadiusM :: "int option"

record create_delivery_dto =
  cd_deliveryCode :: string
  cd_plannedStartAt :: "timestamp option"
  cd_items :: "create_item_dto list"
  cd_stops :: "create_stop_dto list"

text \<open>The \<open>class-validator\<close> decorators of the request bodies.\<close>

definition text_upto :: "nat \<Rightarrow> string \<Rightarrow> bool" where
  "text_upto n s \<longleftrightarrow> s \<noteq> [] \<and> length s \<le> n"

definition optional_min :: "rat \<Rightarrow> rat option \<Rightarrow> bool" where
  "optional_min lo x = (case x of None \<Rightarrow> True | Some v \<Rightarrow> lo \<le> v)"

definition valid_create_item :: "create_item_dto \<Rightarrow> bool" where
  "valid_create_item i \<longleftrightarrow>
     text_upto 50 (ci_itemCode i) \<and> text_upto 100 (ci_itemName i) \<and> 1 \<le> ci_quantity i \<and>
     text_upto 20 (ci_unit i) \<and> optional_min 0 (ci_weightKg i) \<and> optional_min 0 (ci_volumeM3 i)"

definition valid_create_stop :: "create_stop_dto \<Rightarrow> bool" where
  "valid_create_stop s \<longleftrightarrow>
     1 \<le> cs_sequence s \<and> text_upto 100 (cs_destinationName s) \<and> cs_address s \<noteq> [] \<and>
     -90 \<le> cs_latitude s \<and> cs_latitude s \<le> 90 \<and> -180 \<le> cs_longitude s \<and> cs_longitude s \<le> 180 \<and>
     (case cs_geofenceRadiusM s of None \<Rightarrow> True | Some r \<Rightarrow> 10 \<le> r \<and> r \<le> 5000)"

definition valid_create_delivery :: "create_delivery_dto \<Rightarrow> bool" where
  "valid_create_delivery dto \<longleftrightarrow>
     text_upto 50 (cd_deliveryCode dto) \<and>
     1 \<le> length (cd_items dto) \<and> list_all valid_create_item (cd_items dto) \<and>
     1 \<le> length (cd_stops dto) \<and> list_all valid_create_stop (cd_stops dto)"

section \<open>Reading a delivery\<close>

record delivery_view =
  vw_delivery :: delivery
  vw_driver :: "driver option"
  vw_items :: "delivery_item list"
  vw_stops :: "delivery_stop list"
  vw_routes :: "route list"

definition stops_of :: "uuid \<Rightarrow> delivery_stop list \<Rightarrow> delivery_stop list" where
  "stops_of i ss = filter (\<lambda>s. stp_deliveryId s = i) ss"

definition view_delivery :: "delivery \<Rightarrow> world \<Rightarrow> delivery_view" where
  "view_delivery d w =
     \<lparr>vw_delivery = d,
      vw_driver = (case dlv_driverId d of None \<Rightarrow> None | Some i \<Rightarrow> find_row drv_id i (drivers w)),
      vw_items = filter (\<lambda>i. itm_deliveryId i = dlv_id d) (deliveryItems w),
      vw_stops = sort_key stp_sequence (stops_of (dlv_id d) (deliveryStops w)),
      vw_routes = take 1 (rev (sort_key rte_version (filter (\<lambda>r. rte_deliveryId r = dlv_id d) (routes w))))\<rparr>"

definition getDeliveryById :: "uuid \<Rightarrow> delivery_actor \<Rightarrow> world \<Rightarrow> api_error + delivery_view" where
  "getDeliveryById i actor w =
     (case find_row dlv_id i (deliveries w) of
        None \<Rightarrow> fail_with NotFound ''DELIVERY_NOT_FOUND''
      | Some d \<Rightarrow>
          if act_role actor = ''DRIVER'' \<and>
             (\<not> truthy (act_driverId actor) \<or> dlv_driverId d \<noteq> act_driverId actor)
          then fail_with Forbidden ''RESOURCE_FORBIDDEN''
          else if act_role actor = ''OWNER'' \<and>
             (let isCreator = (dlv_createdBy d = act_userId actor);
                  isSameOrg = (truthy (act_organizationId actor) \<and>
                               dlv_organizationId d = act_organizationId actor)
              in \<not> isCreator \<and> \<not> isSameOrg)
          then fail_with Forbidden ''RESOURCE_FORBIDDEN''
          else Inr (view_delivery d w))"

section \<open>Creating a delivery\<close>

definition number_or_null :: "rat option \<Rightarrow> rat option" where
  "number_or_null x = (case x of None \<Rightarrow> None | Some v \<Rightarrow> if v = 0 then None else Some v)"

definition new_item :: "uuid \<Rightarrow> create_item_dto \<Rightarrow> delivery_item" where
  "new_item i item =
     \<lparr>itm_deliveryId = i, itm_itemCode = ci_itemCode item, itm_itemName = ci_itemName item,
      itm_quantity = ci_quantity item, itm_unit = ci_unit item,
      itm_weightKg = number_or_null (ci_weightKg item),
      itm_volumeM3 = number_or_null (ci_volumeM3 item)\<rparr>"

definition new_stop :: "uuid \<Rightarrow> uuid \<Rightarrow> create_stop_dto \<Rightarrow> delivery_stop" where
  "new_stop stopId i stop =
     \<lparr>stp_id = stopId, stp_deliveryId = i, stp_sequence = cs_sequence stop,
      stp_destinationName = cs_destinationName stop, stp_address = cs_address stop,
      stp_latitude = cs_latitude stop, stp_longitude = cs_longitude stop,
      stp_geofenceRadiusM =
        (case cs_geofenceRadiusM stop of None \<Rightarrow> 100 | Some r \<Rightarrow> if r = 0 then 100 else r),
      stp_status = S_PENDING, stp_arrivedAt = None, stp_completedAt = None\<rparr>"

text \<open>
  One \<open>INSERT INTO delivery_stops\<close>: the unique index on (delivery, sequence) and the range checks on
  the coordinates reject a row; the raw query then throws and the transaction rolls back.
\<close>

definition insert_stop :: "delivery_stop \<Rightarrow> delivery_stop list \<Rightarrow> api_error + delivery_stop list" where
  "insert_stop s ss =
     (if \<exists>t \<in> set ss. stp_deliveryId t = stp_deliveryId s \<and> stp_sequence t = stp_sequence s
      then fail_with Internal ''P2010''
      else if \<not> (-90 \<le> stp_latitude s \<and> stp_latitude s \<le> 90 \<and>
                 -180 \<le> stp_longitude s \<and> stp_longitude s \<le> 180)
      then fail_with Internal ''P2010''
      else Inr (ss @ [s]))"

text \<open>\<open>uuidv4 n\<close> is the id drawn for the \<open>n\<close>-th new row of the request; stops start at 1.\<close>

fun insert_stops :: "uuid \<Rightarrow> (nat \<Rightarrow> uuid) \<Rightarrow> nat \<Rightarrow> create_stop_dto list \<Rightarrow> delivery_stop list \<Rightarrow>
    api_error + delivery_stop list" where
  "insert_stops i uuidv4 n [] ss = Inr ss"
| "insert_stops i uuidv4 n (stop # dtos) ss =
     (case insert_stop (new_stop (uuidv4 n) i stop) ss of
        Inl e \<Rightarrow> Inl e
      | Inr ss' \<Rightarrow> insert_stops i uuidv4 (Suc n) dtos ss')"

definition new_delivery :: "uuid \<Rightarrow> create_delivery_dto \<Rightarrow> uuid \<Rightarrow> delivery" where
  "new_delivery i dto creatorUserId =
     \<lparr>dlv_id = i, dlv_code = cd_deliveryCode dto, dlv_driverId = None, dlv_vehicleId = None,
      dlv_organizationId = None, dlv_status = DRAFT, dlv_routeMode = MODE_RECOMMENDED_2OPT,
      dlv_plannedStartAt = cd_plannedStartAt dto, dlv_startedAt = None, dlv_completedAt = None,
      dlv_createdBy = creatorUserId\<rparr>"

definition createDelivery ::
  "create_delivery_dto \<Rightarrow> uuid \<Rightarrow> (nat \<Rightarrow> uuid) \<Rightarrow> world \<Rightarrow> (delivery, world) outcome" where
  "createDelivery dto creatorUserId uuidv4 w =
     (if find_row dlv_code (cd_deliveryCode dto) (deliveries w) \<noteq> None
      then (fail_with BadRequest ''DUPLICATE_DELIVERY_CODE'', w)
      else
        let d = new_delivery (uuidv4 0) dto creatorUserId in
        case insert_stops (dlv_id d) uuidv4 1 (cd_stops dto) (deliveryStops w) of
          Inl e \<Rightarrow> (Inl e, w)
        | Inr ss \<Rightarrow>
            (Inr d,
             add_audit (success_audit creatorUserId ''DELIVERY_CREATED'' ''DELIVERY'' (dlv_id d) JNull)
               (w\<lparr>deliveries := deliveries w @ [d],
                  deliveryItems := deliveryItems w @ map (new_item (dlv_id d)) (cd_items dto),
                  deliveryStops := ss\<rparr>)))"

section \<open>Broadcasts\<close>

definition actor_of :: "delivery_actor \<Rightarrow> event_actor" where
  "actor_of a = \<lparr>ea_userId = act_userId a, ea_role = act_role a, ea_driverId = or_null (act_driverId a)\<rparr>"

definition driver_actor :: "uuid \<Rightarrow> uuid \<Rightarrow> delivery_actor" where
  "driver_actor actorUserId actorDriverId =
     \<lparr>act_userId = actorUserId, act_role = ''DRIVER'', act_driverId = Some actorDriverId,
      act_organizationId = None\<rparr>"

definition broadcastStatusChanged :: "uuid \<Rightarrow> delivery_status \<Rightarrow> delivery_actor \<Rightarrow> world \<Rightarrow> world" where
  "broadcastStatusChanged i newStatus actor w =
     (let e = (\<lambda>room. \<lparr>em_room = room, em_event = ''delivery.status_changed'',
                em_payload = JObj [(''deliveryId'', JStr i),
                                   (''status'', JStr (delivery_status_name newStatus))],
                em_actor = actor_of actor\<rparr>)
      in emit [e (''delivery:'' @ i), e ''fleet:monitoring''] w)"

section \<open>Assign, accept, start\<close>

definition terminal_delivery :: "delivery_status \<Rightarrow> bool" where
  "terminal_delivery s \<longleftrightarrow> s \<in> {COMPLETED, CANCELLED, FAILED}"

record assign_delivery_dto =
  ad_driverId :: uuid
  ad_vehicleId :: uuid

text \<open>
  \<open>prisma.delivery.update\<close> by id: the row that is written is the row the table holds at the time of
  the write, whatever the guard has read.
\<close>

definition write_delivery :: "uuid \<Rightarrow> (delivery \<Rightarrow> delivery) \<Rightarrow> world \<Rightarrow> (delivery, world) outcome" where
  "write_delivery i f w =
     (case find_row dlv_id i (deliveries w) of
        None \<Rightarrow> (fail_with Internal ''P2025'', w)
      | Some d \<Rightarrow> (Inr (f d), w\<lparr>deliveries := update_row dlv_id i f (deliveries w)\<rparr>))"

definition assign_row :: "assign_delivery_dto \<Rightarrow> delivery \<Rightarrow> delivery" where [row_defs]:
  "assign_row dto d = d\<lparr>dlv_driverId := Some (ad_driverId dto), dlv_vehicleId := Some (ad_vehicleId dto),
                        dlv_status := ASSIGNED\<rparr>"

definition accept_row :: "delivery \<Rightarrow> delivery" where [row_defs]:
  "accept_row d = d\<lparr>dlv_status := ACCEPTED\<rparr>"

definition start_row :: "timestamp \<Rightarrow> delivery \<Rightarrow> delivery" where [row_defs]:
  "start_row now d = d\<lparr>dlv_status := EN_ROUTE, dlv_startedAt := Some now\<rparr>"

definition assignDelivery_guard ::
  "uuid \<Rightarrow> assign_delivery_dto \<Rightarrow> delivery_actor \<Rightarrow> world \<Rightarrow> api_error + delivery" where
  "assignDelivery_guard i dto actor w =
     (case getDeliveryById i actor w of
        Inl e \<Rightarrow> Inl e
      | Inr v \<Rightarrow>
          let d = vw_delivery v in
          if dlv_status d \<noteq> DRAFT \<and> dlv_status d \<noteq> ASSIGNED
          then fail_with Conflict ''INVALID_STATE_TRANSITION''
          else if find_row drv_id (ad_driverId dto) (drivers w) = None
          then fail_with NotFound ''DRIVER_NOT_FOUND''
          else if ad_vehicleId dto \<notin> set (vehicles w)
          then fail_with NotFound ''VEHICLE_NOT_FOUND''
          else Inr d)"

definition assignDelivery_write ::
  "uuid \<Rightarrow> assign_delivery_dto \<Rightarrow> delivery_actor \<Rightarrow> world \<Rightarrow> (delivery, world) outcome" where
  "assignDelivery_write i dto actor w =
     (case write_delivery i (assign_row dto) w of
        (Inl e, w1) \<Rightarrow> (Inl e, w1)
      | (Inr d, w1) \<Rightarrow>
          (Inr d,
           broadcastStatusChanged i ASSIGNED actor
             (add_audit (success_audit (act_userId actor) ''DELIVERY_ASSIGNED'' ''DELIVERY'' i
                (JObj [(''driverId'', JStr (ad_driverId dto)), (''vehicleId'', JStr (ad_vehicleId dto))])) w1)))"

definition assignDelivery ::
  "uuid \<Rightarrow> assign_delivery_dto \<Rightarrow> delivery_actor \<Rightarrow> world \<Rightarrow> (delivery, world) outcome" where
  "assignDelivery i dto actor w =
     (case assignDelivery_guard i dto actor w of
        Inl e \<Rightarrow> (Inl e, w)
      | Inr _ \<Rightarrow> assignDelivery_write i dto actor w)"

text \<open>The shared guard of accept and start: the assigned driver, and the expected status.\<close>

definition driver_guard :: "uuid \<Rightarrow> uuid \<Rightarrow> delivery_status \<Rightarrow> world \<Rightarrow> api_error + delivery" where
  "driver_guard i actorDriverId expected w =
     (case find_row dlv_id i (deliveries w) of
        None \<Rightarrow> fail_with NotFound ''DELIVERY_NOT_FOUND''
      | Some d \<Rightarrow>
          if dlv_driverId d \<noteq> Some actorDriverId then fail_with Forbidden ''RESOURCE_FORBIDDEN''
          else if dlv_status d \<noteq> expected then fail_with Conflict ''INVALID_STATE_TRANSITION''
          else Inr d)"

definition acceptDelivery_write :: "uuid \<Rightarrow> uuid \<Rightarrow> uuid \<Rightarrow> world \<Rightarrow> (delivery, world) outcome" where
  "acceptDelivery_write i actorDriverId actorUserId w =
     (case write_delivery i accept_row w of
        (Inl e, w1) \<Rightarrow> (Inl e, w1)
      | (Inr d, w1) \<Rightarrow>
          (Inr d,
           broadcastStatusChanged i ACCEPTED (driver_actor actorUserId actorDriverId)
             (add_audit (success_audit actorUserId ''DELIVERY_ACCEPTED'' ''DELIVERY'' i JNull) w1)))"

definition acceptDelivery :: "uuid \<Rightarrow> uuid \<Rightarrow> uuid \<Rightarrow> world \<Rightarrow> (delivery, world) outcome" where
  "acceptDelivery i actorDriverId actorUserId w =
     (case driver_guard i actorDriverId ASSIGNED w of
        Inl e \<Rightarrow> (Inl e, w)
      | Inr _ \<Rightarrow> acceptDelivery_write i actorDriverId actorUserId w)"

definition startDelivery_write ::
  "uuid \<Rightarrow> uuid \<Rightarrow> uuid \<Rightarrow> timestamp \<Rightarrow> world \<Rightarrow> (delivery, world) outcome" where
  "startDelivery_write i actorDriverId actorUserId now w =
     (case write_delivery i (start_row now) w of
        (Inl e, w1) \<Rightarrow> (Inl e, w1)
      | (Inr d, w1) \<Rightarrow>
          (Inr d,
           broadcastStatusChanged i EN_ROUTE (driver_actor actorUserId actorDriverId)
             (add_audit (success_audit actorUserId ''DELIVERY_STARTED'' ''DELIVERY'' i JNull) w1)))"

definition startDelivery ::
  "uuid \<Rightarrow> uuid \<Rightarrow> uuid \<Rightarrow> timestamp \<Rightarrow> world \<Rightarrow> (delivery, world) outcome" where
  "startDelivery i actorDriverId actorUserId now w =
     (case driver_guard i actorDriverId ACCEPTED w of
        Inl e \<Rightarrow> (Inl e, w)
      | Inr _ \<Rightarrow> startDelivery_write i actorDriverId actorUserId now w)"

section \<open>Completion and cancellation\<close>

text \<open>
  The result object of \<open>evaluateDeliveryCompletion\<close>: no stops at all (\<open>completed: false\<close> alone),
  the unfinished stops, or completed with the target status.
\<close>

datatype completion = NoStops | Unfinished "delivery_stop list" | Eligible delivery_status

definition terminal_stop :: "stop_status \<Rightarrow> bool" where
  "terminal_stop s \<longleftrightarrow> s \<in> {S_DELIVERED, S_FAILED, S_SKIPPED}"

definition evaluateDeliveryCompletion :: "uuid \<Rightarrow> delivery_stop list \<Rightarrow> completion" where
  "evaluateDeliveryCompletion i stopTable =
     (let stops = stops_of i stopTable in
      if length stops = 0 then NoStops
      else let unfinishedStops = filter (\<lambda>s. \<not> terminal_stop (stp_status s)) stops in
        if 0 < length unfinishedStops then Unfinished unfinishedStops
        else let hasDeliveredStop = (\<exists>s \<in> set stops. stp_status s = S_DELIVERED) in
          Eligible (if hasDeliveredStop then COMPLETED else FAILED))"

definition finish_row :: "delivery_status \<Rightarrow> timestamp \<Rightarrow> delivery \<Rightarrow> delivery" where [row_defs]:
  "finish_row target now d = d\<lparr>dlv_status := target, dlv_completedAt := Some now\<rparr>"

definition cancel_row :: "delivery \<Rightarrow> delivery" where [row_defs]:
  "cancel_row d = d\<lparr>dlv_status := CANCELLED\<rparr>"

abbreviation is_en_route :: "delivery \<Rightarrow> bool" where
  "is_en_route d \<equiv> dlv_status d = EN_ROUTE"

abbreviation is_open :: "delivery \<Rightarrow> bool" where
  "is_open d \<equiv> \<not> terminal_delivery (dlv_status d)"

datatype complete_result = AlreadyCompleted uuid | Finished delivery

text \<open>The transaction of \<open>completeDelivery\<close>: a throw rolls everything back.\<close>

definition completeDelivery_tx ::
  "uuid \<Rightarrow> delivery_actor \<Rightarrow> timestamp \<Rightarrow> world \<Rightarrow> (delivery, world) outcome" where
  "completeDelivery_tx i actor now w =
     (case evaluateDeliveryCompletion i (deliveryStops w) of
        NoStops \<Rightarrow> (fail_with Conflict ''UNFINISHED_STOPS_REMAIN'', w)
      | Unfinished ss \<Rightarrow> (Inl (ApiError Conflict ''UNFINISHED_STOPS_REMAIN'' (map stp_id ss)), w)
      | Eligible finalStatus \<Rightarrow>
          let (n, ds) = claim dlv_id is_en_route (finish_row finalStatus now) i (deliveries w) in
          if n \<noteq> 1 then (fail_with Conflict ''INVALID_STATE_TRANSITION'', w)
          else case find_row dlv_id i ds of
                 None \<Rightarrow> (fail_with Internal ''P2025'', w)
               | Some d \<Rightarrow>
                   (Inr d,
                    add_audit (success_audit (act_userId actor)
                      (if finalStatus = COMPLETED then ''DELIVERY_COMPLETED'' else ''DELIVERY_FAILED'')
                      ''DELIVERY'' i JNull) (w\<lparr>deliveries := ds\<rparr>)))"

definition completeDelivery ::
  "uuid \<Rightarrow> delivery_actor \<Rightarrow> timestamp \<Rightarrow> world \<Rightarrow> (complete_result, world) outcome" where
  "completeDelivery i actor now w =
     (case getDeliveryById i actor w of
        Inl e \<Rightarrow> (Inl e, w)
      | Inr v \<Rightarrow>
          if dlv_status (vw_delivery v) = COMPLETED then (Inr (AlreadyCompleted i), w)
          else if dlv_status (vw_delivery v) \<noteq> EN_ROUTE
          then (fail_with Conflict ''INVALID_STATE_TRANSITION'', w)
          else case completeDelivery_tx i actor now w of
                 (Inl e, w1) \<Rightarrow> (Inl e, w1)
               | (Inr d, w1) \<Rightarrow> (Inr (Finished d), broadcastStatusChanged i (dlv_status d) actor w1))"

definition cancelDelivery_tx ::
  "uuid \<Rightarrow> string \<Rightarrow> delivery_actor \<Rightarrow> world \<Rightarrow> (delivery, world) outcome" where
  "cancelDelivery_tx i reason actor w =
     (let (n, ds) = claim dlv_id is_open cancel_row i (deliveries w) in
      if n \<noteq> 1 then (fail_with Conflict ''TERMINAL_STATE_CANNOT_BE_CANCELLED'', w)
      else case find_row dlv_id i ds of
             None \<Rightarrow> (fail_with Internal ''P2025'', w)
           | Some d \<Rightarrow>
               (Inr d,
                add_audit (success_audit (act_userId actor) ''DELIVERY_CANCELLED'' ''DELIVERY'' i
                  (JObj [(''reason'', JStr reason)])) (w\<lparr>deliveries := ds\<rparr>)))"

definition cancelDelivery ::
  "uuid \<Rightarrow> string \<Rightarrow> delivery_actor \<Rightarrow> world \<Rightarrow> (delivery, world) outcome" where
  "cancelDelivery i reason actor w =
     (case getDeliveryById i actor w of
        Inl e \<Rightarrow> (Inl e, w)
      | Inr _ \<Rightarrow>
          case cancelDelivery_tx i reason actor w of
            (Inl e, w1) \<Rightarrow> (Inl e, w1)
          | (Inr d, w1) \<Rightarrow> (Inr d, broadcastStatusChanged i CANCELLED actor w1))"

text \<open>
  \<open>completeDeliveryIfEligible\<close>: the same evaluation and claim without an audit row; a lost claim or
  an unfinished delivery is no error.
\<close>

definition completeDeliveryIfEligible :: "uuid \<Rightarrow> delivery_actor \<Rightarrow> timestamp \<Rightarrow> world \<Rightarrow> world" where
  "completeDeliveryIfEligible i actor now w =
     (case evaluateDeliveryCompletion i (deliveryStops w) of
        NoStops \<Rightarrow> w
      | Unfinished _ \<Rightarrow> w
      | Eligible targetStatus \<Rightarrow>
          let (n, ds) = claim dlv_id is_en_route (finish_row targetStatus now) i (deliveries w) in
          if n \<noteq> 1 then w
          else case find_row dlv_id i ds of
                 None \<Rightarrow> w\<lparr>deliveries := ds\<rparr>
               | Some d \<Rightarrow> broadcastStatusChanged i (dlv_status d) actor (w\<lparr>deliveries := ds\<rparr>))"

section \<open>The status graph and the claims\<close>

text \<open>The lifecycle of a delivery as the service means it: the edges between statuses.\<close>

fun delivery_edge :: "delivery_status \<Rightarrow> delivery_status \<Rightarrow> bool" where
  "delivery_edge DRAFT t = (t \<in> {ASSIGNED, CANCELLED})"
| "delivery_edge ASSIGNED t = (t \<in> {ASSIGNED, ACCEPTED, CANCELLED})"
| "delivery_edge ACCEPTED t = (t \<in> {EN_ROUTE, CANCELLED})"
| "delivery_edge EN_ROUTE t = (t \<in> {COMPLETED, FAILED, CANCELLED})"
| "delivery_edge COMPLETED t = False"
| "delivery_edge CANCELLED t = False"
| "delivery_edge FAILED t = False"

interpretation delivery_graph: status_graph delivery_edge terminal_delivery
  by unfold_locales (auto simp: terminal_delivery_def)

interpretation cancelling: edge_claiming dlv_id is_open cancel_row dlv_status delivery_edge
proof unfold_locales
  fix r :: delivery
  assume "is_open r"
  then show "delivery_edge (dlv_status r) (dlv_status (cancel_row r))"
    by (cases "dlv_status r") (simp_all add: terminal_delivery_def row_defs)
qed (simp_all add: row_defs terminal_delivery_def)

text \<open>The completion claim, for the two target statuses of the evaluation.\<close>

definition target_status :: "bool \<Rightarrow> delivery_status" where
  "target_status hasDeliveredStop = (if hasDeliveredStop then COMPLETED else FAILED)"

interpretation finishing: edge_claiming dlv_id is_en_route "finish_row (target_status b) now"
    dlv_status delivery_edge for b now
  by unfold_locales (simp_all add: row_defs target_status_def)

lemma evaluate_Eligible_iff:
  "evaluateDeliveryCompletion i ss = Eligible t \<longleftrightarrow>
     stops_of i ss \<noteq> [] \<and> (\<forall>s \<in> set (stops_of i ss). terminal_stop (stp_status s)) \<and>
     t = target_status (\<exists>s \<in> set (stops_of i ss). stp_status s = S_DELIVERED)"
  by (auto simp: evaluateDeliveryCompletion_def Let_def target_status_def filter_empty_conv)

lemma evaluate_target:
  "evaluateDeliveryCompletion i ss = Eligible t \<Longrightarrow> \<exists>b. t = target_status b"
  by (auto simp: evaluate_Eligible_iff)

lemma evaluate_cong:
  "stops_of i ss = stops_of i ss' \<Longrightarrow> evaluateDeliveryCompletion i ss = evaluateDeliveryCompletion i ss'"
  by (simp add: evaluateDeliveryCompletion_def)

lemma broadcast_frame [simp]:
  "deliveries (broadcastStatusChanged i s a w) = deliveries w"
  "deliveryItems (broadcastStatusChanged i s a w) = deliveryItems w"
  "deliveryStops (broadcastStatusChanged i s a w) = deliveryStops w"
  "proofs (broadcastStatusChanged i s a w) = proofs w"
  "conflicts (broadcastStatusChanged i s a w) = conflicts w"
  "auditLogs (broadcastStatusChanged i s a w) = auditLogs w"
  "deliveryEvents (broadcastStatusChanged i s a w) = deliveryEvents w"
  "idempotencyRecords (broadcastStatusChanged i s a w) = idempotencyRecords w"
  "routes (broadcastStatusChanged i s a w) = routes w"
  "routeStops (broadcastStatusChanged i s a w) = routeStops w"
  "drivers (broadcastStatusChanged i s a w) = drivers w"
  "vehicles (broadcastStatusChanged i s a w) = vehicles w"
  "redisState (broadcastStatusChanged i s a w) = redisState w"
  by (simp_all add: broadcastStatusChanged_def Let_def)

section \<open>What the handlers do to the delivery table\<close>

text \<open>
  Every handler leaves the delivery table as it was, or changes it by exactly one of these: a new
  draft, an update of a row in the guarded status, or a won claim.
\<close>

lemma getDeliveryById_found:
  "getDeliveryById i actor w = Inr v \<Longrightarrow>
   find_row dlv_id i (deliveries w) = Some (vw_delivery v) \<and> dlv_id (vw_delivery v) = i"
  by (auto simp: getDeliveryById_def view_delivery_def split: option.splits if_splits
      dest: find_row_SomeD)

lemma write_delivery_deliveries:
  "deliveries (snd (write_delivery i f w)) =
     (if find_row dlv_id i (deliveries w) = None then deliveries w
      else update_row dlv_id i f (deliveries w))"
  by (auto simp: write_delivery_def split: option.splits)

lemma assignDelivery_deliveries:
  "deliveries (snd (assignDelivery i dto actor w)) =
     (case assignDelivery_guard i dto actor w of
        Inl _ \<Rightarrow> deliveries w
      | Inr _ \<Rightarrow> update_row dlv_id i (assign_row dto) (deliveries w))"
  by (auto simp: assignDelivery_def assignDelivery_write_def write_delivery_def assignDelivery_guard_def
      dest: getDeliveryById_found split: sum.splits option.splits)

lemma acceptDelivery_deliveries:
  "deliveries (snd (acceptDelivery i drv usr w)) =
     (case driver_guard i drv ASSIGNED w of
        Inl _ \<Rightarrow> deliveries w
      | Inr _ \<Rightarrow> update_row dlv_id i accept_row (deliveries w))"
  by (auto simp: acceptDelivery_def acceptDelivery_write_def write_delivery_def driver_guard_def
      split: sum.splits option.splits)

lemma startDelivery_deliveries:
  "deliveries (snd (startDelivery i drv usr now w)) =
     (case driver_guard i drv ACCEPTED w of
        Inl _ \<Rightarrow> deliveries w
      | Inr _ \<Rightarrow> update_row dlv_id i (start_row now) (deliveries w))"
  by (auto simp: startDelivery_def startDelivery_write_def write_delivery_def driver_guard_def
      split: sum.splits option.splits)

lemma assign_guard_status:
  "assignDelivery_guard i dto actor w = Inr d \<Longrightarrow>
   find_row dlv_id i (deliveries w) = Some d \<and> dlv_status d \<in> {DRAFT, ASSIGNED}"
  by (auto simp: assignDelivery_guard_def Let_def split: sum.splits if_splits
      dest: getDeliveryById_found)

lemma driver_guard_status:
  "driver_guard i drv s w = Inr d \<Longrightarrow>
   find_row dlv_id i (deliveries w) = Some d \<and> dlv_status d = s \<and> dlv_driverId d = Some drv"
  by (auto simp: driver_guard_def split: option.splits if_splits)

lemma complete_tx_cases:
  assumes "unique_keys dlv_id (deliveries w)"
  obtains (rolled_back) e where "completeDelivery_tx i actor now w = (Inl e, w)"
  | (committed) d t w' where
      "completeDelivery_tx i actor now w = (Inr (finish_row t now d), w')"
      "find_row dlv_id i (deliveries w) = Some d" "dlv_status d = EN_ROUTE"
      "evaluateDeliveryCompletion i (deliveryStops w) = Eligible t"
      "w' = add_audit (success_audit (act_userId actor)
                (if t = COMPLETED then ''DELIVERY_COMPLETED'' else ''DELIVERY_FAILED'') ''DELIVERY'' i JNull)
              (w\<lparr>deliveries := update_row dlv_id i (finish_row t now) (deliveries w)\<rparr>)"
proof (cases "evaluateDeliveryCompletion i (deliveryStops w)")
  case NoStops
  then show ?thesis by (intro rolled_back) (simp add: completeDelivery_tx_def)
next
  case (Unfinished ss)
  then show ?thesis by (intro rolled_back) (simp add: completeDelivery_tx_def)
next
  case t: (Eligible t)
  then obtain b where b: "t = target_status b" using evaluate_target by blast
  show ?thesis
  proof (cases "\<exists>d. find_row dlv_id i (deliveries w) = Some d \<and> is_en_route d")
    case True
    then obtain d where d: "find_row dlv_id i (deliveries w) = Some d" "is_en_route d" by blast
    have "find_row dlv_id i (update_row dlv_id i (finish_row t now) (deliveries w)) = Some (finish_row t now d)"
      using d by (simp add: find_row_update_row row_defs)
    with t d show ?thesis
      by (intro committed[OF _ d t refl])
        (simp add: completeDelivery_tx_def b finishing.claim_eq[OF assms])
  next
    case False
    then have "claim dlv_id is_en_route (finish_row t now) i (deliveries w) = (0, deliveries w)"
      by (auto simp: b finishing.claim_eq[OF assms] split: option.splits)
    with t show ?thesis by (intro rolled_back) (simp add: completeDelivery_tx_def)
  qed
qed

text \<open>The automatic completion has the same effect on the delivery table.\<close>

lemma auto_complete_deliveries:
  assumes "unique_keys dlv_id (deliveries w)"
  shows "deliveries (completeDeliveryIfEligible i actor now w) =
    (case evaluateDeliveryCompletion i (deliveryStops w) of
       Eligible t \<Rightarrow>
         (case find_row dlv_id i (deliveries w) of
            None \<Rightarrow> deliveries w
          | Some d \<Rightarrow> if is_en_route d then update_row dlv_id i (finish_row t now) (deliveries w)
                      else deliveries w)
     | _ \<Rightarrow> deliveries w)"
proof (cases "evaluateDeliveryCompletion i (deliveryStops w)")
  case (Eligible t)
  then obtain b where b: "t = target_status b" using evaluate_target by blast
  show ?thesis
    by (auto simp: completeDeliveryIfEligible_def Eligible b finishing.claim_eq[OF assms]
        split: option.splits)
qed (simp_all add: completeDeliveryIfEligible_def)

lemma auto_complete_frame [simp]:
  "deliveryItems (completeDeliveryIfEligible i actor now w) = deliveryItems w"
  "deliveryStops (completeDeliveryIfEligible i actor now w) = deliveryStops w"
  "proofs (completeDeliveryIfEligible i actor now w) = proofs w"
  "conflicts (completeDeliveryIfEligible i actor now w) = conflicts w"
  "auditLogs (completeDeliveryIfEligible i actor now w) = auditLogs w"
  "deliveryEvents (completeDeliveryIfEligible i actor now w) = deliveryEvents w"
  "idempotencyRecords (completeDeliveryIfEligible i actor now w) = idempotencyRecords w"
  "routes (completeDeliveryIfEligible i actor now w) = routes w"
  "routeStops (completeDeliveryIfEligible i actor now w) = routeStops w"
  "drivers (completeDeliveryIfEligible i actor now w) = drivers w"
  "vehicles (completeDeliveryIfEligible i actor now w) = vehicles w"
  "redisState (completeDeliveryIfEligible i actor now w) = redisState w"
  by (simp_all add: completeDeliveryIfEligible_def Let_def
      split: completion.split option.split prod.split)

lemma cancel_tx_eq:
  assumes "unique_keys dlv_id (deliveries w)"
  shows "cancelDelivery_tx i reason actor w =
    (case find_row dlv_id i (deliveries w) of
       None \<Rightarrow> (fail_with Conflict ''TERMINAL_STATE_CANNOT_BE_CANCELLED'', w)
     | Some d \<Rightarrow>
         if is_open d then
           (Inr (cancel_row d),
            add_audit (success_audit (act_userId actor) ''DELIVERY_CANCELLED'' ''DELIVERY'' i
                (JObj [(''reason'', JStr reason)]))
              (w\<lparr>deliveries := update_row dlv_id i cancel_row (deliveries w)\<rparr>))
         else (fail_with Conflict ''TERMINAL_STATE_CANNOT_BE_CANCELLED'', w))"
  using cancelling.key_take
  by (auto simp: cancelDelivery_tx_def cancelling.claim_eq[OF assms] find_row_update_row
      split: option.splits)

end
