(* ===== verification/Stops.thy ===== *)
theory Stops
  imports Deliveries
begin

text \<open>
  The stop lifecycle: \<open>delivery-stops.service.ts\<close>.  Every handler reads the stop with its delivery,
  checks access and both statuses (the guard), and then claims the stop with one conditional update
  whose \<open>where\<close> clause repeats the status conditions (\<open>updateStopIfOperational\<close>).
\<close>

section \<open>Reading a stop\<close>

definition getStopAndVerifyDriver ::
  "uuid \<Rightarrow> uuid option \<Rightarrow> world \<Rightarrow> api_error + (delivery_stop \<times> delivery)" where
  "getStopAndVerifyDriver stopId actorDriverId w =
     (case find_row stp_id stopId (deliveryStops w) of
        None \<Rightarrow> fail_with NotFound ''STOP_NOT_FOUND''
      | Some s \<Rightarrow>
          case find_row dlv_id (stp_deliveryId s) (deliveries w) of
            None \<Rightarrow> fail_with Internal ''P2025''
          | Some d \<Rightarrow>
              if truthy actorDriverId \<and> dlv_driverId d \<noteq> actorDriverId
              then fail_with Forbidden ''RESOURCE_FORBIDDEN''
              else Inr (s, d))"

definition ensureDeliveryOperational :: "delivery_status \<Rightarrow> api_error + unit" where
  "ensureDeliveryOperational s =
     (if terminal_delivery s then fail_with Conflict ''INVALID_DELIVERY_STATE'' else Inr ())"

section \<open>Claiming a stop\<close>

definition parent_open :: "delivery list \<Rightarrow> delivery_stop \<Rightarrow> bool" where
  "parent_open ds s =
     (case find_row dlv_id (stp_deliveryId s) ds of None \<Rightarrow> False | Some d \<Rightarrow> is_open d)"

abbreviation stop_open :: "delivery list \<Rightarrow> stop_status set \<Rightarrow> delivery_stop \<Rightarrow> bool" where
  "stop_open ds expected s \<equiv> stp_status s \<in> expected \<and> parent_open ds s"

definition updateStopIfOperational ::
  "uuid \<Rightarrow> stop_status set \<Rightarrow> (delivery_stop \<Rightarrow> delivery_stop) \<Rightarrow> world \<Rightarrow> (delivery_stop, world) outcome" where
  "updateStopIfOperational stopId expected f w =
     (let (n, ss) = claim stp_id (stop_open (deliveries w) expected) f stopId (deliveryStops w) in
      if n \<noteq> 1 then
        (case find_row stp_id stopId ss of
           None \<Rightarrow> (fail_with Conflict ''INVALID_STATE_TRANSITION'', w)
         | Some current \<Rightarrow>
             (case find_row dlv_id (stp_deliveryId current) (deliveries w) of
                None \<Rightarrow> (fail_with Conflict ''INVALID_STATE_TRANSITION'', w)
              | Some d \<Rightarrow>
                  if terminal_delivery (dlv_status d)
                  then (fail_with Conflict ''INVALID_DELIVERY_STATE'', w)
                  else (fail_with Conflict ''INVALID_STATE_TRANSITION'', w)))
      else case find_row stp_id stopId ss of
             None \<Rightarrow> (fail_with Internal ''P2025'', w\<lparr>deliveryStops := ss\<rparr>)
           | Some s \<Rightarrow> (Inr s, w\<lparr>deliveryStops := ss\<rparr>))"

definition depart_row :: "delivery_stop \<Rightarrow> delivery_stop" where [row_defs]:
  "depart_row s = s\<lparr>stp_status := S_EN_ROUTE\<rparr>"

definition arrive_row :: "timestamp \<Rightarrow> delivery_stop \<Rightarrow> delivery_stop" where [row_defs]:
  "arrive_row now s = s\<lparr>stp_status := S_ARRIVED, stp_arrivedAt := Some now\<rparr>"

definition unload_row :: "delivery_stop \<Rightarrow> delivery_stop" where [row_defs]:
  "unload_row s = s\<lparr>stp_status := S_UNLOADING\<rparr>"

definition fail_row :: "timestamp \<Rightarrow> delivery_stop \<Rightarrow> delivery_stop" where [row_defs]:
  "fail_row now s = s\<lparr>stp_status := S_FAILED, stp_completedAt := Some now\<rparr>"

definition skip_row :: "delivery_stop \<Rightarrow> delivery_stop" where [row_defs]:
  "skip_row s = s\<lparr>stp_status := S_SKIPPED\<rparr>"

section \<open>Broadcast\<close>

definition broadcastStopStatusChanged ::
  "uuid \<Rightarrow> uuid \<Rightarrow> stop_status \<Rightarrow> delivery_actor \<Rightarrow> world \<Rightarrow> world" where
  "broadcastStopStatusChanged i stopId newStatus actor w =
     emit [\<lparr>em_room = ''delivery:'' @ i, em_event = ''delivery.stop.status_changed'',
            em_payload = JObj [(''deliveryId'', JStr i), (''stopId'', JStr stopId),
                               (''status'', JStr (stop_status_name newStatus))],
            em_actor = actor_of actor\<rparr>] w"

section \<open>Depart, arrive, unload\<close>

definition departToStop_guard :: "uuid \<Rightarrow> uuid \<Rightarrow> world \<Rightarrow> api_error + delivery_stop" where
  "departToStop_guard stopId actorDriverId w =
     (case getStopAndVerifyDriver stopId (Some actorDriverId) w of
        Inl e \<Rightarrow> Inl e
      | Inr (s, d) \<Rightarrow>
          if dlv_status d \<noteq> EN_ROUTE then fail_with Conflict ''INVALID_DELIVERY_STATE''
          else if stp_status s \<noteq> S_PENDING then fail_with Conflict ''INVALID_STATE_TRANSITION''
          else Inr s)"

definition departToStop :: "uuid \<Rightarrow> uuid \<Rightarrow> uuid \<Rightarrow> world \<Rightarrow> (delivery_stop, world) outcome" where
  "departToStop stopId actorDriverId actorUserId w =
     (case departToStop_guard stopId actorDriverId w of
        Inl e \<Rightarrow> (Inl e, w)
      | Inr s \<Rightarrow>
          case updateStopIfOperational stopId {S_PENDING} depart_row w of
            (Inl e, w1) \<Rightarrow> (Inl e, w1)
          | (Inr updated, w1) \<Rightarrow>
              (Inr updated,
               broadcastStopStatusChanged (stp_deliveryId s) stopId S_EN_ROUTE
                 (driver_actor actorUserId actorDriverId) w1))"

definition arriveAtStop_guard :: "uuid \<Rightarrow> uuid \<Rightarrow> world \<Rightarrow> api_error + delivery_stop" where
  "arriveAtStop_guard stopId actorDriverId w =
     (case getStopAndVerifyDriver stopId (Some actorDriverId) w of
        Inl e \<Rightarrow> Inl e
      | Inr (s, d) \<Rightarrow>
          if dlv_status d \<noteq> EN_ROUTE then fail_with Conflict ''INVALID_DELIVERY_STATE''
          else if stp_status s \<noteq> S_EN_ROUTE \<and> stp_status s \<noteq> S_PENDING
          then fail_with Conflict ''INVALID_STATE_TRANSITION''
          else Inr s)"

definition arriveAtStop ::
  "uuid \<Rightarrow> uuid \<Rightarrow> uuid \<Rightarrow> timestamp \<Rightarrow> world \<Rightarrow> (delivery_stop, world) outcome" where
  "arriveAtStop stopId actorDriverId actorUserId now w =
     (case arriveAtStop_guard stopId actorDriverId w of
        Inl e \<Rightarrow> (Inl e, w)
      | Inr s \<Rightarrow>
          case updateStopIfOperational stopId {S_EN_ROUTE, S_PENDING} (arrive_row now) w of
            (Inl e, w1) \<Rightarrow> (Inl e, w1)
          | (Inr updated, w1) \<Rightarrow>
              (Inr updated,
               broadcastStopStatusChanged (stp_deliveryId s) stopId S_ARRIVED
                 (driver_actor actorUserId actorDriverId) w1))"

definition startUnloading_guard :: "uuid \<Rightarrow> uuid \<Rightarrow> world \<Rightarrow> api_error + delivery_stop" where
  "startUnloading_guard stopId actorDriverId w =
     (case getStopAndVerifyDriver stopId (Some actorDriverId) w of
        Inl e \<Rightarrow> Inl e
      | Inr (s, d) \<Rightarrow>
          case ensureDeliveryOperational (dlv_status d) of
            Inl e \<Rightarrow> Inl e
          | Inr _ \<Rightarrow>
              if stp_status s \<noteq> S_ARRIVED then fail_with Conflict ''INVALID_STATE_TRANSITION''
              else Inr s)"

definition startUnloading :: "uuid \<Rightarrow> uuid \<Rightarrow> uuid \<Rightarrow> world \<Rightarrow> (delivery_stop, world) outcome" where
  "startUnloading stopId actorDriverId actorUserId w =
     (case startUnloading_guard stopId actorDriverId w of
        Inl e \<Rightarrow> (Inl e, w)
      | Inr s \<Rightarrow>
          case updateStopIfOperational stopId {S_ARRIVED} unload_row w of
            (Inl e, w1) \<Rightarrow> (Inl e, w1)
          | (Inr updated, w1) \<Rightarrow>
              (Inr updated,
               broadcastStopStatusChanged (stp_deliveryId s) stopId S_UNLOADING
                 (driver_actor actorUserId actorDriverId) w1))"

section \<open>Fail and skip\<close>

definition reason_or :: "string \<Rightarrow> string option \<Rightarrow> string" where
  "reason_or fallback r = (case r of None \<Rightarrow> fallback | Some t \<Rightarrow> if t = [] then fallback else t)"

definition stop_event :: "delivery_stop \<Rightarrow> string \<Rightarrow> uuid \<Rightarrow> string \<Rightarrow> delivery_event" where
  "stop_event s eventType actorUserId reason =
     \<lparr>evt_deliveryId = stp_deliveryId s, evt_stopId = Some (stp_id s), evt_type = eventType,
      evt_actorUserId = actorUserId, evt_metadata = JObj [(''reason'', JStr reason)]\<rparr>"

definition failStop_guard :: "uuid \<Rightarrow> uuid \<Rightarrow> world \<Rightarrow> api_error + delivery_stop" where
  "failStop_guard stopId actorDriverId w =
     (case getStopAndVerifyDriver stopId (Some actorDriverId) w of
        Inl e \<Rightarrow> Inl e
      | Inr (s, d) \<Rightarrow>
          case ensureDeliveryOperational (dlv_status d) of
            Inl e \<Rightarrow> Inl e
          | Inr _ \<Rightarrow>
              if stp_status s \<noteq> S_ARRIVED \<and> stp_status s \<noteq> S_UNLOADING \<and> stp_status s \<noteq> S_EN_ROUTE
              then fail_with Conflict ''INVALID_STATE_TRANSITION''
              else Inr s)"

definition failStop ::
  "uuid \<Rightarrow> string option \<Rightarrow> uuid \<Rightarrow> uuid \<Rightarrow> timestamp \<Rightarrow> world \<Rightarrow> (delivery_stop, world) outcome" where
  "failStop stopId reason actorDriverId actorUserId now w =
     (case failStop_guard stopId actorDriverId w of
        Inl e \<Rightarrow> (Inl e, w)
      | Inr s \<Rightarrow>
          case updateStopIfOperational stopId {S_ARRIVED, S_UNLOADING, S_EN_ROUTE} (fail_row now) w of
            (Inl e, w1) \<Rightarrow> (Inl e, w1)
          | (Inr updated, w1) \<Rightarrow>
              let actor = driver_actor actorUserId actorDriverId;
                  w2 = add_event (stop_event s ''STOP_FAILED'' actorUserId
                         (reason_or ''Stop execution failed'' reason)) w1;
                  w3 = broadcastStopStatusChanged (stp_deliveryId s) stopId S_FAILED actor w2
              in (Inr updated, completeDeliveryIfEligible (stp_deliveryId s) actor now w3))"

definition skipStop_guard :: "uuid \<Rightarrow> delivery_actor \<Rightarrow> world \<Rightarrow> api_error + delivery_stop" where
  "skipStop_guard stopId actor w =
     (case getStopAndVerifyDriver stopId
             (if act_role actor = ''DRIVER'' then act_driverId actor else None) w of
        Inl e \<Rightarrow> Inl e
      | Inr (s, d) \<Rightarrow>
          if act_role actor = ''OWNER'' \<and> dlv_createdBy d \<noteq> act_userId actor
          then fail_with Forbidden ''RESOURCE_FORBIDDEN''
          else case ensureDeliveryOperational (dlv_status d) of
                 Inl e \<Rightarrow> Inl e
               | Inr _ \<Rightarrow>
                   if stp_status s \<noteq> S_PENDING then fail_with Conflict ''INVALID_STATE_TRANSITION''
                   else Inr s)"

definition skipStop ::
  "uuid \<Rightarrow> string option \<Rightarrow> delivery_actor \<Rightarrow> timestamp \<Rightarrow> world \<Rightarrow> (delivery_stop, world) outcome" where
  "skipStop stopId reason actor now w =
     (case skipStop_guard stopId actor w of
        Inl e \<Rightarrow> (Inl e, w)
      | Inr s \<Rightarrow>
          case updateStopIfOperational stopId {S_PENDING} skip_row w of
            (Inl e, w1) \<Rightarrow> (Inl e, w1)
          | (Inr updated, w1) \<Rightarrow>
              let w2 = add_event (stop_event s ''STOP_SKIPPED'' (act_userId actor)
                         (reason_or ''Stop skipped by operator'' reason)) w1;
                  w3 = broadcastStopStatusChanged (stp_deliveryId s) stopId S_SKIPPED actor w2
              in (Inr updated, completeDeliveryIfEligible (stp_deliveryId s) actor now w3))"

section \<open>The status graph and the contract of a stop move\<close>

fun stop_edge :: "stop_status \<Rightarrow> stop_status \<Rightarrow> bool" where
  "stop_edge S_PENDING t = (t \<in> {S_EN_ROUTE, S_ARRIVED, S_SKIPPED})"
| "stop_edge S_EN_ROUTE t = (t \<in> {S_ARRIVED, S_FAILED})"
| "stop_edge S_ARRIVED t = (t \<in> {S_UNLOADING, S_DELIVERED, S_FAILED})"
| "stop_edge S_UNLOADING t = (t \<in> {S_DELIVERED, S_FAILED})"
| "stop_edge S_DELIVERED t = False"
| "stop_edge S_FAILED t = False"
| "stop_edge S_SKIPPED t = False"

interpretation stop_graph: status_graph stop_edge terminal_stop
  by unfold_locales (auto simp: terminal_stop_def)

text \<open>
  What the five handlers and the proof of delivery share: an expected set of statuses and a row
  update that keeps the stop's identity, leaves the expected set and follows an edge of the graph.
\<close>

locale stop_move =
  fixes expected :: "stop_status set"
    and f :: "delivery_stop \<Rightarrow> delivery_stop"
  assumes keeps_id: "stp_id (f s) = stp_id s"
    and keeps_delivery: "stp_deliveryId (f s) = stp_deliveryId s"
    and moves: "stp_status s \<in> expected \<Longrightarrow> stop_edge (stp_status s) (stp_status (f s))"
    and leaves: "stp_status (f s) \<notin> expected"

sublocale stop_move \<subseteq> claims: edge_claiming stp_id "stop_open ds expected" f stp_status stop_edge for ds
  by unfold_locales (auto simp: keeps_id moves leaves)

context stop_move begin

lemma update_ok:
  assumes "unique_keys stp_id (deliveryStops w)"
    and "find_row stp_id stopId (deliveryStops w) = Some s"
    and "stop_open (deliveries w) expected s"
  shows "updateStopIfOperational stopId expected f w =
    (Inr (f s), w\<lparr>deliveryStops := update_row stp_id stopId f (deliveryStops w)\<rparr>)"
  using assms keeps_id
  by (simp add: updateStopIfOperational_def claims.claim_eq find_row_update_row)

lemma claim_open:
  assumes "unique_keys stp_id rows" "find_row stp_id k rows = Some s" "stop_open ds expected s"
  shows "claim stp_id (stop_open ds expected) f k rows = (1, update_row stp_id k f rows)"
  using assms by (simp add: claims.claim_eq)

lemma update_refused:
  assumes "unique_keys stp_id (deliveryStops w)"
    and "\<And>s. find_row stp_id stopId (deliveryStops w) = Some s \<Longrightarrow> \<not> stop_open (deliveries w) expected s"
  shows "\<exists>e. updateStopIfOperational stopId expected f w = (Inl e, w)"
  using assms(2)
  by (auto simp: updateStopIfOperational_def claims.claim_eq[OF assms(1)] split: option.splits)

text \<open>The whole contract: a move succeeds exactly on an open stop, and otherwise changes nothing.\<close>

lemma update_cases:
  assumes "unique_keys stp_id (deliveryStops w)"
  obtains (refused) e where "updateStopIfOperational stopId expected f w = (Inl e, w)"
    "\<And>s. find_row stp_id stopId (deliveryStops w) = Some s \<Longrightarrow> \<not> stop_open (deliveries w) expected s"
  | (moved) s where
      "updateStopIfOperational stopId expected f w =
         (Inr (f s), w\<lparr>deliveryStops := update_row stp_id stopId f (deliveryStops w)\<rparr>)"
      "find_row stp_id stopId (deliveryStops w) = Some s"
      "stop_open (deliveries w) expected s"
proof (cases "\<exists>s. find_row stp_id stopId (deliveryStops w) = Some s \<and> stop_open (deliveries w) expected s")
  case True
  then show ?thesis using update_ok[OF assms] moved by blast
next
  case False
  then show ?thesis using update_refused[OF assms] refused by blast
qed

end

interpretation departing: stop_move "{S_PENDING}" depart_row
  by unfold_locales (simp_all add: row_defs)

interpretation arriving: stop_move "{S_EN_ROUTE, S_PENDING}" "arrive_row now" for now
  by unfold_locales (auto simp: row_defs)

interpretation unloading: stop_move "{S_ARRIVED}" unload_row
  by unfold_locales (simp_all add: row_defs)

interpretation failing: stop_move "{S_ARRIVED, S_UNLOADING, S_EN_ROUTE}" "fail_row now" for now
  by unfold_locales (auto simp: row_defs)

interpretation skipping: stop_move "{S_PENDING}" skip_row
  by unfold_locales (simp_all add: row_defs)

lemma stop_broadcast_frame [simp]:
  "deliveries (broadcastStopStatusChanged i j s a w) = deliveries w"
  "deliveryItems (broadcastStopStatusChanged i j s a w) = deliveryItems w"
  "deliveryStops (broadcastStopStatusChanged i j s a w) = deliveryStops w"
  "proofs (broadcastStopStatusChanged i j s a w) = proofs w"
  "conflicts (broadcastStopStatusChanged i j s a w) = conflicts w"
  "auditLogs (broadcastStopStatusChanged i j s a w) = auditLogs w"
  "deliveryEvents (broadcastStopStatusChanged i j s a w) = deliveryEvents w"
  "idempotencyRecords (broadcastStopStatusChanged i j s a w) = idempotencyRecords w"
  "routes (broadcastStopStatusChanged i j s a w) = routes w"
  "routeStops (broadcastStopStatusChanged i j s a w) = routeStops w"
  by (simp_all add: broadcastStopStatusChanged_def)

lemma verify_stop_found:
  "getStopAndVerifyDriver stopId drv w = Inr (s, d) \<Longrightarrow>
   find_row stp_id stopId (deliveryStops w) = Some s \<and> stp_id s = stopId \<and>
   find_row dlv_id (stp_deliveryId s) (deliveries w) = Some d \<and>
   (truthy drv \<longrightarrow> dlv_driverId d = drv)"
  by (auto simp: getStopAndVerifyDriver_def split: option.splits if_splits dest: find_row_SomeD)

text \<open>The guards imply the conditions of the claims, so a handler that runs alone does not lose.\<close>

lemma depart_guard_open:
  "departToStop_guard stopId drv w = Inr s \<Longrightarrow>
   find_row stp_id stopId (deliveryStops w) = Some s \<and> stop_open (deliveries w) {S_PENDING} s"
  by (auto simp: departToStop_guard_def parent_open_def terminal_delivery_def
      split: sum.splits if_splits dest!: verify_stop_found)

lemma arrive_guard_open:
  "arriveAtStop_guard stopId drv w = Inr s \<Longrightarrow>
   find_row stp_id stopId (deliveryStops w) = Some s \<and> stop_open (deliveries w) {S_EN_ROUTE, S_PENDING} s"
  by (auto simp: arriveAtStop_guard_def parent_open_def terminal_delivery_def
      split: sum.splits if_splits dest!: verify_stop_found)

lemma unload_guard_open:
  "startUnloading_guard stopId drv w = Inr s \<Longrightarrow>
   find_row stp_id stopId (deliveryStops w) = Some s \<and> stop_open (deliveries w) {S_ARRIVED} s"
  by (auto simp: startUnloading_guard_def parent_open_def ensureDeliveryOperational_def
      split: sum.splits if_splits dest!: verify_stop_found)

lemma fail_guard_open:
  "failStop_guard stopId drv w = Inr s \<Longrightarrow>
   find_row stp_id stopId (deliveryStops w) = Some s \<and>
   stop_open (deliveries w) {S_ARRIVED, S_UNLOADING, S_EN_ROUTE} s"
  by (auto simp: failStop_guard_def parent_open_def ensureDeliveryOperational_def
      split: sum.splits if_splits dest!: verify_stop_found)

lemma skip_guard_open:
  "skipStop_guard stopId actor w = Inr s \<Longrightarrow>
   find_row stp_id stopId (deliveryStops w) = Some s \<and> stop_open (deliveries w) {S_PENDING} s"
  by (auto simp: skipStop_guard_def parent_open_def ensureDeliveryOperational_def
      split: sum.splits if_splits dest!: verify_stop_found)

section \<open>The handlers on a table with unique ids\<close>

abbreviation move_stop :: "uuid \<Rightarrow> (delivery_stop \<Rightarrow> delivery_stop) \<Rightarrow> world \<Rightarrow> world" where
  "move_stop stopId f w \<equiv> w\<lparr>deliveryStops := update_row stp_id stopId f (deliveryStops w)\<rparr>"

lemma departToStop_eq:
  assumes "unique_keys stp_id (deliveryStops w)"
  shows "departToStop stopId drv usr w =
    (case departToStop_guard stopId drv w of
       Inl e \<Rightarrow> (Inl e, w)
     | Inr s \<Rightarrow> (Inr (depart_row s), broadcastStopStatusChanged (stp_deliveryId s) stopId S_EN_ROUTE
                   (driver_actor usr drv) (move_stop stopId depart_row w)))"
  using assms
  by (auto simp: departToStop_def departing.update_ok dest: depart_guard_open split: sum.split)

lemma arriveAtStop_eq:
  assumes "unique_keys stp_id (deliveryStops w)"
  shows "arriveAtStop stopId drv usr now w =
    (case arriveAtStop_guard stopId drv w of
       Inl e \<Rightarrow> (Inl e, w)
     | Inr s \<Rightarrow> (Inr (arrive_row now s), broadcastStopStatusChanged (stp_deliveryId s) stopId S_ARRIVED
                   (driver_actor usr drv) (move_stop stopId (arrive_row now) w)))"
  using assms
  by (auto simp: arriveAtStop_def arriving.update_ok dest!: arrive_guard_open split: sum.split)

lemma startUnloading_eq:
  assumes "unique_keys stp_id (deliveryStops w)"
  shows "startUnloading stopId drv usr w =
    (case startUnloading_guard stopId drv w of
       Inl e \<Rightarrow> (Inl e, w)
     | Inr s \<Rightarrow> (Inr (unload_row s), broadcastStopStatusChanged (stp_deliveryId s) stopId S_UNLOADING
                   (driver_actor usr drv) (move_stop stopId unload_row w)))"
  using assms
  by (auto simp: startUnloading_def unloading.update_ok dest: unload_guard_open split: sum.split)

lemma failStop_eq:
  assumes "unique_keys stp_id (deliveryStops w)"
  shows "failStop stopId reason drv usr now w =
    (case failStop_guard stopId drv w of
       Inl e \<Rightarrow> (Inl e, w)
     | Inr s \<Rightarrow>
         (Inr (fail_row now s),
          completeDeliveryIfEligible (stp_deliveryId s) (driver_actor usr drv) now
            (broadcastStopStatusChanged (stp_deliveryId s) stopId S_FAILED (driver_actor usr drv)
              (add_event (stop_event s ''STOP_FAILED'' usr (reason_or ''Stop execution failed'' reason))
                (move_stop stopId (fail_row now) w)))))"
  using assms
  by (auto simp: failStop_def failing.update_ok Let_def dest!: fail_guard_open split: sum.split)

lemma skipStop_eq:
  assumes "unique_keys stp_id (deliveryStops w)"
  shows "skipStop stopId reason actor now w =
    (case skipStop_guard stopId actor w of
       Inl e \<Rightarrow> (Inl e, w)
     | Inr s \<Rightarrow>
         (Inr (skip_row s),
          completeDeliveryIfEligible (stp_deliveryId s) actor now
            (broadcastStopStatusChanged (stp_deliveryId s) stopId S_SKIPPED actor
              (add_event (stop_event s ''STOP_SKIPPED'' (act_userId actor)
                (reason_or ''Stop skipped by operator'' reason)) (move_stop stopId skip_row w)))))"
  using assms
  by (auto simp: skipStop_def skipping.update_ok Let_def dest: skip_guard_open split: sum.split)

end
