(* ===== verification/Pod.thy ===== *)
theory Pod
  imports Stops
begin

text \<open>
  Proof of delivery: \<open>pod.service.ts\<close>.  The submission claims the idempotency key, claims the stop
  while its delivery is operational, and records the proof and the event in one transaction; a
  replay with the same key returns the stored body.
\<close>

section \<open>Idempotency records\<close>

type_synonym idempotency_key = "uuid \<times> uuid \<times> string"

text \<open>
  \<open>idempotencyRecord.create\<close> with the unique index on (key, userId, endpoint): a duplicate throws
  \<open>P2002\<close>.  The record is created pending and completed by \<open>finish_idempotency\<close> in the same
  transaction.
\<close>

definition pending_body :: json where
  "pending_body = JObj [(''pending'', JBool True)]"

definition claim_idempotency ::
  "idempotency_key \<Rightarrow> timestamp \<Rightarrow> idempotency_record list \<Rightarrow> api_error + idempotency_record list" where
  "claim_idempotency k now rs =
     (if find_row idm_key k rs \<noteq> None then fail_with Internal ''P2002''
      else Inr (rs @ [\<lparr>idm_key = k, idm_responseStatus = 0, idm_responseBody = pending_body,
                       idm_expiresAt = now + 24 * 3600 * 1000\<rparr>]))"

definition finish_idempotency ::
  "idempotency_key \<Rightarrow> int \<Rightarrow> json \<Rightarrow> idempotency_record list \<Rightarrow> idempotency_record list" where
  "finish_idempotency k status body rs =
     update_row idm_key k (\<lambda>r. r\<lparr>idm_responseStatus := status, idm_responseBody := body\<rparr>) rs"

text \<open>The key of a request, when the body has one: \<open>if (dto.idempotencyKey)\<close>.\<close>

definition request_key :: "uuid option \<Rightarrow> uuid \<Rightarrow> string \<Rightarrow> idempotency_key option" where
  "request_key key userId endpoint =
     (if truthy key then Some (the key, userId, endpoint) else None)"

definition stored_response :: "idempotency_key option \<Rightarrow> world \<Rightarrow> json option" where
  "stored_response k w =
     (case k of
        None \<Rightarrow> None
      | Some key \<Rightarrow>
          map_option (\<lambda>r. with_idempotent (idm_responseBody r)) (find_row idm_key key (idempotencyRecords w)))"

section \<open>Submitting\<close>

record submit_pod_dto =
  sp_receiverName :: string
  sp_photoFileId :: "uuid option"
  sp_signatureFileId :: "uuid option"
  sp_notes :: "string option"
  sp_idempotencyKey :: "uuid option"

definition valid_submit_pod :: "submit_pod_dto \<Rightarrow> bool" where
  "valid_submit_pod dto \<longleftrightarrow>
     text_upto 100 (sp_receiverName dto) \<and>
     (case sp_notes dto of None \<Rightarrow> True | Some n \<Rightarrow> length n \<le> 1000)"

definition jtime :: "timestamp option \<Rightarrow> json" where
  "jtime t = (case t of None \<Rightarrow> JNull | Some n \<Rightarrow> JNum (of_int n))"

definition pod_row :: "timestamp \<Rightarrow> delivery_stop \<Rightarrow> delivery_stop" where [row_defs]:
  "pod_row now s = s\<lparr>stp_status := S_DELIVERED, stp_completedAt := Some now\<rparr>"

definition new_pod :: "uuid \<Rightarrow> uuid \<Rightarrow> submit_pod_dto \<Rightarrow> uuid \<Rightarrow> timestamp \<Rightarrow> proof_of_delivery" where
  "new_pod podId stopId dto userId now =
     \<lparr>pod_id = podId, pod_deliveryStopId = stopId, pod_receiverName = sp_receiverName dto,
      pod_signatureFileId = or_null (sp_signatureFileId dto),
      pod_photoFileId = or_null (sp_photoFileId dto), pod_notes = or_null (sp_notes dto),
      pod_completedAt = now, pod_createdBy = userId\<rparr>"

definition pod_event :: "uuid \<Rightarrow> uuid \<Rightarrow> uuid \<Rightarrow> uuid \<Rightarrow> string \<Rightarrow> delivery_event" where
  "pod_event i stopId userId podId receiverName =
     \<lparr>evt_deliveryId = i, evt_stopId = Some stopId, evt_type = ''POD_SUBMITTED'',
      evt_actorUserId = userId,
      evt_metadata = JObj [(''podId'', JStr podId), (''receiverName'', JStr receiverName)]\<rparr>"

definition pod_result :: "uuid \<Rightarrow> uuid \<Rightarrow> timestamp \<Rightarrow> json" where
  "pod_result podId stopId now =
     JObj [(''podId'', JStr podId), (''deliveryStopId'', JStr stopId), (''status'', JStr ''DELIVERED''),
           (''completedAt'', JNum (of_int now))]"

text \<open>The answer for a stop that is already delivered.\<close>

definition already_submitted :: "uuid \<Rightarrow> delivery_stop \<Rightarrow> world \<Rightarrow> json" where
  "already_submitted stopId s w =
     (let existingPod = find_row pod_deliveryStopId stopId (proofs w) in
      JObj ((case existingPod of None \<Rightarrow> [] | Some p \<Rightarrow> [(''podId'', JStr (pod_id p))]) @
            [(''deliveryStopId'', JStr stopId), (''status'', JStr ''DELIVERED''),
             (''completedAt'', (case existingPod of
                                  None \<Rightarrow> jtime (stp_completedAt s)
                                | Some p \<Rightarrow> jtime (Some (pod_completedAt p)))),
             (''alreadySubmitted'', JBool True)]))"

text \<open>
  The transaction: idempotency claim, stop claim, proof row (unique per stop), event, and the stored
  response.  A throw leaves the world as it was.
\<close>

definition submitPod_tx ::
  "uuid \<Rightarrow> uuid \<Rightarrow> submit_pod_dto \<Rightarrow> uuid \<Rightarrow> idempotency_key option \<Rightarrow> uuid \<Rightarrow> timestamp \<Rightarrow> world \<Rightarrow>
   (json, world) outcome" where
  "submitPod_tx i stopId dto userId key podId now w =
     (case (case key of None \<Rightarrow> Inr (idempotencyRecords w)
                      | Some k \<Rightarrow> claim_idempotency k now (idempotencyRecords w)) of
        Inl e \<Rightarrow> (Inl e, w)
      | Inr rs \<Rightarrow>
          let (n, ss) = claim stp_id (stop_open (deliveries w) {S_UNLOADING, S_ARRIVED}) (pod_row now)
                          stopId (deliveryStops w) in
          if n \<noteq> 1 then (fail_with Conflict ''INVALID_DELIVERY_STATE'', w)
          else if find_row pod_deliveryStopId stopId (proofs w) \<noteq> None
          then (fail_with Internal ''P2002'', w)
          else
            let result = pod_result podId stopId now in
            (Inr result,
             add_event (pod_event i stopId userId podId (sp_receiverName dto))
               (w\<lparr>deliveryStops := ss,
                  proofs := proofs w @ [new_pod podId stopId dto userId now],
                  idempotencyRecords :=
                    (case key of None \<Rightarrow> rs | Some k \<Rightarrow> finish_idempotency k 201 result rs)\<rparr>)))"

definition broadcastPodCreated :: "uuid \<Rightarrow> uuid \<Rightarrow> uuid \<Rightarrow> delivery_actor \<Rightarrow> world \<Rightarrow> world" where
  "broadcastPodCreated i stopId podId actor w =
     emit [\<lparr>em_room = ''delivery:'' @ i, em_event = ''delivery.pod.created'',
            em_payload = JObj [(''deliveryId'', JStr i), (''stopId'', JStr stopId),
                               (''podId'', JStr podId), (''status'', JStr ''DELIVERED'')],
            em_actor = actor_of actor\<rparr>] w"

definition podEndpoint :: string where
  "podEndpoint = ''/v1/me/stops/:id/pod''"

definition submitPod ::
  "uuid \<Rightarrow> submit_pod_dto \<Rightarrow> delivery_actor \<Rightarrow> string \<Rightarrow> uuid \<Rightarrow> timestamp \<Rightarrow> world \<Rightarrow> (json, world) outcome" where
  "submitPod stopId dto actor endpoint podId now w =
     (case getStopAndVerifyDriver stopId
             (if act_role actor = ''DRIVER'' then act_driverId actor else None) w of
        Inl e \<Rightarrow> (Inl e, w)
      | Inr (s, d) \<Rightarrow>
          let key = request_key (sp_idempotencyKey dto) (act_userId actor) endpoint in
          case stored_response key w of
            Some body \<Rightarrow> (Inr body, w)
          | None \<Rightarrow>
              if stp_status s = S_DELIVERED then (Inr (already_submitted stopId s w), w)
              else if terminal_delivery (dlv_status d)
              then (fail_with Conflict ''INVALID_DELIVERY_STATE'', w)
              else if stp_status s \<noteq> S_UNLOADING \<and> stp_status s \<noteq> S_ARRIVED
              then (fail_with Conflict ''INVALID_STATE_TRANSITION'', w)
              else
                case submitPod_tx (stp_deliveryId s) stopId dto (act_userId actor) key podId now w of
                  (Inl e, w1) \<Rightarrow>
                    (if key \<noteq> None \<and> err_code e = ''P2002''
                     then case stored_response key w1 of
                            Some body \<Rightarrow> (Inr body, w1)
                          | None \<Rightarrow> (Inl e, w1)
                     else (Inl e, w1))
                | (Inr result, w1) \<Rightarrow>
                    let w2 = broadcastPodCreated (stp_deliveryId s) stopId podId actor w1
                    in (Inr result, completeDeliveryIfEligible (stp_deliveryId s) actor now w2))"

section \<open>Reading\<close>

record pod_view =
  pv_pod :: proof_of_delivery
  pv_stopSequence :: int
  pv_destinationName :: string

definition getPodForDelivery ::
  "uuid \<Rightarrow> delivery_actor \<Rightarrow> world \<Rightarrow> api_error + pod_view list" where
  "getPodForDelivery i actor w =
     (case getDeliveryById i actor w of
        Inl e \<Rightarrow> Inl e
      | Inr _ \<Rightarrow>
          Inr (concat (map (\<lambda>p.
                 case find_row stp_id (pod_deliveryStopId p) (deliveryStops w) of
                   None \<Rightarrow> []
                 | Some s \<Rightarrow>
                     if stp_deliveryId s = i
                     then [\<lparr>pv_pod = p, pv_stopSequence = stp_sequence s,
                            pv_destinationName = stp_destinationName s\<rparr>]
                     else []) (proofs w))))"

section \<open>The submission on a table with unique ids\<close>

interpretation delivering: stop_move "{S_UNLOADING, S_ARRIVED}" "pod_row now" for now
  by unfold_locales (auto simp: row_defs)

lemma pod_broadcast_frame [simp]:
  "deliveries (broadcastPodCreated i j p a w) = deliveries w"
  "deliveryItems (broadcastPodCreated i j p a w) = deliveryItems w"
  "deliveryStops (broadcastPodCreated i j p a w) = deliveryStops w"
  "proofs (broadcastPodCreated i j p a w) = proofs w"
  "conflicts (broadcastPodCreated i j p a w) = conflicts w"
  "auditLogs (broadcastPodCreated i j p a w) = auditLogs w"
  "deliveryEvents (broadcastPodCreated i j p a w) = deliveryEvents w"
  "idempotencyRecords (broadcastPodCreated i j p a w) = idempotencyRecords w"
  "routes (broadcastPodCreated i j p a w) = routes w"
  "routeStops (broadcastPodCreated i j p a w) = routeStops w"
  by (simp_all add: broadcastPodCreated_def)

text \<open>A transaction that throws leaves the world as it was.\<close>

lemma submitPod_tx_rollback: "submitPod_tx i j dto u key p now w = (Inl e, w1) \<Longrightarrow> w1 = w"
  by (auto simp: submitPod_tx_def Let_def split: sum.splits prod.splits if_splits option.splits)

text \<open>The state in which a submission that passes its checks ends.\<close>

definition pod_committed ::
  "uuid \<Rightarrow> uuid \<Rightarrow> submit_pod_dto \<Rightarrow> uuid \<Rightarrow> idempotency_key option \<Rightarrow> uuid \<Rightarrow> timestamp \<Rightarrow> world \<Rightarrow> world" where
  "pod_committed i stopId dto userId key podId now w =
     add_event (pod_event i stopId userId podId (sp_receiverName dto))
       (w\<lparr>deliveryStops := update_row stp_id stopId (pod_row now) (deliveryStops w),
          proofs := proofs w @ [new_pod podId stopId dto userId now],
          idempotencyRecords :=
            (case key of None \<Rightarrow> idempotencyRecords w
             | Some k \<Rightarrow> finish_idempotency k 201 (pod_result podId stopId now)
                (idempotencyRecords w @ [\<lparr>idm_key = k, idm_responseStatus = 0,
                   idm_responseBody = pending_body, idm_expiresAt = now + 24 * 3600 * 1000\<rparr>]))\<rparr>)"

lemma submitPod_tx_commit:
  assumes "unique_keys stp_id (deliveryStops w)"
    and "find_row stp_id stopId (deliveryStops w) = Some s"
    and "stop_open (deliveries w) {S_UNLOADING, S_ARRIVED} s"
    and "find_row pod_deliveryStopId stopId (proofs w) = None"
    and "stored_response key w = None"
  shows "submitPod_tx i stopId dto userId key podId now w =
    (Inr (pod_result podId stopId now), pod_committed i stopId dto userId key podId now w)"
proof -
  note won = delivering.claim_open[OF assms(1-3), of now]
  show ?thesis
    using assms(4,5)
    unfolding submitPod_tx_def pod_committed_def won
    by (cases key) (simp_all add: stored_response_def claim_idempotency_def Let_def)
qed

lemma pod_committed_frame [simp]:
  "deliveries (pod_committed i j dto u key p now w) = deliveries w"
  "deliveryStops (pod_committed i j dto u key p now w) = update_row stp_id j (pod_row now) (deliveryStops w)"
  "proofs (pod_committed i j dto u key p now w) = proofs w @ [new_pod p j dto u now]"
  "conflicts (pod_committed i j dto u key p now w) = conflicts w"
  "auditLogs (pod_committed i j dto u key p now w) = auditLogs w"
  by (simp_all add: pod_committed_def)

text \<open>
  The three ways a submission ends: an error or a stored answer without any change, or the commit
  followed by the broadcast and the automatic completion.
\<close>

definition pod_actor_driver :: "delivery_actor \<Rightarrow> uuid option" where
  "pod_actor_driver actor = (if act_role actor = ''DRIVER'' then act_driverId actor else None)"

lemma submitPod_cases:
  assumes "unique_keys stp_id (deliveryStops w)"
    and "\<forall>p \<in> set (proofs w).
           \<exists>s. find_row stp_id (pod_deliveryStopId p) (deliveryStops w) = Some s \<and> stp_status s = S_DELIVERED"
  obtains (unchanged) r where "submitPod stopId dto actor endpoint podId now w = (r, w)"
  | (committed) s d where
      "getStopAndVerifyDriver stopId (pod_actor_driver actor) w = Inr (s, d)"
      "stored_response (request_key (sp_idempotencyKey dto) (act_userId actor) endpoint) w = None"
      "stop_open (deliveries w) {S_UNLOADING, S_ARRIVED} s"
      "find_row pod_deliveryStopId stopId (proofs w) = None"
      "submitPod stopId dto actor endpoint podId now w =
         (Inr (pod_result podId stopId now),
          completeDeliveryIfEligible (stp_deliveryId s) actor now
            (broadcastPodCreated (stp_deliveryId s) stopId podId actor
              (pod_committed (stp_deliveryId s) stopId dto (act_userId actor)
                (request_key (sp_idempotencyKey dto) (act_userId actor) endpoint) podId now w)))"
proof (cases "getStopAndVerifyDriver stopId (pod_actor_driver actor) w")
  case (Inl e)
  then show ?thesis by (intro unchanged) (simp add: submitPod_def pod_actor_driver_def)
next
  case (Inr p)
  obtain s d where p: "p = (s, d)" by (cases p)
  note found = verify_stop_found[OF Inr[unfolded p]]
  let ?key = "request_key (sp_idempotencyKey dto) (act_userId actor) endpoint"
  show ?thesis
  proof (cases "stored_response ?key w = None \<and> stp_status s \<in> {S_UNLOADING, S_ARRIVED} \<and>
      \<not> terminal_delivery (dlv_status d)")
    case False
    then have "\<exists>r. submitPod stopId dto actor endpoint podId now w = (r, w)"
      using Inr p
      by (cases "stored_response ?key w")
        (auto simp: submitPod_def pod_actor_driver_def Let_def)
    then show ?thesis using unchanged by blast
  next
    case True
    then have op: "stop_open (deliveries w) {S_UNLOADING, S_ARRIVED} s"
      using found by (simp add: parent_open_def)
    have np: "find_row pod_deliveryStopId stopId (proofs w) = None"
    proof (rule ccontr)
      assume "\<not> ?thesis"
      then obtain q where "q \<in> set (proofs w)" "pod_deliveryStopId q = stopId"
        by (auto dest: find_row_SomeD)
      with assms(2) found True show False by fastforce
    qed
    from True found op np show ?thesis
      using Inr p submitPod_tx_commit[OF assms(1) _ op np, of ?key]
      by (intro committed[of s d])
        (auto simp: submitPod_def pod_actor_driver_def Let_def)
  qed
qed

end
