(* ===== verification/Conflicts.thy ===== *)
theory Conflicts
  imports Pod
begin

text \<open>
  Offline synchronisation: \<open>delivery-conflicts.service.ts\<close>.  A driver sends the events recorded
  offline; each is applied by the matching handler, kept as a conflict ticket when its delivery has
  been cancelled meanwhile, or dropped with a log line when it throws.  An operator resolves a
  ticket by discarding it or by accepting the evidence.
\<close>

section \<open>The outbox\<close>

record outbox_item =
  ob_clientEventId :: string
  ob_eventType :: string
  ob_occurredAt :: string
  ob_payload :: json
  ob_idempotencyKey :: "uuid option"

definition valid_outbox_item :: "outbox_item \<Rightarrow> bool" where
  "valid_outbox_item it \<longleftrightarrow>
     ob_clientEventId it \<noteq> [] \<and> ob_eventType it \<noteq> [] \<and> ob_occurredAt it \<noteq> [] \<and>
     ob_payload it \<noteq> JNull \<and> ob_payload it \<noteq> JStr []"

definition valid_outbox :: "outbox_item list \<Rightarrow> bool" where
  "valid_outbox its \<longleftrightarrow> 1 \<le> length its \<and> length its \<le> 50 \<and> list_all valid_outbox_item its"

text \<open>The item as it is stored in the \<open>clientPayload\<close> column.\<close>

definition item_json :: "outbox_item \<Rightarrow> json" where
  "item_json it =
     JObj ([(''clientEventId'', JStr (ob_clientEventId it)), (''eventType'', JStr (ob_eventType it)),
            (''occurredAt'', JStr (ob_occurredAt it)), (''payload'', ob_payload it)] @
           (case ob_idempotencyKey it of None \<Rightarrow> [] | Some k \<Rightarrow> [(''idempotencyKey'', JStr k)]))"

text \<open>\<open>payload.deliveryStopId || payload.stopId\<close>, and its use as a row id.\<close>

definition payload_stop :: "json \<Rightarrow> json option" where
  "payload_stop payload = jor (jget ''deliveryStopId'' payload) (jget ''stopId'' payload)"

definition jstring :: "json option \<Rightarrow> string option" where
  "jstring j = (case j of Some (JStr s) \<Rightarrow> Some s | _ \<Rightarrow> None)"

record sync_conflict =
  sc_clientEventId :: string
  sc_conflictId :: uuid
  sc_type :: string

definition new_conflict :: "uuid \<Rightarrow> uuid \<Rightarrow> outbox_item \<Rightarrow> delivery_conflict" where
  "new_conflict conflictId i it =
     \<lparr>cfl_id = conflictId, cfl_deliveryId = i, cfl_clientEventId = ob_clientEventId it,
      cfl_conflictType = ''STALE_OFFLINE_COMPLETION'', cfl_serverState = ''CANCELLED'',
      cfl_clientPayload = item_json it, cfl_status = OPEN, cfl_resolvedBy = None,
      cfl_resolutionNotes = None, cfl_resolvedAt = None\<rparr>"

text \<open>The proof-of-delivery body that an offline \<open>stop.pod\<close> event is turned into.\<close>

definition offline_pod_dto :: "json \<Rightarrow> outbox_item \<Rightarrow> submit_pod_dto" where
  "offline_pod_dto payload it =
     \<lparr>sp_receiverName =
        (case jstring (jget ''receiverName'' payload) of
           Some n \<Rightarrow> if n = [] then ''Offline Receiver'' else n
         | None \<Rightarrow> ''Offline Receiver''),
      sp_photoFileId = jstring (jget ''photoFileId'' payload),
      sp_signatureFileId = jstring (jget ''signatureFileId'' payload),
      sp_notes = jstring (jget ''notes'' payload),
      sp_idempotencyKey = ob_idempotencyKey it\<rparr>"

datatype sync_step = Acked string | Conflicted sync_conflict | Dropped

text \<open>
  One round of the loop.  A truthy stop id that is no string makes the Prisma query throw, which the
  round's \<open>catch\<close> swallows.  Of a handler that throws, the state it left is kept.
\<close>

definition dispatch_event ::
  "outbox_item \<Rightarrow> uuid \<Rightarrow> uuid \<Rightarrow> uuid \<Rightarrow> uuid \<Rightarrow> timestamp \<Rightarrow> world \<Rightarrow> (unit, world) outcome" where
  "dispatch_event it stopId actorDriverId actorUserId podId now w =
     (if ob_eventType it = ''stop.depart''
      then (case departToStop stopId actorDriverId actorUserId w of (r, w1) \<Rightarrow> (map_sum id (\<lambda>_. ()) r, w1))
      else if ob_eventType it = ''stop.arrive''
      then (case arriveAtStop stopId actorDriverId actorUserId now w of (r, w1) \<Rightarrow> (map_sum id (\<lambda>_. ()) r, w1))
      else if ob_eventType it = ''stop.unload''
      then (case startUnloading stopId actorDriverId actorUserId w of (r, w1) \<Rightarrow> (map_sum id (\<lambda>_. ()) r, w1))
      else if ob_eventType it = ''stop.pod''
      then (case submitPod stopId (offline_pod_dto (ob_payload it) it)
                   (driver_actor actorUserId actorDriverId) podEndpoint podId now w of
              (r, w1) \<Rightarrow> (map_sum id (\<lambda>_. ()) r, w1))
      else (Inr (), w))"

definition cancelled_stop :: "uuid \<Rightarrow> world \<Rightarrow> delivery_stop option" where
  "cancelled_stop stopId w =
     (case find_row stp_id stopId (deliveryStops w) of
        None \<Rightarrow> None
      | Some s \<Rightarrow>
          (case find_row dlv_id (stp_deliveryId s) (deliveries w) of
             None \<Rightarrow> None
           | Some d \<Rightarrow> if dlv_status d = CANCELLED then Some s else None))"

definition sync_one ::
  "outbox_item \<Rightarrow> uuid \<Rightarrow> uuid \<Rightarrow> uuid \<Rightarrow> timestamp \<Rightarrow> world \<Rightarrow> sync_step \<times> world" where
  "sync_one it actorDriverId actorUserId newId now w =
     (let stop = payload_stop (ob_payload it) in
      if \<not> jtruthy stop then (Acked (ob_clientEventId it), w)
      else case jstring stop of
             None \<Rightarrow> (Dropped, w)
           | Some stopId \<Rightarrow>
               (case cancelled_stop stopId w of
                  Some s \<Rightarrow>
                    (Conflicted \<lparr>sc_clientEventId = ob_clientEventId it, sc_conflictId = newId,
                                 sc_type = ''STALE_OFFLINE_COMPLETION''\<rparr>,
                     w\<lparr>conflicts := conflicts w @ [new_conflict newId (stp_deliveryId s) it]\<rparr>)
                | None \<Rightarrow>
                    (case dispatch_event it stopId actorDriverId actorUserId newId now w of
                       (Inl e, w1) \<Rightarrow> (Dropped, w1)
                     | (Inr _, w1) \<Rightarrow> (Acked (ob_clientEventId it), w1))))"

text \<open>The loop over the events; \<open>uuidv4 n\<close> is the id a round creates, if it creates a row.\<close>

fun sync_loop ::
  "outbox_item list \<Rightarrow> uuid \<Rightarrow> uuid \<Rightarrow> (nat \<Rightarrow> uuid) \<Rightarrow> nat \<Rightarrow> timestamp \<Rightarrow>
   string list \<times> sync_conflict list \<Rightarrow> world \<Rightarrow> (string list \<times> sync_conflict list) \<times> world" where
  "sync_loop [] actorDriverId actorUserId uuidv4 n now acc w = (acc, w)"
| "sync_loop (it # its) actorDriverId actorUserId uuidv4 n now (acked, confl) w =
     (case sync_one it actorDriverId actorUserId (uuidv4 n) now w of
        (Acked c, w1) \<Rightarrow> sync_loop its actorDriverId actorUserId uuidv4 (Suc n) now (acked @ [c], confl) w1
      | (Conflicted c, w1) \<Rightarrow> sync_loop its actorDriverId actorUserId uuidv4 (Suc n) now (acked, confl @ [c]) w1
      | (Dropped, w1) \<Rightarrow> sync_loop its actorDriverId actorUserId uuidv4 (Suc n) now (acked, confl) w1)"

definition syncOutbox ::
  "outbox_item list \<Rightarrow> uuid \<Rightarrow> uuid \<Rightarrow> (nat \<Rightarrow> uuid) \<Rightarrow> timestamp \<Rightarrow> world \<Rightarrow>
   (string list \<times> sync_conflict list) \<times> world" where
  "syncOutbox events actorDriverId actorUserId uuidv4 now w =
     sync_loop events actorDriverId actorUserId uuidv4 0 now ([], []) w"

section \<open>Resolving a ticket\<close>

record resolve_conflict_dto =
  rc_status :: conflict_status
  rc_resolutionNotes :: "string option"

definition valid_resolve_conflict :: "resolve_conflict_dto \<Rightarrow> bool" where
  "valid_resolve_conflict dto \<longleftrightarrow>
     (case rc_resolutionNotes dto of None \<Rightarrow> True | Some n \<Rightarrow> length n \<le> 1000)"

definition getOpenConflicts :: "string \<Rightarrow> world \<Rightarrow> api_error + delivery_conflict list" where
  "getOpenConflicts actorRole w =
     (if actorRole = ''DRIVER'' then fail_with Forbidden ''FORBIDDEN''
      else Inr (rev (filter (\<lambda>c. cfl_status c = OPEN) (conflicts w))))"

definition resolve_row :: "resolve_conflict_dto \<Rightarrow> uuid \<Rightarrow> timestamp \<Rightarrow> delivery_conflict \<Rightarrow> delivery_conflict"
where [row_defs]:
  "resolve_row dto actorUserId now c =
     c\<lparr>cfl_status := rc_status dto, cfl_resolvedBy := Some actorUserId,
       cfl_resolutionNotes := or_null (rc_resolutionNotes dto), cfl_resolvedAt := Some now\<rparr>"

definition resolveConflict_guard :: "uuid \<Rightarrow> string \<Rightarrow> world \<Rightarrow> api_error + delivery_conflict" where
  "resolveConflict_guard conflictId actorRole w =
     (if actorRole = ''DRIVER'' then fail_with Forbidden ''FORBIDDEN''
      else case find_row cfl_id conflictId (conflicts w) of
             None \<Rightarrow> fail_with NotFound ''CONFLICT_NOT_FOUND''
           | Some c \<Rightarrow>
               if cfl_status c \<noteq> OPEN then fail_with BadRequest ''CONFLICT_ALREADY_RESOLVED''
               else Inr c)"

text \<open>The stop id and the evidence inside the stored client payload.\<close>

definition evidence :: "delivery_conflict \<Rightarrow> json" where
  "evidence c =
     (case jget ''payload'' (cfl_clientPayload c) of
        Some p \<Rightarrow> if jtruthy (Some p) then p else JObj []
      | None \<Rightarrow> JObj [])"

definition upsert_pod :: "uuid \<Rightarrow> uuid \<Rightarrow> string \<Rightarrow> uuid option \<Rightarrow> uuid \<Rightarrow> timestamp \<Rightarrow>
    proof_of_delivery list \<Rightarrow> proof_of_delivery list" where
  "upsert_pod podId stopId receiver photo actorUserId now ps =
     (let notes = Some (''Resolved via Conflict Override by '' @ actorUserId) in
      if find_row pod_deliveryStopId stopId ps \<noteq> None
      then update_row pod_deliveryStopId stopId
             (\<lambda>p. p\<lparr>pod_receiverName := receiver, pod_photoFileId := photo, pod_notes := notes\<rparr>) ps
      else ps @ [\<lparr>pod_id = podId, pod_deliveryStopId = stopId, pod_receiverName = receiver,
                  pod_signatureFileId = None, pod_photoFileId = photo, pod_notes = notes,
                  pod_completedAt = now, pod_createdBy = actorUserId\<rparr>])"

text \<open>The evaluation inside the override; \<open>every\<close> holds on an empty list, \<open>some\<close> does not.\<close>

definition override_completes :: "uuid \<Rightarrow> delivery_stop list \<Rightarrow> bool" where
  "override_completes i ss =
     (let allStops = filter (\<lambda>s. stp_deliveryId s = i) ss in
      list_all (\<lambda>s. terminal_stop (stp_status s)) allStops \<and>
      list_ex (\<lambda>s. stp_status s = S_DELIVERED) allStops)"

definition override_stop ::
  "delivery_conflict \<Rightarrow> uuid \<Rightarrow> uuid \<Rightarrow> uuid \<Rightarrow> timestamp \<Rightarrow> world \<Rightarrow> api_error + world" where
  "override_stop c stopId actorUserId podId now w =
     (let receiver = jget ''receiverName'' (evidence c);
          ps = (if jtruthy receiver
                then upsert_pod podId stopId
                       (case jstring receiver of None \<Rightarrow> [] | Some n \<Rightarrow> n)
                       (or_null (jstring (jget ''photoFileId'' (evidence c)))) actorUserId now (proofs w)
                else proofs w)
      in case find_row stp_id stopId (deliveryStops w) of
           None \<Rightarrow> fail_with Internal ''P2025''
         | Some _ \<Rightarrow>
             let ss = update_row stp_id stopId (pod_row now) (deliveryStops w);
                 ds = (if override_completes (cfl_deliveryId c) ss
                       then update_row dlv_id (cfl_deliveryId c) (finish_row COMPLETED now) (deliveries w)
                       else deliveries w)
             in Inr (w\<lparr>proofs := ps, deliveryStops := ss, deliveries := ds\<rparr>))"

definition resolveConflict_tx ::
  "delivery_conflict \<Rightarrow> uuid \<Rightarrow> resolve_conflict_dto \<Rightarrow> uuid \<Rightarrow> uuid \<Rightarrow> timestamp \<Rightarrow> world \<Rightarrow>
   (delivery_conflict, world) outcome" where
  "resolveConflict_tx c conflictId dto actorUserId podId now w =
     (let w1 = w\<lparr>conflicts := update_row cfl_id conflictId (resolve_row dto actorUserId now) (conflicts w)\<rparr>;
          stop = payload_stop (evidence c);
          r = (if rc_status dto = RESOLVED_OVERRIDDEN \<and> jtruthy stop
               then (case jstring stop of
                       None \<Rightarrow> fail_with Internal ''VALIDATION''
                     | Some stopId \<Rightarrow> override_stop c stopId actorUserId podId now w1)
               else Inr w1)
      in case r of
           Inl e \<Rightarrow> (Inl e, w)
         | Inr w2 \<Rightarrow>
             (case find_row cfl_id conflictId (conflicts w2) of
                None \<Rightarrow> (fail_with Internal ''P2025'', w)
              | Some updated \<Rightarrow>
                  (Inr updated,
                   add_audit (success_audit actorUserId ''CONFLICT_RESOLVED'' ''DELIVERY_CONFLICT'' conflictId
                     (JObj [(''status'', JStr (conflict_status_name (rc_status dto))),
                            (''notes'', jopt (rc_resolutionNotes dto))])) w2)))"

definition resolveConflict ::
  "uuid \<Rightarrow> resolve_conflict_dto \<Rightarrow> uuid \<Rightarrow> string \<Rightarrow> uuid \<Rightarrow> timestamp \<Rightarrow> world \<Rightarrow>
   (delivery_conflict, world) outcome" where
  "resolveConflict conflictId dto actorUserId actorRole podId now w =
     (case resolveConflict_guard conflictId actorRole w of
        Inl e \<Rightarrow> (Inl e, w)
      | Inr c \<Rightarrow> resolveConflict_tx c conflictId dto actorUserId podId now w)"

end
