(* ===== verification/Lifecycle.thy ===== *)
theory Lifecycle
  imports Conflicts
begin

text \<open>
  The abstract specification of the delivery core: the four tables that carry it and one relation
  \<open>core_step\<close> with a rule per kind of change the services may make.  The invariants are proved for
  the relation by rule induction; \<open>Refinement\<close> shows that every handler of the code is a
  run of such steps.
\<close>

section \<open>The abstract state and its steps\<close>

record core =
  c_deliveries :: "delivery list"
  c_stops :: "delivery_stop list"
  c_proofs :: "proof_of_delivery list"
  c_conflicts :: "delivery_conflict list"

definition core_of :: "world \<Rightarrow> core" where
  "core_of w = \<lparr>c_deliveries = deliveries w, c_stops = deliveryStops w, c_proofs = proofs w,
                c_conflicts = conflicts w\<rparr>"

text \<open>The stop that a ticket's evidence is about.\<close>

definition ticket_stop :: "delivery_conflict \<Rightarrow> uuid option" where
  "ticket_stop t = jstring (payload_stop (evidence t))"

inductive core_step :: "core \<Rightarrow> core \<Rightarrow> bool" where
  drafted:
    "find_row dlv_id (dlv_id d) (c_deliveries c) = None \<Longrightarrow> dlv_status d = DRAFT \<Longrightarrow>
     \<forall>s \<in> set ss. stp_deliveryId s = dlv_id d \<and> stp_status s = S_PENDING \<Longrightarrow>
     unique_keys stp_id (c_stops c @ ss) \<Longrightarrow>
     core_step c (c\<lparr>c_deliveries := c_deliveries c @ [d], c_stops := c_stops c @ ss\<rparr>)"
| moved:
    "find_row dlv_id i (c_deliveries c) = Some d \<Longrightarrow> \<forall>r. dlv_id (f r) = dlv_id r \<Longrightarrow>
     delivery_edge (dlv_status d) (dlv_status (f d)) \<Longrightarrow>
     dlv_status (f d) \<notin> {COMPLETED, FAILED} \<Longrightarrow>
     core_step c (c\<lparr>c_deliveries := update_row dlv_id i f (c_deliveries c)\<rparr>)"
| annotated:
    "\<forall>r. dlv_id (f r) = dlv_id r \<and> dlv_status (f r) = dlv_status r \<Longrightarrow>
     core_step c (c\<lparr>c_deliveries := update_row dlv_id i f (c_deliveries c)\<rparr>)"
| finished:
    "find_row dlv_id i (c_deliveries c) = Some d \<Longrightarrow> dlv_status d = EN_ROUTE \<Longrightarrow>
     evaluateDeliveryCompletion i (c_stops c) = Eligible t \<Longrightarrow>
     core_step c (c\<lparr>c_deliveries := update_row dlv_id i (finish_row t now) (c_deliveries c)\<rparr>)"
| stop_moved:
    "find_row stp_id j (c_stops c) = Some s \<Longrightarrow> parent_open (c_deliveries c) s \<Longrightarrow>
     \<forall>r. stp_id (f r) = stp_id r \<and> stp_deliveryId (f r) = stp_deliveryId r \<Longrightarrow>
     stop_edge (stp_status s) (stp_status (f s)) \<Longrightarrow>
     core_step c (c\<lparr>c_stops := update_row stp_id j f (c_stops c)\<rparr>)"
| renumbered:
    "\<forall>r. stp_id (f r) = stp_id r \<and> stp_deliveryId (f r) = stp_deliveryId r \<and>
         stp_status (f r) = stp_status r \<Longrightarrow>
     core_step c (c\<lparr>c_stops := update_row stp_id j f (c_stops c)\<rparr>)"
| delivered:
    "find_row stp_id j (c_stops c) = Some s \<Longrightarrow> parent_open (c_deliveries c) s \<Longrightarrow>
     stop_edge (stp_status s) S_DELIVERED \<Longrightarrow>
     find_row pod_deliveryStopId j (c_proofs c) = None \<Longrightarrow> pod_deliveryStopId p = j \<Longrightarrow>
     core_step c (c\<lparr>c_stops := update_row stp_id j (pod_row now) (c_stops c),
                    c_proofs := c_proofs c @ [p]\<rparr>)"
| ticketed:
    "find_row stp_id j (c_stops c) = Some s \<Longrightarrow>
     find_row dlv_id (stp_deliveryId s) (c_deliveries c) = Some d \<Longrightarrow> dlv_status d = CANCELLED \<Longrightarrow>
     cfl_deliveryId t = dlv_id d \<Longrightarrow> ticket_stop t = Some j \<Longrightarrow>
     core_step c (c\<lparr>c_conflicts := c_conflicts c @ [t]\<rparr>)"
| resolved:
    "\<forall>r. cfl_id (f r) = cfl_id r \<and> cfl_deliveryId (f r) = cfl_deliveryId r \<and>
         cfl_clientPayload (f r) = cfl_clientPayload r \<Longrightarrow>
     core_step c (c\<lparr>c_conflicts := update_row cfl_id k f (c_conflicts c)\<rparr>)"
| overridden:
    "t \<in> set (c_conflicts c) \<Longrightarrow> ticket_stop t = Some j \<Longrightarrow>
     find_row stp_id j (c_stops c) = Some s \<Longrightarrow>
     ss = update_row stp_id j (pod_row now) (c_stops c) \<Longrightarrow>
     ds = (if override_completes (cfl_deliveryId t) ss
           then update_row dlv_id (cfl_deliveryId t) (finish_row COMPLETED now) (c_deliveries c)
           else c_deliveries c) \<Longrightarrow>
     ps = c_proofs c \<or> ps = upsert_pod podId j receiver photo u now (c_proofs c) \<Longrightarrow>
     core_step c (c\<lparr>c_deliveries := ds, c_stops := ss, c_proofs := ps\<rparr>)"

section \<open>The invariants\<close>

definition keys_ok :: "core \<Rightarrow> bool" where
  "keys_ok c \<longleftrightarrow> unique_keys dlv_id (c_deliveries c) \<and> unique_keys stp_id (c_stops c) \<and>
     unique_keys pod_deliveryStopId (c_proofs c) \<and>
     (\<forall>s \<in> set (c_stops c). find_row dlv_id (stp_deliveryId s) (c_deliveries c) \<noteq> None)"

text \<open>A delivery that ended as completed or failed ended as the evaluation of its stops says.\<close>

definition verdict_ok :: "core \<Rightarrow> bool" where
  "verdict_ok c \<longleftrightarrow>
     (\<forall>i d. find_row dlv_id i (c_deliveries c) = Some d \<longrightarrow> dlv_status d \<in> {COMPLETED, FAILED} \<longrightarrow>
        evaluateDeliveryCompletion i (c_stops c) = Eligible (dlv_status d))"

text \<open>A proof exists for delivered stops only.\<close>

definition proofs_ok :: "core \<Rightarrow> bool" where
  "proofs_ok c \<longleftrightarrow>
     (\<forall>p \<in> set (c_proofs c).
        \<exists>s. find_row stp_id (pod_deliveryStopId p) (c_stops c) = Some s \<and> stp_status s = S_DELIVERED)"

text \<open>A ticket belongs to a delivery that was cancelled, and is about one of its stops.\<close>

definition tickets_ok :: "core \<Rightarrow> bool" where
  "tickets_ok c \<longleftrightarrow>
     (\<forall>t \<in> set (c_conflicts c).
        (\<exists>d. find_row dlv_id (cfl_deliveryId t) (c_deliveries c) = Some d \<and>
             dlv_status d \<in> {CANCELLED, COMPLETED}) \<and>
        (\<forall>j. ticket_stop t = Some j \<longrightarrow>
           (\<exists>s. find_row stp_id j (c_stops c) = Some s \<and> stp_deliveryId s = cfl_deliveryId t)))"

definition core_inv :: "core \<Rightarrow> bool" where
  "core_inv c \<longleftrightarrow> keys_ok c \<and> verdict_ok c \<and> proofs_ok c \<and> tickets_ok c"

section \<open>Stops of a delivery under updates\<close>

lemma stops_of_append: "stops_of i (ss @ ts) = stops_of i ss @ stops_of i ts"
  by (simp add: stops_of_def)

lemma stops_of_update:
  assumes "\<And>r. stp_id (f r) = stp_id r \<and> stp_deliveryId (f r) = stp_deliveryId r"
  shows "stops_of i (update_row stp_id j f ss) = update_row stp_id j f (stops_of i ss)"
  using assms by (induction ss) (auto simp: stops_of_def update_row_def update_where_def)

lemma stops_of_update_other:
  assumes "\<And>r. stp_id (f r) = stp_id r \<and> stp_deliveryId (f r) = stp_deliveryId r"
    and "unique_keys stp_id ss" "find_row stp_id j ss = Some s" "stp_deliveryId s \<noteq> i"
  shows "stops_of i (update_row stp_id j f ss) = stops_of i ss"
proof -
  have "r \<in> set (stops_of i ss) \<Longrightarrow> stp_id r \<noteq> j" for r
    using assms(2-4) by (auto simp: stops_of_def dest: find_row_unique)
  then have "update_row stp_id j f (stops_of i ss) = stops_of i ss"
    by (simp add: update_row_def update_where_def map_idI)
  then show ?thesis using stops_of_update assms(1) by metis
qed

text \<open>The verdict depends on the statuses of the stops only.\<close>

lemma evaluate_statuses:
  assumes "map stp_status (stops_of i ss) = map stp_status (stops_of i ss')"
  shows "evaluateDeliveryCompletion i ss = Eligible t \<longleftrightarrow> evaluateDeliveryCompletion i ss' = Eligible t"
proof -
  have iff: "evaluateDeliveryCompletion i ts = Eligible t \<longleftrightarrow>
      (let sts = map stp_status (stops_of i ts) in
       sts \<noteq> [] \<and> list_all terminal_stop sts \<and> t = target_status (S_DELIVERED \<in> set sts))" for ts
    by (auto simp: evaluate_Eligible_iff Let_def list_all_iff image_iff target_status_def)
  show ?thesis unfolding iff assms ..
qed

lemma stops_of_fresh:
  "(\<And>s. s \<in> set ss \<Longrightarrow> stp_deliveryId s \<noteq> i) \<Longrightarrow> stops_of i ss = []"
  by (auto simp: stops_of_def filter_empty_conv)

lemma pod_row_keeps: "stp_id (pod_row now r) = stp_id r \<and> stp_deliveryId (pod_row now r) = stp_deliveryId r"
  by (simp add: row_defs)

lemma finish_row_id: "dlv_id (finish_row t now r) = dlv_id r"
  by (simp add: row_defs)

lemma override_completes_eval:
  "override_completes i ss \<Longrightarrow> evaluateDeliveryCompletion i ss = Eligible COMPLETED"
  by (auto simp: override_completes_def Let_def evaluate_Eligible_iff target_status_def
      list_all_iff list_ex_iff stops_of_def[symmetric])

text \<open>Delivering one more stop of a delivery that evaluates to completed completes it again.\<close>

lemma eval_override:
  assumes "evaluateDeliveryCompletion i ss = Eligible COMPLETED"
  shows "override_completes i (update_row stp_id j (pod_row now) ss)"
proof -
  from assms have all: "\<forall>s \<in> set (stops_of i ss). terminal_stop (stp_status s)"
    and ex: "\<exists>s \<in> set (stops_of i ss). stp_status s = S_DELIVERED"
    by (auto simp: evaluate_Eligible_iff target_status_def split: if_splits)
  from all have "\<forall>s \<in> set (update_row stp_id j (pod_row now) (stops_of i ss)). terminal_stop (stp_status s)"
    by (auto simp: set_update_row row_defs terminal_stop_def)
  moreover obtain s where s: "s \<in> set (stops_of i ss)" "stp_status s = S_DELIVERED"
    using ex by blast
  let ?s = "if stp_id s = j then pod_row now s else s"
  have "?s \<in> set (update_row stp_id j (pod_row now) (stops_of i ss))" "stp_status ?s = S_DELIVERED"
    using s by (auto simp: set_update_row row_defs)
  then have "\<exists>s \<in> set (update_row stp_id j (pod_row now) (stops_of i ss)). stp_status s = S_DELIVERED"
    by blast
  ultimately show ?thesis
    by (simp add: override_completes_def Let_def list_all_iff list_ex_iff stops_of_def[symmetric]
        stops_of_update[OF pod_row_keeps])
qed

section \<open>The steps keep the invariants\<close>

lemma parent_open_status:
  "parent_open ds s \<Longrightarrow> find_row dlv_id (stp_deliveryId s) ds = Some d \<Longrightarrow> \<not> terminal_delivery (dlv_status d)"
  by (simp add: parent_open_def)

lemma unique_upsert:
  "unique_keys pod_deliveryStopId ps \<Longrightarrow>
   unique_keys pod_deliveryStopId (upsert_pod podId j receiver photo u now ps)"
  by (auto simp: upsert_pod_def Let_def map_key_update_row find_row_None_iff_keys)

lemma core_step_keys: "core_step c c' \<Longrightarrow> keys_ok c \<Longrightarrow> tickets_ok c \<Longrightarrow> keys_ok c'"
proof (induction rule: core_step.induct)
  case (drafted d c ss)
  then show ?case
    by (auto simp: keys_ok_def find_row_None_iff_keys find_row_append split: option.splits)
next
  case (moved i c d f)
  then show ?case
    by (auto simp: keys_ok_def map_key_update_row find_row_update_row)
next
  case (annotated f c i)
  then show ?case
    by (auto simp: keys_ok_def map_key_update_row find_row_update_row)
next
  case (renumbered f c j)
  then show ?case
    by (auto simp: keys_ok_def map_key_update_row set_update_row)
next
  case (finished i c d t now)
  then show ?case
    by (auto simp: keys_ok_def map_key_update_row find_row_update_row finish_row_id)
next
  case (stop_moved j c s f)
  then show ?case
    by (auto simp: keys_ok_def map_key_update_row set_update_row)
next
  case (delivered j c s p now)
  then show ?case
    by (auto simp: keys_ok_def map_key_update_row set_update_row pod_row_keeps find_row_None_iff_keys)
next
  case (ticketed j c s d t)
  then show ?case by (simp add: keys_ok_def)
next
  case (resolved f k c)
  then show ?case by (simp add: keys_ok_def)
next
  case (overridden t c j s ss now ds ps podId receiver photo u)
  have "find_row dlv_id i ds = None \<longleftrightarrow> find_row dlv_id i (c_deliveries c) = None" for i
    using overridden(5) by (simp add: find_row_update_row finish_row_id)
  moreover have "unique_keys dlv_id ds" using overridden
    by (auto simp: keys_ok_def map_key_update_row finish_row_id)
  ultimately show ?case
    using overridden
    by (auto simp: keys_ok_def map_key_update_row set_update_row pod_row_keeps unique_upsert)
qed

lemma core_step_verdict:
  "core_step c c' \<Longrightarrow> keys_ok c \<Longrightarrow> tickets_ok c \<Longrightarrow> verdict_ok c \<Longrightarrow> verdict_ok c'"
proof (induction rule: core_step.induct)
  case (drafted d c ss)
  have old: "evaluateDeliveryCompletion i (c_stops c @ ss) = evaluateDeliveryCompletion i (c_stops c)"
    if "i \<noteq> dlv_id d" for i
    using drafted(3) that by (intro evaluate_cong) (simp add: stops_of_append stops_of_fresh)
  show ?case
    unfolding verdict_ok_def
  proof (intro allI impI)
    fix i e
    let ?c' = "c\<lparr>c_deliveries := c_deliveries c @ [d], c_stops := c_stops c @ ss\<rparr>"
    assume "find_row dlv_id i (c_deliveries ?c') = Some e" "dlv_status e \<in> {COMPLETED, FAILED}"
    then have "find_row dlv_id i (c_deliveries c) = Some e" "i \<noteq> dlv_id d"
      using drafted(1,2) by (auto simp: find_row_append split: option.splits if_splits)
    then show "evaluateDeliveryCompletion i (c_stops ?c') = Eligible (dlv_status e)"
      using drafted.prems(3) \<open>dlv_status e \<in> _\<close> old by (auto simp: verdict_ok_def)
  qed
next
  case (moved i c d f)
  then show ?case
    by (auto simp: verdict_ok_def find_row_update_row)
next
  case (annotated f c i)
  then show ?case
    by (auto simp: verdict_ok_def find_row_update_row split: if_splits)
next
  case (renumbered f c j)
  then have "evaluateDeliveryCompletion i (update_row stp_id j f (c_stops c)) = Eligible t \<longleftrightarrow>
      evaluateDeliveryCompletion i (c_stops c) = Eligible t" for i t
    by (intro evaluate_statuses) (simp add: stops_of_update map_key_update_row)
  with renumbered.prems(3) show ?case
    by (auto simp: verdict_ok_def)
next
  case (finished i c d t now)
  then show ?case
    by (auto simp: verdict_ok_def find_row_update_row finish_row_id row_defs)
next
  case (stop_moved j c s f)
  have same: "evaluateDeliveryCompletion i (update_row stp_id j f (c_stops c)) =
      evaluateDeliveryCompletion i (c_stops c)"
    if "find_row dlv_id i (c_deliveries c) = Some d" "dlv_status d \<in> {COMPLETED, FAILED}" for i d
  proof (rule evaluate_cong, rule stops_of_update_other)
    show "stp_deliveryId s \<noteq> i"
      using parent_open_status[OF stop_moved(2)] that by (auto simp: terminal_delivery_def)
  qed (use stop_moved in \<open>auto simp: keys_ok_def\<close>)
  with stop_moved show ?case
    by (auto simp: verdict_ok_def)
next
  case (delivered j c s p now)
  have same: "evaluateDeliveryCompletion i (update_row stp_id j (pod_row now) (c_stops c)) =
      evaluateDeliveryCompletion i (c_stops c)"
    if "find_row dlv_id i (c_deliveries c) = Some d" "dlv_status d \<in> {COMPLETED, FAILED}" for i d
  proof (rule evaluate_cong, rule stops_of_update_other[OF pod_row_keeps])
    show "stp_deliveryId s \<noteq> i"
      using parent_open_status[OF delivered(2)] that by (auto simp: terminal_delivery_def)
  qed (use delivered in \<open>auto simp: keys_ok_def\<close>)
  with delivered show ?case
    by (auto simp: verdict_ok_def)
next
  case (ticketed j c s d t)
  then show ?case by (simp add: verdict_ok_def)
next
  case (resolved f k c)
  then show ?case by (simp add: verdict_ok_def)
next
  case (overridden t c j s ss now ds ps podId receiver photo u)
  let ?D = "cfl_deliveryId t"
  from overridden have own: "stp_deliveryId s = ?D"
    by (auto simp: tickets_ok_def)
  obtain D where D: "find_row dlv_id ?D (c_deliveries c) = Some D" "dlv_status D \<in> {CANCELLED, COMPLETED}"
    using overridden by (auto simp: tickets_ok_def)
  have other: "stops_of i ss = stops_of i (c_stops c)" if "i \<noteq> ?D" for i
    unfolding overridden(4)
    by (rule stops_of_update_other[OF pod_row_keeps])
      (use overridden own that in \<open>auto simp: keys_ok_def\<close>)
  have mine: "override_completes ?D ss" if "dlv_status D = COMPLETED"
    unfolding overridden(4)
    by (rule eval_override) (use overridden D that in \<open>auto simp: verdict_ok_def\<close>)
  show ?case
    unfolding verdict_ok_def
  proof (intro allI impI)
    fix i d
    assume fd: "find_row dlv_id i (c_deliveries (c\<lparr>c_deliveries := ds, c_stops := ss, c_proofs := ps\<rparr>)) = Some d"
      and st: "dlv_status d \<in> {COMPLETED, FAILED}"
    show "evaluateDeliveryCompletion i (c_stops (c\<lparr>c_deliveries := ds, c_stops := ss, c_proofs := ps\<rparr>))
        = Eligible (dlv_status d)"
    proof (cases "i = ?D")
      case True
      have "override_completes ?D ss \<and> dlv_status d = COMPLETED"
        using fd st D mine overridden(5) True
        by (auto simp: find_row_update_row finish_row_id row_defs split: if_splits)
      with True show ?thesis by (simp add: override_completes_eval)
    next
      case False
      then have "find_row dlv_id i (c_deliveries c) = Some d"
        using fd overridden(5) by (auto simp: find_row_update_row finish_row_id split: if_splits)
      with overridden.prems(3) st evaluate_cong[OF other[OF False]] show ?thesis
        by (auto simp: verdict_ok_def)
    qed
  qed
qed

lemma core_step_proofs: "core_step c c' \<Longrightarrow> keys_ok c \<Longrightarrow> proofs_ok c \<Longrightarrow> proofs_ok c'"
proof (induction rule: core_step.induct)
  case (drafted d c ss)
  then show ?case by (fastforce simp: proofs_ok_def find_row_append)
next
  case (moved i c d f)
  then show ?case by (simp add: proofs_ok_def)
next
  case (annotated f c i)
  then show ?case by (simp add: proofs_ok_def)
next
  case (renumbered f c j)
  then show ?case by (fastforce simp: proofs_ok_def find_row_update_row)
next
  case (finished i c d t now)
  then show ?case by (simp add: proofs_ok_def)
next
  case (stop_moved j c s f)
  have "stp_status s \<noteq> S_DELIVERED"
    using stop_moved(4) by auto
  with stop_moved show ?case
    by (fastforce simp: proofs_ok_def find_row_update_row)
next
  case (delivered j c s p now)
  then show ?case
    by (fastforce simp: proofs_ok_def find_row_update_row pod_row_keeps row_defs)
next
  case (ticketed j c s d t)
  then show ?case by (simp add: proofs_ok_def)
next
  case (resolved f k c)
  then show ?case by (simp add: proofs_ok_def)
next
  case (overridden t c j s ss now ds ps podId receiver photo u)
  have old: "\<exists>r. find_row stp_id k ss = Some r \<and> stp_status r = S_DELIVERED"
    if "k = j \<or> (\<exists>r. find_row stp_id k (c_stops c) = Some r \<and> stp_status r = S_DELIVERED)" for k
    using that overridden(3,4) by (auto simp: find_row_update_row pod_row_keeps row_defs)
  have "pod_deliveryStopId p = j \<or> p \<in> set (c_proofs c)" if "p \<in> set ps" for p
    using overridden(6) that
    by (auto simp: upsert_pod_def Let_def set_update_row split: if_splits)
  with old overridden.prems(2) show ?case unfolding proofs_ok_def by (simp, metis)
qed

lemma core_step_tickets: "core_step c c' \<Longrightarrow> keys_ok c \<Longrightarrow> tickets_ok c \<Longrightarrow> tickets_ok c'"
proof (induction rule: core_step.induct)
  case (drafted d c ss)
  then show ?case by (fastforce simp: tickets_ok_def find_row_append)
next
  case (moved i c d f)
  have "\<not> terminal_delivery (dlv_status d)"
    using moved(3) by (auto simp: terminal_delivery_def)
  then have "dlv_status d \<notin> {CANCELLED, COMPLETED}"
    by (simp add: terminal_delivery_def)
  then have "\<exists>e'. find_row dlv_id k (update_row dlv_id i f (c_deliveries c)) = Some e' \<and>
      dlv_status e' \<in> {CANCELLED, COMPLETED}"
    if "find_row dlv_id k (c_deliveries c) = Some e" "dlv_status e \<in> {CANCELLED, COMPLETED}" for k e
    using that moved(1,2) by (auto simp: find_row_update_row)
  with moved.prems(2) show ?case
    unfolding tickets_ok_def by (simp, metis)
next
  case (annotated f c i)
  then show ?case by (fastforce simp: tickets_ok_def find_row_update_row)
next
  case (renumbered f c j)
  then show ?case by (fastforce simp: tickets_ok_def find_row_update_row)
next
  case (finished i c d t now)
  then show ?case
    by (fastforce simp: tickets_ok_def find_row_update_row finish_row_id)
next
  case (stop_moved j c s f)
  then show ?case by (fastforce simp: tickets_ok_def find_row_update_row)
next
  case (delivered j c s p now)
  then show ?case by (fastforce simp: tickets_ok_def find_row_update_row pod_row_keeps)
next
  case (ticketed j c s d t)
  then have "dlv_id d = stp_deliveryId s" by (auto dest: find_row_SomeD)
  with ticketed show ?case by (auto simp: tickets_ok_def)
next
  case (resolved f k c)
  have "ticket_stop (f r) = ticket_stop r" for r
    using resolved(1) by (simp add: ticket_stop_def evidence_def)
  with resolved show ?case
    by (auto simp: tickets_ok_def set_update_row)
next
  case (overridden t c j s ss now ds ps podId receiver photo u)
  have d: "\<exists>d'. find_row dlv_id i ds = Some d' \<and> dlv_status d' \<in> {CANCELLED, COMPLETED}"
    if "find_row dlv_id i (c_deliveries c) = Some d" "dlv_status d \<in> {CANCELLED, COMPLETED}" for i d
    using that overridden(5) by (auto simp: find_row_update_row finish_row_id row_defs)
  have "\<exists>r'. find_row stp_id k ss = Some r' \<and> stp_deliveryId r' = stp_deliveryId r"
    if "find_row stp_id k (c_stops c) = Some r" for k r
    using that overridden(4) by (auto simp: find_row_update_row pod_row_keeps)
  with d overridden.prems(2) show ?case
    unfolding tickets_ok_def by (simp, metis)
qed

lemma core_step_inv: "core_step c c' \<Longrightarrow> core_inv c \<Longrightarrow> core_inv c'"
  unfolding core_inv_def
  using core_step_keys core_step_verdict core_step_proofs core_step_tickets by blast

lemma core_steps_inv: "core_step\<^sup>*\<^sup>* c c' \<Longrightarrow> core_inv c \<Longrightarrow> core_inv c'"
  by (induction rule: rtranclp_induct) (auto intro: core_step_inv)

section \<open>Statuses along a run\<close>

text \<open>
  The one edge that leaves a terminal status is the operator's override of a cancelled delivery.
\<close>

definition core_edge :: "delivery_status \<Rightarrow> delivery_status \<Rightarrow> bool" where
  "core_edge s t \<longleftrightarrow> delivery_edge s t \<or> (s = CANCELLED \<and> t = COMPLETED)"

text \<open>An override may deliver a stop from any status: it accepts the evidence.\<close>

definition core_stop_edge :: "stop_status \<Rightarrow> stop_status \<Rightarrow> bool" where
  "core_stop_edge s t \<longleftrightarrow> stop_edge s t \<or> t = S_DELIVERED"

interpretation settled_graph: status_graph core_edge "\<lambda>s. s \<in> {COMPLETED, FAILED}"
  by unfold_locales (auto simp: core_edge_def)

interpretation delivered_graph: status_graph core_stop_edge "\<lambda>s. s = S_DELIVERED"
  by unfold_locales (auto simp: core_stop_edge_def)

lemma core_step_deliveries:
  "core_step c c' \<Longrightarrow> core_inv c \<Longrightarrow> table_step dlv_id dlv_status core_edge (c_deliveries c) (c_deliveries c')"
proof (induction rule: core_step.induct)
  case (finished i c d t now)
  then show ?case
    by (auto intro!: table_step_update_row dest!: evaluate_target
        simp: finish_row_id row_defs core_edge_def target_status_def split: if_splits)
next
  case (overridden t c j s ss now ds ps podId receiver photo u)
  then show ?case
    by (auto intro!: table_step_update_row simp: core_inv_def tickets_ok_def finish_row_id row_defs core_edge_def)
qed (auto intro!: table_step_append table_step_update_row simp: core_edge_def)

lemma core_step_stops:
  "core_step c c' \<Longrightarrow> table_step stp_id stp_status core_stop_edge (c_stops c) (c_stops c')"
proof (induction rule: core_step.induct)
  case (delivered j c s p now)
  then show ?case
    by (auto intro!: table_step_update_row simp: pod_row_keeps row_defs core_stop_edge_def)
next
  case (overridden t c j s ss now ds ps podId receiver photo u)
  then show ?case
    by (auto intro!: table_step_update_row simp: pod_row_keeps row_defs core_stop_edge_def)
qed (auto intro!: table_step_append table_step_update_row simp: core_stop_edge_def)

lemma core_steps_deliveries:
  "core_step\<^sup>*\<^sup>* c c' \<Longrightarrow> core_inv c \<Longrightarrow>
   core_inv c' \<and> table_run dlv_id dlv_status core_edge (c_deliveries c) (c_deliveries c')"
  by (induction rule: rtranclp_induct)
    (auto intro: core_step_inv table_run_trans table_step_run core_step_deliveries)

lemma core_steps_stops:
  "core_step\<^sup>*\<^sup>* c c' \<Longrightarrow> table_run stp_id stp_status core_stop_edge (c_stops c) (c_stops c')"
  by (induction rule: rtranclp_induct) (auto intro: table_run_trans table_step_run core_step_stops)

end
