(* ===== verification/Refinement.thy ===== *)
theory Refinement
  imports Lifecycle
begin

text \<open>
  The requests of the delivery core and the refinement: every request, executed by the handler of
  the code, takes the abstract state along a run of \<open>core_step\<close>.  The invariants and the status
  results of \<open>Lifecycle\<close> therefore hold of every state the service can reach.
\<close>

section \<open>The abstraction\<close>

lemma core_of_sel [simp]:
  "c_deliveries (core_of w) = deliveries w"
  "c_stops (core_of w) = deliveryStops w"
  "c_proofs (core_of w) = proofs w"
  "c_conflicts (core_of w) = conflicts w"
  by (simp_all add: core_of_def)

lemma core_of_cong:
  "deliveries w' = deliveries w \<Longrightarrow> deliveryStops w' = deliveryStops w \<Longrightarrow> proofs w' = proofs w \<Longrightarrow>
   conflicts w' = conflicts w \<Longrightarrow> core_of w' = core_of w"
  by (simp add: core_of_def)

lemma core_of_frame [simp]:
  "core_of (emit es w) = core_of w"
  "core_of (add_audit a w) = core_of w"
  "core_of (add_event e w) = core_of w"
  "core_of (broadcastStatusChanged i st act w) = core_of w"
  "core_of (broadcastStopStatusChanged i j ss act w) = core_of w"
  "core_of (broadcastPodCreated i j p act w) = core_of w"
  by (simp_all add: core_of_def)

lemma core_of_update [simp]:
  "core_of (w\<lparr>deliveries := ds\<rparr>) = (core_of w)\<lparr>c_deliveries := ds\<rparr>"
  "core_of (w\<lparr>deliveryStops := ss\<rparr>) = (core_of w)\<lparr>c_stops := ss\<rparr>"
  "core_of (w\<lparr>proofs := ps\<rparr>) = (core_of w)\<lparr>c_proofs := ps\<rparr>"
  "core_of (w\<lparr>conflicts := cs\<rparr>) = (core_of w)\<lparr>c_conflicts := cs\<rparr>"
  "core_of (w\<lparr>deliveryItems := it\<rparr>) = core_of w"
  "core_of (w\<lparr>idempotencyRecords := rs\<rparr>) = core_of w"
  by (simp_all add: core_of_def)

abbreviation steps_to :: "world \<Rightarrow> world \<Rightarrow> bool" where
  "steps_to w w' \<equiv> core_step\<^sup>*\<^sup>* (core_of w) (core_of w')"

lemma inv_keys:
  assumes "core_inv (core_of w)"
  shows "unique_keys dlv_id (deliveries w)" "unique_keys stp_id (deliveryStops w)"
    "unique_keys pod_deliveryStopId (proofs w)"
  using assms by (auto simp: core_inv_def keys_ok_def)

section \<open>The delivery handlers\<close>

lemma insert_stops_result:
  "insert_stops i ids n dtos ss = Inr ss' \<Longrightarrow>
   \<exists>new. ss' = ss @ new \<and> map stp_id new = map ids [n..<n + length dtos] \<and>
     (\<forall>s \<in> set new. stp_deliveryId s = i \<and> stp_status s = S_PENDING)"
proof (induction dtos arbitrary: n ss)
  case Nil
  then show ?case by simp
next
  case (Cons d dtos)
  let ?s = "new_stop (ids n) i d"
  from Cons.prems have "insert_stops i ids (Suc n) dtos (ss @ [?s]) = Inr ss'"
    by (auto simp: insert_stop_def split: sum.splits if_splits)
  from Cons.IH[OF this] obtain new where
    "ss' = (ss @ [?s]) @ new" "map stp_id new = map ids [Suc n..<Suc n + length dtos]"
    "\<forall>s \<in> set new. stp_deliveryId s = i \<and> stp_status s = S_PENDING" by blast
  moreover have "[n..<n + length (d # dtos)] = n # [Suc n..<Suc n + length dtos]"
    by (simp add: upt_conv_Cons del: upt_Suc)
  ultimately show ?case
    by (intro exI[of _ "?s # new"]) (simp add: new_stop_def del: upt_Suc)
qed

definition fresh_ids :: "(nat \<Rightarrow> uuid) \<Rightarrow> world \<Rightarrow> bool" where
  "fresh_ids ids w \<longleftrightarrow> inj ids \<and> find_row dlv_id (ids 0) (deliveries w) = None \<and>
     (\<forall>n. find_row stp_id (ids n) (deliveryStops w) = None)"

lemma create_steps:
  assumes "core_inv (core_of w)" "fresh_ids ids w"
  shows "steps_to w (snd (createDelivery dto u ids w))"
proof -
  let ?d = "new_delivery (ids 0) dto u"
  have did: "dlv_id ?d = ids 0" by (simp add: new_delivery_def)
  show ?thesis
  proof (cases "find_row dlv_code (cd_deliveryCode dto) (deliveries w) = None")
    case True
    show ?thesis
    proof (cases "insert_stops (ids 0) ids 1 (cd_stops dto) (deliveryStops w)")
      case (Inl e)
      with True show ?thesis by (simp add: createDelivery_def did)
    next
      case (Inr ss)
      from insert_stops_result[OF this] obtain new where new: "ss = deliveryStops w @ new"
        "map stp_id new = map ids [1..<1 + length (cd_stops dto)]"
        "\<forall>s \<in> set new. stp_deliveryId s = ids 0 \<and> stp_status s = S_PENDING" by blast
      have "set (map stp_id (deliveryStops w)) \<inter> range ids = {}"
        using assms(2) by (auto simp: fresh_ids_def find_row_None_iff)
      moreover have "distinct (map stp_id new)" "set (map stp_id new) \<subseteq> range ids"
        using assms(2) by (auto simp only: new(2) fresh_ids_def distinct_map set_map distinct_upt intro: inj_on_subset)
      ultimately have "unique_keys stp_id (deliveryStops w @ new)"
        using inv_keys(2)[OF assms(1)] by (simp only: map_append distinct_append) blast
      then have "core_step (core_of w) ((core_of w)\<lparr>c_deliveries := deliveries w @ [?d],
          c_stops := deliveryStops w @ new\<rparr>)"
        using core_step.drafted[of ?d "core_of w" new] assms(2) new(3)
        by (simp add: did fresh_ids_def new_delivery_def)
      moreover have "core_of (snd (createDelivery dto u ids w)) =
          (core_of w)\<lparr>c_deliveries := deliveries w @ [?d], c_stops := deliveryStops w @ new\<rparr>"
        using True Inr new(1) by (simp add: createDelivery_def did Let_def core_of_def)
      ultimately show ?thesis by auto
    qed
  qed (auto simp: createDelivery_def)
qed

lemma assign_steps: "steps_to w (snd (assignDelivery i dto actor w))"
proof (cases "assignDelivery_guard i dto actor w")
  case (Inl e)
  then show ?thesis by (simp add: assignDelivery_def)
next
  case (Inr d)
  note g = assign_guard_status[OF this]
  have "core_step (core_of w) ((core_of w)\<lparr>c_deliveries := update_row dlv_id i (assign_row dto) (deliveries w)\<rparr>)"
    using core_step.moved[of i "core_of w" d "assign_row dto"] g by (auto simp: row_defs)
  with Inr g show ?thesis
    by (auto simp: assignDelivery_def assignDelivery_write_def write_delivery_def)
qed

lemma accept_steps: "steps_to w (snd (acceptDelivery i drv u w))"
proof (cases "driver_guard i drv ASSIGNED w")
  case (Inl e)
  then show ?thesis by (simp add: acceptDelivery_def)
next
  case (Inr d)
  note g = driver_guard_status[OF this]
  have "core_step (core_of w) ((core_of w)\<lparr>c_deliveries := update_row dlv_id i accept_row (deliveries w)\<rparr>)"
    using core_step.moved[of i "core_of w" d accept_row] g by (auto simp: row_defs)
  with Inr g show ?thesis
    by (auto simp: acceptDelivery_def acceptDelivery_write_def write_delivery_def)
qed

lemma start_steps: "steps_to w (snd (startDelivery i drv u now w))"
proof (cases "driver_guard i drv ACCEPTED w")
  case (Inl e)
  then show ?thesis by (simp add: startDelivery_def)
next
  case (Inr d)
  note g = driver_guard_status[OF this]
  have "core_step (core_of w) ((core_of w)\<lparr>c_deliveries := update_row dlv_id i (start_row now) (deliveries w)\<rparr>)"
    using core_step.moved[of i "core_of w" d "start_row now"] g by (auto simp: row_defs)
  with Inr g show ?thesis
    by (auto simp: startDelivery_def startDelivery_write_def write_delivery_def)
qed

lemma complete_steps:
  assumes "core_inv (core_of w)"
  shows "steps_to w (snd (completeDelivery i actor now w))"
proof -
  have "steps_to w (snd (completeDelivery_tx i actor now w))"
    using inv_keys(1)[OF assms]
  proof (cases rule: complete_tx_cases[of w i actor now])
    case (committed d t w')
    then have "core_step (core_of w) ((core_of w)\<lparr>c_deliveries := update_row dlv_id i (finish_row t now) (deliveries w)\<rparr>)"
      using core_step.finished[of i "core_of w" d t now] by simp
    with committed show ?thesis by auto
  qed auto
  then show ?thesis
    by (auto simp: completeDelivery_def split: sum.splits prod.splits)
qed

lemma cancel_steps:
  assumes "core_inv (core_of w)"
  shows "steps_to w (snd (cancelDelivery i reason actor w))"
proof (cases "\<exists>d. find_row dlv_id i (deliveries w) = Some d \<and> is_open d")
  case True
  then obtain d where d: "find_row dlv_id i (deliveries w) = Some d" "is_open d" by blast
  then have "core_step (core_of w) ((core_of w)\<lparr>c_deliveries := update_row dlv_id i cancel_row (deliveries w)\<rparr>)"
    using core_step.moved[of i "core_of w" d cancel_row] cancelling.take_edge[of d]
    by (simp add: cancelling.key_take) (simp add: row_defs)
  with d show ?thesis
    by (auto simp: cancelDelivery_def cancel_tx_eq[OF inv_keys(1)[OF assms]] split: sum.splits)
next
  case False
  then show ?thesis
    by (auto simp: cancelDelivery_def cancel_tx_eq[OF inv_keys(1)[OF assms]]
        split: sum.splits option.splits)
qed

lemma auto_complete_steps:
  assumes "unique_keys dlv_id (deliveries w)"
  shows "steps_to w (completeDeliveryIfEligible i actor now w)"
proof (cases "\<exists>t d. evaluateDeliveryCompletion i (deliveryStops w) = Eligible t \<and>
    find_row dlv_id i (deliveries w) = Some d \<and> is_en_route d")
  case True
  then obtain t d where td: "evaluateDeliveryCompletion i (deliveryStops w) = Eligible t"
    "find_row dlv_id i (deliveries w) = Some d" "is_en_route d" by blast
  then have "core_step (core_of w) ((core_of w)\<lparr>c_deliveries := update_row dlv_id i (finish_row t now) (deliveries w)\<rparr>)"
    using core_step.finished[of i "core_of w" d t now] by simp
  moreover have "core_of (completeDeliveryIfEligible i actor now w) =
      (core_of w)\<lparr>c_deliveries := update_row dlv_id i (finish_row t now) (deliveries w)\<rparr>"
    using td by (simp add: core_of_def auto_complete_deliveries[OF assms])
  ultimately show ?thesis by auto
next
  case False
  then have "core_of (completeDeliveryIfEligible i actor now w) = core_of w"
    by (intro core_of_cong)
      (auto simp: auto_complete_deliveries[OF assms] split: completion.splits option.splits)
  then show ?thesis by simp
qed

section \<open>The stop handlers\<close>

context stop_move begin

lemma move_step:
  assumes "find_row stp_id j (deliveryStops w) = Some s" "stop_open (deliveries w) expected s"
  shows "core_step (core_of w) ((core_of w)\<lparr>c_stops := update_row stp_id j f (deliveryStops w)\<rparr>)"
  using core_step.stop_moved[of j "core_of w" s f] assms moves keeps_id keeps_delivery by simp

end

lemma depart_steps:
  assumes "core_inv (core_of w)"
  shows "steps_to w (snd (departToStop j drv u w))"
  using departing.move_step[of j w]
  by (auto simp: departToStop_eq[OF inv_keys(2)[OF assms]] dest!: depart_guard_open split: sum.split)

lemma arrive_steps:
  assumes "core_inv (core_of w)"
  shows "steps_to w (snd (arriveAtStop j drv u now w))"
  using arriving.move_step[of j w]
  by (auto simp: arriveAtStop_eq[OF inv_keys(2)[OF assms]] dest!: arrive_guard_open split: sum.split)

lemma unload_steps:
  assumes "core_inv (core_of w)"
  shows "steps_to w (snd (startUnloading j drv u w))"
  using unloading.move_step[of j w]
  by (auto simp: startUnloading_eq[OF inv_keys(2)[OF assms]] dest!: unload_guard_open split: sum.split)

lemma fail_steps:
  assumes "core_inv (core_of w)"
  shows "steps_to w (snd (failStop j reason drv u now w))"
proof (cases "failStop_guard j drv w")
  case (Inl e)
  then show ?thesis by (simp add: failStop_eq[OF inv_keys(2)[OF assms]])
next
  case (Inr s)
  let ?w1 = "broadcastStopStatusChanged (stp_deliveryId s) j S_FAILED (driver_actor u drv)
     (add_event (stop_event s ''STOP_FAILED'' u (reason_or ''Stop execution failed'' reason))
       (move_stop j (fail_row now) w))"
  have "core_step (core_of w) (core_of ?w1)"
    using failing.move_step[of j w s now] fail_guard_open[OF Inr] by simp
  moreover have "steps_to ?w1 (completeDeliveryIfEligible (stp_deliveryId s) (driver_actor u drv) now ?w1)"
    by (rule auto_complete_steps) (simp add: inv_keys[OF assms])
  ultimately show ?thesis
    by (simp add: failStop_eq[OF inv_keys(2)[OF assms]] Inr)
qed

lemma skip_steps:
  assumes "core_inv (core_of w)"
  shows "steps_to w (snd (skipStop j reason actor now w))"
proof (cases "skipStop_guard j actor w")
  case (Inl e)
  then show ?thesis by (simp add: skipStop_eq[OF inv_keys(2)[OF assms]])
next
  case (Inr s)
  let ?w1 = "broadcastStopStatusChanged (stp_deliveryId s) j S_SKIPPED actor
     (add_event (stop_event s ''STOP_SKIPPED'' (act_userId actor)
       (reason_or ''Stop skipped by operator'' reason)) (move_stop j skip_row w))"
  have "core_step (core_of w) (core_of ?w1)"
    using skipping.move_step[of j w s] skip_guard_open[OF Inr] by simp
  moreover have "steps_to ?w1 (completeDeliveryIfEligible (stp_deliveryId s) actor now ?w1)"
    by (rule auto_complete_steps) (simp add: inv_keys[OF assms])
  ultimately show ?thesis
    by (simp add: skipStop_eq[OF inv_keys(2)[OF assms]] Inr)
qed

lemma inv_proofs:
  "core_inv (core_of w) \<Longrightarrow> \<forall>p \<in> set (proofs w).
   \<exists>s. find_row stp_id (pod_deliveryStopId p) (deliveryStops w) = Some s \<and> stp_status s = S_DELIVERED"
  by (simp add: core_inv_def proofs_ok_def)

lemma pod_steps:
  assumes "core_inv (core_of w)"
  shows "steps_to w (snd (submitPod j dto actor ep podId now w))"
  using inv_keys(2)[OF assms] inv_proofs[OF assms]
proof (cases rule: submitPod_cases[of w j dto actor ep podId now])
  case (unchanged r)
  then show ?thesis by simp
next
  case (committed s d)
  let ?key = "request_key (sp_idempotencyKey dto) (act_userId actor) ep"
  let ?w1 = "broadcastPodCreated (stp_deliveryId s) j podId actor
     (pod_committed (stp_deliveryId s) j dto (act_userId actor) ?key podId now w)"
  have core1: "core_of ?w1 = (core_of w)\<lparr>c_stops := update_row stp_id j (pod_row now) (deliveryStops w),
      c_proofs := proofs w @ [new_pod podId j dto (act_userId actor) now]\<rparr>"
    by (simp add: core_of_def)
  have "core_step (core_of w) (core_of ?w1)"
    unfolding core1
    using core_step.delivered[of j "core_of w" s "new_pod podId j dto (act_userId actor) now" now]
      verify_stop_found[OF committed(1)] committed(3,4)
    by (auto simp: new_pod_def)
  moreover have "steps_to ?w1 (completeDeliveryIfEligible (stp_deliveryId s) actor now ?w1)"
    by (rule auto_complete_steps) (simp add: inv_keys[OF assms])
  ultimately show ?thesis by (simp add: committed(5))
qed

section \<open>Synchronisation and tickets\<close>

lemma dispatch_steps:
  assumes "core_inv (core_of w)"
  shows "steps_to w (snd (dispatch_event it j drv u podId now w))"
  using depart_steps[OF assms, of j drv u] arrive_steps[OF assms, of j drv u now]
    unload_steps[OF assms, of j drv u]
    pod_steps[OF assms, of j "offline_pod_dto (ob_payload it) it" "driver_actor u drv" podEndpoint podId now]
  by (simp add: dispatch_event_def case_prod_unfold)

text \<open>The evidence of a fresh ticket is the payload that was synchronised.\<close>

lemma ticket_stop_new:
  "jstring (payload_stop (ob_payload it)) = Some j \<Longrightarrow> ticket_stop (new_conflict k i it) = Some j"
  by (cases "ob_payload it")
    (auto simp: ticket_stop_def evidence_def new_conflict_def item_json_def payload_stop_def jor_def jstring_def)

lemma cancelled_stopD:
  "cancelled_stop j w = Some s \<Longrightarrow>
   find_row stp_id j (deliveryStops w) = Some s \<and>
   (\<exists>d. find_row dlv_id (stp_deliveryId s) (deliveries w) = Some d \<and> dlv_status d = CANCELLED)"
  by (auto simp: cancelled_stop_def split: option.splits if_splits)

lemma sync_one_steps:
  assumes "core_inv (core_of w)"
  shows "steps_to w (snd (sync_one it drv u newId now w))"
proof (cases "jstring (payload_stop (ob_payload it))")
  case None
  then show ?thesis by (simp add: sync_one_def Let_def)
next
  case (Some j)
  show ?thesis
  proof (cases "cancelled_stop j w")
    case None
    then show ?thesis
      using Some dispatch_steps[OF assms, of it j drv u newId now]
      by (auto simp: sync_one_def Let_def split: prod.split sum.split)
  next
    case cancelled: (Some s)
    then obtain d where d: "find_row stp_id j (deliveryStops w) = Some s"
      "find_row dlv_id (stp_deliveryId s) (deliveries w) = Some d" "dlv_status d = CANCELLED"
      using cancelled_stopD by blast
    have "core_step (core_of w) ((core_of w)\<lparr>c_conflicts := conflicts w @ [new_conflict newId (stp_deliveryId s) it]\<rparr>)"
      using core_step.ticketed[of j "core_of w" s d "new_conflict newId (stp_deliveryId s) it"] d
        ticket_stop_new[OF Some] find_row_SomeD[OF d(2)]
      by (auto simp: new_conflict_def)
    then show ?thesis
      using Some cancelled by (auto simp: sync_one_def Let_def)
  qed
qed

lemma sync_loop_steps:
  "core_inv (core_of w) \<Longrightarrow> steps_to w (snd (sync_loop its drv u ids n now acc w))"
proof (induction its drv u ids n now acc w rule: sync_loop.induct)
  case (1 drv u ids n now acc w)
  then show ?case by simp
next
  case (2 it its drv u ids n now acked confl w)
  obtain r w1 where one: "sync_one it drv u (ids n) now w = (r, w1)" by fastforce
  have s1: "steps_to w w1"
    using sync_one_steps[OF "2.prems", of it drv u "ids n" now] one by simp
  then have i1: "core_inv (core_of w1)"
    using core_steps_inv "2.prems" by blast
  show ?case
    using "2.IH" one i1 s1 by (cases r) (auto intro: rtranclp_trans)
qed

lemma resolve_steps:
  assumes "core_inv (core_of w)"
  shows "steps_to w (snd (resolveConflict k dto u role podId now w))"
proof (cases "resolveConflict_guard k role w")
  case (Inl e)
  then show ?thesis by (simp add: resolveConflict_def)
next
  case (Inr c)
  then have c: "c \<in> set (conflicts w)" "cfl_id c = k"
    by (auto simp: resolveConflict_guard_def split: if_splits option.splits dest: find_row_SomeD)
  let ?f = "resolve_row dto u now"
  let ?w1 = "w\<lparr>conflicts := update_row cfl_id k ?f (conflicts w)\<rparr>"
  have s1: "core_step (core_of w) (core_of ?w1)"
    using core_step.resolved[of ?f "core_of w" k] by (simp add: resolve_row_def)
  have over: "steps_to w w2"
    if ov: "override_stop c j u podId now ?w1 = Inr w2" and j: "ticket_stop c = Some j" for j w2
  proof -
    let ?c = "resolve_row dto u now c"
    have tc: "?c \<in> set (c_conflicts (core_of ?w1))" "ticket_stop ?c = Some j"
      "cfl_deliveryId ?c = cfl_deliveryId c"
      using c j by (auto simp: set_update_row ticket_stop_def evidence_def resolve_row_def)
    obtain s where "find_row stp_id j (deliveryStops w) = Some s"
      using ov by (auto simp: override_stop_def Let_def split: option.splits)
    let ?ss = "update_row stp_id j (pod_row now) (deliveryStops w)"
    let ?ds = "if override_completes (cfl_deliveryId ?c) ?ss
      then update_row dlv_id (cfl_deliveryId ?c) (finish_row COMPLETED now) (deliveries w) else deliveries w"
    let ?receiver = "jget ''receiverName'' (evidence c)"
    let ?ps = "if jtruthy ?receiver
      then upsert_pod podId j (case jstring ?receiver of None \<Rightarrow> [] | Some n \<Rightarrow> n)
             (or_null (jstring (jget ''photoFileId'' (evidence c)))) u now (proofs w)
      else proofs w"
    have w2: "core_of w2 = (core_of ?w1)\<lparr>c_deliveries := ?ds, c_stops := ?ss, c_proofs := ?ps\<rparr>"
      using ov tc(3) by (auto simp: override_stop_def Let_def core_of_def split: option.splits)
    have "core_step (core_of ?w1) (core_of w2)"
      unfolding w2
      by (rule core_step.overridden[OF tc(1,2), of s])
        (use \<open>find_row stp_id j (deliveryStops w) = Some s\<close> in auto)
    with s1 show ?thesis by (meson converse_rtranclp_into_rtranclp r_into_rtranclp)
  qed
  show ?thesis
    using s1 Inr
    by (auto simp: resolveConflict_def resolveConflict_tx_def Let_def
        intro!: over[unfolded ticket_stop_def] split: sum.splits option.splits if_splits)
qed

end
