(* ===== verification/Geo.thy ===== *)
theory Geo
  imports Prelude
begin

text \<open>
  Geodesy and GPS plausibility checks: \<open>gps-validator.util.ts\<close>.  Coordinates, accuracies and speeds
  are the finite numbers that the request validators let through (\<open>rat\<close>); the haversine formula is
  the formula of the code over the real numbers, without the rounding of floating point.  The
  \<open>typeof\<close> and \<open>isFinite\<close> tests of the code hold of every such number.
\<close>

section \<open>Numbers\<close>

text \<open>\<open>Math.round\<close>: half-way cases go up.\<close>

definition js_round :: "'a::floor_ceiling \<Rightarrow> int" where
  "js_round x = \<lfloor>x + 1 / 2\<rfloor>"

lemma js_round_int [simp]: "js_round (of_int n) = n"
  unfolding js_round_def by (rule floor_unique) simp_all

lemma js_round_0 [simp]: "js_round 0 = 0"
  using js_round_int[of 0] by simp

lemma js_round_mono: "x \<le> y \<Longrightarrow> js_round x \<le> js_round y"
  by (simp add: js_round_def floor_mono)

lemma js_round_nonneg: "0 \<le> x \<Longrightarrow> 0 \<le> js_round x"
  using js_round_mono[of 0 x] by simp

text \<open>\<open>Math.atan2\<close>.\<close>

definition atan2 :: "real \<Rightarrow> real \<Rightarrow> real" where
  "atan2 y x =
     (if 0 < x then arctan (y / x)
      else if x < 0 then (if 0 \<le> y then arctan (y / x) + pi else arctan (y / x) - pi)
      else if 0 < y then pi / 2
      else if y < 0 then - pi / 2
      else 0)"

lemma atan2_first_quadrant:
  assumes "0 \<le> y" and "0 \<le> x"
  shows "0 \<le> atan2 y x \<and> atan2 y x \<le> pi / 2"
proof (cases "x = 0")
  case True
  with assms show ?thesis by (auto simp: atan2_def)
next
  case False
  with assms show ?thesis
    using arctan_ubound[of "y / x"] by (auto simp: atan2_def arctan_less_zero_iff less_imp_le)
qed

section \<open>The haversine distance\<close>

definition earth_radius_m :: real where
  "earth_radius_m = 6371008.8"

definition radians :: "real \<Rightarrow> real" where
  "radians x = x * pi / 180"

definition haversine_a :: "real \<Rightarrow> real \<Rightarrow> real \<Rightarrow> real \<Rightarrow> real" where
  "haversine_a lat1 lng1 lat2 lng2 =
     (let dLat = radians (lat2 - lat1);
          dLng = radians (lng2 - lng1)
      in sin (dLat / 2) * sin (dLat / 2) +
         cos (radians lat1) * cos (radians lat2) * sin (dLng / 2) * sin (dLng / 2))"

definition haversineDistanceMeters :: "rat \<Rightarrow> rat \<Rightarrow> rat \<Rightarrow> rat \<Rightarrow> real" where
  "haversineDistanceMeters lat1 lng1 lat2 lng2 =
     (let a = haversine_a (of_rat lat1) (of_rat lng1) (of_rat lat2) (of_rat lng2);
          c = 2 * atan2 (sqrt a) (sqrt (1 - a))
      in earth_radius_m * c)"

section \<open>Validators\<close>

definition validateCoordinateBounds :: "rat \<Rightarrow> rat \<Rightarrow> bool" where
  "validateCoordinateBounds lat lng \<longleftrightarrow> -90 \<le> lat \<and> lat \<le> 90 \<and> -180 \<le> lng \<and> lng \<le> 180"

definition validateAccuracyThreshold :: "rat \<Rightarrow> rat \<Rightarrow> bool" where
  "validateAccuracyThreshold accuracyM threshold \<longleftrightarrow> 0 < accuracyM \<and> accuracyM \<le> threshold"

text \<open>
  \<open>recordedAt\<close> is the time that \<open>new Date\<close> reads from the ISO string, \<open>None\<close> where the date is
  invalid.  The result is \<open>None\<close> when the point is valid and the reason otherwise.
\<close>

definition validateClockSkew :: "timestamp option \<Rightarrow> timestamp \<Rightarrow> int \<Rightarrow> int \<Rightarrow> string option" where
  "validateClockSkew recordedAt receivedAt futureMarginMs staleMs =
     (case recordedAt of
        None \<Rightarrow> Some ''TIMESTAMP_INVALID''
      | Some recTime \<Rightarrow>
          if receivedAt + futureMarginMs < recTime then Some ''TIMESTAMP_FUTURE''
          else if recTime < receivedAt - staleMs then Some ''TIMESTAMP_STALE''
          else None)"

definition calculateImpliedSpeedMps ::
  "rat \<Rightarrow> rat \<Rightarrow> timestamp \<Rightarrow> rat \<Rightarrow> rat \<Rightarrow> timestamp \<Rightarrow> real" where
  "calculateImpliedSpeedMps prevLat prevLng tPrev newLat newLng tNew =
     (let timeDiffSec = real_of_int (tNew - tPrev) / 1000 in
      if timeDiffSec \<le> 0 then 0
      else haversineDistanceMeters prevLat prevLng newLat newLng / timeDiffSec)"

definition isVelocityAnomaly :: "real \<Rightarrow> real \<Rightarrow> bool" where
  "isVelocityAnomaly speedMps threshold \<longleftrightarrow> threshold < speedMps"

section \<open>Lemmas\<close>

lemma cos_radians_nonneg: "-90 \<le> x \<Longrightarrow> x \<le> 90 \<Longrightarrow> 0 \<le> cos (radians x)"
proof -
  assume b: "-90 \<le> x" "x \<le> 90"
  have "- 90 * pi \<le> x * pi" "x * pi \<le> 90 * pi"
    using b by (auto intro!: mult_right_mono simp del: mult_minus_left)
  then show ?thesis
    unfolding radians_def by (intro cos_ge_zero) simp_all
qed

text \<open>The argument of the square roots lies between 0 and 1 for coordinates in range.\<close>

lemma haversine_a_bounds:
  assumes "-90 \<le> lat1" "lat1 \<le> 90" "-90 \<le> lat2" "lat2 \<le> 90"
  shows "0 \<le> haversine_a lat1 lng1 lat2 lng2 \<and> haversine_a lat1 lng1 lat2 lng2 \<le> 1"
proof -
  define p q where "p = radians lat1" and "q = radians lat2"
  define s where "s = sin (radians (lng2 - lng1) / 2)"
  have dlat: "radians (lat2 - lat1) = q - p"
    by (simp add: p_def q_def radians_def left_diff_distrib diff_divide_distrib)
  have a: "haversine_a lat1 lng1 lat2 lng2 = (sin ((q - p) / 2))\<^sup>2 + cos p * cos q * s\<^sup>2"
    unfolding haversine_a_def Let_def dlat s_def[symmetric] p_def[symmetric] q_def[symmetric]
    by (simp add: power2_eq_square)
  have pq: "0 \<le> cos p * cos q"
    using cos_radians_nonneg assms unfolding p_def q_def by simp
  have s1: "s\<^sup>2 \<le> 1"
    unfolding s_def by (simp add: abs_square_le_1)
  have twice: "2 * ((q - p) / 2) = q - p" by simp
  have "(sin ((q - p) / 2))\<^sup>2 = (1 - cos (q - p)) / 2"
    using cos_double_sin[of "(q - p) / 2", unfolded twice] by simp
  also have "\<dots> = 1 / 2 - (cos p * cos q + sin p * sin q) / 2"
    by (simp add: cos_diff diff_divide_distrib mult.commute)
  finally have half: "(sin ((q - p) / 2))\<^sup>2 + cos p * cos q = (1 + cos (p + q)) / 2"
    by (simp add: cos_add field_simps)
  have "cos p * cos q * s\<^sup>2 \<le> cos p * cos q * 1"
    using pq s1 by (intro mult_left_mono)
  then have "haversine_a lat1 lng1 lat2 lng2 \<le> (1 + cos (p + q)) / 2"
    unfolding a using half by simp
  also have "\<dots> \<le> 1"
    using cos_le_one[of "p + q"] by simp
  finally show ?thesis
    unfolding a using pq by simp
qed

lemma haversine_a_sym: "haversine_a lat1 lng1 lat2 lng2 = haversine_a lat2 lng2 lat1 lng1"
proof -
  have neg: "radians (x - y) / 2 = - (radians (y - x) / 2)" for x y
    by (simp add: radians_def field_simps)
  show ?thesis
    unfolding haversine_a_def Let_def neg[of lat2 lat1] neg[of lng2 lng1] by (simp only: sin_minus) simp
qed

lemma haversine_bounds:
  assumes "validateCoordinateBounds lat1 lng1" and "validateCoordinateBounds lat2 lng2"
  shows "0 \<le> haversineDistanceMeters lat1 lng1 lat2 lng2 \<and>
         haversineDistanceMeters lat1 lng1 lat2 lng2 \<le> pi * earth_radius_m"
proof -
  have r: "-90 \<le> (of_rat x :: real) \<and> (of_rat x :: real) \<le> 90" if "-90 \<le> x" "x \<le> 90" for x :: rat
    using that of_rat_less_eq[of "-90" x, where 'a = real] of_rat_less_eq[of x 90, where 'a = real]
    by (simp add: of_rat_minus)
  let ?a = "haversine_a (of_rat lat1) (of_rat lng1) (of_rat lat2) (of_rat lng2)"
  have "0 \<le> ?a \<and> ?a \<le> 1"
    using assms r by (intro haversine_a_bounds) (auto simp: validateCoordinateBounds_def)
  then have "0 \<le> atan2 (sqrt ?a) (sqrt (1 - ?a)) \<and> atan2 (sqrt ?a) (sqrt (1 - ?a)) \<le> pi / 2"
    by (intro atan2_first_quadrant) simp_all
  then show ?thesis
    by (auto simp: haversineDistanceMeters_def Let_def earth_radius_m_def)
qed

lemma haversine_sym:
  "haversineDistanceMeters lat1 lng1 lat2 lng2 = haversineDistanceMeters lat2 lng2 lat1 lng1"
  by (simp add: haversineDistanceMeters_def Let_def haversine_a_sym[of "of_rat lat1"])

lemma haversine_self [simp]: "haversineDistanceMeters lat lng lat lng = 0"
  by (simp add: haversineDistanceMeters_def haversine_a_def radians_def atan2_def)

lemma clock_skew_valid_iff:
  "validateClockSkew recordedAt receivedAt m s = None \<longleftrightarrow>
     (\<exists>t. recordedAt = Some t \<and> receivedAt - s \<le> t \<and> t \<le> receivedAt + m)"
  by (auto simp: validateClockSkew_def split: option.splits)

end
