(* ===== verification/Tours.thy ===== *)
theory Tours
  imports DataModel Geo "HOL-Library.Product_Lexorder" "HOL-Library.List_Lexorder" "HOL-Library.Char_ord"
    "HOL-Library.Multiset"
begin

text \<open>
  Route optimisation: the two tour solvers (\<open>exhaustive-permutation.util.ts\<close>,
  \<open>nearest-neighbor-2opt.util.ts\<close>), the distance providers with their failover
  (\<open>osrm-routing.provider.ts\<close>, \<open>haversine-routing.provider.ts\<close>, \<open>routing.service.ts\<close>) and
  \<open>route-optimizer.service.ts\<close>.

  Numbers are rationals.  A matrix entry is \<open>None\<close> where the OSRM service answers \<open>null\<close> (no road
  between two points): arithmetic and \<open><\<close> read it as 0, while \<open>===\<close> tells it from 0.  The value
  \<open>Infinity\<close> with which the searches start is \<open>None\<close> around the state of the search.
\<close>

section \<open>Waypoints, matrices, solutions\<close>

record waypoint =
  wp_id :: string
  wp_latitude :: rat
  wp_longitude :: rat

type_synonym matrix = "rat option list list"

datatype provider = OSRM | HAVERSINE_FALLBACK

record distance_matrix =
  dm_distancesMeters :: matrix
  dm_durationsSeconds :: matrix
  dm_provider :: provider

record route_geometry =
  geo_totalDistanceM :: rat
  geo_estimatedDurationS :: rat
  geo_polylineGeojson :: json
  geo_provider :: provider

datatype algorithm = EXHAUSTIVE_PERMUTATION | NEAREST_NEIGHBOR_2OPT

record solution =
  sol_orderedWaypoints :: "waypoint list"
  sol_totalDistanceM :: rat
  sol_estimatedDurationS :: rat
  sol_algorithm :: algorithm
  sol_sequenceMap :: "(nat \<times> string) list"

definition num :: "rat option \<Rightarrow> rat" where
  "num x = (case x of None \<Rightarrow> 0 | Some v \<Rightarrow> v)"

definition leg :: "matrix \<Rightarrow> nat \<Rightarrow> nat \<Rightarrow> rat option" where
  "leg m a b = m ! a ! b"

definition sequence_map :: "waypoint list \<Rightarrow> (nat \<times> string) list" where
  "sequence_map ws = map (\<lambda>(idx, w). (idx + 1, wp_id w)) (enumerate 0 ws)"

definition trivial_solution :: "algorithm \<Rightarrow> waypoint list \<Rightarrow> solution" where
  "trivial_solution alg waypoints =
     \<lparr>sol_orderedWaypoints = waypoints, sol_totalDistanceM = 0, sol_estimatedDurationS = 0,
      sol_algorithm = alg, sol_sequenceMap = sequence_map waypoints\<rparr>"

definition tour_solution :: "algorithm \<Rightarrow> waypoint list \<Rightarrow> nat list \<Rightarrow> rat \<Rightarrow> rat \<Rightarrow> solution" where
  "tour_solution alg waypoints order cost dst =
     (let orderedWaypoints = map (\<lambda>idx. waypoints ! idx) order in
      \<lparr>sol_orderedWaypoints = orderedWaypoints,
       sol_totalDistanceM = of_int (js_round (dst * 100)) / 100,
       sol_estimatedDurationS = of_int (js_round cost),
       sol_algorithm = alg, sol_sequenceMap = sequence_map orderedWaypoints\<rparr>)"

text \<open>The loops that add up the legs of a tour.\<close>

definition computeTourCost :: "nat list \<Rightarrow> matrix \<Rightarrow> rat" where
  "computeTourCost tour m =
     foldl (\<lambda>cost i. cost + num (leg m (tour ! i) (tour ! Suc i))) 0 [0..<length tour - 1]"

section \<open>Exhaustive search\<close>

function generatePermutations :: "'a list \<Rightarrow> 'a list list" where
  "generatePermutations arr =
     (if length arr \<le> 1 then [arr]
      else concat (map (\<lambda>i. map (\<lambda>perm. arr ! i # perm)
                              (generatePermutations (take i arr @ drop (Suc i) arr)))
             [0..<length arr]))"
  by pat_completeness auto
termination by (relation "measure length") auto

declare generatePermutations.simps [simp del]

definition tour_ids :: "waypoint list \<Rightarrow> nat list \<Rightarrow> string" where
  "tour_ids waypoints order = join_with '','' (map (\<lambda>idx. wp_id (waypoints ! idx)) order)"

type_synonym best_tour = "(rat \<times> rat \<times> nat list) option"

definition better_tour :: "waypoint list \<Rightarrow> rat \<Rightarrow> rat \<Rightarrow> nat list \<Rightarrow> best_tour \<Rightarrow> bool" where
  "better_tour waypoints cost dst order best =
     (case best of
        None \<Rightarrow> True
      | Some (bestCost, bestDistance, bestOrder) \<Rightarrow>
          if cost < bestCost then True
          else if cost = bestCost \<and> dst < bestDistance then True
          else if cost = bestCost \<and> dst = bestDistance
          then tour_ids waypoints order < tour_ids waypoints bestOrder
          else False)"

definition exhaustive_step :: "waypoint list \<Rightarrow> matrix \<Rightarrow> matrix \<Rightarrow> best_tour \<Rightarrow> nat list \<Rightarrow> best_tour" where
  "exhaustive_step waypoints dst dur best fullOrder =
     (let cost = computeTourCost fullOrder dur;
          d = computeTourCost fullOrder dst
      in if better_tour waypoints cost d fullOrder best then Some (cost, d, fullOrder) else best)"

definition candidate_orders :: "nat \<Rightarrow> bool \<Rightarrow> nat list list" where
  "candidate_orders n fixedOrigin =
     (if fixedOrigin then map (\<lambda>perm. 0 # perm) (generatePermutations [1..<n])
      else generatePermutations [0..<n])"

definition exhaustive_best :: "waypoint list \<Rightarrow> matrix \<Rightarrow> matrix \<Rightarrow> bool \<Rightarrow> best_tour" where
  "exhaustive_best waypoints dst dur fixedOrigin =
     foldl (exhaustive_step waypoints dst dur) None (candidate_orders (length waypoints) fixedOrigin)"

definition solveExhaustivePermutation :: "waypoint list \<Rightarrow> matrix \<Rightarrow> matrix \<Rightarrow> bool \<Rightarrow> solution" where
  "solveExhaustivePermutation waypoints dst dur fixedOrigin =
     (if length waypoints \<le> 1 then trivial_solution EXHAUSTIVE_PERMUTATION waypoints
      else case exhaustive_best waypoints dst dur fixedOrigin of
             None \<Rightarrow> tour_solution EXHAUSTIVE_PERMUTATION waypoints [] 0 0
           | Some (cost, d, order) \<Rightarrow> tour_solution EXHAUSTIVE_PERMUTATION waypoints order cost d)"

section \<open>Nearest neighbour\<close>

type_synonym nearest = "(nat \<times> rat option \<times> rat option) option"

definition nearer :: "waypoint list \<Rightarrow> nat \<Rightarrow> rat option \<Rightarrow> rat option \<Rightarrow> nearest \<Rightarrow> bool" where
  "nearer waypoints i cost dst best =
     (case best of
        None \<Rightarrow> True
      | Some (nearestNode, minCost, minDist) \<Rightarrow>
          if num cost < num minCost then True
          else if cost = minCost \<and> num dst < num minDist then True
          else if cost = minCost \<and> dst = minDist
          then wp_id (waypoints ! i) < wp_id (waypoints ! nearestNode)
          else False)"

definition nearest_step ::
  "waypoint list \<Rightarrow> matrix \<Rightarrow> matrix \<Rightarrow> nat list \<Rightarrow> nat \<Rightarrow> nearest \<Rightarrow> nat \<Rightarrow> nearest" where
  "nearest_step waypoints dst dur visited lastNode best i =
     (if i \<in> set visited then best
      else let cost = leg dur lastNode i; d = leg dst lastNode i
           in if nearer waypoints i cost d best then Some (i, cost, d) else best)"

definition nearest_node ::
  "waypoint list \<Rightarrow> matrix \<Rightarrow> matrix \<Rightarrow> nat list \<Rightarrow> nat \<Rightarrow> nearest" where
  "nearest_node waypoints dst dur visited lastNode =
     foldl (nearest_step waypoints dst dur visited lastNode) None [0..<length waypoints]"

lemma nearest_fold_cases:
  "foldl (nearest_step waypoints dst dur visited lastNode) best is = Some (k, c, d) \<Longrightarrow>
   best = Some (k, c, d) \<or> (k \<in> set is \<and> k \<notin> set visited \<and> c = leg dur lastNode k)"
proof (induction "is" arbitrary: best)
  case (Cons i "is")
  then have "nearest_step waypoints dst dur visited lastNode best i = Some (k, c, d) \<or>
      (k \<in> set is \<and> k \<notin> set visited \<and> c = leg dur lastNode k)"
    by simp
  then show ?case
    by (auto simp: nearest_step_def Let_def split: if_splits)
qed simp

lemma nearest_node_fresh:
  "nearest_node waypoints dst dur visited lastNode = Some (k, c, d) \<Longrightarrow>
   k < length waypoints \<and> k \<notin> set visited \<and> c = leg dur lastNode k"
  unfolding nearest_node_def using nearest_fold_cases by fastforce

text \<open>
  The construction loop.  \<open>visited\<close> is the JavaScript set of the nodes of the tour; a node enters
  both together and once, so the size of the set is the length of the list.
\<close>

function nearest_tour :: "waypoint list \<Rightarrow> matrix \<Rightarrow> matrix \<Rightarrow> nat list \<Rightarrow> nat list \<Rightarrow> nat list" where
  "nearest_tour waypoints dst dur tour visited =
     (if card (set visited) < length waypoints
      then case nearest_node waypoints dst dur visited (last tour) of
             Some (nearestNode, _, _) \<Rightarrow>
               nearest_tour waypoints dst dur (tour @ [nearestNode]) (visited @ [nearestNode])
           | None \<Rightarrow> tour
      else tour)"
  by pat_completeness auto
termination
  by (relation "measure (\<lambda>(waypoints, _, _, _, visited). length waypoints - card (set visited))")
    (auto dest: nearest_node_fresh)

declare nearest_tour.simps [simp del]

section \<open>2-opt\<close>

definition perform2OptSwap :: "nat list \<Rightarrow> nat \<Rightarrow> nat \<Rightarrow> nat list" where
  "perform2OptSwap route i j =
     take i route @ rev (take (j + 1 - i) (drop i route)) @ drop (j + 1) route"

text \<open>The pairs in the order of the two nested loops; both loops end at the first improvement.\<close>

definition swap_pairs :: "nat \<Rightarrow> nat \<Rightarrow> (nat \<times> nat) list" where
  "swap_pairs startIdx n = concat (map (\<lambda>i. map (\<lambda>j. (i, j)) [i + 1..<n]) [startIdx..<n - 1])"

definition improves :: "matrix \<Rightarrow> rat \<Rightarrow> nat list \<Rightarrow> rat \<Rightarrow> nat \<times> nat \<Rightarrow> bool" where
  "improves dur improvementThreshold currentTour currentCost = (\<lambda>(i, j).
     improvementThreshold < currentCost - computeTourCost (perform2OptSwap currentTour i j) dur)"

fun two_opt_loop :: "matrix \<Rightarrow> nat \<Rightarrow> nat \<Rightarrow> rat \<Rightarrow> nat \<Rightarrow> nat list \<Rightarrow> rat \<Rightarrow> nat list \<times> rat" where
  "two_opt_loop dur startIdx n thr 0 currentTour currentCost = (currentTour, currentCost)"
| "two_opt_loop dur startIdx n thr (Suc iterations) currentTour currentCost =
     (case List.find (improves dur thr currentTour currentCost) (swap_pairs startIdx n) of
        None \<Rightarrow> (currentTour, currentCost)
      | Some (i, j) \<Rightarrow>
          let candidateTour = perform2OptSwap currentTour i j
          in two_opt_loop dur startIdx n thr iterations candidateTour (computeTourCost candidateTour dur))"

definition maxIterations :: nat where
  "maxIterations = 100"

definition improvementThreshold :: rat where
  "improvementThreshold = 1 / 1000"

text \<open>The distance of the current tour is a function of the tour, so it is computed at the end.\<close>

definition solveNearestNeighbor2Opt :: "waypoint list \<Rightarrow> matrix \<Rightarrow> matrix \<Rightarrow> bool \<Rightarrow> solution" where
  "solveNearestNeighbor2Opt waypoints dst dur fixedOrigin =
     (if length waypoints \<le> 1 then trivial_solution NEAREST_NEIGHBOR_2OPT waypoints
      else
        let tour = nearest_tour waypoints dst dur [0] [0];
            startIdx = (if fixedOrigin then 1 else 0);
            (currentTour, currentCost) =
              two_opt_loop dur startIdx (length waypoints) improvementThreshold maxIterations
                tour (computeTourCost tour dur)
        in tour_solution NEAREST_NEIGHBOR_2OPT waypoints currentTour currentCost
             (computeTourCost currentTour dst))"

section \<open>Distance providers\<close>

text \<open>The answer of the OSRM service: the parts of it that the code reads.\<close>

record osrm_table_reply =
  otr_ok :: bool
  otr_code :: string
  otr_distances :: "matrix option"
  otr_durations :: "matrix option"

record osrm_route =
  osr_distance :: rat
  osr_duration :: rat
  osr_geometry :: json

record osrm_route_reply =
  orr_ok :: bool
  orr_code :: string
  orr_routes :: "osrm_route list option"

text \<open>
  The service itself is a parameter: its reply to the coordinates of the waypoints, \<open>None\<close> when
  \<open>fetch\<close> fails, the timeout of 3 seconds aborts it or the body is not JSON.
\<close>

record osrm_service =
  osrm_table :: "waypoint list \<Rightarrow> osrm_table_reply option"
  osrm_route :: "waypoint list \<Rightarrow> osrm_route_reply option"

text \<open>\<open>None\<close>: the provider throws \<open>OSRM_PROVIDER_ERROR\<close>.\<close>

definition osrm_getDistanceMatrix :: "osrm_service \<Rightarrow> waypoint list \<Rightarrow> distance_matrix option" where
  "osrm_getDistanceMatrix osrm waypoints =
     (if length waypoints < 2
      then Some \<lparr>dm_distancesMeters = [[Some 0]], dm_durationsSeconds = [[Some 0]], dm_provider = OSRM\<rparr>
      else case osrm_table osrm waypoints of
             None \<Rightarrow> None
           | Some r \<Rightarrow>
               if \<not> otr_ok r then None
               else if otr_code r \<noteq> ''Ok'' then None
               else (case (otr_distances r, otr_durations r) of
                       (Some dst, Some dur) \<Rightarrow>
                         Some \<lparr>dm_distancesMeters = dst, dm_durationsSeconds = dur, dm_provider = OSRM\<rparr>
                     | _ \<Rightarrow> None))"

definition line_string :: "waypoint list \<Rightarrow> json" where
  "line_string waypoints =
     JObj [(''type'', JStr ''LineString''),
           (''coordinates'', JList (map (\<lambda>w. JList [JNum (wp_longitude w), JNum (wp_latitude w)]) waypoints))]"

definition osrm_getRouteGeometry :: "osrm_service \<Rightarrow> waypoint list \<Rightarrow> route_geometry option" where
  "osrm_getRouteGeometry osrm waypoints =
     (if length waypoints < 2
      then Some \<lparr>geo_totalDistanceM = 0, geo_estimatedDurationS = 0,
                 geo_polylineGeojson = line_string waypoints, geo_provider = OSRM\<rparr>
      else case osrm_route osrm waypoints of
             None \<Rightarrow> None
           | Some r \<Rightarrow>
               if \<not> orr_ok r then None
               else if orr_code r \<noteq> ''Ok'' then None
               else (case orr_routes r of
                       Some (rt # _) \<Rightarrow>
                         Some \<lparr>geo_totalDistanceM = of_int (js_round (osr_distance rt * 100)) / 100,
                               geo_estimatedDurationS = of_int (js_round (osr_duration rt)),
                               geo_polylineGeojson = osr_geometry rt, geo_provider = OSRM\<rparr>
                     | _ \<Rightarrow> None))"

definition averageSpeedMps :: rat where
  "averageSpeedMps = 8333 / 1000"

definition waypoint_distance :: "waypoint \<Rightarrow> waypoint \<Rightarrow> real" where
  "waypoint_distance a b =
     haversineDistanceMeters (wp_latitude a) (wp_longitude a) (wp_latitude b) (wp_longitude b)"

definition haversine_matrix :: "waypoint list \<Rightarrow> (real \<Rightarrow> rat) \<Rightarrow> matrix" where
  "haversine_matrix waypoints f =
     map (\<lambda>i. map (\<lambda>j. Some (if i = j then 0 else f (waypoint_distance (waypoints ! i) (waypoints ! j))))
            [0..<length waypoints]) [0..<length waypoints]"

definition haversine_getDistanceMatrix :: "waypoint list \<Rightarrow> distance_matrix" where
  "haversine_getDistanceMatrix waypoints =
     \<lparr>dm_distancesMeters = haversine_matrix waypoints (\<lambda>d. of_int (js_round (d * 100)) / 100),
      dm_durationsSeconds = haversine_matrix waypoints (\<lambda>d. of_int (js_round (d / of_rat averageSpeedMps))),
      dm_provider = HAVERSINE_FALLBACK\<rparr>"

fun path_length :: "waypoint list \<Rightarrow> real" where
  "path_length (a # b # ws) = waypoint_distance a b + path_length (b # ws)"
| "path_length _ = 0"

definition haversine_getRouteGeometry :: "waypoint list \<Rightarrow> route_geometry" where
  "haversine_getRouteGeometry waypoints =
     (let totalDistanceM = of_int (js_round (path_length waypoints * 100)) / 100 in
      \<lparr>geo_totalDistanceM = totalDistanceM,
       geo_estimatedDurationS = of_int (js_round (totalDistanceM / averageSpeedMps)),
       geo_polylineGeojson = line_string waypoints, geo_provider = HAVERSINE_FALLBACK\<rparr>)"

section \<open>Failover and the optimiser\<close>

datatype preferred = PreferOsrm | PreferHaversine

definition getDistanceMatrix :: "osrm_service \<Rightarrow> waypoint list \<Rightarrow> preferred option \<Rightarrow> distance_matrix" where
  "getDistanceMatrix osrm waypoints preferredProvider =
     (if preferredProvider = Some PreferHaversine then haversine_getDistanceMatrix waypoints
      else case osrm_getDistanceMatrix osrm waypoints of
             Some m \<Rightarrow> m
           | None \<Rightarrow> haversine_getDistanceMatrix waypoints)"

definition getRouteGeometry :: "osrm_service \<Rightarrow> waypoint list \<Rightarrow> preferred option \<Rightarrow> route_geometry" where
  "getRouteGeometry osrm waypoints preferredProvider =
     (if preferredProvider = Some PreferHaversine then haversine_getRouteGeometry waypoints
      else case osrm_getRouteGeometry osrm waypoints of
             Some g \<Rightarrow> g
           | None \<Rightarrow> haversine_getRouteGeometry waypoints)"

record optimization =
  opt_solution :: solution
  opt_providerUsed :: provider
  opt_geometry :: "route_geometry option"

definition optimizeRoute ::
  "osrm_service \<Rightarrow> waypoint list \<Rightarrow> preferred option \<Rightarrow> bool \<Rightarrow> optimization" where
  "optimizeRoute osrm waypoints preferredProvider fixedOrigin =
     (if length waypoints \<le> 1
      then \<lparr>opt_solution = trivial_solution EXHAUSTIVE_PERMUTATION waypoints,
            opt_providerUsed = HAVERSINE_FALLBACK, opt_geometry = None\<rparr>
      else
        let m = getDistanceMatrix osrm waypoints preferredProvider;
            s = (if length waypoints \<le> 5
                 then solveExhaustivePermutation waypoints (dm_distancesMeters m) (dm_durationsSeconds m) fixedOrigin
                 else solveNearestNeighbor2Opt waypoints (dm_distancesMeters m) (dm_durationsSeconds m) fixedOrigin);
            g = getRouteGeometry osrm (sol_orderedWaypoints s) preferredProvider
        in \<lparr>opt_solution = s\<lparr>sol_totalDistanceM := geo_totalDistanceM g,
                              sol_estimatedDurationS := geo_estimatedDurationS g\<rparr>,
            opt_providerUsed = dm_provider m, opt_geometry = Some g\<rparr>)"

end
