(* ===== verification/TourSolvers.thy ===== *)
theory TourSolvers
  imports Tours
begin

text \<open>
  What the two tour solvers have in common and what each of them achieves.  The contract of a
  solver is the locale \<open>tour_solver\<close>: the order it returns is a permutation of the waypoints, and
  the first waypoint stays first when the origin is fixed.  Both solvers interpret it, and the
  facts about the optimiser's answer are proved once inside it.
\<close>

section \<open>Permutations\<close>

lemma mset_without_nth:
  assumes "i < length xs"
  shows "add_mset (xs ! i) (mset (take i xs @ drop (Suc i) xs)) = mset xs"
proof -
  have "mset xs = mset (take i xs @ xs ! i # drop (Suc i) xs)"
    using id_take_nth_drop[OF assms] by simp
  then show ?thesis by simp
qed

lemma set_generatePermutations: "set (generatePermutations xs) = {ys. mset ys = mset xs}"
proof (induction xs rule: generatePermutations.induct)
  case (1 xs)
  show ?case
  proof (cases "length xs \<le> 1")
    case True
    then have "xs = [] \<or> (\<exists>x. xs = [x])"
      by (cases xs) auto
    then show ?thesis
      by (auto simp: generatePermutations.simps)
  next
    case False
    then have IH: "set (generatePermutations (take i xs @ drop (Suc i) xs)) =
        {ys. mset ys = mset (take i xs @ drop (Suc i) xs)}" if "i < length xs" for i
      using 1 that by auto
    have "ys \<in> set (generatePermutations xs) \<longleftrightarrow>
        (\<exists>i < length xs. \<exists>zs. ys = xs ! i # zs \<and> mset zs = mset (take i xs @ drop (Suc i) xs))" for ys
      using False IH by (subst generatePermutations.simps) (auto simp: atLeast0LessThan)
    also have "\<dots> ys \<longleftrightarrow> mset ys = mset xs" for ys
    proof
      assume "\<exists>i < length xs. \<exists>zs. ys = xs ! i # zs \<and> mset zs = mset (take i xs @ drop (Suc i) xs)"
      then show "mset ys = mset xs"
        using mset_without_nth by fastforce
    next
      assume m: "mset ys = mset xs"
      with False obtain y zs where ys: "ys = y # zs"
        by (cases ys) auto
      with m have "y \<in> set xs"
        by (metis list.set_intros(1) mset_eq_setD)
      then obtain i where i: "i < length xs" "xs ! i = y"
        by (auto simp: in_set_conv_nth)
      with m ys have "mset zs = mset (take i xs @ drop (Suc i) xs)"
        using mset_without_nth[OF i(1)] by (metis add_mset_add_mset_same_iff mset.simps(2))
      with i ys show "\<exists>i < length xs. \<exists>zs. ys = xs ! i # zs \<and> mset zs = mset (take i xs @ drop (Suc i) xs)"
        by blast
    qed
    finally show ?thesis by blast
  qed
qed

lemma candidate_orders_set:
  "order \<in> set (candidate_orders n fixedOrigin) \<longleftrightarrow>
     mset order = mset [0..<n] \<and> (fixedOrigin \<longrightarrow> hd order = 0)" if "0 < n"
proof -
  have zero: "[0..<n] = 0 # [1..<n]"
    using that by (simp add: upt_conv_Cons)
  show ?thesis
  proof (cases order)
    case Nil
    then show ?thesis
      using that mset_eq_length[of order "[0..<n]"]
      by (auto simp: candidate_orders_def set_generatePermutations simp del: mset_upt
          dest: mset_eq_length)
  next
    case (Cons a as)
    then show ?thesis
      unfolding candidate_orders_def zero by (auto simp: set_generatePermutations)
  qed
qed

section \<open>The contract of a solver\<close>

locale tour_solver =
  fixes order :: "waypoint list \<Rightarrow> matrix \<Rightarrow> matrix \<Rightarrow> bool \<Rightarrow> nat list"
  assumes permutes: "2 \<le> length ws \<Longrightarrow> mset (order ws dst dur fixedOrigin) = mset [0..<length ws]"
    and origin: "2 \<le> length ws \<Longrightarrow> hd (order ws dst dur True) = 0"
begin

lemma ordered_waypoints:
  "2 \<le> length ws \<Longrightarrow> mset (map (\<lambda>i. ws ! i) (order ws dst dur fixedOrigin)) = mset ws"
  using permutes[of ws dst dur fixedOrigin] map_nth[of ws] by (metis mset_map)

lemma origin_first:
  assumes "2 \<le> length ws"
  shows "hd (map (\<lambda>i. ws ! i) (order ws dst dur True)) = hd ws"
proof -
  have "order ws dst dur True \<noteq> []"
    using mset_eq_length[OF permutes[OF assms, of dst dur True]] assms by auto
  then show ?thesis
    using origin[OF assms, of dst dur] assms by (cases ws) (auto simp: hd_map)
qed

end

lemma sequence_map_fst: "map fst (sequence_map ws) = [1..<Suc (length ws)]"
  by (rule nth_equalityI) (simp_all add: sequence_map_def nth_enumerate_eq del: upt_Suc)

lemma sequence_map_snd: "map snd (sequence_map ws) = map wp_id ws"
  by (rule nth_equalityI) (simp_all add: sequence_map_def nth_enumerate_eq)

section \<open>Exhaustive search is optimal\<close>

text \<open>The order in which the code compares tours: duration, then distance, then the joined ids.\<close>

definition tour_key :: "waypoint list \<Rightarrow> matrix \<Rightarrow> matrix \<Rightarrow> nat list \<Rightarrow> rat \<times> rat \<times> string" where
  "tour_key waypoints dst dur order =
     (computeTourCost order dur, computeTourCost order dst, tour_ids waypoints order)"

definition best_ok :: "waypoint list \<Rightarrow> matrix \<Rightarrow> matrix \<Rightarrow> nat list list \<Rightarrow> best_tour \<Rightarrow> bool" where
  "best_ok ws dst dur seen best \<longleftrightarrow>
     (case best of
        None \<Rightarrow> seen = []
      | Some (c, d, order) \<Rightarrow>
          order \<in> set seen \<and> c = computeTourCost order dur \<and> d = computeTourCost order dst \<and>
          (\<forall>x \<in> set seen. tour_key ws dst dur order \<le> tour_key ws dst dur x))"

lemma better_tour_iff:
  "better_tour ws (computeTourCost x dur) (computeTourCost x dst) x
     (Some (computeTourCost b dur, computeTourCost b dst, b)) \<longleftrightarrow>
   tour_key ws dst dur x < tour_key ws dst dur b"
  by (auto simp: better_tour_def tour_key_def less_prod_def)

lemma best_ok_step:
  assumes "best_ok ws dst dur seen best"
  shows "best_ok ws dst dur (seen @ [x]) (exhaustive_step ws dst dur best x)"
proof (cases best)
  case None
  with assms show ?thesis
    by (auto simp: best_ok_def exhaustive_step_def better_tour_def Let_def)
next
  case (Some b)
  obtain c d ord where b: "b = (c, d, ord)" by (cases b)
  with assms Some have ok: "ord \<in> set seen" "c = computeTourCost ord dur" "d = computeTourCost ord dst"
      "\<forall>x \<in> set seen. tour_key ws dst dur ord \<le> tour_key ws dst dur x"
    by (auto simp: best_ok_def)
  show ?thesis
  proof (cases "tour_key ws dst dur x < tour_key ws dst dur ord")
    case True
    then have "exhaustive_step ws dst dur best x = Some (computeTourCost x dur, computeTourCost x dst, x)"
      unfolding Some b ok(2,3) by (simp add: exhaustive_step_def Let_def better_tour_iff)
    moreover have "\<forall>y \<in> set seen. tour_key ws dst dur x \<le> tour_key ws dst dur y"
      using ok(4) True by (meson less_imp_le order_trans)
    ultimately show ?thesis
      by (simp add: best_ok_def)
  next
    case False
    then have "exhaustive_step ws dst dur best x = best"
      unfolding Some b ok(2,3) by (simp add: exhaustive_step_def Let_def better_tour_iff)
    with False ok show ?thesis
      unfolding Some b by (auto simp: best_ok_def not_less)
  qed
qed

lemma best_ok_fold:
  "best_ok ws dst dur seen best \<Longrightarrow>
   best_ok ws dst dur (seen @ xs) (foldl (exhaustive_step ws dst dur) best xs)"
proof (induction xs arbitrary: seen best)
  case (Cons x xs)
  from Cons.IH[OF best_ok_step[OF Cons.prems]] show ?case by simp
qed simp

lemma exhaustive_best_cases:
  assumes "0 < length ws"
  obtains order where
    "exhaustive_best ws dst dur fixedOrigin =
       Some (computeTourCost order dur, computeTourCost order dst, order)"
    "order \<in> set (candidate_orders (length ws) fixedOrigin)"
    "\<And>x. x \<in> set (candidate_orders (length ws) fixedOrigin) \<Longrightarrow>
       tour_key ws dst dur order \<le> tour_key ws dst dur x"
proof -
  have ok: "best_ok ws dst dur (candidate_orders (length ws) fixedOrigin) (exhaustive_best ws dst dur fixedOrigin)"
    using best_ok_fold[of ws dst dur "[]" None] by (simp add: best_ok_def exhaustive_best_def)
  have "[0..<length ws] \<in> set (candidate_orders (length ws) fixedOrigin)"
    using assms by (auto simp: candidate_orders_set upt_conv_Cons)
  then obtain c d order where e: "exhaustive_best ws dst dur fixedOrigin = Some (c, d, order)"
    using ok by (cases "exhaustive_best ws dst dur fixedOrigin") (auto simp: best_ok_def)
  show thesis
    using that[of order] ok unfolding e best_ok_def by simp
qed

definition exhaustive_order :: "waypoint list \<Rightarrow> matrix \<Rightarrow> matrix \<Rightarrow> bool \<Rightarrow> nat list" where
  "exhaustive_order ws dst dur fixedOrigin =
     (case exhaustive_best ws dst dur fixedOrigin of None \<Rightarrow> [] | Some (_, _, order) \<Rightarrow> order)"

lemma exhaustive_order_candidate:
  "0 < length ws \<Longrightarrow>
   exhaustive_order ws dst dur fixedOrigin \<in> set (candidate_orders (length ws) fixedOrigin)"
  by (rule exhaustive_best_cases[of ws dst dur fixedOrigin]) (auto simp: exhaustive_order_def)

lemma exhaustive_order_least:
  "0 < length ws \<Longrightarrow> x \<in> set (candidate_orders (length ws) fixedOrigin) \<Longrightarrow>
   tour_key ws dst dur (exhaustive_order ws dst dur fixedOrigin) \<le> tour_key ws dst dur x"
  by (rule exhaustive_best_cases[of ws dst dur fixedOrigin]) (auto simp: exhaustive_order_def)

lemma solveExhaustive_eq:
  "2 \<le> length ws \<Longrightarrow> solveExhaustivePermutation ws dst dur fixedOrigin =
     (let order = exhaustive_order ws dst dur fixedOrigin in
      tour_solution EXHAUSTIVE_PERMUTATION ws order (computeTourCost order dur) (computeTourCost order dst))"
  by (rule exhaustive_best_cases[of ws dst dur fixedOrigin])
    (auto simp: exhaustive_order_def solveExhaustivePermutation_def Let_def)

interpretation exhaustive: tour_solver exhaustive_order
proof
  fix ws :: "waypoint list" and dst dur fixedOrigin
  assume "2 \<le> length ws"
  then have "0 < length ws" by linarith
  then show "mset (exhaustive_order ws dst dur fixedOrigin) = mset [0..<length ws]"
      "hd (exhaustive_order ws dst dur True) = 0"
    using exhaustive_order_candidate[of ws dst dur fixedOrigin]
      exhaustive_order_candidate[of ws dst dur True]
    by (simp_all only: candidate_orders_set simp_thms)
qed

section \<open>Nearest neighbour visits every waypoint\<close>

lemma nearest_fold_None:
  "foldl (nearest_step ws dst dur visited lastNode) best is = None \<Longrightarrow>
   best = None \<and> set is \<subseteq> set visited"
proof (induction "is" arbitrary: best)
  case (Cons i "is")
  then have "nearest_step ws dst dur visited lastNode best i = None \<and> set is \<subseteq> set visited"
    by simp
  then show ?case
    by (cases best) (auto simp: nearest_step_def nearer_def Let_def split: if_splits)
qed simp

lemma nearest_node_exists:
  assumes "card (set visited) < length ws"
  shows "\<exists>k c d. nearest_node ws dst dur visited lastNode = Some (k, c, d)"
proof (rule ccontr)
  assume "\<not> ?thesis"
  then have "nearest_node ws dst dur visited lastNode = None"
    by (metis option.exhaust prod_cases3)
  then have "set [0..<length ws] \<subseteq> set visited"
    unfolding nearest_node_def using nearest_fold_None by blast
  then have "{0..<length ws} \<subseteq> set visited"
    by simp
  then have "length ws \<le> card (set visited)"
    using card_mono[of "set visited" "{0..<length ws}"] by simp
  with assms show False by simp
qed

lemma nearest_tour_visits:
  "distinct tour \<Longrightarrow> set tour \<subseteq> {0..<length ws} \<Longrightarrow> tour \<noteq> [] \<Longrightarrow> visited = tour \<Longrightarrow>
   distinct (nearest_tour ws dst dur tour visited) \<and>
   set (nearest_tour ws dst dur tour visited) = {0..<length ws} \<and>
   hd (nearest_tour ws dst dur tour visited) = hd tour"
proof (induction ws dst dur tour visited rule: nearest_tour.induct)
  case (1 ws dst dur tour visited)
  show ?case
  proof (cases "card (set visited) < length ws")
    case False
    then have "set tour = {0..<length ws}"
      using 1(3,5) card_subset_eq[of "{0..<length ws}" "set tour"] card_mono[of "{0..<length ws}" "set tour"]
      by auto
    with False 1 show ?thesis
      by (subst (1 2 3) nearest_tour.simps) simp
  next
    case True
    then obtain k c d where k: "nearest_node ws dst dur visited (last tour) = Some (k, c, d)"
      using nearest_node_exists by blast
    then have fresh: "k < length ws" "k \<notin> set tour"
      using nearest_node_fresh[OF k] 1(5) by auto
    have "nearest_tour ws dst dur tour visited = nearest_tour ws dst dur (tour @ [k]) (visited @ [k])"
      using True k by (subst nearest_tour.simps) simp
    then show ?thesis
      using 1(1)[OF True k refl refl] 1(2-5) fresh by auto
  qed
qed

lemma nearest_tour_permutes:
  assumes "2 \<le> length ws"
  shows "mset (nearest_tour ws dst dur [0] [0]) = mset [0..<length ws]"
    and "hd (nearest_tour ws dst dur [0] [0]) = 0"
proof -
  have v: "distinct (nearest_tour ws dst dur [0] [0])"
      "set (nearest_tour ws dst dur [0] [0]) = {0..<length ws}"
    and h: "hd (nearest_tour ws dst dur [0] [0]) = 0"
    using nearest_tour_visits[of "[0]" ws "[0]" dst dur] assms by (cases ws; simp)+
  have "set (nearest_tour ws dst dur [0] [0]) = set [0..<length ws]"
    using v by simp
  then show "mset (nearest_tour ws dst dur [0] [0]) = mset [0..<length ws]"
    by (simp only: set_eq_iff_mset_eq_distinct[OF v(1) distinct_upt])
  from h show "hd (nearest_tour ws dst dur [0] [0]) = 0" .
qed

section \<open>2-opt only improves\<close>

lemma mset_2opt: "i \<le> j \<Longrightarrow> mset (perform2OptSwap route i j) = mset route"
proof -
  assume "i \<le> j"
  then have "drop (j + 1) route = drop (j + 1 - i) (drop i route)"
    by simp
  then have "mset (perform2OptSwap route i j) =
      mset (take i route @ take (j + 1 - i) (drop i route) @ drop (j + 1 - i) (drop i route))"
    unfolding perform2OptSwap_def by (simp only: mset_append mset_rev)
  then show ?thesis by (simp only: append_take_drop_id)
qed

lemma hd_2opt: "0 < i \<Longrightarrow> route \<noteq> [] \<Longrightarrow> hd (perform2OptSwap route i j) = hd route"
  by (cases route; cases i) (auto simp: perform2OptSwap_def)

lemma swap_pairs_set: "(i, j) \<in> set (swap_pairs startIdx n) \<longleftrightarrow> startIdx \<le> i \<and> i < j \<and> j < n"
  by (auto simp: swap_pairs_def image_iff)

definition local_optimum :: "matrix \<Rightarrow> nat \<Rightarrow> nat \<Rightarrow> rat \<Rightarrow> nat list \<Rightarrow> bool" where
  "local_optimum dur startIdx n thr tour \<longleftrightarrow>
     (\<forall>i j. startIdx \<le> i \<and> i < j \<and> j < n \<longrightarrow>
        computeTourCost tour dur - computeTourCost (perform2OptSwap tour i j) dur \<le> thr)"

lemma two_opt_loop_ok:
  assumes "two_opt_loop dur startIdx n thr iterations tour (computeTourCost tour dur) = (t, c)"
    and "0 \<le> thr"
  shows "c = computeTourCost t dur \<and> mset t = mset tour \<and>
    (0 < startIdx \<and> tour \<noteq> [] \<longrightarrow> hd t = hd tour) \<and> c \<le> computeTourCost tour dur \<and>
    (local_optimum dur startIdx n thr t \<or> c \<le> computeTourCost tour dur - of_nat iterations * thr)"
  using assms(1)
proof (induction iterations arbitrary: tour)
  case 0
  then show ?case by auto
next
  case (Suc k)
  let ?imp = "improves dur thr tour (computeTourCost tour dur)"
  show ?case
  proof (cases "List.find ?imp (swap_pairs startIdx n)")
    case None
    then have "local_optimum dur startIdx n thr tour"
      unfolding find_None_iff local_optimum_def improves_def
      by (metis case_prod_conv not_less swap_pairs_set)
    with None Suc.prems show ?thesis by auto
  next
    case (Some p)
    obtain i j where p: "p = (i, j)" by (cases p)
    let ?cand = "perform2OptSwap tour i j"
    have ij: "startIdx \<le> i" "i < j" and better: "thr < computeTourCost tour dur - computeTourCost ?cand dur"
      using Some by (auto simp: p find_Some_iff improves_def swap_pairs_set dest: nth_mem)
    have "two_opt_loop dur startIdx n thr k ?cand (computeTourCost ?cand dur) = (t, c)"
      using Suc.prems Some p by (simp add: Let_def)
    note IH = Suc.IH[OF this]
    have m: "mset ?cand = mset tour"
      using ij by (intro mset_2opt) simp
    then have "tour \<noteq> [] \<Longrightarrow> ?cand \<noteq> []" by auto
    with IH m hd_2opt[of i tour j] ij better assms(2) show ?thesis
      by (auto simp: algebra_simps)
  qed
qed

definition two_opt_order :: "waypoint list \<Rightarrow> matrix \<Rightarrow> matrix \<Rightarrow> bool \<Rightarrow> nat list" where
  "two_opt_order ws dst dur fixedOrigin =
     (let tour = nearest_tour ws dst dur [0] [0] in
      fst (two_opt_loop dur (if fixedOrigin then 1 else 0) (length ws) improvementThreshold maxIterations
             tour (computeTourCost tour dur)))"

lemma two_opt_order_ok:
  defines "start \<equiv> \<lambda>b. if b then 1 else (0::nat)"
  assumes "t = two_opt_order ws dst dur fixedOrigin"
  shows "mset t = mset (nearest_tour ws dst dur [0] [0])"
    and "fixedOrigin \<Longrightarrow> nearest_tour ws dst dur [0] [0] \<noteq> [] \<Longrightarrow> hd t = hd (nearest_tour ws dst dur [0] [0])"
    and "computeTourCost t dur \<le> computeTourCost (nearest_tour ws dst dur [0] [0]) dur"
    and "local_optimum dur (start fixedOrigin) (length ws) improvementThreshold t \<or>
      computeTourCost t dur \<le> computeTourCost (nearest_tour ws dst dur [0] [0]) dur - 1 / 10"
    and "solveNearestNeighbor2Opt ws dst dur fixedOrigin =
      (if length ws \<le> 1 then trivial_solution NEAREST_NEIGHBOR_2OPT ws
       else tour_solution NEAREST_NEIGHBOR_2OPT ws t (computeTourCost t dur) (computeTourCost t dst))"
proof -
  let ?nn = "nearest_tour ws dst dur [0] [0]"
  obtain t' c where r: "two_opt_loop dur (start fixedOrigin) (length ws) improvementThreshold maxIterations
      ?nn (computeTourCost ?nn dur) = (t', c)" by fastforce
  then have t': "t' = t"
    by (simp add: assms(2) two_opt_order_def Let_def start_def)
  have thr: "0 \<le> improvementThreshold" by (simp add: improvementThreshold_def)
  have bound: "of_nat maxIterations * improvementThreshold = 1 / 10"
    by (simp add: maxIterations_def improvementThreshold_def)
  note ok = two_opt_loop_ok[OF r thr, unfolded bound t']
  from ok show "mset t = mset ?nn" "fixedOrigin \<Longrightarrow> ?nn \<noteq> [] \<Longrightarrow> hd t = hd ?nn"
      "computeTourCost t dur \<le> computeTourCost ?nn dur"
      "local_optimum dur (start fixedOrigin) (length ws) improvementThreshold t \<or>
      computeTourCost t dur \<le> computeTourCost ?nn dur - 1 / 10"
    by (auto simp: start_def)
  show "solveNearestNeighbor2Opt ws dst dur fixedOrigin =
      (if length ws \<le> 1 then trivial_solution NEAREST_NEIGHBOR_2OPT ws
       else tour_solution NEAREST_NEIGHBOR_2OPT ws t (computeTourCost t dur) (computeTourCost t dst))"
    using r ok unfolding t' start_def
    by (simp add: solveNearestNeighbor2Opt_def Let_def)
qed

interpretation two_opt: tour_solver two_opt_order
proof
  fix ws :: "waypoint list" and dst dur fixedOrigin
  assume two: "2 \<le> length ws"
  then have "nearest_tour ws dst dur [0] [0] \<noteq> []"
    using mset_eq_length[OF nearest_tour_permutes(1)[OF two, of dst dur]] by auto
  then show "mset (two_opt_order ws dst dur fixedOrigin) = mset [0..<length ws]"
      "hd (two_opt_order ws dst dur True) = 0"
    using two_opt_order_ok(1)[OF refl, of ws dst dur fixedOrigin]
      two_opt_order_ok(2)[OF refl, of True ws dst dur] nearest_tour_permutes[OF two, of dst dur]
    by simp_all
qed

section \<open>The optimiser\<close>

lemma tour_solution_simps [simp]:
  "sol_orderedWaypoints (tour_solution alg ws order c d) = map (\<lambda>i. ws ! i) order"
  "sol_sequenceMap (tour_solution alg ws order c d) = sequence_map (map (\<lambda>i. ws ! i) order)"
  "sol_algorithm (tour_solution alg ws order c d) = alg"
  "sol_estimatedDurationS (tour_solution alg ws order c d) = of_int (js_round c)"
  "sol_totalDistanceM (tour_solution alg ws order c d) = of_int (js_round (d * 100)) / 100"
  by (simp_all add: tour_solution_def Let_def)

text \<open>Whatever provider and solver the optimiser uses, its solution orders all the waypoints.\<close>

lemma optimizeRoute_orders:
  fixes osrm ws p
  defines "s \<equiv> opt_solution (optimizeRoute osrm ws p True)"
  shows "mset (sol_orderedWaypoints s) = mset ws \<and>
    (ws \<noteq> [] \<longrightarrow> hd (sol_orderedWaypoints s) = hd ws) \<and>
    sol_sequenceMap s = sequence_map (sol_orderedWaypoints s)"
proof (cases "length ws \<le> 1")
  case True
  then show ?thesis
    by (simp add: s_def optimizeRoute_def trivial_solution_def)
next
  case False
  then have two: "2 \<le> length ws" by simp
  let ?m = "getDistanceMatrix osrm ws p"
  let ?dst = "dm_distancesMeters ?m" and ?dur = "dm_durationsSeconds ?m"
  show ?thesis
  proof (cases "length ws \<le> 5")
    case True
    then show ?thesis
      using two exhaustive.ordered_waypoints[OF two, of ?dst ?dur True]
        exhaustive.origin_first[OF two, of ?dst ?dur]
      by (simp add: s_def optimizeRoute_def Let_def solveExhaustive_eq)
  next
    case False
    then show ?thesis
      using two two_opt.ordered_waypoints[OF two, of ?dst ?dur True]
        two_opt.origin_first[OF two, of ?dst ?dur]
      by (simp add: s_def optimizeRoute_def Let_def two_opt_order_ok(5)[OF refl])
  qed
qed

end
