(* ===== verification/Routes.thy ===== *)
theory Routes
  imports Pod TourSolvers
begin

text \<open>
  Routes of a delivery: \<open>routes-domain.service.ts\<close> with the request bodies \<open>recommend-route.dto.ts\<close>,
  \<open>select-route.dto.ts\<close> and \<open>manual-reorder.dto.ts\<close>.  Recommending only reads; selecting and
  reordering write a new route version in one transaction that is guarded by an idempotency key.
\<close>

section \<open>Actors, request bodies, views\<close>

record route_actor =
  ra_userId :: uuid
  ra_role :: string
  ra_driverId :: "uuid option"

record select_route_dto =
  sr_source :: route_source
  sr_recommendedSequence :: "uuid list"
  sr_totalDistanceMeters :: rat
  sr_estimatedDurationSeconds :: rat
  sr_idempotencyKey :: "uuid option"

record stop_sequence_item =
  si_deliveryStopId :: uuid
  si_sequence :: int

record manual_reorder_dto =
  mr_stopSequence :: "stop_sequence_item list"
  mr_idempotencyKey :: "uuid option"

definition valid_select_route :: "select_route_dto \<Rightarrow> bool" where
  "valid_select_route dto \<longleftrightarrow>
     1 \<le> length (sr_recommendedSequence dto) \<and> 0 \<le> sr_totalDistanceMeters dto \<and>
     0 \<le> sr_estimatedDurationSeconds dto"

definition valid_manual_reorder :: "manual_reorder_dto \<Rightarrow> bool" where
  "valid_manual_reorder dto \<longleftrightarrow>
     1 \<le> length (mr_stopSequence dto) \<and> list_all (\<lambda>it. 1 \<le> si_sequence it) (mr_stopSequence dto)"

record recommended_stop =
  rec_sequence :: nat
  rec_deliveryStopId :: uuid
  rec_destinationName :: string

record recommendation =
  rcm_deliveryId :: uuid
  rcm_algorithm :: algorithm
  rcm_providerUsed :: provider
  rcm_totalDistanceMeters :: rat
  rcm_estimatedDurationSeconds :: rat
  rcm_recommendedSequence :: "recommended_stop list"
  rcm_polylineGeojson :: "json option"

record route_stop_view =
  rsv_sequence :: int
  rsv_deliveryStopId :: uuid
  rsv_destinationName :: string
  rsv_latitude :: rat
  rsv_longitude :: rat

datatype route_view =
    NoRoute uuid route_mode "route_stop_view list"
  | LatestRoute route "route_stop_view list"

section \<open>Access and rate limit\<close>

definition verifyDeliveryAccess ::
  "uuid \<Rightarrow> route_actor \<Rightarrow> world \<Rightarrow> api_error + delivery \<times> delivery_stop list" where
  "verifyDeliveryAccess i actor w =
     (case find_row dlv_id i (deliveries w) of
        None \<Rightarrow> fail_with NotFound ''DELIVERY_NOT_FOUND''
      | Some d \<Rightarrow>
          if ra_role actor = ''DRIVER'' \<and>
             (\<not> truthy (ra_driverId actor) \<or> dlv_driverId d \<noteq> ra_driverId actor)
          then fail_with Forbidden ''RESOURCE_FORBIDDEN''
          else if ra_role actor = ''OWNER'' \<and> dlv_createdBy d \<noteq> ra_userId actor
          then fail_with Forbidden ''RESOURCE_FORBIDDEN''
          else Inr (d, sort_key stp_sequence (stops_of i (deliveryStops w))))"

definition route_throttle_key :: "uuid \<Rightarrow> string" where
  "route_throttle_key i = ''throttle:route:delivery:'' @ i"

definition enforceRouteRateLimit :: "uuid \<Rightarrow> timestamp \<Rightarrow> world \<Rightarrow> (unit, world) outcome" where
  "enforceRouteRateLimit i now w =
     (let (rateCount, rd) = incrRateLimit (route_throttle_key i) 60 now (redisState w);
          w1 = w\<lparr>redisState := rd\<rparr>
      in if 5 < rateCount then (fail_with TooManyRequests ''ROUTE_RATE_LIMIT_EXCEEDED'', w1)
         else (Inr (), w1))"

text \<open>The beginning that the three operations share.\<close>

definition route_request_guard ::
  "uuid \<Rightarrow> route_actor \<Rightarrow> timestamp \<Rightarrow> world \<Rightarrow> (delivery \<times> delivery_stop list, world) outcome" where
  "route_request_guard i actor now w =
     (case verifyDeliveryAccess i actor w of
        Inl e \<Rightarrow> (Inl e, w)
      | Inr (d, stops) \<Rightarrow>
          if terminal_delivery (dlv_status d)
          then (fail_with Conflict ''INVALID_DELIVERY_STATE'', w)
          else case enforceRouteRateLimit i now w of
                 (Inl e, w1) \<Rightarrow> (Inl e, w1)
               | (Inr _, w1) \<Rightarrow> (Inr (d, stops), w1))"

section \<open>Recommending\<close>

definition stop_waypoint :: "delivery_stop \<Rightarrow> waypoint" where
  "stop_waypoint s = \<lparr>wp_id = stp_id s, wp_latitude = stp_latitude s, wp_longitude = stp_longitude s\<rparr>"

definition recommended_stops :: "delivery_stop list \<Rightarrow> (nat \<times> string) list \<Rightarrow> recommended_stop list" where
  "recommended_stops stops sequenceMap =
     map (\<lambda>(n, stopId).
            \<lparr>rec_sequence = n, rec_deliveryStopId = stopId,
             rec_destinationName =
               (case find_row stp_id stopId stops of None \<Rightarrow> [] | Some s \<Rightarrow> stp_destinationName s)\<rparr>)
       sequenceMap"

definition recommendRoute ::
  "osrm_service \<Rightarrow> uuid \<Rightarrow> preferred option \<Rightarrow> route_actor \<Rightarrow> timestamp \<Rightarrow> world \<Rightarrow>
   (recommendation, world) outcome" where
  "recommendRoute osrm i preferredProvider actor now w =
     (case route_request_guard i actor now w of
        (Inl e, w1) \<Rightarrow> (Inl e, w1)
      | (Inr (d, stops), w1) \<Rightarrow>
          if stops = [] then (fail_with Unprocessable ''DELIVERY_NO_STOPS'', w1)
          else
            let r = optimizeRoute osrm (map stop_waypoint stops) preferredProvider True;
                s = opt_solution r
            in (Inr \<lparr>rcm_deliveryId = dlv_id d, rcm_algorithm = sol_algorithm s,
                     rcm_providerUsed = opt_providerUsed r,
                     rcm_totalDistanceMeters = sol_totalDistanceM s,
                     rcm_estimatedDurationSeconds = sol_estimatedDurationS s,
                     rcm_recommendedSequence = recommended_stops stops (sol_sequenceMap s),
                     rcm_polylineGeojson = map_option geo_polylineGeojson (opt_geometry r)\<rparr>, w1))"

section \<open>Checks on the submitted stops\<close>

definition stops_belong :: "delivery_stop list \<Rightarrow> uuid list \<Rightarrow> api_error + unit" where
  "stops_belong stops ids =
     (if list_all (\<lambda>stopId. stopId \<in> set (map stp_id stops)) ids then Inr ()
      else fail_with Unprocessable ''INVALID_STOP_ID'')"

definition contiguous :: "int list \<Rightarrow> bool" where
  "contiguous seqs \<longleftrightarrow> list_all (\<lambda>(index, n). n = int index + 1) (enumerate 0 (sort seqs))"

definition validateCompleteStopSet :: "delivery_stop list \<Rightarrow> uuid list \<Rightarrow> int list option \<Rightarrow> api_error + unit" where
  "validateCompleteStopSet stops submittedStopIds submittedSequences =
     (let expectedIds = set (map stp_id stops);
          submittedIds = set submittedStopIds;
          hasExactIds = (0 < card expectedIds \<and> length submittedStopIds = card expectedIds \<and>
                         card submittedIds = card expectedIds \<and>
                         list_all (\<lambda>stopId. stopId \<in> expectedIds) submittedStopIds)
      in if \<not> hasExactIds then fail_with Unprocessable ''INVALID_STOP_SET''
         else case submittedSequences of
                None \<Rightarrow> Inr ()
              | Some seqs \<Rightarrow>
                  if contiguous seqs then Inr () else fail_with Unprocessable ''INVALID_STOP_SEQUENCE'')"

section \<open>Writing a route version\<close>

definition route_versions :: "uuid \<Rightarrow> route list \<Rightarrow> int list" where
  "route_versions i rs = map rte_version (filter (\<lambda>r. rte_deliveryId r = i) rs)"

text \<open>\<open>(maxRoute?.version || 0) + 1\<close>.\<close>

definition next_version :: "uuid \<Rightarrow> route list \<Rightarrow> int" where
  "next_version i rs = (case route_versions i rs of [] \<Rightarrow> 0 | v # vs \<Rightarrow> fold max vs v) + 1"

text \<open>
  \<open>route.create\<close>: Prisma refuses a duration that does not fit the \<open>Int\<close> column, the database a
  distance beyond \<open>Decimal(12, 2)\<close>, which it rounds to two places, and a duplicate version.
\<close>

definition create_route :: "route \<Rightarrow> rat \<Rightarrow> route list \<Rightarrow> api_error + route list" where
  "create_route r duration rs =
     (if duration \<noteq> of_int (rte_estimatedDurationS r) \<or> 2 ^ 31 \<le> rte_estimatedDurationS r
      then fail_with Internal ''PrismaClientValidationError''
      else if 10 ^ 10 \<le> rte_totalDistanceM r then fail_with Internal ''P2020''
      else if rte_version r \<in> set (route_versions (rte_deliveryId r) rs) then fail_with Internal ''P2002''
      else Inr (rs @ [r]))"

definition new_route :: "uuid \<Rightarrow> uuid \<Rightarrow> route_source \<Rightarrow> rat \<Rightarrow> rat \<Rightarrow> timestamp \<Rightarrow> route list \<Rightarrow> route" where
  "new_route routeId i source distance duration now rs =
     \<lparr>rte_id = routeId, rte_deliveryId = i, rte_version = next_version i rs, rte_source = source,
      rte_totalDistanceM = of_int (js_round (distance * 100)) / 100,
      rte_estimatedDurationS = \<lfloor>duration\<rfloor>, rte_selectedAt = now\<rparr>"

text \<open>\<open>routeStop.createMany\<close> with its two unique indexes; the id of the new route is not in use.\<close>

definition create_route_stops :: "route_stop list \<Rightarrow> route_stop list \<Rightarrow> api_error + route_stop list" where
  "create_route_stops new rows =
     (if distinct (map rst_sequence new) \<and> distinct (map rst_deliveryStopId new)
      then Inr (rows @ new) else fail_with Internal ''P2002'')"

definition mode_row :: "route_source \<Rightarrow> delivery \<Rightarrow> delivery" where [row_defs]:
  "mode_row source d =
     d\<lparr>dlv_routeMode := (if source = SRC_MANUAL then MODE_MANUAL else MODE_RECOMMENDED_2OPT)\<rparr>"

definition route_result :: "string \<Rightarrow> route \<Rightarrow> json" where
  "route_result timeField r =
     JObj [(''routeId'', JStr (rte_id r)), (''deliveryId'', JStr (rte_deliveryId r)),
           (''version'', JNum (of_int (rte_version r))), (''source'', JStr (source_name (rte_source r))),
           (timeField, JNum (of_int (rte_selectedAt r)))]"

text \<open>
  The part of the two transactions from the new route row on: the route, its stops, the mode of the
  delivery and the stored answer.
\<close>

definition write_route ::
  "idempotency_key option \<Rightarrow> int \<Rightarrow> string \<Rightarrow> route \<Rightarrow> rat \<Rightarrow> route_stop list \<Rightarrow> world \<Rightarrow>
   api_error + json \<times> world" where
  "write_route key status timeField r duration stops w =
     (case create_route r duration (routes w) of
        Inl e \<Rightarrow> Inl e
      | Inr rs \<Rightarrow>
          case create_route_stops stops (routeStops w) of
            Inl e \<Rightarrow> Inl e
          | Inr rss \<Rightarrow>
              let result = route_result timeField r in
              Inr (result,
                w\<lparr>routes := rs, routeStops := rss,
                  deliveries := update_row dlv_id (rte_deliveryId r) (mode_row (rte_source r)) (deliveries w),
                  idempotencyRecords :=
                    (case key of None \<Rightarrow> idempotencyRecords w
                     | Some k \<Rightarrow> finish_idempotency k status result (idempotencyRecords w))\<rparr>))"

definition claim_key :: "idempotency_key option \<Rightarrow> timestamp \<Rightarrow> world \<Rightarrow> api_error + world" where
  "claim_key key now w =
     (case key of
        None \<Rightarrow> Inr w
      | Some k \<Rightarrow>
          (case claim_idempotency k now (idempotencyRecords w) of
             Inl e \<Rightarrow> Inl e
           | Inr rs \<Rightarrow> Inr (w\<lparr>idempotencyRecords := rs\<rparr>)))"

definition selected_stops :: "uuid \<Rightarrow> uuid list \<Rightarrow> route_stop list" where
  "selected_stops routeId ids =
     map (\<lambda>(idx, stopId). \<lparr>rst_routeId = routeId, rst_deliveryStopId = stopId, rst_sequence = int idx + 1\<rparr>)
       (enumerate 0 ids)"

definition selectRoute_tx ::
  "uuid \<Rightarrow> select_route_dto \<Rightarrow> idempotency_key option \<Rightarrow> uuid \<Rightarrow> timestamp \<Rightarrow> world \<Rightarrow> api_error + json \<times> world" where
  "selectRoute_tx i dto key routeId now w =
     (case claim_key key now w of
        Inl e \<Rightarrow> Inl e
      | Inr w1 \<Rightarrow>
          let r = new_route routeId i (sr_source dto) (sr_totalDistanceMeters dto)
                    (sr_estimatedDurationSeconds dto) now (routes w1)
          in write_route key 201 ''selectedAt'' r (sr_estimatedDurationSeconds dto)
               (selected_stops routeId (sr_recommendedSequence dto)) w1)"

text \<open>
  \<open>deliveryStop.update({where: {id}, data: {sequence}})\<close> with the unique index on (delivery, sequence).
\<close>

definition set_sequence :: "uuid \<Rightarrow> int \<Rightarrow> delivery_stop list \<Rightarrow> api_error + delivery_stop list" where
  "set_sequence stopId n ss =
     (case find_row stp_id stopId ss of
        None \<Rightarrow> fail_with Internal ''P2025''
      | Some s \<Rightarrow>
          if \<exists>t \<in> set ss. stp_id t \<noteq> stopId \<and> stp_deliveryId t = stp_deliveryId s \<and> stp_sequence t = n
          then fail_with Internal ''P2002''
          else Inr (update_row stp_id stopId (\<lambda>s. s\<lparr>stp_sequence := n\<rparr>) ss))"

fun set_sequences :: "(uuid \<times> int) list \<Rightarrow> delivery_stop list \<Rightarrow> api_error + delivery_stop list" where
  "set_sequences [] ss = Inr ss"
| "set_sequences ((stopId, n) # items) ss =
     (case set_sequence stopId n ss of Inl e \<Rightarrow> Inl e | Inr ss' \<Rightarrow> set_sequences items ss')"

text \<open>Both loops: first every stop to its negative number, then to the number itself.\<close>

definition renumber :: "stop_sequence_item list \<Rightarrow> delivery_stop list \<Rightarrow> api_error + delivery_stop list" where
  "renumber items ss =
     (case set_sequences (map (\<lambda>it. (si_deliveryStopId it, - si_sequence it)) items) ss of
        Inl e \<Rightarrow> Inl e
      | Inr ss' \<Rightarrow> set_sequences (map (\<lambda>it. (si_deliveryStopId it, si_sequence it)) items) ss')"

definition reordered_stops :: "uuid \<Rightarrow> stop_sequence_item list \<Rightarrow> route_stop list" where
  "reordered_stops routeId items =
     map (\<lambda>it. \<lparr>rst_routeId = routeId, rst_deliveryStopId = si_deliveryStopId it,
                rst_sequence = si_sequence it\<rparr>) items"

definition reorderStops_tx ::
  "uuid \<Rightarrow> manual_reorder_dto \<Rightarrow> idempotency_key option \<Rightarrow> uuid \<Rightarrow> timestamp \<Rightarrow> world \<Rightarrow> api_error + json \<times> world" where
  "reorderStops_tx i dto key routeId now w =
     (case claim_key key now w of
        Inl e \<Rightarrow> Inl e
      | Inr w1 \<Rightarrow>
          case renumber (mr_stopSequence dto) (deliveryStops w1) of
            Inl e \<Rightarrow> Inl e
          | Inr ss \<Rightarrow>
              write_route key 200 ''updatedAt'' (new_route routeId i SRC_MANUAL 0 0 now (routes w1)) 0
                (reordered_stops routeId (mr_stopSequence dto)) (w1\<lparr>deliveryStops := ss\<rparr>))"

section \<open>Running a keyed transaction\<close>

text \<open>
  \<open>isUniqueConstraintError\<close>: any known request error of Prisma counts, not only \<open>P2002\<close>.
\<close>

definition isUniqueConstraintError :: "api_error \<Rightarrow> bool" where
  "isUniqueConstraintError e \<longleftrightarrow> err_kind e = Internal \<and> take 2 (err_code e) = ''P2''"

definition broadcastRouteUpdated :: "uuid \<Rightarrow> json \<Rightarrow> route_actor \<Rightarrow> world \<Rightarrow> world" where
  "broadcastRouteUpdated i result actor w =
     (let field = (\<lambda>k. case jget k result of None \<Rightarrow> [] | Some v \<Rightarrow> [(k, v)]) in
      emit [\<lparr>em_room = ''delivery:'' @ i, em_event = ''delivery.route.updated'',
             em_payload = JObj ((''deliveryId'', JStr i) # field ''routeId'' @ field ''version'' @ field ''source''),
             em_actor = \<lparr>ea_userId = ra_userId actor, ea_role = ra_role actor, ea_driverId = ra_driverId actor\<rparr>\<rparr>] w)"

text \<open>The \<open>try\<close>/\<open>catch\<close> around the transaction, and the broadcast after it.\<close>

definition run_keyed ::
  "idempotency_key option \<Rightarrow> (world \<Rightarrow> api_error + json \<times> world) \<Rightarrow> (json \<Rightarrow> world \<Rightarrow> world) \<Rightarrow> world \<Rightarrow>
   (json, world) outcome" where
  "run_keyed key tx after w =
     (case tx w of
        Inl e \<Rightarrow>
          (if key \<noteq> None \<and> isUniqueConstraintError e
           then case stored_response key w of
                  Some body \<Rightarrow> (Inr body, w)
                | None \<Rightarrow> (Inl e, w)
           else (Inl e, w))
      | Inr (result, w1) \<Rightarrow> (Inr result, after result w1))"

definition selectEndpoint :: string where
  "selectEndpoint = ''/v1/deliveries/:id/routes/select''"

definition selectRoute ::
  "uuid \<Rightarrow> select_route_dto \<Rightarrow> route_actor \<Rightarrow> string \<Rightarrow> uuid \<Rightarrow> timestamp \<Rightarrow> world \<Rightarrow> (json, world) outcome" where
  "selectRoute i dto actor endpoint routeId now w =
     (case route_request_guard i actor now w of
        (Inl e, w1) \<Rightarrow> (Inl e, w1)
      | (Inr (d, stops), w1) \<Rightarrow>
          let key = request_key (sr_idempotencyKey dto) (ra_userId actor) endpoint in
          case stored_response key w1 of
            Some body \<Rightarrow> (Inr body, w1)
          | None \<Rightarrow>
              (case stops_belong stops (sr_recommendedSequence dto) of
                 Inl e \<Rightarrow> (Inl e, w1)
               | Inr _ \<Rightarrow>
                   case validateCompleteStopSet stops (sr_recommendedSequence dto) None of
                     Inl e \<Rightarrow> (Inl e, w1)
                   | Inr _ \<Rightarrow>
                       run_keyed key (selectRoute_tx i dto key routeId now)
                         (\<lambda>result. broadcastRouteUpdated i result actor) w1))"

definition reorderEndpoint :: string where
  "reorderEndpoint = ''/v1/deliveries/:id/routes/reorder''"

definition reorderStops ::
  "uuid \<Rightarrow> manual_reorder_dto \<Rightarrow> route_actor \<Rightarrow> string \<Rightarrow> uuid \<Rightarrow> timestamp \<Rightarrow> world \<Rightarrow> (json, world) outcome" where
  "reorderStops i dto actor endpoint routeId now w =
     (case route_request_guard i actor now w of
        (Inl e, w1) \<Rightarrow> (Inl e, w1)
      | (Inr (d, stops), w1) \<Rightarrow>
          let key = request_key (mr_idempotencyKey dto) (ra_userId actor) endpoint;
              ids = map si_deliveryStopId (mr_stopSequence dto)
          in case stored_response key w1 of
            Some body \<Rightarrow> (Inr body, w1)
          | None \<Rightarrow>
              (case stops_belong stops ids of
                 Inl e \<Rightarrow> (Inl e, w1)
               | Inr _ \<Rightarrow>
                   case validateCompleteStopSet stops ids (Some (map si_sequence (mr_stopSequence dto))) of
                     Inl e \<Rightarrow> (Inl e, w1)
                   | Inr _ \<Rightarrow>
                       run_keyed key (reorderStops_tx i dto key routeId now)
                         (\<lambda>result. broadcastRouteUpdated i result actor) w1))"

section \<open>Reading\<close>

definition latest_first :: "uuid \<Rightarrow> world \<Rightarrow> route list" where
  "latest_first i w = rev (sort_key rte_version (filter (\<lambda>r. rte_deliveryId r = i) (routes w)))"

definition stop_view :: "int \<Rightarrow> delivery_stop \<Rightarrow> route_stop_view" where
  "stop_view n s =
     \<lparr>rsv_sequence = n, rsv_deliveryStopId = stp_id s, rsv_destinationName = stp_destinationName s,
      rsv_latitude = stp_latitude s, rsv_longitude = stp_longitude s\<rparr>"

definition getCurrentRoute :: "uuid \<Rightarrow> route_actor \<Rightarrow> world \<Rightarrow> api_error + route_view" where
  "getCurrentRoute i actor w =
     (case verifyDeliveryAccess i actor w of
        Inl e \<Rightarrow> Inl e
      | Inr (d, stops) \<Rightarrow>
          (case latest_first i w of
             [] \<Rightarrow> Inr (NoRoute (dlv_id d) (dlv_routeMode d) (map (\<lambda>s. stop_view (stp_sequence s) s) stops))
           | r # _ \<Rightarrow>
               let rows = sort_key rst_sequence (filter (\<lambda>rs. rst_routeId rs = rte_id r) (routeStops w)) in
               Inr (LatestRoute r
                 (concat (map (\<lambda>rs. case find_row stp_id (rst_deliveryStopId rs) (deliveryStops w) of
                                      None \<Rightarrow> [] | Some s \<Rightarrow> [stop_view (rst_sequence rs) s]) rows)))))"

definition getRouteVersions :: "uuid \<Rightarrow> route_actor \<Rightarrow> world \<Rightarrow> api_error + route list" where
  "getRouteVersions i actor w =
     (case verifyDeliveryAccess i actor w of
        Inl e \<Rightarrow> Inl e
      | Inr _ \<Rightarrow> Inr (latest_first i w))"

end
