(* ===== verification/RouteLemmas.thy ===== *)
theory RouteLemmas
  imports Routes
begin

text \<open>
  Facts about the route service: when a submitted set of stops is accepted, that the two-phase
  renumbering never meets the unique index, which version is written and which is read back, and
  the contract of a keyed transaction (\<open>keyed_transaction\<close>) that both writers interpret.
\<close>

section \<open>Accepting the submitted stops\<close>

lemma validate_ids_iff:
  "validateCompleteStopSet stops ids None = Inr () \<longleftrightarrow>
     stops \<noteq> [] \<and> distinct ids \<and> set ids = set (map stp_id stops)"
proof -
  have "0 < card (set (map stp_id stops)) \<and> length ids = card (set (map stp_id stops)) \<and>
      card (set ids) = card (set (map stp_id stops)) \<and> set ids \<subseteq> set (map stp_id stops) \<longleftrightarrow>
      stops \<noteq> [] \<and> distinct ids \<and> set ids = set (map stp_id stops)"
    (is "?L \<longleftrightarrow> ?R")
  proof
    assume L: ?L
    then have "set ids = set (map stp_id stops)"
      by (metis List.finite_set card_subset_eq)
    moreover have "distinct ids"
      using L by (metis card_distinct)
    moreover have "stops \<noteq> []"
      using L by (cases stops) auto
    ultimately show ?R by blast
  next
    assume ?R
    then show ?L
      using distinct_card[of ids] by (auto simp: card_gt_0_iff)
  qed
  moreover have "validateCompleteStopSet stops ids None = Inr () \<longleftrightarrow>
      0 < card (set (map stp_id stops)) \<and> length ids = card (set (map stp_id stops)) \<and>
      card (set ids) = card (set (map stp_id stops)) \<and> set ids \<subseteq> set (map stp_id stops)"
    unfolding validateCompleteStopSet_def Let_def list_all_iff subset_eq by (simp only: option.case) (auto simp: card_gt_0_iff)
  ultimately show ?thesis by blast
qed

lemma validate_seqs_iff:
  "validateCompleteStopSet stops ids (Some seqs) = Inr () \<longleftrightarrow>
     validateCompleteStopSet stops ids None = Inr () \<and> contiguous seqs"
  by (simp add: validateCompleteStopSet_def Let_def)

lemma contiguous_sort:
  assumes "contiguous seqs"
  shows "sort seqs = map (\<lambda>i. int i + 1) [0..<length seqs]"
  using assms unfolding contiguous_def list_all_length
  by (intro nth_equalityI) (auto simp: nth_enumerate_eq)

lemma contiguousD:
  assumes "contiguous seqs"
  shows "distinct seqs" and "\<forall>n \<in> set seqs. 1 \<le> n"
proof -
  have "distinct (sort seqs)" "\<forall>n \<in> set (sort seqs). 1 \<le> n"
    unfolding contiguous_sort[OF assms] by (auto simp: distinct_map inj_on_def)
  then show "distinct seqs" "\<forall>n \<in> set seqs. 1 \<le> n" by simp_all
qed

lemma stops_belong_iff: "stops_belong stops ids = Inr () \<longleftrightarrow> set ids \<subseteq> set (map stp_id stops)"
  by (auto simp: stops_belong_def list_all_iff)

section \<open>Renumbering\<close>

text \<open>The table in which the listed stops have their listed numbers.\<close>

definition renumbered_stops :: "(uuid \<times> int) list \<Rightarrow> delivery_stop list \<Rightarrow> delivery_stop list" where
  "renumbered_stops items ss =
     map (\<lambda>s. case map_of items (stp_id s) of None \<Rightarrow> s | Some n \<Rightarrow> s\<lparr>stp_sequence := n\<rparr>) ss"

lemma renumbered_keys: "map stp_id (renumbered_stops items ss) = map stp_id ss"
  by (auto simp: renumbered_stops_def split: option.split)

lemma find_renumbered:
  "find_row stp_id j (renumbered_stops items ss) =
     map_option (\<lambda>s. case map_of items j of None \<Rightarrow> s | Some n \<Rightarrow> s\<lparr>stp_sequence := n\<rparr>)
       (find_row stp_id j ss)"
  by (induction ss) (auto simp: renumbered_stops_def split: option.split)

lemma renumbered_overwrites:
  "map fst a = map fst b \<Longrightarrow> renumbered_stops b (renumbered_stops a ss) = renumbered_stops b ss"
proof -
  assume "map fst a = map fst b"
  then have "map_of a j = None \<longleftrightarrow> map_of b j = None" for j
    by (metis map_of_eq_None_iff set_map)
  then have "map_of b (stp_id s) = None \<Longrightarrow> map_of a (stp_id s) = None" for s :: delivery_stop
    by simp
  then show ?thesis
    by (fastforce simp: renumbered_stops_def split: option.split)
qed

text \<open>
  A pass succeeds when the new numbers are pairwise different and none is in use in the delivery.
\<close>

lemma set_sequences_ok:
  assumes "unique_keys stp_id ss" and "distinct (map fst items)" and "distinct (map snd items)"
    and "\<forall>j \<in> fst ` set items. \<exists>s. find_row stp_id j ss = Some s \<and> stp_deliveryId s = i"
    and "\<forall>s \<in> set ss. stp_deliveryId s = i \<longrightarrow> stp_sequence s \<notin> snd ` set items"
  shows "set_sequences items ss = Inr (renumbered_stops items ss)"
  using assms
proof (induction items arbitrary: ss)
  case Nil
  then show ?case by (simp add: renumbered_stops_def)
next
  case (Cons it items)
  obtain j n where it: "it = (j, n)" by (cases it)
  obtain s where s: "find_row stp_id j ss = Some s" "stp_deliveryId s = i"
    using Cons.prems(4) it by auto
  let ?ss = "update_row stp_id j (\<lambda>s. s\<lparr>stp_sequence := n\<rparr>) ss"
  have "set_sequence j n ss = Inr ?ss"
    using s Cons.prems(5) it by (auto simp: set_sequence_def)
  moreover have "set_sequences items ?ss = Inr (renumbered_stops items ?ss)"
  proof (rule Cons.IH)
    show "unique_keys stp_id ?ss"
      using Cons.prems(1) by (simp add: map_key_update_row)
    show "distinct (map fst items)" "distinct (map snd items)"
      using Cons.prems(2,3) by simp_all
    show "\<forall>k \<in> fst ` set items. \<exists>s. find_row stp_id k ?ss = Some s \<and> stp_deliveryId s = i"
      using Cons.prems(4) by (fastforce simp: find_row_update_row)
    show "\<forall>s \<in> set ?ss. stp_deliveryId s = i \<longrightarrow> stp_sequence s \<notin> snd ` set items"
      using Cons.prems(3,5) it by (auto simp: set_update_row image_iff)
  qed
  moreover have "renumbered_stops items ?ss = renumbered_stops (it # items) ss"
    using Cons.prems(2) it
    by (auto simp: renumbered_stops_def update_row_def update_where_def map_of_eq_None_iff image_iff
        split: option.split dest!: map_of_SomeD)
  ultimately show ?case by (simp add: it)
qed

definition item_pairs :: "stop_sequence_item list \<Rightarrow> (uuid \<times> int) list" where
  "item_pairs items = map (\<lambda>it. (si_deliveryStopId it, si_sequence it)) items"

text \<open>
  Both passes succeed: the negative numbers of the first are in use by no stop, and in the second
  pass every stop of the delivery has a negative number.
\<close>

lemma renumber_ok:
  assumes "unique_keys stp_id ss"
    and ids: "distinct (map si_deliveryStopId items)" "set (map si_deliveryStopId items) = stp_id ` set (stops_of i ss)"
    and seqs: "distinct (map si_sequence items)" "\<forall>n \<in> set (map si_sequence items). 1 \<le> n"
    and old: "\<forall>s \<in> set (stops_of i ss). 1 \<le> stp_sequence s"
  shows "renumber items ss = Inr (renumbered_stops (item_pairs items) ss)"
proof -
  let ?neg = "map (\<lambda>it. (si_deliveryStopId it, - si_sequence it)) items"
  let ?ss = "renumbered_stops ?neg ss"
  have fsts: "map fst ?neg = map si_deliveryStopId items" "map fst (item_pairs items) = map si_deliveryStopId items"
    "map snd (item_pairs items) = map si_sequence items" "map snd ?neg = map uminus (map si_sequence items)"
    by (simp_all add: item_pairs_def)
  have found: "\<forall>j \<in> set (map si_deliveryStopId items). \<exists>s. find_row stp_id j ss = Some s \<and> stp_deliveryId s = i"
    unfolding ids(2) using find_row_unique[OF assms(1)] by (fastforce simp: stops_of_def)
  have neg: "set_sequences ?neg ss = Inr ?ss"
  proof (rule set_sequences_ok[OF assms(1)])
    show "distinct (map fst ?neg)" "distinct (map snd ?neg)"
      unfolding fsts using ids(1) seqs(1) by (simp_all add: distinct_map inj_on_def)
    show "\<forall>j \<in> fst ` set ?neg. \<exists>s. find_row stp_id j ss = Some s \<and> stp_deliveryId s = i"
      using found by (simp add: image_image)
    show "\<forall>s \<in> set ss. stp_deliveryId s = i \<longrightarrow> stp_sequence s \<notin> snd ` set ?neg"
      using old seqs(2) by (fastforce simp: stops_of_def)
  qed
  have "set_sequences (item_pairs items) ?ss = Inr (renumbered_stops (item_pairs items) ?ss)"
  proof (rule set_sequences_ok)
    show "unique_keys stp_id ?ss"
      using assms(1) by (simp only: renumbered_keys)
    show "distinct (map fst (item_pairs items))" "distinct (map snd (item_pairs items))"
      unfolding fsts using ids(1) seqs(1) by simp_all
    have "\<exists>s. find_row stp_id j ?ss = Some s \<and> stp_deliveryId s = i"
      if "j \<in> set (map si_deliveryStopId items)" for j
      using bspec[OF found that] by (cases "map_of ?neg j") (auto simp: find_renumbered)
    then show "\<forall>j \<in> fst ` set (item_pairs items). \<exists>s. find_row stp_id j ?ss = Some s \<and> stp_deliveryId s = i"
      using fsts(2) by (metis list.set_map)
    show "\<forall>s \<in> set ?ss. stp_deliveryId s = i \<longrightarrow> stp_sequence s \<notin> snd ` set (item_pairs items)"
    proof (intro ballI impI notI)
      fix s assume s: "s \<in> set ?ss" "stp_deliveryId s = i" "stp_sequence s \<in> snd ` set (item_pairs items)"
      then obtain r where r: "r \<in> set ss" "stp_id r = stp_id s" "stp_deliveryId r = i"
          "s = (case map_of ?neg (stp_id r) of None \<Rightarrow> r | Some n \<Rightarrow> r\<lparr>stp_sequence := n\<rparr>)"
        by (auto simp: renumbered_stops_def split: option.splits)
      then have "stp_id r \<in> set (map fst ?neg)"
        unfolding fsts ids(2) by (auto simp: stops_of_def)
      then obtain n where n: "map_of ?neg (stp_id r) = Some n"
        by (metis list.set_map map_of_eq_None_iff not_None_eq)
      then have "n \<in> uminus ` set (map si_sequence items)"
        using map_of_SomeD[OF n] by auto
      with seqs(2) have "n \<le> -1" by auto
      moreover have "stp_sequence s = n"
        using r(4) n by simp
      ultimately show False
        using s(3) seqs(2) fsts(3) by (metis list.set_map not_one_le_zero order_trans neg_0_le_iff_le zero_le_one)
    qed
  qed
  moreover have "renumbered_stops (item_pairs items) ?ss = renumbered_stops (item_pairs items) ss"
    by (rule renumbered_overwrites) (simp add: fsts)
  ultimately show ?thesis
    using neg by (simp add: renumber_def item_pairs_def)
qed

section \<open>Versions\<close>

lemma fold_max_ge: "(v::int) \<le> fold max vs v \<and> (\<forall>x \<in> set vs. x \<le> fold max vs v)"
proof (induction vs arbitrary: v)
  case (Cons a vs)
  show ?case using Cons[of "max a v"] by auto
qed simp

lemma next_version_greater: "v \<in> set (route_versions i rs) \<Longrightarrow> v < next_version i rs"
  using fold_max_ge by (cases "route_versions i rs") (fastforce simp: next_version_def)+

lemma insort_last: "\<forall>y \<in> set ys. True \<Longrightarrow> f x < (f r :: 'b::linorder) \<Longrightarrow> insort_key f x (ys @ [r]) = insort_key f x ys @ [r]"
  by (induction ys) auto

lemma sort_key_last:
  "\<forall>x \<in> set xs. f x < (f r :: 'b::linorder) \<Longrightarrow> sort_key f (xs @ [r]) = sort_key f xs @ [r]"
  by (induction xs) (auto simp: insort_last)

lemma insort_key_map: "insort_key f (g x) (map g xs) = map g (insort_key (\<lambda>a. f (g a)) x xs)"
  by (induction xs) auto

lemma sort_key_map: "sort_key f (map g xs) = map g (sort_key (\<lambda>a. f (g a)) xs)"
  by (induction xs) (auto simp: insort_key_map)

text \<open>A new version is the one that is read first.\<close>

lemma latest_first_new:
  assumes "routes w' = rs @ [r]" "rte_deliveryId r = i" "rte_version r = next_version i rs"
  shows "hd (latest_first i w') = r \<and> latest_first i w' \<noteq> []"
proof -
  have "\<forall>x \<in> set (filter (\<lambda>r. rte_deliveryId r = i) rs). rte_version x < rte_version r"
    unfolding assms(3) by (auto intro!: next_version_greater simp: route_versions_def)
  then have "sort_key rte_version (filter (\<lambda>r. rte_deliveryId r = i) (routes w')) =
      sort_key rte_version (filter (\<lambda>r. rte_deliveryId r = i) rs) @ [r]"
    unfolding assms(1) using assms(2) by (simp add: sort_key_last)
  then show ?thesis by (simp add: latest_first_def)
qed

section \<open>The new version in the database\<close>

lemma write_route_ok:
  assumes "r = new_route routeId i source distance duration now (routes w)"
    and "write_route key status field r duration stops w = Inr (result, w')"
  shows "routes w' = routes w @ [r]" "routeStops w' = routeStops w @ stops"
    "deliveries w' = update_row dlv_id i (mode_row source) (deliveries w)"
    "deliveryStops w' = deliveryStops w" "proofs w' = proofs w" "conflicts w' = conflicts w"
    "result = route_result field r"
    "idempotencyRecords w' = (case key of None \<Rightarrow> idempotencyRecords w
       | Some k \<Rightarrow> finish_idempotency k status result (idempotencyRecords w))"
  using assms
  by (auto simp: write_route_def create_route_def create_route_stops_def Let_def new_route_def
      split: sum.splits if_splits)

lemma claim_key_frame:
  "claim_key key now w = Inr w' \<Longrightarrow>
   deliveries w' = deliveries w \<and> deliveryStops w' = deliveryStops w \<and> routes w' = routes w \<and>
   routeStops w' = routeStops w \<and> proofs w' = proofs w \<and> conflicts w' = conflicts w"
  by (auto simp: claim_key_def split: option.splits sum.splits)

section \<open>Keyed transactions\<close>

text \<open>
  The contract of a transaction that claims an idempotency key: a key that is already recorded makes
  it fail with the unique violation, and when it commits, the record of the key holds its result.
\<close>

locale keyed_transaction =
  fixes tx :: "idempotency_key option \<Rightarrow> world \<Rightarrow> api_error + json \<times> world"
  assumes duplicate: "find_row idm_key k (idempotencyRecords w) \<noteq> None \<Longrightarrow> tx (Some k) w = fail_with Internal ''P2002''"
    and recorded: "tx (Some k) w = Inr (result, w') \<Longrightarrow>
      \<exists>r. find_row idm_key k (idempotencyRecords w') = Some r \<and> idm_responseBody r = result"
begin

text \<open>After a commit, a repetition with the same key gets the same body, marked as a replay.\<close>

lemma committed_stored:
  "tx (Some k) w = Inr (result, w') \<Longrightarrow> stored_response (Some k) w' = Some (with_idempotent result)"
  using recorded by (fastforce simp: stored_response_def)

text \<open>
  A request whose key is already recorded when its transaction runs changes nothing and answers with
  the recorded body.
\<close>

lemma recorded_replays:
  assumes "find_row idm_key k (idempotencyRecords w) = Some r"
  shows "run_keyed (Some k) (tx (Some k)) after w = (Inr (with_idempotent (idm_responseBody r)), w)"
proof -
  have "tx (Some k) w = fail_with Internal ''P2002''"
    using duplicate assms by simp
  with assms show ?thesis
    by (simp add: run_keyed_def isUniqueConstraintError_def stored_response_def)
qed

end

lemma claim_key_duplicate:
  "find_row idm_key k (idempotencyRecords w) \<noteq> None \<Longrightarrow> claim_key (Some k) now w = fail_with Internal ''P2002''"
  by (simp add: claim_key_def claim_idempotency_def)

lemma finished_record:
  assumes "find_row idm_key k rs \<noteq> None"
  shows "\<exists>r. find_row idm_key k (finish_idempotency k status body rs) = Some r \<and> idm_responseBody r = body"
  using assms by (auto simp: finish_idempotency_def find_row_update_row)

lemma claimed_record:
  "claim_key (Some k) now w = Inr w' \<Longrightarrow> find_row idm_key k (idempotencyRecords w') \<noteq> None"
  by (auto simp: claim_key_def claim_idempotency_def find_row_append split: sum.splits if_splits option.splits)

interpretation selecting: keyed_transaction "\<lambda>key. selectRoute_tx i dto key routeId now" for i dto routeId now
proof
  fix k w result w'
  assume "selectRoute_tx i dto (Some k) routeId now w = Inr (result, w')"
  then obtain w1 where w1: "claim_key (Some k) now w = Inr w1"
    and wr: "write_route (Some k) 201 ''selectedAt'' (new_route routeId i (sr_source dto)
        (sr_totalDistanceMeters dto) (sr_estimatedDurationSeconds dto) now (routes w1))
        (sr_estimatedDurationSeconds dto) (selected_stops routeId (sr_recommendedSequence dto)) w1 = Inr (result, w')"
    by (auto simp: selectRoute_tx_def Let_def split: sum.splits)
  show "\<exists>r. find_row idm_key k (idempotencyRecords w') = Some r \<and> idm_responseBody r = result"
    using finished_record[OF claimed_record[OF w1]] write_route_ok(8)[OF refl wr] by simp
qed (simp add: selectRoute_tx_def claim_key_duplicate)

interpretation reordering: keyed_transaction "\<lambda>key. reorderStops_tx i dto key routeId now" for i dto routeId now
proof
  fix k w result w'
  assume "reorderStops_tx i dto (Some k) routeId now w = Inr (result, w')"
  then obtain w1 ss where w1: "claim_key (Some k) now w = Inr w1"
    and wr: "write_route (Some k) 200 ''updatedAt'' (new_route routeId i SRC_MANUAL 0 0 now (routes (w1\<lparr>deliveryStops := ss\<rparr>))) 0
        (reordered_stops routeId (mr_stopSequence dto)) (w1\<lparr>deliveryStops := ss\<rparr>) = Inr (result, w')"
    by (auto simp: reorderStops_tx_def Let_def split: sum.splits)
  show "\<exists>r. find_row idm_key k (idempotencyRecords w') = Some r \<and> idm_responseBody r = result"
    using finished_record[OF claimed_record[OF w1]] write_route_ok(8)[OF refl wr] by simp
qed (simp add: reorderStops_tx_def claim_key_duplicate)

end
