(* ===== verification/RouteSteps.thy ===== *)
theory RouteSteps
  imports Refinement RouteLemmas
begin

text \<open>
  The route requests as runs of the abstract lifecycle: selecting and reordering renumber stops and
  annotate the delivery, and touch neither status nor proof nor ticket.
\<close>

lemma renumber_step:
  "set_sequence stopId n (deliveryStops w) = Inr ss \<Longrightarrow> steps_to w (w\<lparr>deliveryStops := ss\<rparr>)"
proof -
  assume "set_sequence stopId n (deliveryStops w) = Inr ss"
  then have ss: "ss = update_row stp_id stopId (\<lambda>s. s\<lparr>stp_sequence := n\<rparr>) (deliveryStops w)"
    by (auto simp: set_sequence_def split: option.splits if_splits)
  have "core_step (core_of w)
      ((core_of w)\<lparr>c_stops := update_row stp_id stopId (\<lambda>s. s\<lparr>stp_sequence := n\<rparr>) (c_stops (core_of w))\<rparr>)"
    by (rule core_step.renumbered) simp
  then show ?thesis by (simp add: ss r_into_rtranclp)
qed

lemma set_sequences_steps:
  "set_sequences items (deliveryStops w) = Inr ss \<Longrightarrow> steps_to w (w\<lparr>deliveryStops := ss\<rparr>)"
proof (induction items arbitrary: w)
  case Nil
  then have "w\<lparr>deliveryStops := ss\<rparr> = w" by simp
  then show ?case by simp
next
  case (Cons it items)
  obtain j n where it: "it = (j, n)" by (cases it)
  from Cons.prems obtain ss1 where s1: "set_sequence j n (deliveryStops w) = Inr ss1"
    and rest: "set_sequences items ss1 = Inr ss"
    by (auto simp: it split: sum.splits)
  have "steps_to (w\<lparr>deliveryStops := ss1\<rparr>) (w\<lparr>deliveryStops := ss1\<rparr>\<lparr>deliveryStops := ss\<rparr>)"
    using Cons.IH[of "w\<lparr>deliveryStops := ss1\<rparr>"] rest by simp
  with renumber_step[OF s1] show ?case by simp
qed

lemma renumber_steps:
  assumes "renumber items (deliveryStops w) = Inr ss"
  shows "steps_to w (w\<lparr>deliveryStops := ss\<rparr>)"
proof -
  obtain ss1 where s: "set_sequences (map (\<lambda>it. (si_deliveryStopId it, - si_sequence it)) items) (deliveryStops w) = Inr ss1"
      "set_sequences (map (\<lambda>it. (si_deliveryStopId it, si_sequence it)) items) ss1 = Inr ss"
    using assms by (auto simp: renumber_def split: sum.splits)
  from set_sequences_steps[OF s(1)] set_sequences_steps[of _ "w\<lparr>deliveryStops := ss1\<rparr>" ss] s(2)
  show ?thesis by fastforce
qed

lemma mode_step: "steps_to w (w\<lparr>deliveries := update_row dlv_id i (mode_row source) (deliveries w)\<rparr>)"
  using core_step.annotated[of "mode_row source" "core_of w" i] by (simp add: row_defs r_into_rtranclp)

lemma write_route_steps:
  assumes "r = new_route routeId i source distance duration now (routes w)"
    and "write_route key status field r duration stops w = Inr (result, w')"
  shows "steps_to w w'"
proof -
  have "core_of w' = core_of (w\<lparr>deliveries := update_row dlv_id i (mode_row source) (deliveries w)\<rparr>)"
    using write_route_ok[OF assms] by (intro core_of_cong) simp_all
  then show ?thesis using mode_step by simp
qed

lemma claim_key_core: "claim_key key now w = Inr w' \<Longrightarrow> core_of w' = core_of w"
  using claim_key_frame by (intro core_of_cong) blast+

lemma selectRoute_tx_steps:
  assumes "selectRoute_tx i dto key routeId now w = Inr (result, w')"
  shows "steps_to w w'"
proof -
  obtain w1 where "claim_key key now w = Inr w1" "steps_to w1 w'"
    using assms write_route_steps[OF refl] by (auto simp: selectRoute_tx_def Let_def split: sum.splits)
  then show ?thesis using claim_key_core by metis
qed

lemma reorderStops_tx_steps:
  assumes "reorderStops_tx i dto key routeId now w = Inr (result, w')"
  shows "steps_to w w'"
proof -
  obtain w1 ss where w1: "claim_key key now w = Inr w1"
    and ss: "renumber (mr_stopSequence dto) (deliveryStops w1) = Inr ss"
    and wr: "write_route key 200 ''updatedAt'' (new_route routeId i SRC_MANUAL 0 0 now (routes (w1\<lparr>deliveryStops := ss\<rparr>))) 0
        (reordered_stops routeId (mr_stopSequence dto)) (w1\<lparr>deliveryStops := ss\<rparr>) = Inr (result, w')"
    using assms by (auto simp: reorderStops_tx_def Let_def split: sum.splits)
  from renumber_steps[OF ss] write_route_steps[OF refl wr] claim_key_core[OF w1] show ?thesis
    by (metis rtranclp_trans)
qed

lemma route_broadcast_core [simp]: "core_of (broadcastRouteUpdated i result actor w) = core_of w"
  by (simp add: broadcastRouteUpdated_def Let_def)

lemma run_keyed_steps:
  assumes "\<And>w' result. tx w = Inr (result, w') \<Longrightarrow> steps_to w w'"
    and "\<And>result w'. core_of (after result w') = core_of w'"
  shows "steps_to w (snd (run_keyed key tx after w))"
  using assms by (auto simp: run_keyed_def split: sum.splits option.splits)

lemma route_guard_world:
  "route_request_guard i actor now w = (r, w1) \<Longrightarrow> \<exists>rd. w1 = w\<lparr>redisState := rd\<rparr>"
proof -
  have "\<exists>rd. w = w\<lparr>redisState := rd\<rparr>" by (rule exI[of _ "redisState w"]) simp
  moreover assume "route_request_guard i actor now w = (r, w1)"
  ultimately show ?thesis
    by (auto simp: route_request_guard_def enforceRouteRateLimit_def Let_def
        split: sum.splits prod.splits if_splits)
qed

lemma route_guard_core: "route_request_guard i actor now w = (r, w1) \<Longrightarrow> core_of w1 = core_of w"
  using route_guard_world by (fastforce simp: core_of_def)

lemma recommend_core: "core_of (snd (recommendRoute osrm i p actor now w)) = core_of w"
  using route_guard_core[of i actor now w]
  by (auto simp: recommendRoute_def Let_def split: prod.split sum.split)

lemma select_steps: "steps_to w (snd (selectRoute i dto actor endpoint routeId now w))"
proof (cases "route_request_guard i actor now w")
  case (Pair r w1)
  have c: "core_of w1 = core_of w" using route_guard_core[OF Pair] .
  have "steps_to w1 (snd (run_keyed key (selectRoute_tx i dto key routeId now)
      (\<lambda>result. broadcastRouteUpdated i result actor) w1))" for key
    using selectRoute_tx_steps by (intro run_keyed_steps) auto
  with c show ?thesis
    by (auto simp: selectRoute_def Pair Let_def split: sum.split option.split)
qed

lemma reorder_steps: "steps_to w (snd (reorderStops i dto actor endpoint routeId now w))"
proof (cases "route_request_guard i actor now w")
  case (Pair r w1)
  have c: "core_of w1 = core_of w" using route_guard_core[OF Pair] .
  have "steps_to w1 (snd (run_keyed key (reorderStops_tx i dto key routeId now)
      (\<lambda>result. broadcastRouteUpdated i result actor) w1))" for key
    using reorderStops_tx_steps by (intro run_keyed_steps) auto
  with c show ?thesis
    by (auto simp: reorderStops_def Pair Let_def split: sum.split option.split)
qed

end
