(* ===== verification/Service.thy ===== *)
theory Service
  imports RouteSteps
begin

text \<open>
  The delivery core as a service: the requests of its handlers and of the route handlers, their execution, and the states a
  sequence of requests can reach.  Each request runs alone here; what other requests may do between
  the guard and the write of a handler is the subject of \<open>HandlerProps\<close>.
\<close>

section \<open>Requests\<close>

datatype request =
    Create create_delivery_dto uuid "nat \<Rightarrow> uuid"
  | Assign uuid assign_delivery_dto delivery_actor
  | Accept uuid uuid uuid
  | Start uuid uuid uuid timestamp
  | Complete uuid delivery_actor timestamp
  | Cancel uuid string delivery_actor
  | Depart uuid uuid uuid
  | Arrive uuid uuid uuid timestamp
  | Unload uuid uuid uuid
  | Fail uuid "string option" uuid uuid timestamp
  | Skip uuid "string option" delivery_actor timestamp
  | SubmitPod uuid submit_pod_dto delivery_actor uuid timestamp
  | Sync "outbox_item list" uuid uuid "nat \<Rightarrow> uuid" timestamp
  | Resolve uuid resolve_conflict_dto uuid string uuid timestamp
  | Recommend osrm_service uuid "preferred option" route_actor timestamp
  | Select uuid select_route_dto route_actor uuid timestamp
  | Reorder uuid manual_reorder_dto route_actor uuid timestamp

fun exec :: "request \<Rightarrow> world \<Rightarrow> world" where
  "exec (Create dto u ids) w = snd (createDelivery dto u ids w)"
| "exec (Assign i dto a) w = snd (assignDelivery i dto a w)"
| "exec (Accept i drv u) w = snd (acceptDelivery i drv u w)"
| "exec (Start i drv u now) w = snd (startDelivery i drv u now w)"
| "exec (Complete i a now) w = snd (completeDelivery i a now w)"
| "exec (Cancel i reason a) w = snd (cancelDelivery i reason a w)"
| "exec (Depart j drv u) w = snd (departToStop j drv u w)"
| "exec (Arrive j drv u now) w = snd (arriveAtStop j drv u now w)"
| "exec (Unload j drv u) w = snd (startUnloading j drv u w)"
| "exec (Fail j reason drv u now) w = snd (failStop j reason drv u now w)"
| "exec (Skip j reason a now) w = snd (skipStop j reason a now w)"
| "exec (SubmitPod j dto a podId now) w = snd (submitPod j dto a podEndpoint podId now w)"
| "exec (Sync its drv u ids now) w = snd (syncOutbox its drv u ids now w)"
| "exec (Resolve k dto u role podId now) w = snd (resolveConflict k dto u role podId now w)"
| "exec (Recommend osrm i p actor now) w = snd (recommendRoute osrm i p actor now w)"
| "exec (Select i dto actor routeId now) w = snd (selectRoute i dto actor selectEndpoint routeId now w)"
| "exec (Reorder i dto actor routeId now) w = snd (reorderStops i dto actor reorderEndpoint routeId now w)"

text \<open>A request that creates a delivery draws ids that are not in use; no other needs this.\<close>

fun fresh_request :: "request \<Rightarrow> world \<Rightarrow> bool" where
  "fresh_request (Create dto u ids) w = fresh_ids ids w"
| "fresh_request _ w = True"

inductive served :: "world \<Rightarrow> world \<Rightarrow> bool" for w0 where
  start: "served w0 w0"
| request: "served w0 w \<Longrightarrow> fresh_request r w \<Longrightarrow> served w0 (exec r w)"

lemmas request_steps = create_steps assign_steps accept_steps start_steps complete_steps cancel_steps
  depart_steps arrive_steps unload_steps fail_steps skip_steps pod_steps resolve_steps
  select_steps reorder_steps

lemma exec_steps: "core_inv (core_of w) \<Longrightarrow> fresh_request r w \<Longrightarrow> steps_to w (exec r w)"
  by (cases r) (simp_all add: request_steps recommend_core syncOutbox_def sync_loop_steps)

lemma served_steps: "served w0 w \<Longrightarrow> core_inv (core_of w0) \<Longrightarrow> steps_to w0 w"
proof (induction rule: served.induct)
  case start
  then show ?case by simp
next
  case (request w r)
  then have "steps_to w0 w" by simp
  then show ?case
    using core_steps_inv request.prems exec_steps[OF _ request.hyps(2)]
    by (meson rtranclp_trans)
qed

lemma served_inv: "served w0 w \<Longrightarrow> core_inv (core_of w0) \<Longrightarrow> core_inv (core_of w)"
  using served_steps core_steps_inv by blast

lemma served_trans: "served w1 w2 \<Longrightarrow> served w0 w1 \<Longrightarrow> served w0 w2"
  by (induction rule: served.induct) (auto intro: served.intros)

section \<open>A sample world\<close>

text \<open>A small consistent database, at which the properties are instantiated.\<close>

definition sample_redis :: redis where
  "sample_redis = \<lparr>rd_connected = True, rd_oracle = [], rd_data = Map.empty, rd_uncertain = [],
                   rd_published = []\<rparr>"

definition empty_world :: world where
  "empty_world = \<lparr>deliveries = [], deliveryItems = [], deliveryStops = [], routes = [], routeStops = [],
     deliveryEvents = [], proofs = [], conflicts = [], auditLogs = [], idempotencyRecords = [],
     drivers = [\<lparr>drv_id = ''drv1'', drv_userId = ''usr1'', drv_organizationId = None\<rparr>],
     vehicles = [''veh1''], redisState = sample_redis, gatewayUp = True, emitted = []\<rparr>"

definition sample_delivery :: "delivery_status \<Rightarrow> delivery" where
  "sample_delivery st = \<lparr>dlv_id = ''dlv1'', dlv_code = ''D-1'', dlv_driverId = Some ''drv1'',
     dlv_vehicleId = Some ''veh1'', dlv_organizationId = None, dlv_status = st,
     dlv_routeMode = MODE_RECOMMENDED_2OPT, dlv_plannedStartAt = None, dlv_startedAt = None,
     dlv_completedAt = None, dlv_createdBy = ''own1''\<rparr>"

definition sample_stop :: "string \<Rightarrow> int \<Rightarrow> stop_status \<Rightarrow> delivery_stop" where
  "sample_stop j n st = \<lparr>stp_id = j, stp_deliveryId = ''dlv1'', stp_sequence = n,
     stp_destinationName = ''Depot'', stp_address = ''Street'', stp_latitude = 0, stp_longitude = 0,
     stp_geofenceRadiusM = 100, stp_status = st, stp_arrivedAt = None, stp_completedAt = None\<rparr>"

definition sample_world :: "delivery_status \<Rightarrow> stop_status \<Rightarrow> stop_status \<Rightarrow> world" where
  "sample_world d s1 s2 = empty_world\<lparr>deliveries := [sample_delivery d],
     deliveryStops := [sample_stop ''stp1'' 1 s1, sample_stop ''stp2'' 2 s2]\<rparr>"

definition sample_owner :: delivery_actor where
  "sample_owner = \<lparr>act_userId = ''own1'', act_role = ''OWNER'', act_driverId = None,
                   act_organizationId = None\<rparr>"

lemmas sample_defs = sample_redis_def empty_world_def sample_delivery_def sample_stop_def
  sample_world_def sample_owner_def

lemma core_inv_empty: "core_inv (core_of empty_world)"
  by (simp add: core_inv_def keys_ok_def verdict_ok_def proofs_ok_def tickets_ok_def core_of_def
      empty_world_def)

lemma core_inv_sample:
  "d \<notin> {COMPLETED, FAILED} \<Longrightarrow> core_inv (core_of (sample_world d s1 s2))"
  by (auto simp: core_inv_def keys_ok_def verdict_ok_def proofs_ok_def tickets_ok_def core_of_def
      sample_defs)

end
