(* ===== verification/HandlerProps.thy ===== *)
theory HandlerProps
  imports Service
begin

text \<open>
  Properties of single delivery handlers: on which inputs they succeed and with which effect, which
  writes survive a cancellation that slips in between guard and write, and the replay of a proof of
  delivery.
\<close>

lemma evaluate_iff:
  "evaluateDeliveryCompletion i ss = Eligible t \<longleftrightarrow>
     stops_of i ss \<noteq> [] \<and> (\<forall>s \<in> set (stops_of i ss). terminal_stop (stp_status s)) \<and>
     t = (if \<exists>s \<in> set (stops_of i ss). stp_status s = S_DELIVERED then COMPLETED else FAILED)"
  by (auto simp: evaluateDeliveryCompletion_def Let_def filter_empty_conv)

lemma target_b: "\<exists>b. (if P then COMPLETED else FAILED) = target_status b"
  by (metis target_status_def)

lemma finishing_claim:
  assumes "unique_keys dlv_id ds" and "evaluateDeliveryCompletion i ss = Eligible t"
  shows "claim dlv_id is_en_route (finish_row t now) i ds =
    (case find_row dlv_id i ds of
       None \<Rightarrow> (0, ds)
     | Some d \<Rightarrow> if is_en_route d then (1, update_row dlv_id i (finish_row t now) ds) else (0, ds))"
  using finishing.claim_eq[OF assms(1)] evaluate_target[OF assms(2)] by fastforce

context stop_move
begin

lemma claim_closed:
  assumes "unique_keys stp_id rows" and "find_row stp_id j rows = Some s" and "\<not> parent_open ds s"
  shows "claim stp_id (stop_open ds expected) f j rows = (0, rows)"
  using assms by (simp add: claims.claim_eq)

lemma update_closed:
  assumes "unique_keys stp_id (deliveryStops w)"
    and "find_row stp_id j (deliveryStops w) = Some s"
    and "find_row dlv_id (stp_deliveryId s) (deliveries w) = Some d" and "terminal_delivery (dlv_status d)"
  shows "updateStopIfOperational j expected f w = (fail_with Conflict ''INVALID_DELIVERY_STATE'', w)"
proof -
  have "\<not> parent_open (deliveries w) s"
    using assms(3,4) by (simp add: parent_open_def)
  with assms show ?thesis
    by (simp add: updateStopIfOperational_def claim_closed[OF assms(1,2)])
qed

end

section \<open>Completing a delivery\<close>

text \<open>
   Manual completion, exactly: for an actor with access it finishes the delivery if and only if
  the delivery is EN_ROUTE, has stops and every stop is terminal; it then ends as COMPLETED if a stop
  was delivered and FAILED otherwise.  In every other case the database is unchanged.
\<close>

theorem complete_exactly_when:
  fixes now :: timestamp
  assumes "unique_keys dlv_id (deliveries w)"
    and "find_row dlv_id i (deliveries w) = Some d" and "getDeliveryById i actor w = Inr v"
  defines "ss \<equiv> set (stops_of i (deliveryStops w))"
  defines "r \<equiv> completeDelivery i actor now w"
  defines "t \<equiv> (if \<exists>s \<in> ss. stp_status s = S_DELIVERED then COMPLETED else FAILED)"
  shows "((\<exists>d'. fst r = Inr (Finished d')) \<longleftrightarrow>
            dlv_status d = EN_ROUTE \<and> ss \<noteq> {} \<and> (\<forall>s \<in> ss. terminal_stop (stp_status s))) \<and>
    (\<forall>d'. fst r = Inr (Finished d') \<longrightarrow>
        d' = finish_row t now d \<and>
        deliveries (snd r) = update_row dlv_id i (finish_row t now) (deliveries w) \<and>
        deliveryStops (snd r) = deliveryStops w) \<and>
    ((\<nexists>d'. fst r = Inr (Finished d')) \<longrightarrow> snd r = w)"
proof (cases "dlv_status d = EN_ROUTE")
  case False
  then show ?thesis
    using getDeliveryById_found[OF assms(3)] assms(2) assms(3)
    by (auto simp: r_def completeDelivery_def)
next
  case True
  have v: "vw_delivery v = d"
    using getDeliveryById_found[OF assms(3)] assms(2) by simp
  show ?thesis
  proof (rule complete_tx_cases[OF assms(1), of i actor now])
    fix e assume tx: "completeDelivery_tx i actor now w = (Inl e, w)"
    have no: "evaluateDeliveryCompletion i (deliveryStops w) \<noteq> Eligible t"
    proof
      assume "evaluateDeliveryCompletion i (deliveryStops w) = Eligible t"
      from tx this finishing_claim[OF assms(1) this, of now] assms(2) True show False
        by (auto simp: completeDelivery_tx_def find_row_update_row row_defs)
    qed
    show ?thesis
      using tx no True v assms(3)
      by (auto simp: r_def completeDelivery_def evaluate_iff t_def ss_def)
  next
    fix d1 t1 w'
    assume c: "completeDelivery_tx i actor now w = (Inr (finish_row t1 now d1), w')"
      "find_row dlv_id i (deliveries w) = Some d1"
      "evaluateDeliveryCompletion i (deliveryStops w) = Eligible t1"
      "w' = add_audit (success_audit (act_userId actor)
                (if t1 = COMPLETED then ''DELIVERY_COMPLETED'' else ''DELIVERY_FAILED'') ''DELIVERY'' i JNull)
              (w\<lparr>deliveries := update_row dlv_id i (finish_row t1 now) (deliveries w)\<rparr>)"
    have t1: "t1 = t" and ss: "ss \<noteq> {}" "\<forall>s \<in> ss. terminal_stop (stp_status s)"
      using c(3) by (auto simp: evaluate_iff t_def ss_def)
    have "r = (Inr (Finished (finish_row t now d)), broadcastStatusChanged i t actor w')"
      using c(1,2) True v assms(2,3) by (simp add: r_def completeDelivery_def t1 row_defs)
    then show ?thesis
      using True ss c(4) by (simp add: t1)
  qed
qed

theorem complete_exactly_when_witness:
  "let w = sample_world EN_ROUTE S_DELIVERED S_SKIPPED
   in \<exists>d'. fst (completeDelivery ''dlv1'' sample_owner 7 w) = Inr (Finished d')"
proof -
  let ?w = "sample_world EN_ROUTE S_DELIVERED S_SKIPPED"
  have keys: "unique_keys dlv_id (deliveries ?w)" by (simp add: sample_defs)
  have f: "find_row dlv_id ''dlv1'' (deliveries ?w) = Some (sample_delivery EN_ROUTE)"
    by (simp add: sample_defs)
  obtain v where v: "getDeliveryById ''dlv1'' sample_owner ?w = Inr v"
    by (simp add: getDeliveryById_def sample_defs)
  have "\<forall>s \<in> set (stops_of ''dlv1'' (deliveryStops ?w)). terminal_stop (stp_status s)"
      "set (stops_of ''dlv1'' (deliveryStops ?w)) \<noteq> {}"
    by (simp_all add: sample_defs stops_of_def terminal_stop_def)
  then show ?thesis
    unfolding Let_def using complete_exactly_when[OF keys f v, of 7]
    by (simp add: sample_delivery_def)
qed

text \<open>
  C6.  The automatic completion after the last stop and the completion on request agree: on every
  state they leave the same deliveries.  Only the transaction on request also writes an audit row.
\<close>

theorem auto_agrees_with_manual:
  assumes "unique_keys dlv_id (deliveries w)"
  shows "deliveries (completeDeliveryIfEligible i actor now w) =
           deliveries (snd (completeDelivery_tx i actor now w)) \<and>
         auditLogs (completeDeliveryIfEligible i actor now w) = auditLogs w"
proof (cases "evaluateDeliveryCompletion i (deliveryStops w)")
  case (Eligible t)
  show ?thesis
    using finishing_claim[OF assms Eligible, of now]
    by (auto simp: auto_complete_deliveries[OF assms] completeDelivery_tx_def Eligible
        find_row_update_row row_defs split: option.split)
qed (simp_all add: auto_complete_deliveries[OF assms] completeDelivery_tx_def)

theorem auto_agrees_with_manual_witness:
  "deliveries (completeDeliveryIfEligible ''dlv1'' sample_owner 7 (sample_world EN_ROUTE S_FAILED S_SKIPPED)) =
     deliveries (snd (completeDelivery_tx ''dlv1'' sample_owner 7 (sample_world EN_ROUTE S_FAILED S_SKIPPED)))"
proof -
  have "unique_keys dlv_id (deliveries (sample_world EN_ROUTE S_FAILED S_SKIPPED))"
    by (simp add: sample_defs)
  from auto_agrees_with_manual[OF this] show ?thesis by blast
qed

section \<open>Cancellation against other writers\<close>

lemma cancelDelivery_ok:
  assumes "unique_keys dlv_id (deliveries w)" and "cancelDelivery i reason owner w = (Inr c, w1)"
    and "find_row dlv_id i (deliveries w) = Some d"
  shows "c = cancel_row d \<and> deliveries w1 = update_row dlv_id i cancel_row (deliveries w)"
proof (cases "getDeliveryById i owner w")
  case (Inl e)
  with assms(2) show ?thesis by (simp add: cancelDelivery_def)
next
  case (Inr v)
  with assms(2,3) show ?thesis
    by (cases "is_open d") (auto simp: cancelDelivery_def cancel_tx_eq[OF assms(1)])
qed

lemma cancelDelivery_success:
  assumes "unique_keys dlv_id (deliveries w)" and "getDeliveryById i owner w = Inr v"
    and "find_row dlv_id i (deliveries w) = Some d" and "is_open d"
  shows "\<exists>w1. cancelDelivery i reason owner w = (Inr (cancel_row d), w1) \<and>
    deliveries w1 = update_row dlv_id i cancel_row (deliveries w)"
  using assms(2-4) by (simp add: cancelDelivery_def cancel_tx_eq[OF assms(1)])



text \<open>
   The conditional writes are safe: once a delivery is COMPLETED, CANCELLED or FAILED, every write
  that claims its row or one of its stops inside its own transaction is refused and changes nothing,
  whatever the handler's earlier checks have seen.
\<close>

theorem stale_writes_refused:
  assumes "unique_keys dlv_id (deliveries w)" and "unique_keys stp_id (deliveryStops w)"
    and "find_row dlv_id i (deliveries w) = Some d" and "terminal_delivery (dlv_status d)"
    and "find_row stp_id j (deliveryStops w) = Some s" and "stp_deliveryId s = i"
    and "stop_move expected f"
  shows "(\<exists>e. completeDelivery_tx i actor now w = (Inl e, w)) \<and>
    (\<exists>e. cancelDelivery_tx i reason actor w = (Inl e, w)) \<and>
    deliveries (completeDeliveryIfEligible i actor now w) = deliveries w \<and>
    updateStopIfOperational j expected f w = (fail_with Conflict ''INVALID_DELIVERY_STATE'', w) \<and>
    (\<exists>e. submitPod_tx i j dto u key podId now w = (Inl e, w))"
proof -
  have closed: "\<not> is_en_route d" "\<not> parent_open (deliveries w) s"
    using assms(3,4,6) by (auto simp: terminal_delivery_def parent_open_def)
  have "\<exists>e. completeDelivery_tx i actor now w = (Inl e, w)"
    using complete_tx_cases[OF assms(1), of i actor now] closed(1) assms(3) by (metis option.inject)
  moreover have "\<exists>e. cancelDelivery_tx i reason actor w = (Inl e, w)"
    using assms(3,4) by (simp add: cancel_tx_eq[OF assms(1)])
  moreover have "deliveries (completeDeliveryIfEligible i actor now w) = deliveries w"
    using closed(1) assms(3) by (simp add: auto_complete_deliveries[OF assms(1)] split: completion.split)
  moreover have "updateStopIfOperational j expected f w = (fail_with Conflict ''INVALID_DELIVERY_STATE'', w)"
    using stop_move.update_closed[OF assms(7,2,5)] assms(3,4,6) by simp
  moreover have "\<exists>e. submitPod_tx i j dto u key podId now w = (Inl e, w)"
  proof -
    note lost = delivering.claim_closed[OF assms(2,5) closed(2), of now]
    show ?thesis
      unfolding submitPod_tx_def lost by (auto split: sum.split option.split)
  qed
  ultimately show ?thesis by blast
qed

theorem stale_writes_refused_witness:
  "updateStopIfOperational ''stp1'' {S_ARRIVED} unload_row (sample_world CANCELLED S_ARRIVED S_PENDING) =
     (fail_with Conflict ''INVALID_DELIVERY_STATE'', sample_world CANCELLED S_ARRIVED S_PENDING)"
proof -
  let ?w = "sample_world CANCELLED S_ARRIVED S_PENDING"
  have a: "unique_keys dlv_id (deliveries ?w)" "unique_keys stp_id (deliveryStops ?w)"
      "find_row dlv_id ''dlv1'' (deliveries ?w) = Some (sample_delivery CANCELLED)"
      "terminal_delivery (dlv_status (sample_delivery CANCELLED))"
      "find_row stp_id ''stp1'' (deliveryStops ?w) = Some (sample_stop ''stp1'' 1 S_ARRIVED)"
      "stp_deliveryId (sample_stop ''stp1'' 1 S_ARRIVED) = ''dlv1''"
    by (simp_all add: sample_defs terminal_delivery_def)
  show ?thesis
    using stale_writes_refused[OF a unloading.stop_move_axioms] by blast
qed

end
