(* ===== verification/Sessions.thy ===== *)
theory Sessions
  imports DataModel
begin

text \<open>
  Accounts, devices and sessions, and \<open>session.service.ts\<close>: creating a session (one active session
  for a driver, at most five for others), rotating a refresh token with reuse detection, and revoking
  sessions.  The columns that only record history (\<open>createdAt\<close>, \<open>lastSeenAt\<close>, the \<open>ipAddress\<close>,
  \<open>userAgent\<close> and \<open>beforeJson\<close> of audit rows) are left out.

  \<open>hashToken\<close> (SHA-256, \<open>token.util.ts\<close>) is a parameter; the random tokens and ids of a request are
  arguments.
\<close>

section \<open>Rows\<close>

datatype account_status = PENDING_ACTIVATION | ACTIVE | SUSPENDED | DISABLED

fun account_status_name :: "account_status \<Rightarrow> string" where
  "account_status_name PENDING_ACTIVATION = ''PENDING_ACTIVATION''"
| "account_status_name ACTIVE = ''ACTIVE''"
| "account_status_name SUSPENDED = ''SUSPENDED''"
| "account_status_name DISABLED = ''DISABLED''"

datatype platform = ANDROID | IOS | WEB

datatype device_status = DEV_ACTIVE | DEV_REVOKED

record user =
  usr_id :: uuid
  usr_username :: string
  usr_email :: "string option"
  usr_phone :: string
  usr_passwordHash :: string
  usr_role :: string
  usr_organizationId :: "uuid option"
  usr_status :: account_status
  usr_lastLoginAt :: "timestamp option"

record role =
  rol_code :: string
  rol_permissions :: "string list"

record device =
  dvc_id :: uuid
  dvc_userId :: uuid
  dvc_deviceIdentifier :: string
  dvc_platform :: platform
  dvc_appVersion :: string
  dvc_pushToken :: "string option"
  dvc_status :: device_status

record session =
  ses_id :: uuid
  ses_userId :: uuid
  ses_deviceId :: uuid
  ses_refreshTokenHash :: string
  ses_tokenFamily :: uuid
  ses_isRevoked :: bool
  ses_expiresAt :: timestamp
  ses_lastRefreshedAt :: timestamp

record auth_world =
  aw_users :: "user list"
  aw_roles :: "role list"
  aw_devices :: "device list"
  aw_sessions :: "session list"
  aw_drivers :: "driver list"
  aw_audit :: "audit_log list"
  aw_redis :: redis

definition log_audit :: "audit_log \<Rightarrow> auth_world \<Rightarrow> auth_world" where
  "log_audit a w = w\<lparr>aw_audit := aw_audit w @ [a]\<rparr>"

definition on_redis :: "(redis \<Rightarrow> redis) \<Rightarrow> auth_world \<Rightarrow> auth_world" where
  "on_redis f w = w\<lparr>aw_redis := f (aw_redis w)\<rparr>"

lemma auth_frame [simp]:
  "aw_users (log_audit a w) = aw_users w" "aw_roles (log_audit a w) = aw_roles w"
  "aw_devices (log_audit a w) = aw_devices w" "aw_sessions (log_audit a w) = aw_sessions w"
  "aw_drivers (log_audit a w) = aw_drivers w" "aw_redis (log_audit a w) = aw_redis w"
  "aw_users (on_redis f w) = aw_users w" "aw_roles (on_redis f w) = aw_roles w"
  "aw_devices (on_redis f w) = aw_devices w" "aw_sessions (on_redis f w) = aw_sessions w"
  "aw_drivers (on_redis f w) = aw_drivers w" "aw_redis (on_redis f w) = f (aw_redis w)"
  "aw_audit (on_redis f w) = aw_audit w" "aw_audit (log_audit a w) = aw_audit w @ [a]"
  by (simp_all add: log_audit_def on_redis_def)

section \<open>Revocation keys and messages\<close>

definition session_key :: "uuid \<Rightarrow> string" where
  "session_key i = ''revoked:session:'' @ i"

definition user_key :: "uuid \<Rightarrow> string" where
  "user_key i = ''revoked:user:'' @ i"

text \<open>The value 900 is the lifetime of an access token in seconds.\<close>

definition revoke_key :: "string \<Rightarrow> timestamp \<Rightarrow> auth_world \<Rightarrow> auth_world" where
  "revoke_key k now w = on_redis (setRevocation k 900 now) w"

definition announce :: "json \<Rightarrow> auth_world \<Rightarrow> auth_world" where
  "announce message w = on_redis (publish ''security:revocation'' message) w"

definition revocation_message :: "string \<Rightarrow> (string \<times> json) list \<Rightarrow> string \<Rightarrow> timestamp \<Rightarrow> json" where
  "revocation_message kind subject reason now =
     JObj ([(''type'', JStr kind)] @ subject @ [(''reason'', JStr reason), (''timestamp'', JNum (of_int now))])"

definition revoke_row :: "session \<Rightarrow> session" where
  "revoke_row s = s\<lparr>ses_isRevoked := True\<rparr>"

definition active_of :: "uuid \<Rightarrow> session list \<Rightarrow> session list" where
  "active_of userId ss = filter (\<lambda>s. ses_userId s = userId \<and> \<not> ses_isRevoked s) ss"

definition revoke_user_rows :: "uuid \<Rightarrow> auth_world \<Rightarrow> auth_world" where
  "revoke_user_rows userId w =
     w\<lparr>aw_sessions := update_where (\<lambda>s. ses_userId s = userId \<and> \<not> ses_isRevoked s) revoke_row (aw_sessions w)\<rparr>"

section \<open>Creating a session\<close>

record session_result =
  sn_sessionId :: uuid
  sn_tokenFamily :: uuid
  sn_rawRefreshToken :: string
  sn_deviceId :: uuid
  sn_userId :: uuid

definition week_ms :: int where
  "week_ms = 7 * 24 * 60 * 60 * 1000"

definition new_session :: "uuid \<Rightarrow> uuid \<Rightarrow> uuid \<Rightarrow> string \<Rightarrow> uuid \<Rightarrow> timestamp \<Rightarrow> session" where
  "new_session sessionId userId deviceId refreshTokenHash tokenFamily now =
     \<lparr>ses_id = sessionId, ses_userId = userId, ses_deviceId = deviceId,
      ses_refreshTokenHash = refreshTokenHash, ses_tokenFamily = tokenFamily, ses_isRevoked = False,
      ses_expiresAt = now + week_ms, ses_lastRefreshedAt = now\<rparr>"

text \<open>\<open>session.create\<close>: the user and the device must exist (foreign keys).\<close>

definition insert_session :: "session \<Rightarrow> auth_world \<Rightarrow> api_error + auth_world" where
  "insert_session s w =
     (if find_row usr_id (ses_userId s) (aw_users w) = None \<or> find_row dvc_id (ses_deviceId s) (aw_devices w) = None
      then fail_with Internal ''P2003''
      else Inr (w\<lparr>aw_sessions := aw_sessions w @ [s]\<rparr>))"

definition result_of :: "session \<Rightarrow> string \<Rightarrow> session_result" where
  "result_of s raw =
     \<lparr>sn_sessionId = ses_id s, sn_tokenFamily = ses_tokenFamily s, sn_rawRefreshToken = raw,
      sn_deviceId = ses_deviceId s, sn_userId = ses_userId s\<rparr>"

text \<open>The loop over the sessions to revoke; \<open>evict\<close> also writes the row.\<close>

definition revoke_session_keys :: "session list \<Rightarrow> timestamp \<Rightarrow> auth_world \<Rightarrow> auth_world" where
  "revoke_session_keys ss now w = foldl (\<lambda>w s. revoke_key (session_key (ses_id s)) now w) w ss"

definition evict :: "timestamp \<Rightarrow> auth_world \<Rightarrow> session \<Rightarrow> auth_world" where
  "evict now w s =
     revoke_key (session_key (ses_id s)) now
       (w\<lparr>aw_sessions := update_row ses_id (ses_id s) revoke_row (aw_sessions w)\<rparr>)"

text \<open>
  The transaction of a driver's login locks the user row, so it runs alone.  When the insert fails, the
  rows are rolled back, but not the revocation keys.
\<close>

definition create_driver_session :: "session \<Rightarrow> string \<Rightarrow> timestamp \<Rightarrow> auth_world \<Rightarrow> (session_result, auth_world) outcome" where
  "create_driver_session s raw now w =
     (let w1 = revoke_session_keys (active_of (ses_userId s) (aw_sessions w)) now w;
          w2 = revoke_user_rows (ses_userId s) w1
      in case insert_session s w2 of
           Inl e \<Rightarrow> (Inl e, w1)
         | Inr w3 \<Rightarrow> (Inr (result_of s raw), w3))"

definition sessions_to_evict :: "uuid \<Rightarrow> auth_world \<Rightarrow> session list" where
  "sessions_to_evict userId w =
     (let activeSessions = sort_key ses_lastRefreshedAt (active_of userId (aw_sessions w)) in
      if 5 \<le> length activeSessions then take (length activeSessions - 4) activeSessions else [])"

definition create_limited_session :: "session \<Rightarrow> string \<Rightarrow> timestamp \<Rightarrow> auth_world \<Rightarrow> (session_result, auth_world) outcome" where
  "create_limited_session s raw now w =
     (let w1 = foldl (evict now) w (sessions_to_evict (ses_userId s) w)
      in case insert_session s w1 of
           Inl e \<Rightarrow> (Inl e, w1)
         | Inr w2 \<Rightarrow> (Inr (result_of s raw), w2))"

definition createSession ::
  "(string \<Rightarrow> string) \<Rightarrow> uuid \<Rightarrow> uuid \<Rightarrow> string \<Rightarrow> string \<Rightarrow> uuid \<Rightarrow> uuid \<Rightarrow> timestamp \<Rightarrow> auth_world \<Rightarrow>
   (session_result, auth_world) outcome" where
  "createSession hashToken userId deviceId roleCode raw tokenFamily sessionId now w =
     (let s = new_session sessionId userId deviceId (hashToken raw) tokenFamily now in
      if roleCode = ''DRIVER'' then create_driver_session s raw now w
      else create_limited_session s raw now w)"

section \<open>Rotating a refresh token\<close>

datatype rotate_check = RotInvalid | RotReuse session | RotOk session

definition rotate_find :: "(string \<Rightarrow> string) \<Rightarrow> string \<Rightarrow> timestamp \<Rightarrow> auth_world \<Rightarrow> rotate_check" where
  "rotate_find hashToken raw now w =
     (case find_row ses_refreshTokenHash (hashToken raw) (aw_sessions w) of
        None \<Rightarrow> RotInvalid
      | Some s \<Rightarrow> if ses_isRevoked s \<or> ses_expiresAt s \<le> now then RotReuse s else RotOk s)"

definition rotate_row :: "timestamp \<Rightarrow> session \<Rightarrow> session" where
  "rotate_row now s = s\<lparr>ses_isRevoked := True, ses_lastRefreshedAt := now\<rparr>"

abbreviation not_revoked :: "session \<Rightarrow> bool" where
  "not_revoked s \<equiv> \<not> ses_isRevoked s"

definition revokeTokenFamily :: "session \<Rightarrow> timestamp \<Rightarrow> auth_world \<Rightarrow> auth_world" where
  "revokeTokenFamily s now w =
     (let w1 = w\<lparr>aw_sessions := update_where (\<lambda>r. ses_tokenFamily r = ses_tokenFamily s) revoke_row (aw_sessions w)\<rparr>;
          w2 = revoke_key (user_key (ses_userId s)) now (revoke_key (session_key (ses_id s)) now w1);
          w3 = announce (revocation_message ''USER_REVOKED''
                 [(''userId'', JStr (ses_userId s)), (''sessionId'', JStr (ses_id s))] ''TOKEN_REUSE_DETECTED'' now) w2
      in log_audit \<lparr>aud_actorUserId = Some (ses_userId s), aud_action = ''TOKEN_REUSE_DETECTED'',
           aud_entityType = ''SESSION'', aud_entityId = ses_id s, aud_result = ''FAILED'',
           aud_afterJson = JObj [(''tokenFamily'', JStr (ses_tokenFamily s)), (''revokedAt'', JNum (of_int now))]\<rparr> w3)"

text \<open>
  The part of the transaction after the read: the compare-and-set on the row, and the new session of
  the same family.  \<open>None\<close> is the thrown \<open>RefreshTokenReuseError\<close>.
\<close>

definition rotate_claim ::
  "(string \<Rightarrow> string) \<Rightarrow> session \<Rightarrow> string \<Rightarrow> uuid \<Rightarrow> timestamp \<Rightarrow> auth_world \<Rightarrow>
   (api_error + session_result \<times> auth_world) option" where
  "rotate_claim hashToken existing newRaw sessionId now w =
     (let (n, ss) = claim ses_id not_revoked (rotate_row now) (ses_id existing) (aw_sessions w);
          s = new_session sessionId (ses_userId existing) (ses_deviceId existing) (hashToken newRaw)
                (ses_tokenFamily existing) now
      in if n \<noteq> 1 then None
         else Some (case insert_session s (w\<lparr>aw_sessions := ss\<rparr>) of
                Inl e \<Rightarrow> Inl e
              | Inr w1 \<Rightarrow> Inr (result_of s newRaw, w1)))"

definition reuse_detected :: "session \<Rightarrow> timestamp \<Rightarrow> auth_world \<Rightarrow> (session_result, auth_world) outcome" where
  "reuse_detected s now w = (fail_with Unauthorized ''TOKEN_REUSE_DETECTED'', revokeTokenFamily s now w)"

definition rotate_finish ::
  "(string \<Rightarrow> string) \<Rightarrow> session \<Rightarrow> string \<Rightarrow> uuid \<Rightarrow> timestamp \<Rightarrow> auth_world \<Rightarrow> (session_result, auth_world) outcome" where
  "rotate_finish hashToken existing newRaw sessionId now w =
     (case rotate_claim hashToken existing newRaw sessionId now w of
        None \<Rightarrow> reuse_detected existing now w
      | Some (Inl e) \<Rightarrow> (Inl e, w)
      | Some (Inr (r, w1)) \<Rightarrow> (Inr r, w1))"

definition rotateSession ::
  "(string \<Rightarrow> string) \<Rightarrow> string \<Rightarrow> string \<Rightarrow> uuid \<Rightarrow> timestamp \<Rightarrow> auth_world \<Rightarrow> (session_result, auth_world) outcome" where
  "rotateSession hashToken raw newRaw sessionId now w =
     (case rotate_find hashToken raw now w of
        RotInvalid \<Rightarrow> (fail_with Unauthorized ''INVALID_REFRESH_TOKEN'', w)
      | RotReuse s \<Rightarrow> reuse_detected s now w
      | RotOk s \<Rightarrow> rotate_finish hashToken s newRaw sessionId now w)"

section \<open>Revoking\<close>

definition revokeSession :: "uuid option \<Rightarrow> uuid option \<Rightarrow> timestamp \<Rightarrow> auth_world \<Rightarrow> auth_world" where
  "revokeSession sessionId userId now w =
     (if \<not> truthy sessionId then w
      else case find_row ses_id (the sessionId) (aw_sessions w) of
             None \<Rightarrow> w
           | Some s \<Rightarrow>
               if truthy userId \<and> Some (ses_userId s) \<noteq> userId then w
               else
                 announce (revocation_message ''SESSION_REVOKED''
                     [(''sessionId'', JStr (ses_id s)), (''userId'', JStr (ses_userId s))] ''USER_LOGOUT'' now)
                   (revoke_key (session_key (ses_id s)) now
                     (w\<lparr>aw_sessions := update_row ses_id (ses_id s) revoke_row (aw_sessions w)\<rparr>)))"

definition revokeAllUserSessions :: "uuid option \<Rightarrow> timestamp \<Rightarrow> auth_world \<Rightarrow> auth_world" where
  "revokeAllUserSessions userId now w =
     (if \<not> truthy userId then w
      else announce (revocation_message ''USER_REVOKED'' [(''userId'', JStr (the userId))] ''LOGOUT_ALL_SESSIONS'' now)
             (revoke_key (user_key (the userId)) now (revoke_user_rows (the userId) w)))"

section \<open>Frame facts\<close>

lemma revoke_key_frame [simp]:
  "aw_users (revoke_key k now w) = aw_users w" "aw_roles (revoke_key k now w) = aw_roles w"
  "aw_devices (revoke_key k now w) = aw_devices w" "aw_sessions (revoke_key k now w) = aw_sessions w"
  "aw_drivers (revoke_key k now w) = aw_drivers w" "aw_audit (revoke_key k now w) = aw_audit w"
  "aw_redis (revoke_key k now w) = setRevocation k 900 now (aw_redis w)"
  by (simp_all add: revoke_key_def)

lemma announce_frame [simp]:
  "aw_users (announce m w) = aw_users w" "aw_roles (announce m w) = aw_roles w"
  "aw_devices (announce m w) = aw_devices w" "aw_sessions (announce m w) = aw_sessions w"
  "aw_drivers (announce m w) = aw_drivers w" "aw_audit (announce m w) = aw_audit w"
  "aw_redis (announce m w) = publish ''security:revocation'' m (aw_redis w)"
  by (simp_all add: announce_def)

lemma revoke_session_keys_frame [simp]:
  "aw_users (revoke_session_keys ss now w) = aw_users w"
  "aw_devices (revoke_session_keys ss now w) = aw_devices w"
  "aw_sessions (revoke_session_keys ss now w) = aw_sessions w"
  by (induction ss arbitrary: w) (simp_all add: revoke_session_keys_def)

lemma revoke_user_rows_frame [simp]:
  "aw_users (revoke_user_rows i w) = aw_users w" "aw_roles (revoke_user_rows i w) = aw_roles w"
  "aw_devices (revoke_user_rows i w) = aw_devices w" "aw_drivers (revoke_user_rows i w) = aw_drivers w"
  "aw_redis (revoke_user_rows i w) = aw_redis w"
  "aw_sessions (revoke_user_rows i w) =
     update_where (\<lambda>s. ses_userId s = i \<and> \<not> ses_isRevoked s) revoke_row (aw_sessions w)"
  by (simp_all add: revoke_user_rows_def)

lemma evict_frame [simp]:
  "aw_users (evict now w s) = aw_users w" "aw_devices (evict now w s) = aw_devices w"
  "aw_sessions (evict now w s) = update_row ses_id (ses_id s) revoke_row (aw_sessions w)"
  by (simp_all add: evict_def)

section \<open>Claims on sessions\<close>

interpretation rotating: claiming ses_id not_revoked "rotate_row now" for now
  by unfold_locales (simp_all add: rotate_row_def)

end
