(* ===== verification/Auth.thy ===== *)
theory Auth
  imports Sessions "HOL-Library.Sublist"
begin

text \<open>
  Authentication and account administration: \<open>auth.service.ts\<close>, \<open>password.util.ts\<close>,
  \<open>jwt.strategy.ts\<close>, the guards on roles, permissions and CSRF, \<open>users.service.ts\<close> and
  \<open>device.service.ts\<close>.

  An access token is represented by the payload that is signed; signing and the check of signature,
  issuer, audience and expiry are done by third-party libraries before \<open>validate\<close> is called.  The
  Argon2 library is a parameter.  An exception without a \<open>code\<close> has the empty code.
\<close>

section \<open>Passwords\<close>

text \<open>The functions of the Argon2 package; \<open>verify\<close> may throw (\<open>None\<close>).\<close>

record argon2 =
  argon_hash :: "string \<Rightarrow> string"
  argon_verify :: "string \<Rightarrow> string \<Rightarrow> bool option"

definition verifyPassword :: "argon2 \<Rightarrow> string \<Rightarrow> string \<Rightarrow> bool" where
  "verifyPassword lib passwordHash plainPassword = (argon_verify lib passwordHash plainPassword = Some True)"

definition contains_text :: "string \<Rightarrow> string \<Rightarrow> bool" where
  "contains_text s part \<longleftrightarrow> list_ex (\<lambda>i. take (length part) (drop i s) = part) [0..<Suc (length s)]"

definition needsRehash :: "string \<Rightarrow> bool" where
  "needsRehash passwordHash \<longleftrightarrow>
     \<not> prefix ''$argon2id$'' passwordHash \<or> \<not> contains_text passwordHash ''m=65536,t=3,p=4''"

section \<open>Tokens and principals\<close>

record jwt_payload =
  jwt_sub :: uuid
  jwt_role :: string
  jwt_deviceId :: uuid
  jwt_sessionId :: uuid
  jwt_type :: string

record principal =
  prn_id :: uuid
  prn_username :: string
  prn_role :: string
  prn_organizationId :: "uuid option"
  prn_permissions :: "string list"
  prn_deviceId :: uuid
  prn_sessionId :: uuid
  prn_driverId :: "uuid option"

definition driver_of :: "uuid \<Rightarrow> auth_world \<Rightarrow> uuid option" where
  "driver_of userId w = map_option drv_id (find_row drv_userId userId (aw_drivers w))"

definition permissions_of :: "string \<Rightarrow> auth_world \<Rightarrow> string list" where
  "permissions_of role w =
     (case find_row rol_code role (aw_roles w) of None \<Rightarrow> [] | Some r \<Rightarrow> rol_permissions r)"

text \<open>The database part of \<open>validate\<close>: the session and its device.\<close>

definition session_usable :: "jwt_payload \<Rightarrow> timestamp \<Rightarrow> auth_world \<Rightarrow> bool" where
  "session_usable p now w =
     (case find_row ses_id (jwt_sessionId p) (aw_sessions w) of
        None \<Rightarrow> False
      | Some s \<Rightarrow>
          (case find_row dvc_id (ses_deviceId s) (aw_devices w) of
             None \<Rightarrow> False
           | Some d \<Rightarrow>
               \<not> (ses_userId s \<noteq> jwt_sub p \<or> ses_deviceId s \<noteq> jwt_deviceId p \<or> dvc_userId d \<noteq> jwt_sub p \<or>
                  ses_isRevoked s \<or> ses_expiresAt s \<le> now \<or> dvc_status d \<noteq> DEV_ACTIVE)))"

definition validate :: "jwt_payload \<Rightarrow> timestamp \<Rightarrow> auth_world \<Rightarrow> (principal, auth_world) outcome" where
  "validate p now w =
     (if jwt_type p \<noteq> ''ACCESS_TOKEN'' then (fail_with Unauthorized ''INVALID_TOKEN_TYPE'', w)
      else
        let (isSessionRevoked, rd1) = isRevoked (session_key (jwt_sessionId p)) now (aw_redis w);
            w1 = w\<lparr>aw_redis := rd1\<rparr>
        in if isSessionRevoked = Some True then (fail_with Unauthorized ''TOKEN_REVOKED'', w1)
           else case find_row usr_id (jwt_sub p) (aw_users w1) of
             None \<Rightarrow> (fail_with Unauthorized ''USER_NOT_FOUND'', w1)
           | Some u \<Rightarrow>
               if usr_status u \<noteq> ACTIVE
               then (fail_with Unauthorized (''ACCOUNT_'' @ account_status_name (usr_status u)), w1)
               else if usr_role u \<noteq> jwt_role p
               then (fail_with Unauthorized ''ROLE_UPDATED_REAUTH_REQUIRED'', w1)
               else
                 let (isUserRevoked, rd2) = isRevoked (user_key (jwt_sub p)) now (aw_redis w1);
                     w2 = w1\<lparr>aw_redis := rd2\<rparr>
                 in if isUserRevoked = Some True then (fail_with Unauthorized ''TOKEN_REVOKED'', w2)
                    else if (isSessionRevoked = Some False \<or> isSessionRevoked = None) \<and>
                            \<not> session_usable p now w2
                    then (fail_with Unauthorized ''TOKEN_REVOKED'', w2)
                    else (Inr \<lparr>prn_id = usr_id u, prn_username = usr_username u, prn_role = usr_role u,
                               prn_organizationId = or_null (usr_organizationId u),
                               prn_permissions = permissions_of (usr_role u) w2,
                               prn_deviceId = jwt_deviceId p, prn_sessionId = jwt_sessionId p,
                               prn_driverId = or_null (driver_of (usr_id u) w2)\<rparr>, w2))"

section \<open>Guards\<close>

definition roles_guard :: "string list option \<Rightarrow> principal option \<Rightarrow> api_error + unit" where
  "roles_guard requiredRoles user =
     (case requiredRoles of
        None \<Rightarrow> Inr ()
      | Some roles \<Rightarrow>
          if length roles = 0 then Inr ()
          else case user of
                 None \<Rightarrow> fail_with Forbidden ''INSUFFICIENT_ROLE''
               | Some u \<Rightarrow>
                   if prn_role u = [] then fail_with Forbidden ''INSUFFICIENT_ROLE''
                   else if prn_role u \<notin> set roles then fail_with Forbidden ''INSUFFICIENT_ROLE''
                   else Inr ())"

definition permissions_guard :: "string list option \<Rightarrow> principal option \<Rightarrow> api_error + unit" where
  "permissions_guard requiredPermissions user =
     (case requiredPermissions of
        None \<Rightarrow> Inr ()
      | Some perms \<Rightarrow>
          if length perms = 0 then Inr ()
          else case user of
                 None \<Rightarrow> fail_with Forbidden ''INSUFFICIENT_PERMISSION''
               | Some u \<Rightarrow>
                   if \<not> list_all (\<lambda>perm. perm \<in> set (prn_permissions u)) perms
                   then fail_with Forbidden ''INSUFFICIENT_PERMISSION''
                   else Inr ())"

text \<open>
  The parts of a request that the CSRF guard reads.  \<open>origin_of\<close> is \<open>new URL(h).origin\<close> in lower case
  (\<open>None\<close>: the constructor throws).
\<close>

record csrf_request =
  cr_authorization :: "string option"
  cr_clientType :: "string option"
  cr_refreshCookie :: "string option"
  cr_origin :: "string option"
  cr_referer :: "string option"
  cr_headerCsrf :: "string option"
  cr_cookieCsrf :: "string option"

definition csrf_guard :: "(string \<Rightarrow> string option) \<Rightarrow> string list \<Rightarrow> csrf_request \<Rightarrow> api_error + unit" where
  "csrf_guard origin_of allowedOrigins r =
     (if truthy (cr_authorization r) \<and> prefix ''Bearer '' (the (cr_authorization r)) then Inr ()
      else if truthy (cr_refreshCookie r) \<or> cr_clientType r = Some ''WEB''
      then
        let targetHeader = (if truthy (cr_origin r) then cr_origin r else cr_referer r) in
        if \<not> truthy targetHeader then fail_with Forbidden []
        else case origin_of (the targetHeader) of
               None \<Rightarrow> fail_with Internal ''ERR_INVALID_URL''
             | Some parsedOrigin \<Rightarrow>
                 if parsedOrigin \<notin> set allowedOrigins then fail_with Forbidden []
                 else if \<not> truthy (cr_headerCsrf r) \<or> \<not> truthy (cr_cookieCsrf r) \<or>
                         cr_headerCsrf r \<noteq> cr_cookieCsrf r
                 then fail_with Forbidden []
                 else Inr ()
      else Inr ())"

section \<open>Login\<close>

datatype client_type = MOBILE_CLIENT | WEB_CLIENT

record login_dto =
  lgn_username :: string
  lgn_password :: string
  lgn_deviceId :: "string option"
  lgn_clientType :: client_type

definition valid_login :: "login_dto \<Rightarrow> bool" where
  "valid_login dto \<longleftrightarrow>
     3 \<le> length (lgn_username dto) \<and> length (lgn_username dto) \<le> 100 \<and>
     6 \<le> length (lgn_password dto) \<and> length (lgn_password dto) \<le> 100"

text \<open>The answer: the token, and the refresh token in the body (mobile) or in the cookie (web).\<close>

record login_answer =
  lga_accessToken :: jwt_payload
  lga_refreshToken :: "string option"
  lga_cookie :: "string option"
  lga_driverId :: "uuid option"

fun digits :: "nat \<Rightarrow> string" where
  "digits n = (if n < 10 then [char_of (48 + n)] else digits (n div 10) @ [char_of (48 + n mod 10)])"

declare digits.simps [simp del]

definition auth_audit :: "uuid option \<Rightarrow> string \<Rightarrow> string \<Rightarrow> string \<Rightarrow> string \<Rightarrow> json \<Rightarrow> audit_log" where
  "auth_audit actor action entityType entityId outcome_text afterJson =
     \<lparr>aud_actorUserId = actor, aud_action = action, aud_entityType = entityType, aud_entityId = entityId,
      aud_result = outcome_text, aud_afterJson = afterJson\<rparr>"

definition find_login :: "string \<Rightarrow> auth_world \<Rightarrow> user option" where
  "find_login name w =
     List.find (\<lambda>u. usr_username u = name \<or> usr_email u = Some name \<or> usr_phone u = name) (aw_users w)"

definition ip_throttle_key :: "string \<Rightarrow> string" where
  "ip_throttle_key ip = ''throttle:login:ip:'' @ ip"

definition user_throttle_key :: "string \<Rightarrow> string" where
  "user_throttle_key name = ''throttle:login:user:'' @ name"

text \<open>The two counters.\<close>

definition login_throttle :: "string \<Rightarrow> string \<Rightarrow> timestamp \<Rightarrow> auth_world \<Rightarrow> (unit, auth_world) outcome" where
  "login_throttle name ip now w =
     (let (ipAttempts, rd1) = incrRateLimit (ip_throttle_key ip) 300 now (aw_redis w);
          w1 = w\<lparr>aw_redis := rd1\<rparr>
      in if 30 < ipAttempts then (fail_with TooManyRequests ''LOGIN_RATE_LIMITED'', w1)
         else
           let (userAttempts, rd2) = incrRateLimit (user_throttle_key name) 300 now (aw_redis w1);
               w2 = w1\<lparr>aw_redis := rd2\<rparr>
           in if 5 < userAttempts then (fail_with TooManyRequests ''LOGIN_RATE_LIMITED'', w2)
              else (Inr (), w2))"

text \<open>The user, the account status and the password.\<close>

definition login_credentials :: "argon2 \<Rightarrow> login_dto \<Rightarrow> auth_world \<Rightarrow> (user, auth_world) outcome" where
  "login_credentials lib dto w =
     (case find_login (lgn_username dto) w of
        None \<Rightarrow>
          (fail_with Unauthorized ''INVALID_CREDENTIALS'',
           log_audit (auth_audit None ''LOGIN_FAILURE'' ''AUTH'' (lgn_username dto) ''FAILED''
             (JObj [(''reason'', JStr ''USER_NOT_FOUND'')])) w)
      | Some u \<Rightarrow>
          if usr_status u \<noteq> ACTIVE
          then (fail_with Unauthorized (''ACCOUNT_'' @ account_status_name (usr_status u)), w)
          else if \<not> verifyPassword lib (usr_passwordHash u) (lgn_password dto)
          then (fail_with Unauthorized ''INVALID_CREDENTIALS'',
                log_audit (auth_audit (Some (usr_id u)) ''LOGIN_FAILURE'' ''USER'' (usr_id u) ''FAILED''
                  (JObj [(''reason'', JStr ''PASSWORD_MISMATCH'')])) w)
          else (Inr u, w))"

definition update_user :: "uuid \<Rightarrow> (user \<Rightarrow> user) \<Rightarrow> auth_world \<Rightarrow> auth_world" where
  "update_user i f w = w\<lparr>aw_users := update_row usr_id i f (aw_users w)\<rparr>"

definition rehash :: "argon2 \<Rightarrow> user \<Rightarrow> string \<Rightarrow> auth_world \<Rightarrow> auth_world" where
  "rehash lib u password w =
     (if needsRehash (usr_passwordHash u)
      then update_user (usr_id u) (\<lambda>r. r\<lparr>usr_passwordHash := argon_hash lib password\<rparr>) w else w)"

definition default_device :: "uuid \<Rightarrow> uuid \<Rightarrow> client_type \<Rightarrow> timestamp \<Rightarrow> device" where
  "default_device deviceId userId clientType now =
     \<lparr>dvc_id = deviceId, dvc_userId = userId,
      dvc_deviceIdentifier = (if clientType = WEB_CLIENT then ''WEB'' else ''MOBILE'') @ ''-'' @ digits (nat now),
      dvc_platform = (if clientType = WEB_CLIENT then WEB else ANDROID), dvc_appVersion = ''1.0.0'',
      dvc_pushToken = None, dvc_status = DEV_ACTIVE\<rparr>"

definition login_device :: "login_dto \<Rightarrow> uuid \<Rightarrow> uuid \<Rightarrow> timestamp \<Rightarrow> auth_world \<Rightarrow> uuid \<times> auth_world" where
  "login_device dto userId newDeviceId now w =
     (if truthy (lgn_deviceId dto) then (the (lgn_deviceId dto), w)
      else (newDeviceId,
            w\<lparr>aw_devices := aw_devices w @ [default_device newDeviceId userId (lgn_clientType dto) now]\<rparr>))"

definition access_payload :: "user \<Rightarrow> session_result \<Rightarrow> jwt_payload" where
  "access_payload u s =
     \<lparr>jwt_sub = usr_id u, jwt_role = usr_role u, jwt_deviceId = sn_deviceId s,
      jwt_sessionId = sn_sessionId s, jwt_type = ''ACCESS_TOKEN''\<rparr>"

text \<open>The random values a request draws.\<close>

record fresh_values =
  fv_rawToken :: string
  fv_family :: uuid
  fv_sessionId :: uuid
  fv_deviceId :: uuid

definition login ::
  "argon2 \<Rightarrow> (string \<Rightarrow> string) \<Rightarrow> login_dto \<Rightarrow> string \<Rightarrow> bool \<Rightarrow> fresh_values \<Rightarrow> timestamp \<Rightarrow> auth_world \<Rightarrow>
   (login_answer, auth_world) outcome" where
  "login lib hashToken dto clientIp hasRes fv now w =
     (case login_throttle (lgn_username dto) clientIp now w of
        (Inl e, w1) \<Rightarrow> (Inl e, w1)
      | (Inr _, w1) \<Rightarrow>
          (case login_credentials lib dto w1 of
             (Inl e, w2) \<Rightarrow> (Inl e, w2)
           | (Inr u, w2) \<Rightarrow>
               let w3 = on_redis (resetRateLimit (user_throttle_key (lgn_username dto))) w2;
                   w4 = rehash lib u (lgn_password dto) w3;
                   (deviceId, w5) = login_device dto (usr_id u) (fv_deviceId fv) now w4
               in case createSession hashToken (usr_id u) deviceId (usr_role u) (fv_rawToken fv)
                         (fv_family fv) (fv_sessionId fv) now w5 of
                    (Inl e, w6) \<Rightarrow> (Inl e, w6)
                  | (Inr s, w6) \<Rightarrow>
                      let web = (lgn_clientType dto = WEB_CLIENT \<and> hasRes);
                          w7 = update_user (usr_id u) (\<lambda>r. r\<lparr>usr_lastLoginAt := Some now\<rparr>) w6
                      in (Inr \<lparr>lga_accessToken = access_payload u (s\<lparr>sn_deviceId := deviceId\<rparr>),
                               lga_refreshToken = (if web then None else Some (sn_rawRefreshToken s)),
                               lga_cookie = (if web then Some (sn_rawRefreshToken s) else None),
                               lga_driverId = or_null (driver_of (usr_id u) w6)\<rparr>,
                          log_audit (auth_audit (Some (usr_id u)) ''LOGIN_SUCCESS'' ''USER'' (usr_id u)
                            ''SUCCESS'' JNull) w7)))"

section \<open>Refresh and logout\<close>

definition refresh ::
  "(string \<Rightarrow> string) \<Rightarrow> string option \<Rightarrow> client_type \<Rightarrow> bool \<Rightarrow> fresh_values \<Rightarrow> timestamp \<Rightarrow> auth_world \<Rightarrow>
   (login_answer, auth_world) outcome" where
  "refresh hashToken rawRefreshToken clientType hasRes fv now w =
     (if \<not> truthy rawRefreshToken then (fail_with Unauthorized ''MISSING_REFRESH_TOKEN'', w)
      else case rotateSession hashToken (the rawRefreshToken) (fv_rawToken fv) (fv_sessionId fv) now w of
             (Inl e, w1) \<Rightarrow> (Inl e, w1)
           | (Inr s, w1) \<Rightarrow>
               (case find_row usr_id (sn_userId s) (aw_users w1) of
                  None \<Rightarrow> (fail_with Unauthorized ''ACCOUNT_INACTIVE'', w1)
                | Some u \<Rightarrow>
                    if usr_status u \<noteq> ACTIVE then (fail_with Unauthorized ''ACCOUNT_INACTIVE'', w1)
                    else
                      let web = (clientType = WEB_CLIENT \<and> hasRes) in
                      (Inr \<lparr>lga_accessToken = access_payload u s,
                            lga_refreshToken = (if web then None else Some (sn_rawRefreshToken s)),
                            lga_cookie = (if web then Some (sn_rawRefreshToken s) else None),
                            lga_driverId = None\<rparr>, w1)))"

definition logout :: "uuid option \<Rightarrow> uuid option \<Rightarrow> timestamp \<Rightarrow> auth_world \<Rightarrow> auth_world" where
  "logout sessionId userId now w = revokeSession sessionId userId now w"

definition logoutAll :: "uuid option \<Rightarrow> timestamp \<Rightarrow> auth_world \<Rightarrow> auth_world" where
  "logoutAll userId now w = revokeAllUserSessions userId now w"

section \<open>Registration\<close>

record register_user_dto =
  reg_username :: string
  reg_email :: "string option"
  reg_phone :: string
  reg_password :: string

text \<open>
  One request on its own; \<open>username\<close>, \<open>email\<close> and \<open>phone\<close> are unique columns, so of two concurrent
  registrations one fails at the insert.
\<close>

definition registerUser ::
  "argon2 \<Rightarrow> register_user_dto \<Rightarrow> uuid \<Rightarrow> auth_world \<Rightarrow> (user, auth_world) outcome" where
  "registerUser lib dto newId w =
     (if \<exists>u \<in> set (aw_users w). usr_username u = reg_username dto \<or> usr_phone u = reg_phone dto \<or>
           (truthy (reg_email dto) \<and> usr_email u = reg_email dto)
      then (fail_with BadRequest [], w)
      else if find_row rol_code ''DRIVER'' (aw_roles w) = None then (fail_with BadRequest [], w)
      else
        let u = \<lparr>usr_id = newId, usr_username = reg_username dto, usr_email = reg_email dto,
                 usr_phone = reg_phone dto, usr_passwordHash = argon_hash lib (reg_password dto),
                 usr_role = ''DRIVER'', usr_organizationId = None, usr_status = PENDING_ACTIVATION,
                 usr_lastLoginAt = None\<rparr>
        in (Inr u, w\<lparr>aw_users := aw_users w @ [u]\<rparr>))"

section \<open>Account administration\<close>

definition getUserById :: "uuid \<Rightarrow> auth_world \<Rightarrow> api_error + user \<times> string list \<times> driver option" where
  "getUserById userId w =
     (case find_row usr_id userId (aw_users w) of
        None \<Rightarrow> fail_with NotFound []
      | Some u \<Rightarrow> Inr (u, permissions_of (usr_role u) w, find_row drv_userId userId (aw_drivers w)))"

definition updateUserRole :: "uuid \<Rightarrow> string \<Rightarrow> uuid \<Rightarrow> timestamp \<Rightarrow> auth_world \<Rightarrow> (user, auth_world) outcome" where
  "updateUserRole targetUserId newRoleCode actorUserId now w =
     (case find_row usr_id targetUserId (aw_users w) of
        None \<Rightarrow> (fail_with NotFound [], w)
      | Some u \<Rightarrow>
          if find_row rol_code newRoleCode (aw_roles w) = None then (fail_with BadRequest [], w)
          else
            let f = (\<lambda>r. r\<lparr>usr_role := newRoleCode\<rparr>);
                w1 = revoke_user_rows targetUserId (update_user targetUserId f w);
                w2 = revoke_key (user_key targetUserId) now w1;
                w3 = announce (revocation_message ''USER_REVOKED'' [(''userId'', JStr targetUserId)] ''ROLE_CHANGED'' now) w2
            in (Inr (f u),
                log_audit (auth_audit (Some actorUserId) ''ROLE_CHANGED'' ''USER'' targetUserId ''SUCCESS''
                  (JObj [(''role'', JStr newRoleCode)])) w3))"

definition updateUserStatus :: "uuid \<Rightarrow> account_status \<Rightarrow> uuid \<Rightarrow> timestamp \<Rightarrow> auth_world \<Rightarrow> (user, auth_world) outcome" where
  "updateUserStatus targetUserId status actorUserId now w =
     (case find_row usr_id targetUserId (aw_users w) of
        None \<Rightarrow> (fail_with NotFound [], w)
      | Some u \<Rightarrow>
          let f = (\<lambda>r. r\<lparr>usr_status := status\<rparr>);
              w1 = update_user targetUserId f w;
              w2 = (if status = SUSPENDED \<or> status = DISABLED
                    then announce (JObj [(''type'', JStr ''USER_REVOKED''), (''userId'', JStr targetUserId),
                             (''reason'', JStr (''ACCOUNT_'' @ account_status_name status))])
                           (revoke_key (user_key targetUserId) now (revoke_user_rows targetUserId w1))
                    else w1)
          in (Inr (f u),
              log_audit (auth_audit (Some actorUserId) ''ACCOUNT_STATUS_CHANGED'' ''USER'' targetUserId ''SUCCESS''
                (JObj [(''status'', JStr (account_status_name status))])) w2))"

definition adminResetPassword ::
  "argon2 \<Rightarrow> uuid \<Rightarrow> string \<Rightarrow> uuid \<Rightarrow> timestamp \<Rightarrow> auth_world \<Rightarrow> (uuid, auth_world) outcome" where
  "adminResetPassword lib targetUserId newPass actorUserId now w =
     (case find_row usr_id targetUserId (aw_users w) of
        None \<Rightarrow> (fail_with NotFound [], w)
      | Some u \<Rightarrow>
          let w1 = update_user targetUserId (\<lambda>r. r\<lparr>usr_passwordHash := argon_hash lib newPass\<rparr>) w;
              w2 = revoke_key (user_key targetUserId) now (revoke_user_rows targetUserId w1);
              w3 = log_audit (auth_audit (Some actorUserId) ''ADMIN_PASSWORD_RESET'' ''USER'' targetUserId ''SUCCESS'' JNull) w2
          in (Inr targetUserId,
              announce (revocation_message ''USER_REVOKED'' [(''userId'', JStr targetUserId)] ''ADMIN_PASSWORD_RESET'' now) w3))"

section \<open>Devices\<close>

record register_device_dto =
  rd_deviceIdentifier :: string
  rd_platform :: platform
  rd_appVersion :: string
  rd_pushToken :: "string option"

definition registerDevice ::
  "uuid \<Rightarrow> register_device_dto \<Rightarrow> uuid \<Rightarrow> auth_world \<Rightarrow> (device, auth_world) outcome" where
  "registerDevice userId dto newId w =
     (case List.find (\<lambda>d. dvc_userId d = userId \<and> dvc_deviceIdentifier d = rd_deviceIdentifier dto) (aw_devices w) of
        Some existing \<Rightarrow>
          let f = (\<lambda>d. d\<lparr>dvc_platform := rd_platform dto, dvc_appVersion := rd_appVersion dto,
                         dvc_pushToken := (if truthy (rd_pushToken dto) then rd_pushToken dto
                                           else dvc_pushToken existing),
                         dvc_status := DEV_ACTIVE\<rparr>)
          in (Inr (f existing),
              log_audit (auth_audit (Some userId) ''DEVICE_UPDATED'' ''DEVICE'' (dvc_id existing) ''SUCCESS'' JNull)
                (w\<lparr>aw_devices := update_row dvc_id (dvc_id existing) f (aw_devices w)\<rparr>))
      | None \<Rightarrow>
          let d = \<lparr>dvc_id = newId, dvc_userId = userId, dvc_deviceIdentifier = rd_deviceIdentifier dto,
                   dvc_platform = rd_platform dto, dvc_appVersion = rd_appVersion dto,
                   dvc_pushToken = rd_pushToken dto, dvc_status = DEV_ACTIVE\<rparr>
          in (Inr d,
              log_audit (auth_audit (Some userId) ''DEVICE_REGISTERED'' ''DEVICE'' newId ''SUCCESS'' JNull)
                (w\<lparr>aw_devices := aw_devices w @ [d]\<rparr>)))"

definition revokeDevice :: "uuid \<Rightarrow> uuid \<Rightarrow> string \<Rightarrow> timestamp \<Rightarrow> auth_world \<Rightarrow> (uuid, auth_world) outcome" where
  "revokeDevice deviceId actorUserId actorRole now w =
     (case find_row dvc_id deviceId (aw_devices w) of
        None \<Rightarrow> (fail_with NotFound [], w)
      | Some d \<Rightarrow>
          let isOwner = (dvc_userId d = actorUserId);
              isAdmin = (actorRole = ''ADMIN'' \<or> actorRole = ''SUPER_ADMIN'')
          in if \<not> isOwner \<and> \<not> isAdmin then (fail_with Forbidden ''DEVICE_OWNERSHIP_REQUIRED'', w)
             else
               let w1 = w\<lparr>aw_devices := update_row dvc_id deviceId (\<lambda>r. r\<lparr>dvc_status := DEV_REVOKED\<rparr>) (aw_devices w)\<rparr>;
                   open_session = (\<lambda>s. ses_deviceId s = deviceId \<and> \<not> ses_isRevoked s);
                   w2 = revoke_session_keys (filter open_session (aw_sessions w1)) now w1;
                   w3 = w2\<lparr>aw_sessions := update_where open_session revoke_row (aw_sessions w2)\<rparr>;
                   w4 = announce (revocation_message ''DEVICE_REVOKED''
                          [(''deviceId'', JStr deviceId), (''userId'', JStr (dvc_userId d))] ''DEVICE_REVOKED'' now) w3
               in (Inr deviceId,
                   log_audit (auth_audit (Some actorUserId) ''DEVICE_REVOKED'' ''DEVICE'' deviceId ''SUCCESS'' JNull) w4))"

definition getUserDevices :: "uuid \<Rightarrow> auth_world \<Rightarrow> device list" where
  "getUserDevices userId w = rev (filter (\<lambda>d. dvc_userId d = userId) (aw_devices w))"

end
