(* ===== verification/Calls.thy ===== *)
theory Calls
  imports Auth
begin

text \<open>
  Calls between an owner and a driver: \<open>call-session.service.ts\<close> and \<open>turn-credential.service.ts\<close>.
  The 30 second watchdog is a list of pending timers; \<open>fire_timer\<close> runs one of them.  A handler that
  reads and writes in separate queries is split into a guard and a write, so that other requests can
  run in between.

  The HMAC of the TURN credentials is a parameter.  The record of this theory also holds the tables of
  the conversation and key services.
\<close>

section \<open>State\<close>

datatype call_type = VOICE_PTT | VIDEO

datatype call_status = CALL_PENDING | CALL_ACTIVE | CALL_DECLINED | CALL_TIMEOUT | CALL_ENDED

record call_session =
  cal_id :: uuid
  cal_type :: call_type
  cal_ownerId :: uuid
  cal_driverId :: uuid
  cal_deliveryId :: "uuid option"
  cal_status :: call_status
  cal_expiresAt :: timestamp
  cal_startedAt :: "timestamp option"
  cal_endedAt :: "timestamp option"

record conversation =
  cnv_id :: uuid
  cnv_ownerId :: uuid
  cnv_driverId :: uuid
  cnv_archived :: bool

record chat_message =
  msg_id :: uuid
  msg_conversationId :: uuid
  msg_senderUserId :: uuid
  msg_senderDeviceId :: uuid
  msg_recipientDeviceId :: uuid
  msg_protocolVersion :: int
  msg_ciphertextBlob :: string
  msg_headerJson :: json
  msg_createdAt :: timestamp
  msg_deliveredAt :: "timestamp option"
  msg_readAt :: "timestamp option"

record device_key =
  dky_id :: uuid
  dky_deviceId :: uuid
  dky_identityKeyPublic :: string
  dky_signedPrekeyPublic :: string
  dky_signedPrekeySig :: string

record prekey =
  pky_id :: uuid
  pky_deviceId :: uuid
  pky_keyId :: int
  pky_publicKey :: string
  pky_isConsumed :: bool
  pky_consumedAt :: "timestamp option"

record comm_world =
  cm_deliveries :: "delivery list"
  cm_drivers :: "driver list"
  cm_devices :: "device list"
  cm_calls :: "call_session list"
  cm_timers :: "(timestamp \<times> uuid) list"
  cm_conversations :: "conversation list"
  cm_messages :: "chat_message list"
  cm_deviceKeys :: "device_key list"
  cm_prekeys :: "prekey list"
  cm_idempotency :: "idempotency_record list"
  cm_audit :: "audit_log list"
  cm_redis :: redis
  cm_gatewayUp :: bool
  cm_emitted :: "emission list"

record user_actor =
  ua_userId :: uuid
  ua_role :: string
  ua_driverId :: "uuid option"
  ua_deviceId :: "uuid option"

definition comm_audit :: "audit_log \<Rightarrow> comm_world \<Rightarrow> comm_world" where
  "comm_audit a w = w\<lparr>cm_audit := cm_audit w @ [a]\<rparr>"

definition comm_emit :: "emission \<Rightarrow> comm_world \<Rightarrow> comm_world" where
  "comm_emit e w = (if cm_gatewayUp w then w\<lparr>cm_emitted := cm_emitted w @ [e]\<rparr> else w)"

lemma comm_frame [simp]:
  "cm_calls (comm_audit a w) = cm_calls w" "cm_calls (comm_emit e w) = cm_calls w"
  "cm_timers (comm_audit a w) = cm_timers w" "cm_timers (comm_emit e w) = cm_timers w"
  "cm_conversations (comm_audit a w) = cm_conversations w" "cm_messages (comm_audit a w) = cm_messages w"
  "cm_prekeys (comm_audit a w) = cm_prekeys w" "cm_deviceKeys (comm_audit a w) = cm_deviceKeys w"
  "cm_devices (comm_audit a w) = cm_devices w" "cm_drivers (comm_audit a w) = cm_drivers w"
  "cm_idempotency (comm_audit a w) = cm_idempotency w" "cm_redis (comm_audit a w) = cm_redis w"
  by (simp_all add: comm_audit_def comm_emit_def)

section \<open>TURN credentials\<close>

record turn_config =
  tc_hmac :: "string \<Rightarrow> string"
  tc_serverUrl :: string

record turn_credentials =
  trn_urls :: "string list"
  trn_username :: string
  trn_credential :: string
  trn_ttlSeconds :: int

definition generateEphemeralCredentials :: "turn_config \<Rightarrow> uuid \<Rightarrow> int \<Rightarrow> timestamp \<Rightarrow> turn_credentials" where
  "generateEphemeralCredentials cfg userId ttlSeconds now =
     (let username = digits (nat (now div 1000 + ttlSeconds)) @ '':'' @ userId in
      \<lparr>trn_urls = [tc_serverUrl cfg], trn_username = username, trn_credential = tc_hmac cfg username,
       trn_ttlSeconds = ttlSeconds\<rparr>)"

definition turn_json :: "turn_credentials \<Rightarrow> json" where
  "turn_json c =
     JObj [(''urls'', JList (map JStr (trn_urls c))), (''username'', JStr (trn_username c)),
           (''credential'', JStr (trn_credential c)), (''ttlSeconds'', JNum (of_int (trn_ttlSeconds c)))]"

section \<open>Broadcasts\<close>

fun call_type_name :: "call_type \<Rightarrow> string" where
  "call_type_name VOICE_PTT = ''VOICE_PTT''"
| "call_type_name VIDEO = ''VIDEO''"

fun call_status_name :: "call_status \<Rightarrow> string" where
  "call_status_name CALL_PENDING = ''PENDING''"
| "call_status_name CALL_ACTIVE = ''ACTIVE''"
| "call_status_name CALL_DECLINED = ''DECLINED''"
| "call_status_name CALL_TIMEOUT = ''TIMEOUT''"
| "call_status_name CALL_ENDED = ''ENDED''"

definition emitting_actor :: "user_actor \<Rightarrow> event_actor" where
  "emitting_actor a = \<lparr>ea_userId = ua_userId a, ea_role = ua_role a, ea_driverId = or_null (ua_driverId a)\<rparr>"

definition broadcastCallInvite ::
  "uuid \<Rightarrow> uuid \<Rightarrow> call_type \<Rightarrow> user_actor \<Rightarrow> turn_credentials \<Rightarrow> comm_world \<Rightarrow> comm_world" where
  "broadcastCallInvite sessionId driverId ty actor turn w =
     comm_emit \<lparr>em_room = ''driver:'' @ driverId, em_event = ''webrtc.call.invite'',
       em_payload = JObj [(''sessionId'', JStr sessionId), (''type'', JStr (call_type_name ty)),
                          (''driverId'', JStr driverId), (''turnCredentials'', turn_json turn)],
       em_actor = emitting_actor actor\<rparr> w"

definition broadcastCallResponded :: "uuid \<Rightarrow> call_status \<Rightarrow> user_actor \<Rightarrow> comm_world \<Rightarrow> comm_world" where
  "broadcastCallResponded sessionId status actor w =
     comm_emit \<lparr>em_room = ''session:'' @ sessionId, em_event = ''webrtc.call.respond'',
       em_payload = JObj [(''sessionId'', JStr sessionId), (''status'', JStr (call_status_name status))],
       em_actor = emitting_actor actor\<rparr> w"

definition broadcastCallEnded :: "uuid \<Rightarrow> string \<Rightarrow> user_actor \<Rightarrow> comm_world \<Rightarrow> comm_world" where
  "broadcastCallEnded sessionId reason actor w =
     comm_emit \<lparr>em_room = ''session:'' @ sessionId, em_event = ''webrtc.call.ended'',
       em_payload = JObj [(''sessionId'', JStr sessionId), (''status'', JStr ''ENDED''), (''reason'', JStr reason)],
       em_actor = emitting_actor actor\<rparr> w"

section \<open>Inviting\<close>

record initiate_call_dto =
  icd_driverId :: uuid
  icd_type :: call_type
  icd_deliveryId :: "uuid option"

definition is_admin :: "user_actor \<Rightarrow> bool" where
  "is_admin a \<longleftrightarrow> ua_role a = ''ADMIN'' \<or> ua_role a = ''SUPER_ADMIN''"

definition call_throttle_key :: "uuid \<Rightarrow> string" where
  "call_throttle_key userId = ''throttle:call:invite:'' @ userId"

definition owner_delivery_check :: "initiate_call_dto \<Rightarrow> user_actor \<Rightarrow> comm_world \<Rightarrow> api_error + unit" where
  "owner_delivery_check dto actor w =
     (if ua_role actor = ''OWNER'' \<and> truthy (icd_deliveryId dto)
      then case find_row dlv_id (the (icd_deliveryId dto)) (cm_deliveries w) of
             None \<Rightarrow> fail_with Forbidden ''RESOURCE_FORBIDDEN''
           | Some d \<Rightarrow>
               if dlv_createdBy d \<noteq> ua_userId actor then fail_with Forbidden ''RESOURCE_FORBIDDEN''
               else if dlv_driverId d \<noteq> Some (icd_driverId dto)
               then fail_with Conflict ''DRIVER_DELIVERY_MISMATCH''
               else Inr ()
      else Inr ())"

definition pendingTimeoutMs :: int where
  "pendingTimeoutMs = 30000"

definition new_call :: "uuid \<Rightarrow> initiate_call_dto \<Rightarrow> user_actor \<Rightarrow> timestamp \<Rightarrow> call_session" where
  "new_call sessionId dto actor now =
     \<lparr>cal_id = sessionId, cal_type = icd_type dto, cal_ownerId = ua_userId actor, cal_driverId = icd_driverId dto,
      cal_deliveryId = or_null (icd_deliveryId dto), cal_status = CALL_PENDING,
      cal_expiresAt = now + pendingTimeoutMs, cal_startedAt = None, cal_endedAt = None\<rparr>"

text \<open>\<open>realtimeSession.create\<close>: a delivery that is named must exist (foreign key).\<close>

definition insert_call :: "call_session \<Rightarrow> comm_world \<Rightarrow> api_error + comm_world" where
  "insert_call c w =
     (if cal_deliveryId c \<noteq> None \<and> find_row dlv_id (the (cal_deliveryId c)) (cm_deliveries w) = None
      then fail_with Internal ''P2003''
      else Inr (w\<lparr>cm_calls := cm_calls w @ [c]\<rparr>))"

definition initiateCallSession ::
  "turn_config \<Rightarrow> initiate_call_dto \<Rightarrow> user_actor \<Rightarrow> uuid \<Rightarrow> timestamp \<Rightarrow> comm_world \<Rightarrow>
   (call_session \<times> turn_credentials, comm_world) outcome" where
  "initiateCallSession cfg dto actor sessionId now w =
     (if ua_role actor \<noteq> ''OWNER'' \<and> ua_role actor \<noteq> ''ADMIN'' \<and> ua_role actor \<noteq> ''SUPER_ADMIN''
      then (fail_with Forbidden ''FORBIDDEN'', w)
      else
        let (rateCount, rd) = incrRateLimit (call_throttle_key (ua_userId actor)) 60 now (cm_redis w);
            w1 = w\<lparr>cm_redis := rd\<rparr>
        in if 3 < rateCount then (fail_with TooManyRequests ''RATE_LIMIT_EXCEEDED'', w1)
           else case owner_delivery_check dto actor w1 of
             Inl e \<Rightarrow> (Inl e, w1)
           | Inr _ \<Rightarrow>
               (case find_row drv_id (icd_driverId dto) (cm_drivers w1) of
                  None \<Rightarrow> (fail_with NotFound ''DRIVER_NOT_FOUND'', w1)
                | Some _ \<Rightarrow>
                    let turn = generateEphemeralCredentials cfg (ua_userId actor) 3600 now;
                        c = new_call sessionId dto actor now
                    in case insert_call c w1 of
                         Inl e \<Rightarrow> (Inl e, w1)
                       | Inr w2 \<Rightarrow>
                           let w3 = w2\<lparr>cm_timers := cm_timers w2 @ [(now + pendingTimeoutMs, sessionId)]\<rparr>;
                               w4 = comm_audit (success_audit (ua_userId actor)
                                      (if icd_type dto = VOICE_PTT then ''VOICE_SESSION_STARTED'' else ''VIDEO_REQUESTED'')
                                      ''REALTIME_SESSION'' sessionId JNull) w3
                           in (Inr (c, turn),
                               broadcastCallInvite sessionId (icd_driverId dto) (icd_type dto) actor turn w4)))"

section \<open>Answering, ending and signalling\<close>

definition isAuthorizedParticipant :: "call_session \<Rightarrow> user_actor \<Rightarrow> bool" where
  "isAuthorizedParticipant c actor \<longleftrightarrow>
     (if is_admin actor then True
      else cal_ownerId c = ua_userId actor \<or>
           (truthy (ua_driverId actor) \<and> Some (cal_driverId c) = ua_driverId actor))"

definition find_call :: "uuid \<Rightarrow> user_actor \<Rightarrow> comm_world \<Rightarrow> api_error + call_session" where
  "find_call sessionId actor w =
     (case find_row cal_id sessionId (cm_calls w) of
        None \<Rightarrow> fail_with NotFound ''CALL_SESSION_NOT_FOUND''
      | Some c \<Rightarrow>
          if \<not> isAuthorizedParticipant c actor then fail_with Forbidden ''RESOURCE_FORBIDDEN'' else Inr c)"

datatype call_action = ACCEPT | DECLINE

definition ACTIVE_CALL_LIFETIME_MS :: int where
  "ACTIVE_CALL_LIFETIME_MS = 60 * 60 * 1000"

definition respond_guard :: "uuid \<Rightarrow> user_actor \<Rightarrow> timestamp \<Rightarrow> comm_world \<Rightarrow> api_error + call_session" where
  "respond_guard sessionId actor now w =
     (case find_call sessionId actor w of
        Inl e \<Rightarrow> Inl e
      | Inr c \<Rightarrow>
          if cal_expiresAt c \<le> now then fail_with Conflict ''CALL_SESSION_EXPIRED''
          else if cal_status c \<noteq> CALL_PENDING then fail_with Conflict ''INVALID_CALL_STATE''
          else Inr c)"

definition response_status :: "call_action \<Rightarrow> call_status" where
  "response_status action = (if action = ACCEPT then CALL_ACTIVE else CALL_DECLINED)"

definition answerable :: "timestamp \<Rightarrow> call_session \<Rightarrow> bool" where
  "answerable now c \<longleftrightarrow> cal_status c = CALL_PENDING \<and> now < cal_expiresAt c"

definition respond_row :: "call_action \<Rightarrow> timestamp \<Rightarrow> call_session \<Rightarrow> call_session" where
  "respond_row action now c =
     c\<lparr>cal_status := response_status action,
       cal_startedAt := (if action = ACCEPT then Some now else None),
       cal_expiresAt := (if action = ACCEPT then now + ACTIVE_CALL_LIFETIME_MS else cal_expiresAt c)\<rparr>"

text \<open>The conditional update and what follows; \<open>now'\<close> is the clock when a lost update looks again.\<close>

definition respond_write ::
  "uuid \<Rightarrow> call_action \<Rightarrow> user_actor \<Rightarrow> timestamp \<Rightarrow> timestamp \<Rightarrow> comm_world \<Rightarrow>
   (call_session option, comm_world) outcome" where
  "respond_write sessionId action actor now now' w =
     (let (n, cs) = claim cal_id (answerable now) (respond_row action now) sessionId (cm_calls w);
          w1 = w\<lparr>cm_calls := cs\<rparr>
      in if n \<noteq> 1
         then (case find_row cal_id sessionId (cm_calls w1) of
                 None \<Rightarrow> fail_with Conflict ''INVALID_CALL_STATE''
               | Some current \<Rightarrow>
                   if cal_expiresAt current \<le> now' then fail_with Conflict ''CALL_SESSION_EXPIRED''
                   else fail_with Conflict ''INVALID_CALL_STATE'', w1)
         else
           let w2 = comm_audit (success_audit (ua_userId actor)
                      (if action = ACCEPT then ''VIDEO_ACCEPTED'' else ''VIDEO_DECLINED'')
                      ''REALTIME_SESSION'' sessionId JNull) w1
           in (Inr (find_row cal_id sessionId (cm_calls w1)),
               broadcastCallResponded sessionId (response_status action) actor w2))"

definition respondToCallSession ::
  "uuid \<Rightarrow> call_action \<Rightarrow> user_actor \<Rightarrow> timestamp \<Rightarrow> timestamp \<Rightarrow> comm_world \<Rightarrow>
   (call_session option, comm_world) outcome" where
  "respondToCallSession sessionId action actor now now' w =
     (case respond_guard sessionId actor now w of
        Inl e \<Rightarrow> (Inl e, w)
      | Inr _ \<Rightarrow> respond_write sessionId action actor now now' w)"

definition end_row :: "timestamp \<Rightarrow> call_session \<Rightarrow> call_session" where
  "end_row now c = c\<lparr>cal_status := CALL_ENDED, cal_endedAt := Some now\<rparr>"

text \<open>The update by id, whatever has happened to the row since it was read.\<close>

definition end_write :: "uuid \<Rightarrow> user_actor \<Rightarrow> timestamp \<Rightarrow> comm_world \<Rightarrow> (call_session, comm_world) outcome" where
  "end_write sessionId actor now w =
     (case find_row cal_id sessionId (cm_calls w) of
        None \<Rightarrow> (fail_with Internal ''P2025'', w)
      | Some c \<Rightarrow>
          let w1 = w\<lparr>cm_calls := update_row cal_id sessionId (end_row now) (cm_calls w)\<rparr>;
              w2 = comm_audit (success_audit (ua_userId actor) ''CALL_SESSION_ENDED'' ''REALTIME_SESSION'' sessionId JNull) w1
          in (Inr (end_row now c), broadcastCallEnded sessionId ''USER_HANGUP'' actor w2))"

definition endCallSession :: "uuid \<Rightarrow> user_actor \<Rightarrow> timestamp \<Rightarrow> comm_world \<Rightarrow> (call_session, comm_world) outcome" where
  "endCallSession sessionId actor now w =
     (case find_call sessionId actor w of
        Inl e \<Rightarrow> (Inl e, w)
      | Inr c \<Rightarrow> if cal_status c = CALL_ENDED then (Inr c, w) else end_write sessionId actor now w)"

definition authorizeSignal :: "uuid \<Rightarrow> user_actor \<Rightarrow> timestamp \<Rightarrow> comm_world \<Rightarrow> api_error + call_session" where
  "authorizeSignal sessionId actor now w =
     (case find_call sessionId actor w of
        Inl e \<Rightarrow> Inl e
      | Inr c \<Rightarrow>
          if cal_status c \<noteq> CALL_ACTIVE \<or> cal_expiresAt c \<le> now then fail_with Conflict ''INVALID_CALL_STATE''
          else Inr c)"

section \<open>The watchdog\<close>

definition overdue :: "timestamp \<Rightarrow> call_session \<Rightarrow> bool" where
  "overdue now c \<longleftrightarrow> cal_status c = CALL_PENDING \<and> cal_expiresAt c \<le> now"

definition timeout_row :: "call_session \<Rightarrow> call_session" where
  "timeout_row c = c\<lparr>cal_status := CALL_TIMEOUT\<rparr>"

definition handlePendingTimeout :: "uuid \<Rightarrow> timestamp \<Rightarrow> comm_world \<Rightarrow> comm_world" where
  "handlePendingTimeout sessionId now w =
     (case find_row cal_id sessionId (cm_calls w) of
        None \<Rightarrow> w
      | Some c \<Rightarrow>
          if cal_status c = CALL_PENDING
          then
            let (n, cs) = claim cal_id (overdue now) timeout_row sessionId (cm_calls w);
                w1 = w\<lparr>cm_calls := cs\<rparr>
            in if n = 1
               then broadcastCallEnded sessionId ''TIMEOUT''
                      \<lparr>ua_userId = cal_ownerId c, ua_role = ''SYSTEM'', ua_driverId = None, ua_deviceId = None\<rparr> w1
               else w1
          else w)"

text \<open>The timer of one call fires, at or after the time it was set for.\<close>

definition fire_timer :: "timestamp \<times> uuid \<Rightarrow> timestamp \<Rightarrow> comm_world \<Rightarrow> comm_world" where
  "fire_timer t now w = handlePendingTimeout (snd t) now (w\<lparr>cm_timers := remove1 t (cm_timers w)\<rparr>)"

section \<open>Claims on calls\<close>

fun call_edge :: "call_status \<Rightarrow> call_status \<Rightarrow> bool" where
  "call_edge CALL_PENDING CALL_ACTIVE = True"
| "call_edge CALL_PENDING CALL_DECLINED = True"
| "call_edge CALL_PENDING CALL_TIMEOUT = True"
| "call_edge _ CALL_ENDED = True"
| "call_edge _ _ = False"

interpretation call_graph: status_graph call_edge "\<lambda>s. s = CALL_ENDED"
proof
  fix s t assume "s = CALL_ENDED" "call_edge s t"
  then show "t = s" by (cases t) simp_all
qed

interpretation answering: edge_claiming cal_id "answerable now" "respond_row action now" cal_status call_edge
  for now action
  by unfold_locales (auto simp: answerable_def respond_row_def response_status_def)

interpretation expiring: edge_claiming cal_id "overdue now" timeout_row cal_status call_edge for now
  by unfold_locales (auto simp: overdue_def timeout_row_def)

end
