(* ===== verification/Chat.thy ===== *)
theory Chat
  imports Calls Pod
begin

text \<open>
  Conversations and encrypted messages: \<open>conversations.service.ts\<close> and \<open>messages.service.ts\<close>.  The
  sending of a message reads the idempotency record, inserts the message and inserts the record in
  separate queries; \<open>send_check\<close> is the part up to the read, \<open>send_write\<close> the rest.
\<close>

section \<open>Conversations\<close>

definition conversation_roles :: "string list" where
  "conversation_roles = [''OWNER'', ''ADMIN'', ''SUPER_ADMIN'']"

text \<open>The upsert on the unique pair of owner and driver.\<close>

definition upsert_conversation :: "uuid \<Rightarrow> uuid \<Rightarrow> uuid \<Rightarrow> conversation list \<Rightarrow> conversation \<times> conversation list" where
  "upsert_conversation ownerId driverId newId cs =
     (let key = (\<lambda>c. (cnv_ownerId c, cnv_driverId c)); activate = (\<lambda>c. c\<lparr>cnv_archived := False\<rparr>) in
      case find_row key (ownerId, driverId) cs of
        Some c \<Rightarrow> (activate c, update_row key (ownerId, driverId) activate cs)
      | None \<Rightarrow>
          let c = \<lparr>cnv_id = newId, cnv_ownerId = ownerId, cnv_driverId = driverId, cnv_archived = False\<rparr>
          in (c, cs @ [c]))"

definition createConversation :: "uuid \<Rightarrow> user_actor \<Rightarrow> uuid \<Rightarrow> comm_world \<Rightarrow> (conversation, comm_world) outcome" where
  "createConversation driverId actor newId w =
     (if ua_role actor \<notin> set conversation_roles then (fail_with Forbidden ''FORBIDDEN'', w)
      else if find_row drv_id driverId (cm_drivers w) = None then (fail_with NotFound ''DRIVER_NOT_FOUND'', w)
      else
        let (c, cs) = upsert_conversation (ua_userId actor) driverId newId (cm_conversations w) in
        (Inr c,
         comm_audit (success_audit (ua_userId actor) ''CONVERSATION_CREATED'' ''CONVERSATION'' (cnv_id c)
             (JObj [(''driverId'', JStr driverId)]))
           (w\<lparr>cm_conversations := cs\<rparr>)))"

definition newest_first :: "'a list \<Rightarrow> 'a list" where
  "newest_first xs = rev xs"

text \<open>Each conversation with its latest message.\<close>

definition getUserConversations :: "user_actor \<Rightarrow> comm_world \<Rightarrow> (conversation \<times> chat_message list) list" where
  "getUserConversations actor w =
     (let mine = (if ua_role actor = ''DRIVER''
                  then (\<lambda>c. Some (cnv_driverId c) = ua_driverId actor) else (\<lambda>c. cnv_ownerId c = ua_userId actor));
          latest = (\<lambda>c. take 1 (newest_first (filter (\<lambda>m. msg_conversationId m = cnv_id c) (cm_messages w))))
      in if ua_role actor = ''DRIVER'' \<and> \<not> truthy (ua_driverId actor) then []
         else map (\<lambda>c. (c, latest c))
                (newest_first (filter (\<lambda>c. mine c \<and> \<not> cnv_archived c) (cm_conversations w))))"

definition verifyConversationAccess :: "uuid \<Rightarrow> user_actor \<Rightarrow> comm_world \<Rightarrow> api_error + conversation" where
  "verifyConversationAccess conversationId actor w =
     (case find_row cnv_id conversationId (cm_conversations w) of
        None \<Rightarrow> fail_with NotFound ''CONVERSATION_NOT_FOUND''
      | Some c \<Rightarrow>
          if is_admin actor then Inr c
          else if \<not> (cnv_ownerId c = ua_userId actor) \<and>
                  \<not> (truthy (ua_driverId actor) \<and> Some (cnv_driverId c) = ua_driverId actor)
          then fail_with Forbidden ''RESOURCE_FORBIDDEN''
          else Inr c)"

section \<open>Sending\<close>

record send_message_dto =
  smd_recipientDeviceId :: uuid
  smd_protocolVersion :: "int option"
  smd_ciphertextBlob :: string
  smd_headerJson :: json
  smd_idempotencyKey :: "uuid option"

text \<open>An answer: the stored message and whether it is a replay.\<close>

record message_result =
  mrs_message :: chat_message
  mrs_idempotent :: bool

definition chat_throttle_key :: "uuid \<Rightarrow> string" where
  "chat_throttle_key userId = ''throttle:chat:send:'' @ userId"

definition usable_device :: "uuid \<Rightarrow> comm_world \<Rightarrow> bool" where
  "usable_device deviceId w =
     (case find_row dvc_id deviceId (cm_devices w) of None \<Rightarrow> False | Some d \<Rightarrow> dvc_status d \<noteq> DEV_REVOKED)"

text \<open>The message as the JSON body of the idempotency record, and back.\<close>

definition message_json :: "chat_message \<Rightarrow> json" where
  "message_json m =
     JObj [(''id'', JStr (msg_id m)), (''conversationId'', JStr (msg_conversationId m)),
           (''senderUserId'', JStr (msg_senderUserId m)), (''senderDeviceId'', JStr (msg_senderDeviceId m)),
           (''recipientDeviceId'', JStr (msg_recipientDeviceId m)),
           (''protocolVersion'', JNum (of_int (msg_protocolVersion m))),
           (''ciphertextBlob'', JStr (msg_ciphertextBlob m)), (''headerJson'', msg_headerJson m),
           (''createdAt'', JNum (of_int (msg_createdAt m))), (''deliveredAt'', jtime (msg_deliveredAt m)),
           (''readAt'', jtime (msg_readAt m))]"

definition json_string :: "json option \<Rightarrow> string" where
  "json_string x = (case x of Some (JStr s) \<Rightarrow> s | _ \<Rightarrow> [])"

definition json_int :: "json option \<Rightarrow> int" where
  "json_int x = (case x of Some (JNum q) \<Rightarrow> \<lfloor>q\<rfloor> | _ \<Rightarrow> 0)"

definition json_time :: "json option \<Rightarrow> timestamp option" where
  "json_time x = (case x of Some (JNum q) \<Rightarrow> Some \<lfloor>q\<rfloor> | _ \<Rightarrow> None)"

definition message_of_json :: "json \<Rightarrow> chat_message" where
  "message_of_json body =
     \<lparr>msg_id = json_string (jget ''id'' body), msg_conversationId = json_string (jget ''conversationId'' body),
      msg_senderUserId = json_string (jget ''senderUserId'' body),
      msg_senderDeviceId = json_string (jget ''senderDeviceId'' body),
      msg_recipientDeviceId = json_string (jget ''recipientDeviceId'' body),
      msg_protocolVersion = json_int (jget ''protocolVersion'' body),
      msg_ciphertextBlob = json_string (jget ''ciphertextBlob'' body),
      msg_headerJson = (case jget ''headerJson'' body of None \<Rightarrow> JNull | Some h \<Rightarrow> h),
      msg_createdAt = json_int (jget ''createdAt'' body), msg_deliveredAt = json_time (jget ''deliveredAt'' body),
      msg_readAt = json_time (jget ''readAt'' body)\<rparr>"

definition send_guard :: "uuid \<Rightarrow> send_message_dto \<Rightarrow> user_actor \<Rightarrow> comm_world \<Rightarrow> api_error + unit" where
  "send_guard conversationId dto actor w =
     (case verifyConversationAccess conversationId actor w of
        Inl e \<Rightarrow> Inl e
      | Inr _ \<Rightarrow>
          if \<not> truthy (ua_deviceId actor) then fail_with Forbidden ''DEVICE_ID_REQUIRED''
          else if \<not> usable_device (the (ua_deviceId actor)) w then fail_with Forbidden ''DEVICE_REVOKED''
          else if \<not> usable_device (smd_recipientDeviceId dto) w
          then fail_with Unprocessable ''RECIPIENT_DEVICE_INVALID''
          else Inr ())"

text \<open>The checks, the rate limit and the lookup of the record; the answer is the replayed message, if any.\<close>

definition send_check ::
  "uuid \<Rightarrow> send_message_dto \<Rightarrow> user_actor \<Rightarrow> string \<Rightarrow> timestamp \<Rightarrow> comm_world \<Rightarrow>
   (message_result option, comm_world) outcome" where
  "send_check conversationId dto actor endpoint now w =
     (case send_guard conversationId dto actor w of
        Inl e \<Rightarrow> (Inl e, w)
      | Inr _ \<Rightarrow>
          let (rateCount, rd) = incrRateLimit (chat_throttle_key (ua_userId actor)) 1 now (cm_redis w);
              w1 = w\<lparr>cm_redis := rd\<rparr>
          in if 10 < rateCount then (fail_with TooManyRequests ''RATE_LIMIT_EXCEEDED'', w1)
             else (Inr (case request_key (smd_idempotencyKey dto) (ua_userId actor) endpoint of
                          None \<Rightarrow> None
                        | Some k \<Rightarrow>
                            map_option (\<lambda>r. \<lparr>mrs_message = message_of_json (idm_responseBody r), mrs_idempotent = True\<rparr>)
                              (find_row idm_key k (cm_idempotency w1))), w1))"

definition new_message :: "uuid \<Rightarrow> send_message_dto \<Rightarrow> user_actor \<Rightarrow> uuid \<Rightarrow> timestamp \<Rightarrow> chat_message" where
  "new_message conversationId dto actor newId now =
     \<lparr>msg_id = newId, msg_conversationId = conversationId, msg_senderUserId = ua_userId actor,
      msg_senderDeviceId = the (ua_deviceId actor), msg_recipientDeviceId = smd_recipientDeviceId dto,
      msg_protocolVersion = (case smd_protocolVersion dto of None \<Rightarrow> 1 | Some v \<Rightarrow> if v = 0 then 1 else v),
      msg_ciphertextBlob = smd_ciphertextBlob dto, msg_headerJson = smd_headerJson dto,
      msg_createdAt = now, msg_deliveredAt = None, msg_readAt = None\<rparr>"

text \<open>The two inserts; a duplicate record is caught and ignored.\<close>

definition send_write ::
  "uuid \<Rightarrow> send_message_dto \<Rightarrow> user_actor \<Rightarrow> string \<Rightarrow> uuid \<Rightarrow> timestamp \<Rightarrow> comm_world \<Rightarrow>
   message_result \<times> comm_world" where
  "send_write conversationId dto actor endpoint newId now w =
     (let m = new_message conversationId dto actor newId now;
          w1 = w\<lparr>cm_messages := cm_messages w @ [m]\<rparr>;
          w2 = (case request_key (smd_idempotencyKey dto) (ua_userId actor) endpoint of
                  None \<Rightarrow> w1
                | Some k \<Rightarrow>
                    if find_row idm_key k (cm_idempotency w1) \<noteq> None then w1
                    else w1\<lparr>cm_idempotency := cm_idempotency w1 @
                           [\<lparr>idm_key = k, idm_responseStatus = 201, idm_responseBody = message_json m,
                             idm_expiresAt = now + 24 * 3600 * 1000\<rparr>]\<rparr>)
      in (\<lparr>mrs_message = m, mrs_idempotent = False\<rparr>, w2))"

definition sendMessage ::
  "uuid \<Rightarrow> send_message_dto \<Rightarrow> user_actor \<Rightarrow> string \<Rightarrow> uuid \<Rightarrow> timestamp \<Rightarrow> comm_world \<Rightarrow>
   (message_result, comm_world) outcome" where
  "sendMessage conversationId dto actor endpoint newId now w =
     (case send_check conversationId dto actor endpoint now w of
        (Inl e, w1) \<Rightarrow> (Inl e, w1)
      | (Inr (Some replay), w1) \<Rightarrow> (Inr replay, w1)
      | (Inr None, w1) \<Rightarrow>
          let (m, w2) = send_write conversationId dto actor endpoint newId now w1 in (Inr m, w2))"

section \<open>Reading\<close>

text \<open>
  A page of the messages of a conversation.  The messages of the table are in the order of creation; two
  messages of the same millisecond are listed in the order the database chooses, here the later first.
\<close>

record message_page =
  mpg_messages :: "chat_message list"
  mpg_limit :: nat
  mpg_offset :: nat
  mpg_total :: nat

definition messages_of :: "uuid \<Rightarrow> comm_world \<Rightarrow> chat_message list" where
  "messages_of conversationId w = filter (\<lambda>m. msg_conversationId m = conversationId) (cm_messages w)"

definition getMessages ::
  "uuid \<Rightarrow> nat option \<Rightarrow> nat option \<Rightarrow> user_actor \<Rightarrow> comm_world \<Rightarrow> api_error + message_page" where
  "getMessages conversationId qlimit qoffset actor w =
     (case verifyConversationAccess conversationId actor w of
        Inl e \<Rightarrow> Inl e
      | Inr _ \<Rightarrow>
          let lim = (case qlimit of None \<Rightarrow> 50 | Some n \<Rightarrow> if n = 0 then 50 else n);
              off = (case qoffset of None \<Rightarrow> 0 | Some n \<Rightarrow> n);
              ms = messages_of conversationId w
          in Inr \<lparr>mpg_messages = take lim (drop off (newest_first ms)), mpg_limit = lim, mpg_offset = off,
                  mpg_total = length ms\<rparr>)"

definition markMessageDelivered :: "uuid \<Rightarrow> timestamp \<Rightarrow> comm_world \<Rightarrow> chat_message option \<times> comm_world" where
  "markMessageDelivered messageId now w =
     (case find_row msg_id messageId (cm_messages w) of
        None \<Rightarrow> (None, w)
      | Some m \<Rightarrow>
          if msg_deliveredAt m = None
          then let f = (\<lambda>r. r\<lparr>msg_deliveredAt := Some now\<rparr>) in
               (Some (f m), w\<lparr>cm_messages := update_row msg_id messageId f (cm_messages w)\<rparr>)
          else (Some m, w))"

definition markMessageRead :: "uuid \<Rightarrow> timestamp \<Rightarrow> comm_world \<Rightarrow> chat_message option \<times> comm_world" where
  "markMessageRead messageId now w =
     (case find_row msg_id messageId (cm_messages w) of
        None \<Rightarrow> (None, w)
      | Some m \<Rightarrow>
          let seen = (case msg_deliveredAt m of None \<Rightarrow> Some now | Some t \<Rightarrow> Some t);
              f = (\<lambda>r. r\<lparr>msg_deliveredAt := seen, msg_readAt := Some now\<rparr>)
          in (Some (f m), w\<lparr>cm_messages := update_row msg_id messageId f (cm_messages w)\<rparr>))"

end
