(* ===== verification/WsGuard.thy ===== *)
theory WsGuard
  imports Auth
begin

text \<open>
  Authentication of WebSocket connections: \<open>ws-jwt-auth.guard.ts\<close>.  Decoding and verifying a JWT are
  functions of a third-party package and parameters of this theory.  An \<open>Error\<close> that the guard throws
  is represented by its message.
\<close>

section \<open>Data of a socket\<close>

record socket_data =
  sd_userId :: uuid
  sd_username :: string
  sd_role :: string
  sd_organizationId :: "uuid option"
  sd_permissions :: "string list"
  sd_deviceId :: uuid
  sd_sessionId :: uuid
  sd_accessTokenExp :: "int option"
  sd_driverId :: "uuid option"
  sd_connectedAt :: timestamp
  sd_joinedRooms :: "string list"
  sd_lastPingSentAt :: "timestamp option"
  sd_lastPongReceivedAt :: "timestamp option"
  sd_rttLatencyMs :: "rat option"
  sd_heartbeatTimer :: bool
  sd_pongTimer :: bool

text \<open>The parts of the handshake that carry the token; \<open>None\<close> also stands for a value that is no string.\<close>

record handshake =
  hs_authToken :: "string option"
  hs_authorization :: "string option"
  hs_queryToken :: "string option"

definition js_space :: "char \<Rightarrow> bool" where
  "js_space c \<longleftrightarrow> (of_char c :: nat) \<in> {9, 10, 11, 12, 13, 32, 160}"

definition js_trim :: "string \<Rightarrow> string" where
  "js_trim s = rev (dropWhile js_space (rev (dropWhile js_space s)))"

definition first_truthy :: "string option \<Rightarrow> string option \<Rightarrow> string option" where
  "first_truthy a b = (if truthy a then a else b)"

definition extractToken :: "handshake \<Rightarrow> string option" where
  "extractToken h =
     (let authHeader = first_truthy (first_truthy (hs_authToken h) (hs_authorization h)) (hs_queryToken h) in
      if \<not> truthy authHeader then None
      else if prefix ''Bearer '' (the authHeader) then Some (js_trim (drop 7 (the authHeader)))
      else Some (js_trim (the authHeader)))"

text \<open>The guard of single messages; an exception is \<open>Inl\<close>.\<close>

definition canActivate :: "socket_data option \<Rightarrow> api_error + bool" where
  "canActivate data =
     (case data of
        None \<Rightarrow> fail_with Internal ''UNAUTHORIZED: Authentication required''
      | Some d \<Rightarrow> if sd_userId d = [] then fail_with Internal ''UNAUTHORIZED: Authentication required'' else Inr True)"

section \<open>The JWT package and the configuration\<close>

record jwt_header =
  jh_alg :: string
  jh_kid :: "string option"

text \<open>The claims of a verified token; \<open>wc_exp\<close> is \<open>None\<close> when \<open>exp\<close> is not a finite number.\<close>

record ws_claims =
  wc_payload :: jwt_payload
  wc_exp :: "int option"

record jwt_lib =
  jl_decode :: "string \<Rightarrow> jwt_header option"
  jl_verify :: "string \<Rightarrow> string \<Rightarrow> string \<Rightarrow> string \<Rightarrow> string + ws_claims"

record ws_config =
  wsc_jwtSecret :: string
  wsc_previousSecret :: "string option"
  wsc_previousKeyId :: "string option"
  wsc_jwtIssuer :: string
  wsc_jwtAudience :: string

abbreviation unauthorized :: "string \<Rightarrow> api_error + 'a" where
  "unauthorized message \<equiv> fail_with Internal (''UNAUTHORIZED: '' @ message)"

section \<open>The handshake\<close>

definition choose_secret :: "ws_config \<Rightarrow> jwt_header \<Rightarrow> string" where
  "choose_secret cfg h =
     (if truthy (jh_kid h) \<and> truthy (wsc_previousKeyId cfg) \<and> jh_kid h = wsc_previousKeyId cfg \<and>
         truthy (wsc_previousSecret cfg)
      then the (wsc_previousSecret cfg) else wsc_jwtSecret cfg)"

definition verify_token :: "jwt_lib \<Rightarrow> ws_config \<Rightarrow> string option \<Rightarrow> api_error + ws_claims" where
  "verify_token lib cfg rawToken =
     (if \<not> truthy rawToken then unauthorized ''Token required''
      else case jl_decode lib (the rawToken) of
             None \<Rightarrow> unauthorized ''Invalid token format''
           | Some h \<Rightarrow>
               if jh_alg h \<noteq> ''HS256'' then unauthorized ''Invalid token algorithm''
               else case jl_verify lib (the rawToken) (choose_secret cfg h) (wsc_jwtIssuer cfg) (wsc_jwtAudience cfg) of
                      Inl message \<Rightarrow>
                        if contains_text message ''expired'' then unauthorized ''Token expired''
                        else if contains_text message ''issuer'' then unauthorized ''Invalid issuer''
                        else if contains_text message ''audience'' then unauthorized ''Invalid audience''
                        else unauthorized ''Invalid signature''
                    | Inr claims \<Rightarrow> Inr claims)"

definition complete_claims :: "ws_claims \<Rightarrow> bool" where
  "complete_claims c \<longleftrightarrow> jwt_sessionId (wc_payload c) \<noteq> [] \<and> jwt_sub (wc_payload c) \<noteq> [] \<and>
     jwt_deviceId (wc_payload c) \<noteq> [] \<and> wc_exp c \<noteq> None"

definition new_socket_data :: "user \<Rightarrow> ws_claims \<Rightarrow> timestamp \<Rightarrow> auth_world \<Rightarrow> socket_data" where
  "new_socket_data u c now w =
     \<lparr>sd_userId = usr_id u, sd_username = usr_username u, sd_role = usr_role u,
      sd_organizationId = or_null (usr_organizationId u), sd_permissions = permissions_of (usr_role u) w,
      sd_deviceId = jwt_deviceId (wc_payload c), sd_sessionId = jwt_sessionId (wc_payload c),
      sd_accessTokenExp = wc_exp c, sd_driverId = or_null (driver_of (usr_id u) w), sd_connectedAt = now,
      sd_joinedRooms = [], sd_lastPingSentAt = None, sd_lastPongReceivedAt = None, sd_rttLatencyMs = None,
      sd_heartbeatTimer = False, sd_pongTimer = False\<rparr>"

text \<open>From the verified claims on.  The message of an inactive account carries the status in lower case.\<close>

fun status_lower :: "account_status \<Rightarrow> string" where
  "status_lower PENDING_ACTIVATION = ''pending_activation''"
| "status_lower ACTIVE = ''active''"
| "status_lower SUSPENDED = ''suspended''"
| "status_lower DISABLED = ''disabled''"

definition admit_claims :: "ws_claims \<Rightarrow> timestamp \<Rightarrow> auth_world \<Rightarrow> (socket_data, auth_world) outcome" where
  "admit_claims c now w =
     (let p = wc_payload c in
      if jwt_type p \<noteq> ''ACCESS_TOKEN'' then (unauthorized ''Invalid token type'', w)
      else if \<not> complete_claims c then (unauthorized ''Incomplete token claims'', w)
      else
        let (isSessionRevoked, rd1) = isRevoked (session_key (jwt_sessionId p)) now (aw_redis w);
            w1 = w\<lparr>aw_redis := rd1\<rparr>
        in if isSessionRevoked = Some True then (unauthorized ''Session revoked'', w1)
           else case find_row usr_id (jwt_sub p) (aw_users w1) of
             None \<Rightarrow> (unauthorized ''User not found'', w1)
           | Some u \<Rightarrow>
               if usr_status u \<noteq> ACTIVE then (unauthorized (''Account '' @ status_lower (usr_status u)), w1)
               else if usr_role u \<noteq> jwt_role p then (unauthorized ''ROLE_UPDATED_REAUTH_REQUIRED'', w1)
               else if (isSessionRevoked = Some False \<or> isSessionRevoked = None) \<and> \<not> session_usable p now w1
               then (unauthorized ''Session revoked'', w1)
               else
                 let (isUserRevoked, rd2) = isRevoked (user_key (jwt_sub p)) now (aw_redis w1);
                     w2 = w1\<lparr>aw_redis := rd2\<rparr>
                 in if isUserRevoked = Some True then (unauthorized ''User revoked'', w2)
                    else (Inr (new_socket_data u c now w2), w2))"

definition validateHandshake ::
  "jwt_lib \<Rightarrow> ws_config \<Rightarrow> handshake \<Rightarrow> timestamp \<Rightarrow> auth_world \<Rightarrow> (socket_data, auth_world) outcome" where
  "validateHandshake lib cfg h now w =
     (case verify_token lib cfg (extractToken h) of
        Inl e \<Rightarrow> (Inl e, w)
      | Inr c \<Rightarrow> admit_claims c now w)"

section \<open>Validating a connected socket again\<close>

text \<open>The part of the check that reads the tables.\<close>

definition socket_good :: "socket_data \<Rightarrow> timestamp \<Rightarrow> auth_world \<Rightarrow> bool" where
  "socket_good d now w =
     (case find_row ses_id (sd_sessionId d) (aw_sessions w) of
        None \<Rightarrow> False
      | Some s \<Rightarrow>
          (case find_row usr_id (sd_userId d) (aw_users w) of
             None \<Rightarrow> False
           | Some u \<Rightarrow>
               (case find_row dvc_id (ses_deviceId s) (aw_devices w) of
                  None \<Rightarrow> False
                | Some dv \<Rightarrow>
                    \<not> (usr_status u \<noteq> ACTIVE \<or> usr_role u \<noteq> sd_role d \<or> ses_userId s \<noteq> sd_userId d \<or>
                       ses_deviceId s \<noteq> sd_deviceId d \<or> dvc_userId dv \<noteq> sd_userId d \<or> ses_isRevoked s \<or>
                       ses_expiresAt s \<le> now \<or> dvc_status dv \<noteq> DEV_ACTIVE \<or>
                       or_null (driver_of (sd_userId d) w) \<noteq> sd_driverId d))))"

text \<open>The two questions to Redis run concurrently with the queries; here one after the other.\<close>

definition validateSocket :: "socket_data option \<Rightarrow> timestamp \<Rightarrow> auth_world \<Rightarrow> (unit, auth_world) outcome" where
  "validateSocket data now w =
     (case data of
        None \<Rightarrow> (unauthorized ''Authentication context required'', w)
      | Some d \<Rightarrow>
          if sd_userId d = [] \<or> sd_sessionId d = [] \<or> sd_deviceId d = []
          then (unauthorized ''Authentication context required'', w)
          else if sd_accessTokenExp d = None \<or> the (sd_accessTokenExp d) \<le> now div 1000
          then (unauthorized ''Access token expired'', w)
          else
            let (isSessionRevoked, rd1) = isRevoked (session_key (sd_sessionId d)) now (aw_redis w);
                (isUserRevoked, rd2) = isRevoked (user_key (sd_userId d)) now rd1;
                w1 = w\<lparr>aw_redis := rd2\<rparr>
            in if isSessionRevoked = Some True \<or> isUserRevoked = Some True \<or> \<not> socket_good d now w1
               then (unauthorized ''Session or device revoked'', w1)
               else (Inr (), w1))"

end
