(* ===== verification/ConnManager.thy ===== *)
theory ConnManager
  imports WsGuard
begin

text \<open>
  The registry of WebSocket connections: \<open>ws-connection-manager.service.ts\<close>.  The maps of the service hold
  socket ids; the socket objects, which the service and the gateway share and mutate, are the list
  \<open>cs_heap\<close>.  Of Socket.IO a socket has its id, the data the code hangs on it, whether it is connected, its
  rooms, and the messages handed to it.  \<open>disconnect(true)\<close> closes a socket and takes it out of its rooms.
\<close>

section \<open>Sockets\<close>

record socket =
  sk_id :: string
  sk_data :: "socket_data option"
  sk_connected :: bool
  sk_rooms :: "string list"
  sk_sent :: "(string \<times> json) list"

record conn_state =
  cs_heap :: "socket list"
  cs_sockets :: "string list"
  cs_userSockets :: "(uuid \<times> string list) list"
  cs_sessionSockets :: "(uuid \<times> string list) list"
  cs_deviceSockets :: "(uuid \<times> string list) list"
  cs_driverSockets :: "(uuid \<times> string) list"

text \<open>A socket after its handshake.  The room named after the socket itself is left out.\<close>

definition fresh_socket :: "string \<Rightarrow> socket_data \<Rightarrow> socket" where
  "fresh_socket sid d = \<lparr>sk_id = sid, sk_data = Some d, sk_connected = True, sk_rooms = [], sk_sent = []\<rparr>"

definition socket_emit :: "string \<Rightarrow> json \<Rightarrow> socket \<Rightarrow> socket" where
  "socket_emit event payload s = s\<lparr>sk_sent := sk_sent s @ [(event, payload)]\<rparr>"

definition socket_disconnect :: "socket \<Rightarrow> socket" where
  "socket_disconnect s = s\<lparr>sk_connected := False, sk_rooms := []\<rparr>"

definition on_socket :: "string \<Rightarrow> (socket \<Rightarrow> socket) \<Rightarrow> conn_state \<Rightarrow> conn_state" where
  "on_socket sid f st = st\<lparr>cs_heap := update_row sk_id sid f (cs_heap st)\<rparr>"

definition on_data :: "(socket_data \<Rightarrow> socket_data) \<Rightarrow> socket \<Rightarrow> socket" where
  "on_data f s = s\<lparr>sk_data := map_option f (sk_data s)\<rparr>"

definition data_of :: "conn_state \<Rightarrow> string \<Rightarrow> socket_data option" where
  "data_of st sid = (case find_row sk_id sid (cs_heap st) of None \<Rightarrow> None | Some s \<Rightarrow> sk_data s)"

definition clear_timers :: "socket_data \<Rightarrow> socket_data" where
  "clear_timers d = d\<lparr>sd_heartbeatTimer := False, sd_pongTimer := False\<rparr>"

section \<open>Indexes\<close>

definition set_add :: "'a \<Rightarrow> 'a list \<Rightarrow> 'a list" where
  "set_add x xs = (if x \<in> set xs then xs else xs @ [x])"

definition addSocketToIndex :: "uuid \<Rightarrow> string \<Rightarrow> (uuid \<times> string list) list \<Rightarrow> (uuid \<times> string list) list" where
  "addSocketToIndex key socketId index =
     (if key = [] then index
      else case map_of index key of
             None \<Rightarrow> js_map_set key [socketId] index
           | Some socketIds \<Rightarrow> js_map_set key (set_add socketId socketIds) index)"

definition removeSocketFromIndex :: "uuid \<Rightarrow> string \<Rightarrow> (uuid \<times> string list) list \<Rightarrow> (uuid \<times> string list) list" where
  "removeSocketFromIndex key socketId index =
     (if key = [] then index
      else case map_of index key of
             None \<Rightarrow> index
           | Some socketIds \<Rightarrow>
               let rest = filter (\<lambda>i. i \<noteq> socketId) socketIds in
               if length rest = 0 then js_map_delete key index else js_map_set key rest index)"

definition index_ids :: "(uuid \<times> string list) list \<Rightarrow> uuid \<Rightarrow> string list" where
  "index_ids index key = (case map_of index key of None \<Rightarrow> [] | Some ids \<Rightarrow> ids)"

section \<open>Registering and removing\<close>

definition removeSocket :: "string \<Rightarrow> conn_state \<Rightarrow> conn_state" where
  "removeSocket socketId st =
     (if socketId \<notin> set (cs_sockets st) then st
      else
        let st1 = (case data_of st socketId of
              None \<Rightarrow> st
            | Some d \<Rightarrow>
                (on_socket socketId (on_data clear_timers) st)
                  \<lparr>cs_userSockets := removeSocketFromIndex (sd_userId d) socketId (cs_userSockets st),
                   cs_sessionSockets := removeSocketFromIndex (sd_sessionId d) socketId (cs_sessionSockets st),
                   cs_deviceSockets := removeSocketFromIndex (sd_deviceId d) socketId (cs_deviceSockets st),
                   cs_driverSockets :=
                     (if truthy (sd_driverId d) \<and> map_of (cs_driverSockets st) (the (sd_driverId d)) = Some socketId
                      then js_map_delete (the (sd_driverId d)) (cs_driverSockets st) else cs_driverSockets st)\<rparr>)
        in st1\<lparr>cs_sockets := filter (\<lambda>i. i \<noteq> socketId) (cs_sockets st1)\<rparr>)"

definition disconnect_notice :: "string \<Rightarrow> (string \<times> json) list \<Rightarrow> timestamp \<Rightarrow> json" where
  "disconnect_notice reason details now =
     JObj ([(''event'', JStr ''disconnect_notice''), (''reason'', JStr reason)] @ details @
           [(''timestamp'', JNum (of_int now))])"

text \<open>Notice, disconnect and removal of one socket.\<close>

definition drop_socket :: "string \<Rightarrow> (string \<times> json) list \<Rightarrow> timestamp \<Rightarrow> string \<Rightarrow> conn_state \<Rightarrow> conn_state" where
  "drop_socket reason details now sid st =
     removeSocket sid
       (on_socket sid (\<lambda>s. socket_disconnect (socket_emit ''disconnect_notice'' (disconnect_notice reason details now) s)) st)"

definition supersede :: "socket_data \<Rightarrow> string \<Rightarrow> timestamp \<Rightarrow> conn_state \<Rightarrow> conn_state" where
  "supersede d socketId now st =
     (if sd_role d = ''DRIVER'' \<and> truthy (sd_driverId d)
      then case map_of (cs_driverSockets st) (the (sd_driverId d)) of
             None \<Rightarrow> st
           | Some existing \<Rightarrow>
               if existing \<noteq> [] \<and> existing \<noteq> socketId \<and> existing \<in> set (cs_sockets st)
               then drop_socket ''SUPERSEDED_BY_NEW_LOGIN'' [] now existing st else st
      else st)"

definition registerSocket :: "string \<Rightarrow> timestamp \<Rightarrow> conn_state \<Rightarrow> conn_state" where
  "registerSocket socketId now st =
     (case data_of st socketId of
        None \<Rightarrow> st
      | Some d \<Rightarrow>
          if sd_userId d = [] then st
          else
            let st1 = supersede d socketId now st in
            st1\<lparr>cs_sockets := set_add socketId (cs_sockets st1),
                cs_userSockets := addSocketToIndex (sd_userId d) socketId (cs_userSockets st1),
                cs_sessionSockets := addSocketToIndex (sd_sessionId d) socketId (cs_sessionSockets st1),
                cs_deviceSockets := addSocketToIndex (sd_deviceId d) socketId (cs_deviceSockets st1),
                cs_driverSockets := (if truthy (sd_driverId d)
                                     then js_map_set (the (sd_driverId d)) socketId (cs_driverSockets st1)
                                     else cs_driverSockets st1)\<rparr>)"

section \<open>Lookups and revocation\<close>

definition getSocketsFromIndex :: "(uuid \<times> string list) list \<Rightarrow> uuid \<Rightarrow> conn_state \<Rightarrow> string list" where
  "getSocketsFromIndex index key st = filter (\<lambda>i. i \<in> set (cs_sockets st)) (index_ids index key)"

definition getSocketsByUserId :: "uuid \<Rightarrow> conn_state \<Rightarrow> string list" where
  "getSocketsByUserId userId st = getSocketsFromIndex (cs_userSockets st) userId st"

definition getSocketsBySessionId :: "uuid \<Rightarrow> conn_state \<Rightarrow> string list" where
  "getSocketsBySessionId sessionId st = getSocketsFromIndex (cs_sessionSockets st) sessionId st"

definition getSocketsByDeviceId :: "uuid \<Rightarrow> conn_state \<Rightarrow> string list" where
  "getSocketsByDeviceId deviceId st = getSocketsFromIndex (cs_deviceSockets st) deviceId st"

definition getSocket :: "string option \<Rightarrow> conn_state \<Rightarrow> string option" where
  "getSocket socketId st = (if truthy socketId \<and> the socketId \<in> set (cs_sockets st) then socketId else None)"

text \<open>Index 0 of a list, or \<open>undefined\<close>.\<close>

definition js_first :: "'a list \<Rightarrow> 'a option" where
  "js_first xs = (case xs of [] \<Rightarrow> None | x # _ \<Rightarrow> Some x)"

definition getSocketBySessionId :: "uuid \<Rightarrow> conn_state \<Rightarrow> string option" where
  "getSocketBySessionId sessionId st = js_first (getSocketsBySessionId sessionId st)"

definition getSocketByDeviceId :: "uuid \<Rightarrow> conn_state \<Rightarrow> string option" where
  "getSocketByDeviceId deviceId st = js_first (getSocketsByDeviceId deviceId st)"

definition getSocketByDriverId :: "uuid \<Rightarrow> conn_state \<Rightarrow> string option" where
  "getSocketByDriverId driverId st =
     (case map_of (cs_driverSockets st) driverId of
        None \<Rightarrow> None
      | Some sid \<Rightarrow> if sid \<noteq> [] \<and> sid \<in> set (cs_sockets st) then Some sid else None)"

definition getActiveConnectionCount :: "conn_state \<Rightarrow> nat" where
  "getActiveConnectionCount st = length (cs_sockets st)"

definition disconnectSockets ::
  "string list \<Rightarrow> string \<Rightarrow> (string \<times> json) list \<Rightarrow> timestamp \<Rightarrow> conn_state \<Rightarrow> conn_state" where
  "disconnectSockets sids reason details now st = foldl (\<lambda>st sid. drop_socket reason details now sid st) st sids"

definition disconnectSession :: "uuid \<Rightarrow> string \<Rightarrow> timestamp \<Rightarrow> conn_state \<Rightarrow> bool \<times> conn_state" where
  "disconnectSession sessionId reason now st =
     (let sids = getSocketsBySessionId sessionId st in
      (0 < length sids, disconnectSockets sids reason [(''sessionId'', JStr sessionId)] now st))"

definition disconnectDevice :: "uuid \<Rightarrow> string \<Rightarrow> timestamp \<Rightarrow> conn_state \<Rightarrow> bool \<times> conn_state" where
  "disconnectDevice deviceId reason now st =
     (let sids = getSocketsByDeviceId deviceId st in
      (0 < length sids, disconnectSockets sids reason [(''deviceId'', JStr deviceId)] now st))"

definition disconnectUser :: "uuid \<Rightarrow> string \<Rightarrow> timestamp \<Rightarrow> conn_state \<Rightarrow> nat \<times> conn_state" where
  "disconnectUser userId reason now st =
     (let sids = getSocketsByUserId userId st in
      (length sids, disconnectSockets sids reason [(''userId'', JStr userId)] now st))"

section \<open>The contract of an index\<close>

text \<open>
  A map from keys to sets of socket ids: what is looked up after adding and after removing one.  From it
  follows that an index stays exactly the relation between the registered sockets and a column of theirs.
\<close>

locale socket_index =
  fixes ids :: "'i \<Rightarrow> uuid \<Rightarrow> string list"
    and add :: "uuid \<Rightarrow> string \<Rightarrow> 'i \<Rightarrow> 'i"
    and remove :: "uuid \<Rightarrow> string \<Rightarrow> 'i \<Rightarrow> 'i"
  assumes ids_add: "set (ids (add k x i) j) = set (ids i j) \<union> (if j = k \<and> k \<noteq> [] then {x} else {})"
    and ids_remove: "set (ids (remove k x i) j) = set (ids i j) - (if j = k \<and> k \<noteq> [] then {x} else {})"
    and distinct_add: "distinct (ids i j) \<Longrightarrow> distinct (ids (add k x i) j)"
    and distinct_remove: "distinct (ids i j) \<Longrightarrow> distinct (ids (remove k x i) j)"
begin

definition exact :: "(string \<Rightarrow> uuid option) \<Rightarrow> string set \<Rightarrow> 'i \<Rightarrow> bool" where
  "exact column S i \<longleftrightarrow> (\<forall>k. distinct (ids i k)) \<and>
     (\<forall>k x. x \<in> set (ids i k) \<longleftrightarrow> k \<noteq> [] \<and> x \<in> S \<and> column x = Some k)"

lemma exact_add:
  assumes "exact column S i" and "column x = Some k"
  shows "exact column (insert x S) (add k x i)"
  using assms by (auto simp: exact_def ids_add distinct_add split: if_splits)

lemma exact_remove:
  assumes "exact column S i" and "column x = Some k"
  shows "exact column (S - {x}) (remove k x i)"
  using assms by (auto simp: exact_def ids_remove distinct_remove split: if_splits)

lemma exact_lookup: "exact column S i \<Longrightarrow> k \<noteq> [] \<Longrightarrow> set (ids i k) = {x \<in> S. column x = Some k}"
  by (auto simp: exact_def)

end

lemma map_of_js_set: "map_of (js_map_set k v m) j = (if j = k then Some v else map_of m j)"
  by (induction k v m rule: js_map_set.induct) auto

lemma map_of_js_delete: "map_of (js_map_delete k m) j = (if j = k then None else map_of m j)"
  by (induction m) (auto simp: js_map_delete_def)

interpretation idx: socket_index index_ids addSocketToIndex removeSocketFromIndex
proof
  fix k x j :: string and i
  show "set (index_ids (addSocketToIndex k x i) j) = set (index_ids i j) \<union> (if j = k \<and> k \<noteq> [] then {x} else {})"
    by (auto simp: index_ids_def addSocketToIndex_def map_of_js_set set_add_def split: option.split)
  show "set (index_ids (removeSocketFromIndex k x i) j) = set (index_ids i j) - (if j = k \<and> k \<noteq> [] then {x} else {})"
    by (auto simp: index_ids_def removeSocketFromIndex_def map_of_js_set map_of_js_delete Let_def filter_empty_conv
        split: option.split if_splits)
  show "distinct (index_ids i j) \<Longrightarrow> distinct (index_ids (addSocketToIndex k x i) j)"
    by (auto simp: index_ids_def addSocketToIndex_def map_of_js_set set_add_def split: option.split)
  show "distinct (index_ids i j) \<Longrightarrow> distinct (index_ids (removeSocketFromIndex k x i) j)"
    by (auto simp: index_ids_def removeSocketFromIndex_def map_of_js_set map_of_js_delete Let_def split: option.split)
qed

end
