(* ===== verification/Rooms.thy ===== *)
theory Rooms
  imports Chat ConnManager
begin

text \<open>
  Who may join which room: \<open>ws-room-authorizer.service.ts\<close>.
\<close>

datatype room_answer = Authorized string | Refused string

definition authorizeDeliveryRoom :: "socket_data \<Rightarrow> uuid \<Rightarrow> string \<Rightarrow> comm_world \<Rightarrow> room_answer" where
  "authorizeDeliveryRoom d deliveryId normalizedRoom w =
     (if deliveryId = [] then Refused ''MISSING_DELIVERY_ID''
      else case find_row dlv_id deliveryId (cm_deliveries w) of
             None \<Rightarrow> Refused ''DELIVERY_NOT_FOUND''
           | Some delivery \<Rightarrow>
               if sd_role d = ''ADMIN'' \<or> sd_role d = ''SUPER_ADMIN'' then Authorized normalizedRoom
               else if sd_role d = ''OWNER''
               then
                 let isCreator = (dlv_createdBy delivery = sd_userId d);
                     isSameOrg = (truthy (sd_organizationId d) \<and> dlv_organizationId delivery = sd_organizationId d)
                 in if isCreator \<or> isSameOrg then Authorized normalizedRoom else Refused ''ROOM_ACCESS_DENIED''
               else if sd_role d = ''DRIVER''
               then if truthy (sd_driverId d) \<and> dlv_driverId delivery = sd_driverId d
                    then Authorized normalizedRoom else Refused ''ROOM_ACCESS_DENIED''
               else Refused ''ROOM_ACCESS_DENIED'')"

definition participant :: "uuid \<Rightarrow> uuid \<Rightarrow> socket_data \<Rightarrow> bool" where
  "participant ownerId driverId d \<longleftrightarrow>
     ownerId = sd_userId d \<or> (truthy (sd_driverId d) \<and> Some driverId = sd_driverId d)"

definition authorizeConversationRoom :: "socket_data \<Rightarrow> uuid \<Rightarrow> string \<Rightarrow> comm_world \<Rightarrow> room_answer" where
  "authorizeConversationRoom d conversationId normalizedRoom w =
     (if conversationId = [] then Refused ''MISSING_CONVERSATION_ID''
      else case find_row cnv_id conversationId (cm_conversations w) of
             None \<Rightarrow> Refused ''CONVERSATION_NOT_FOUND''
           | Some c \<Rightarrow>
               if participant (cnv_ownerId c) (cnv_driverId c) d then Authorized normalizedRoom
               else Refused ''ROOM_ACCESS_DENIED'')"

definition authorizeRealtimeSessionRoom :: "socket_data \<Rightarrow> uuid \<Rightarrow> string \<Rightarrow> comm_world \<Rightarrow> room_answer" where
  "authorizeRealtimeSessionRoom d sessionId normalizedRoom w =
     (if sessionId = [] then Refused ''MISSING_SESSION_ID''
      else if sd_role d = ''ADMIN'' \<or> sd_role d = ''SUPER_ADMIN'' then Authorized normalizedRoom
      else case find_row cal_id sessionId (cm_calls w) of
             None \<Rightarrow> Refused ''SESSION_NOT_FOUND''
           | Some c \<Rightarrow>
               if participant (cal_ownerId c) (cal_driverId c) d then Authorized normalizedRoom
               else Refused ''ROOM_ACCESS_DENIED'')"

definition authorizeFleetMonitoringRoom :: "socket_data \<Rightarrow> string \<Rightarrow> room_answer" where
  "authorizeFleetMonitoringRoom d normalizedRoom =
     (if sd_role d = ''ADMIN'' \<or> sd_role d = ''SUPER_ADMIN'' \<or> sd_role d = ''OWNER'' then Authorized normalizedRoom
      else Refused ''ROOM_ACCESS_DENIED'')"

definition authorizeRoomJoin :: "socket_data option \<Rightarrow> string \<Rightarrow> comm_world \<Rightarrow> room_answer" where
  "authorizeRoomJoin data roomName w =
     (case data of
        None \<Rightarrow> Refused ''UNAUTHENTICATED''
      | Some d \<Rightarrow>
          if sd_userId d = [] then Refused ''UNAUTHENTICATED''
          else if js_trim roomName = [] then Refused ''INVALID_ROOM_FORMAT''
          else
            let trimmedRoom = js_trim roomName;
                parts = split_on (CHR '':'') trimmedRoom;
                category = hd parts;
                resourceId = join_with '':'' (tl parts)
            in if category = ''delivery'' then authorizeDeliveryRoom d resourceId trimmedRoom w
               else if category = ''conversation'' then authorizeConversationRoom d resourceId trimmedRoom w
               else if category = ''session'' then authorizeRealtimeSessionRoom d resourceId trimmedRoom w
               else if category = ''fleet''
               then if resourceId = ''monitoring'' then authorizeFleetMonitoringRoom d trimmedRoom
                    else Refused ''UNKNOWN_ROOM_PATTERN''
               else Refused ''UNKNOWN_ROOM_PATTERN'')"

end
