(* ===== verification/Tracking.thy ===== *)
theory Tracking
  imports Chat Geo
begin

text \<open>
  Location telemetry: \<open>tracking.service.ts\<close>, \<open>location-validation.service.ts\<close> and
  \<open>tracking-cache.service.ts\<close>.  A date text is represented by the time it denotes, \<open>None\<close> when it
  denotes none.  \<open>now\<close> is the clock that Redis and the idempotency record see; \<open>receivedAt\<close> is an
  argument of the code, which its callers set to the current time.

  A replay check reads the idempotency record, and the record is written only after the point; so
  \<open>telemetry_check\<close> is the part up to the read and \<open>ingest\<close> the rest.
\<close>

section \<open>State\<close>

record location_dto =
  loc_latitude :: rat
  loc_longitude :: rat
  loc_accuracyM :: rat
  loc_recordedAt :: "timestamp option"
  loc_speedMps :: "rat option"
  loc_headingDeg :: "rat option"
  loc_deliveryId :: "uuid option"
  loc_idempotencyKey :: "uuid option"

definition in_range :: "rat \<Rightarrow> rat \<Rightarrow> rat \<Rightarrow> bool" where
  "in_range a b x \<longleftrightarrow> a \<le> x \<and> x \<le> b"

definition valid_location :: "location_dto \<Rightarrow> bool" where
  "valid_location dto \<longleftrightarrow> in_range (- 90) 90 (loc_latitude dto) \<and> in_range (- 180) 180 (loc_longitude dto) \<and>
     in_range (1 / 10000) 50 (loc_accuracyM dto) \<and>
     (case loc_speedMps dto of None \<Rightarrow> True | Some v \<Rightarrow> 0 \<le> v) \<and>
     (case loc_headingDeg dto of None \<Rightarrow> True | Some v \<Rightarrow> in_range 0 360 v)"

record location_point =
  lpt_id :: uuid
  lpt_driverId :: uuid
  lpt_deliveryId :: "uuid option"
  lpt_latitude :: rat
  lpt_longitude :: rat
  lpt_accuracyM :: rat
  lpt_speedMps :: "rat option"
  lpt_headingDeg :: "rat option"
  lpt_recordedAt :: timestamp
  lpt_receivedAt :: timestamp
  lpt_status :: string

record track_world =
  tk_users :: "user list"
  tk_comm :: comm_world
  tk_points :: "location_point list"

definition tk_redis :: "track_world \<Rightarrow> redis" where
  "tk_redis w = cm_redis (tk_comm w)"

definition with_redis :: "redis \<Rightarrow> track_world \<Rightarrow> track_world" where
  "with_redis rd w = w\<lparr>tk_comm := (tk_comm w)\<lparr>cm_redis := rd\<rparr>\<rparr>"

section \<open>The latest location\<close>

record cached_location =
  cl_driverId :: uuid
  cl_deliveryId :: "uuid option"
  cl_latitude :: rat
  cl_longitude :: rat
  cl_accuracyM :: rat
  cl_speedMps :: "rat option"
  cl_headingDeg :: "rat option"
  cl_recordedAt :: "timestamp option"
  cl_receivedAt :: timestamp

definition jnum :: "rat option \<Rightarrow> json" where
  "jnum x = (case x of None \<Rightarrow> JNull | Some q \<Rightarrow> JNum q)"

definition jdate :: "timestamp option \<Rightarrow> json" where
  "jdate x = (case x of None \<Rightarrow> JStr ''Invalid Date'' | Some t \<Rightarrow> JNum (of_int t))"

definition cached_json :: "cached_location \<Rightarrow> json" where
  "cached_json c =
     JObj [(''driverId'', JStr (cl_driverId c)), (''deliveryId'', jopt (cl_deliveryId c)),
           (''latitude'', JNum (cl_latitude c)), (''longitude'', JNum (cl_longitude c)),
           (''accuracyM'', JNum (cl_accuracyM c)), (''speedMps'', jnum (cl_speedMps c)),
           (''headingDeg'', jnum (cl_headingDeg c)), (''recordedAt'', jdate (cl_recordedAt c)),
           (''receivedAt'', jdate (Some (cl_receivedAt c)))]"

definition latest_key :: "uuid \<Rightarrow> string" where
  "latest_key driverId = ''driver:location:latest:'' @ driverId"

text \<open>\<open>JSON.parse\<close> of what is stored: \<open>None\<close> for nothing, the empty text and malformed text.\<close>

definition parse_cached :: "rvalue option \<Rightarrow> json option" where
  "parse_cached raw = (case raw of Some (RJson j) \<Rightarrow> Some j | Some (RNum n) \<Rightarrow> Some (JNum (of_int n)) | _ \<Rightarrow> None)"

definition cached_time :: "json option \<Rightarrow> timestamp option" where
  "cached_time cached = (case cached of None \<Rightarrow> None | Some j \<Rightarrow> json_time (jget ''recordedAt'' j))"

definition not_newer :: "timestamp option \<Rightarrow> timestamp option \<Rightarrow> bool" where
  "not_newer newTime cachedTime \<longleftrightarrow> (\<exists>n \<in> set_option newTime. \<exists>c \<in> set_option cachedTime. n \<le> c)"

definition setLatestLocation :: "uuid \<Rightarrow> cached_location \<Rightarrow> timestamp \<Rightarrow> redis \<Rightarrow> bool \<times> redis" where
  "setLatestLocation driverId payload now rd =
     (if driverId = [] then (False, rd)
      else
        let (existingRaw, rd1) = redis_get (latest_key driverId) now rd in
        if not_newer (cl_recordedAt payload) (cached_time (parse_cached existingRaw)) then (False, rd1)
        else (True, redis_set (latest_key driverId) (RJson (cached_json payload)) 86400 now rd1))"

definition getLatestLocation :: "uuid \<Rightarrow> timestamp \<Rightarrow> redis \<Rightarrow> json option \<times> redis" where
  "getLatestLocation driverId now rd =
     (if driverId = [] then (None, rd)
      else let (raw, rd1) = redis_get (latest_key driverId) now rd in (parse_cached raw, rd1))"

section \<open>Validation of a point\<close>

record location_validation =
  lv_valid :: bool
  lv_status :: string
  lv_reason :: "string option"
  lv_speedMps :: "real option"

definition rejected :: "string \<Rightarrow> location_validation" where
  "rejected reason = \<lparr>lv_valid = False, lv_status = ''REJECTED'', lv_reason = Some reason, lv_speedMps = None\<rparr>"

text \<open>The speed implied by the previous point, if the new point is newer.\<close>

definition implied_speed :: "json option \<Rightarrow> location_dto \<Rightarrow> real option" where
  "implied_speed prevLocation dto =
     (case prevLocation of
        None \<Rightarrow> None
      | Some j \<Rightarrow>
          (case (jget ''latitude'' j, jget ''longitude'' j, json_time (jget ''recordedAt'' j), loc_recordedAt dto) of
             (Some (JNum lat), Some (JNum lng), Some tPrev, Some tNew) \<Rightarrow>
               if tPrev < tNew
               then Some (calculateImpliedSpeedMps lat lng tPrev (loc_latitude dto) (loc_longitude dto) tNew)
               else None
           | _ \<Rightarrow> None))"

definition velocity_limit :: real where
  "velocity_limit = 41.67"

definition validateSinglePoint ::
  "location_dto \<Rightarrow> uuid \<Rightarrow> timestamp \<Rightarrow> timestamp \<Rightarrow> redis \<Rightarrow> location_validation \<times> redis" where
  "validateSinglePoint dto driverId receivedAt now rd =
     (if \<not> validateCoordinateBounds (loc_latitude dto) (loc_longitude dto) then (rejected ''INVALID_COORDINATES'', rd)
      else if \<not> validateAccuracyThreshold (loc_accuracyM dto) 50 then (rejected ''GPS_ACCURACY_BELOW_THRESHOLD'', rd)
      else case validateClockSkew (loc_recordedAt dto) receivedAt 300000 3600000 of
        Some reason \<Rightarrow> (rejected reason, rd)
      | None \<Rightarrow>
          let (cachedRaw, rd1) = redis_get (latest_key driverId) now rd;
              calculatedSpeedMps = implied_speed (parse_cached cachedRaw) dto
          in (case calculatedSpeedMps of
                Some v \<Rightarrow>
                  if isVelocityAnomaly v velocity_limit
                  then \<lparr>lv_valid = True, lv_status = ''ANOMALY_VELOCITY'',
                         lv_reason = Some ''VELOCITY_EXCEEDS_PLAUSIBLE_LIMIT'', lv_speedMps = Some v\<rparr>
                  else \<lparr>lv_valid = True, lv_status = ''VALID'', lv_reason = None, lv_speedMps = Some v\<rparr>
              | None \<Rightarrow> \<lparr>lv_valid = True, lv_status = ''VALID'', lv_reason = None, lv_speedMps = None\<rparr>, rd1))"

section \<open>One point\<close>

record telemetry_result =
  tr_locationId :: uuid
  tr_validationStatus :: string
  tr_receivedAt :: timestamp
  tr_idempotent :: bool

definition telemetry_json :: "telemetry_result \<Rightarrow> json" where
  "telemetry_json r =
     JObj [(''locationId'', JStr (tr_locationId r)), (''validationStatus'', JStr (tr_validationStatus r)),
           (''receivedAt'', jdate (Some (tr_receivedAt r)))]"

definition string_or :: "json option \<Rightarrow> string \<Rightarrow> string" where
  "string_or x fallback = (case x of Some (JStr s) \<Rightarrow> if s = [] then fallback else s | _ \<Rightarrow> fallback)"

definition telemetry_guard :: "location_dto \<Rightarrow> uuid \<Rightarrow> string \<Rightarrow> track_world \<Rightarrow> api_error + unit" where
  "telemetry_guard dto driverId userRole w =
     (if userRole \<noteq> ''DRIVER'' then fail_with Forbidden ''FORBIDDEN''
      else if driverId = [] then fail_with Forbidden ''DRIVER_PROFILE_REQUIRED''
      else if truthy (loc_deliveryId dto)
      then case find_row dlv_id (the (loc_deliveryId dto)) (cm_deliveries (tk_comm w)) of
             None \<Rightarrow> fail_with Unprocessable ''DELIVERY_NOT_FOUND''
           | Some delivery \<Rightarrow>
               if dlv_driverId delivery \<noteq> Some driverId then fail_with Forbidden ''DELIVERY_NOT_ASSIGNED_TO_DRIVER''
               else Inr ()
      else Inr ())"

text \<open>The key of the idempotency record; the user is the one of the driver row.\<close>

definition telemetry_key :: "location_dto \<Rightarrow> uuid \<Rightarrow> string \<Rightarrow> track_world \<Rightarrow> idempotency_key option" where
  "telemetry_key dto driverId endpoint w =
     (case find_row drv_id driverId (cm_drivers (tk_comm w)) of
        None \<Rightarrow> None
      | Some d \<Rightarrow> request_key (loc_idempotencyKey dto) (drv_userId d) endpoint)"

definition replayed_telemetry :: "json \<Rightarrow> uuid \<Rightarrow> timestamp \<Rightarrow> telemetry_result" where
  "replayed_telemetry body newId now =
     \<lparr>tr_locationId = string_or (jget ''locationId'' body) newId,
      tr_validationStatus = string_or (jget ''validationStatus'' body) ''VALID'',
      tr_receivedAt = (case json_time (jget ''receivedAt'' body) of None \<Rightarrow> now | Some t \<Rightarrow> t),
      tr_idempotent = True\<rparr>"

definition telemetry_check ::
  "location_dto \<Rightarrow> uuid \<Rightarrow> string \<Rightarrow> string \<Rightarrow> uuid \<Rightarrow> timestamp \<Rightarrow> track_world \<Rightarrow> api_error + telemetry_result option" where
  "telemetry_check dto driverId userRole endpoint newId now w =
     (case telemetry_guard dto driverId userRole w of
        Inl e \<Rightarrow> Inl e
      | Inr _ \<Rightarrow>
          Inr (case telemetry_key dto driverId endpoint w of
                 None \<Rightarrow> None
               | Some k \<Rightarrow>
                   map_option (\<lambda>r. replayed_telemetry (idm_responseBody r) newId now)
                     (find_row idm_key k (cm_idempotency (tk_comm w)))))"

definition location_throttle_key :: "uuid \<Rightarrow> string" where
  "location_throttle_key driverId = ''throttle:location:driver:'' @ driverId"

text \<open>A DECIMAL column: rounded to its scale, half away from zero; \<open>None\<close> when the column overflows.\<close>

definition decimal :: "nat \<Rightarrow> nat \<Rightarrow> rat \<Rightarrow> rat option" where
  "decimal precision scale x =
     (let q = \<bar>x\<bar> * 10 ^ scale + 1 / 2;
          v = sgn x * of_int \<lfloor>q\<rfloor> / 10 ^ scale
      in if \<bar>v\<bar> < 10 ^ (precision - scale) then Some v else None)"

definition decimal_opt :: "nat \<Rightarrow> nat \<Rightarrow> rat option \<Rightarrow> rat option option" where
  "decimal_opt precision scale x = (case x of None \<Rightarrow> Some None | Some v \<Rightarrow> map_option Some (decimal precision scale v))"

text \<open>
  The INSERT.  It fails when a column overflows and when the driver does not exist.
\<close>

definition new_point ::
  "location_dto \<Rightarrow> uuid \<Rightarrow> timestamp \<Rightarrow> string \<Rightarrow> uuid \<Rightarrow> location_point option" where
  "new_point dto driverId receivedAt status newId =
     (case (decimal 10 7 (loc_latitude dto), decimal 10 7 (loc_longitude dto), decimal 6 2 (loc_accuracyM dto),
            decimal_opt 6 2 (loc_speedMps dto), decimal_opt 5 2 (loc_headingDeg dto), loc_recordedAt dto) of
        (Some lat, Some lng, Some acc, Some v, Some h, Some t) \<Rightarrow>
          Some \<lparr>lpt_id = newId, lpt_driverId = driverId, lpt_deliveryId = or_null (loc_deliveryId dto),
                lpt_latitude = lat, lpt_longitude = lng, lpt_accuracyM = acc, lpt_speedMps = v, lpt_headingDeg = h,
                lpt_recordedAt = t, lpt_receivedAt = receivedAt, lpt_status = status\<rparr>
      | _ \<Rightarrow> None)"

definition insert_point ::
  "location_dto \<Rightarrow> uuid \<Rightarrow> timestamp \<Rightarrow> string \<Rightarrow> uuid \<Rightarrow> track_world \<Rightarrow> track_world option" where
  "insert_point dto driverId receivedAt status newId w =
     (if find_row drv_id driverId (cm_drivers (tk_comm w)) = None then None
      else map_option (\<lambda>p. w\<lparr>tk_points := tk_points w @ [p]\<rparr>) (new_point dto driverId receivedAt status newId))"

text \<open>The idempotency record; a duplicate is caught and ignored.\<close>

definition save_record ::
  "location_dto \<Rightarrow> uuid \<Rightarrow> string \<Rightarrow> telemetry_result \<Rightarrow> timestamp \<Rightarrow> track_world \<Rightarrow> track_world" where
  "save_record dto driverId endpoint r now w =
     (case telemetry_key dto driverId endpoint w of
        None \<Rightarrow> w
      | Some k \<Rightarrow>
          if find_row idm_key k (cm_idempotency (tk_comm w)) \<noteq> None then w
          else w\<lparr>tk_comm := (tk_comm w)\<lparr>cm_idempotency := cm_idempotency (tk_comm w) @
                 [\<lparr>idm_key = k, idm_responseStatus = 201, idm_responseBody = telemetry_json r,
                   idm_expiresAt = now + 24 * 3600 * 1000\<rparr>]\<rparr>\<rparr>)"

text \<open>\<open>x || null\<close> on a number.\<close>

definition nonzero :: "rat option \<Rightarrow> rat option" where
  "nonzero x = (if x = Some 0 then None else x)"

definition location_payload :: "location_dto \<Rightarrow> uuid \<Rightarrow> timestamp \<Rightarrow> cached_location" where
  "location_payload dto driverId receivedAt =
     \<lparr>cl_driverId = driverId, cl_deliveryId = or_null (loc_deliveryId dto), cl_latitude = loc_latitude dto,
      cl_longitude = loc_longitude dto, cl_accuracyM = loc_accuracyM dto, cl_speedMps = nonzero (loc_speedMps dto),
      cl_headingDeg = nonzero (loc_headingDeg dto), cl_recordedAt = loc_recordedAt dto, cl_receivedAt = receivedAt\<rparr>"

definition location_actor :: "uuid \<Rightarrow> track_world \<Rightarrow> event_actor" where
  "location_actor driverId w =
     (case find_row drv_id driverId (cm_drivers (tk_comm w)) of
        None \<Rightarrow> \<lparr>ea_userId = ''unknown'', ea_role = ''DRIVER'', ea_driverId = Some driverId\<rparr>
      | Some d \<Rightarrow>
          \<lparr>ea_userId = (if drv_userId d = [] then ''unknown'' else drv_userId d),
           ea_role = (case find_row usr_id (drv_userId d) (tk_users w) of
                        None \<Rightarrow> ''DRIVER'' | Some u \<Rightarrow> if usr_role u = [] then ''DRIVER'' else usr_role u),
           ea_driverId = Some driverId\<rparr>)"

definition broadcast_location :: "location_dto \<Rightarrow> uuid \<Rightarrow> timestamp \<Rightarrow> track_world \<Rightarrow> track_world" where
  "broadcast_location dto driverId receivedAt w =
     (let event = (\<lambda>room. \<lparr>em_room = room, em_event = ''driver.location.updated'',
            em_payload = cached_json (location_payload dto driverId receivedAt), em_actor = location_actor driverId w\<rparr>);
          w1 = w\<lparr>tk_comm := comm_emit (event ''fleet:monitoring'') (tk_comm w)\<rparr>
      in if truthy (loc_deliveryId dto)
         then w1\<lparr>tk_comm := comm_emit (event (''delivery:'' @ the (loc_deliveryId dto))) (tk_comm w1)\<rparr>
         else w1)"

text \<open>From the rate limit on.\<close>

definition ingest ::
  "location_dto \<Rightarrow> uuid \<Rightarrow> timestamp \<Rightarrow> string \<Rightarrow> bool \<Rightarrow> uuid \<Rightarrow> timestamp \<Rightarrow> track_world \<Rightarrow>
   (telemetry_result, track_world) outcome" where
  "ingest dto driverId receivedAt endpoint skipSingleRateLimit newId now w =
     (let (rateCount, rd1) =
            (if skipSingleRateLimit then (0, tk_redis w)
             else incrRateLimit (location_throttle_key driverId) 1 now (tk_redis w));
          w1 = with_redis rd1 w
      in if 1 < rateCount then (fail_with TooManyRequests ''RATE_LIMIT_EXCEEDED'', w1)
         else
           let (v, rd2) = validateSinglePoint dto driverId receivedAt now (tk_redis w1);
               w2 = with_redis rd2 w1
           in if \<not> lv_valid v
              then (fail_with Unprocessable (if truthy (lv_reason v) then the (lv_reason v) else ''GPS_VALIDATION_FAILED''), w2)
              else case insert_point dto driverId receivedAt (lv_status v) newId w2 of
                     None \<Rightarrow> (fail_with Internal [], w2)
                   | Some w3 \<Rightarrow>
                       let r = \<lparr>tr_locationId = newId, tr_validationStatus = lv_status v, tr_receivedAt = receivedAt,
                                tr_idempotent = False\<rparr>;
                           w4 = save_record dto driverId endpoint r now w3;
                           w5 = with_redis (snd (setLatestLocation driverId (location_payload dto driverId receivedAt) now
                                  (tk_redis w4))) w4;
                           w6 = (if lv_status v = ''VALID'' then broadcast_location dto driverId receivedAt w5 else w5)
                       in (Inr r, w6))"

definition processTelemetry ::
  "location_dto \<Rightarrow> uuid \<Rightarrow> string \<Rightarrow> timestamp \<Rightarrow> string \<Rightarrow> bool \<Rightarrow> uuid \<Rightarrow> timestamp \<Rightarrow> track_world \<Rightarrow>
   (telemetry_result, track_world) outcome" where
  "processTelemetry dto driverId userRole receivedAt endpoint skipSingleRateLimit newId now w =
     (case telemetry_check dto driverId userRole endpoint newId now w of
        Inl e \<Rightarrow> (Inl e, w)
      | Inr (Some replay) \<Rightarrow> (Inr replay, w)
      | Inr None \<Rightarrow> ingest dto driverId receivedAt endpoint skipSingleRateLimit newId now w)"

section \<open>Batches\<close>

record batch_error =
  be_index :: nat
  be_code :: string
  be_recordedAt :: "timestamp option"

record batch_result =
  br_accepted :: nat
  br_rejected :: nat
  br_errors :: "batch_error list"
  br_latestBroadcast :: "(rat \<times> rat \<times> timestamp option) option"

definition valid_batch :: "location_dto list \<Rightarrow> bool" where
  "valid_batch points \<longleftrightarrow> 1 \<le> length points \<and> length points \<le> 50 \<and> list_all valid_location points"

definition batch_throttle_key :: "uuid \<Rightarrow> string" where
  "batch_throttle_key driverId = ''throttle:location:batch:driver:'' @ driverId"

text \<open>The code of a rejected point.\<close>

definition rejection_code :: "api_error \<Rightarrow> string" where
  "rejection_code e = (if err_kind e = Internal then ''GPS_VALIDATION_FAILED'' else err_code e)"

fun batch_loop ::
  "nat \<Rightarrow> location_dto list \<Rightarrow> uuid \<Rightarrow> string \<Rightarrow> timestamp \<Rightarrow> (nat \<Rightarrow> uuid) \<Rightarrow> timestamp \<Rightarrow> track_world \<Rightarrow>
   (telemetry_result list \<times> batch_error list) \<times> track_world" where
  "batch_loop i [] driverId userRole receivedAt ids now w = (([], []), w)"
| "batch_loop i (dto # points) driverId userRole receivedAt ids now w =
     (case processTelemetry dto driverId userRole receivedAt ''/v1/me/location/batch'' True (ids i) now w of
        (Inr r, w1) \<Rightarrow>
          let ((acc, rej), w2) = batch_loop (Suc i) points driverId userRole receivedAt ids now w1
          in ((r # acc, rej), w2)
      | (Inl e, w1) \<Rightarrow>
          let ((acc, rej), w2) = batch_loop (Suc i) points driverId userRole receivedAt ids now w1
          in ((acc, \<lparr>be_index = i, be_code = rejection_code e, be_recordedAt = loc_recordedAt dto\<rparr> # rej), w2))"

text \<open>
  The points at the positions where the list of accepted results has a valid one, sorted with the latest
  first.  The comparison of a text that is no date is not defined by the code; it counts as time 0 here.
\<close>

definition time_or_0 :: "timestamp option \<Rightarrow> timestamp" where
  "time_or_0 x = (case x of None \<Rightarrow> 0 | Some t \<Rightarrow> t)"

definition latest_broadcast ::
  "location_dto list \<Rightarrow> telemetry_result list \<Rightarrow> (rat \<times> rat \<times> timestamp option) option" where
  "latest_broadcast points acc =
     (let validPoints = map fst (filter (\<lambda>(p, idx). idx < length acc \<and> tr_validationStatus (acc ! idx) = ''VALID'')
            (zip points [0..<length points]))
      in case sort_key (\<lambda>p. - time_or_0 (loc_recordedAt p)) validPoints of
           [] \<Rightarrow> None
         | p # _ \<Rightarrow> Some (loc_latitude p, loc_longitude p, loc_recordedAt p))"

definition processBatch ::
  "location_dto list \<Rightarrow> uuid \<Rightarrow> string \<Rightarrow> timestamp \<Rightarrow> (nat \<Rightarrow> uuid) \<Rightarrow> timestamp \<Rightarrow> track_world \<Rightarrow>
   (batch_result, track_world) outcome" where
  "processBatch points driverId userRole receivedAt ids now w =
     (if userRole \<noteq> ''DRIVER'' \<or> driverId = [] then (fail_with Forbidden ''FORBIDDEN'', w)
      else
        let (rateCount, rd) = incrRateLimit (batch_throttle_key driverId) 60 now (tk_redis w);
            w1 = with_redis rd w
        in if 1 < rateCount then (fail_with TooManyRequests ''RATE_LIMIT_EXCEEDED'', w1)
           else
             let ((acc, rej), w2) = batch_loop 0 points driverId userRole receivedAt ids now w1
             in (Inr \<lparr>br_accepted = length acc, br_rejected = length rej, br_errors = rej,
                      br_latestBroadcast = latest_broadcast points acc\<rparr>, w2))"

section \<open>The endpoints\<close>

text \<open>\<open>tracking.controller.ts\<close>: the status of the response and the result.\<close>

definition ingestSingleLocation ::
  "uuid option \<Rightarrow> string \<Rightarrow> location_dto \<Rightarrow> uuid \<Rightarrow> timestamp \<Rightarrow> track_world \<Rightarrow>
   (nat \<times> telemetry_result, track_world) outcome" where
  "ingestSingleLocation driverId role dto newId now w =
     (if \<not> truthy driverId then (fail_with Forbidden ''DRIVER_PROFILE_REQUIRED'', w)
      else case processTelemetry dto (the driverId) role now ''/v1/me/location'' False newId now w of
             (Inl e, w1) \<Rightarrow> (Inl e, w1)
           | (Inr r, w1) \<Rightarrow> (Inr (if tr_idempotent r then 200 else 201, r), w1))"

definition ingestBatchLocation ::
  "uuid option \<Rightarrow> string \<Rightarrow> location_dto list \<Rightarrow> (nat \<Rightarrow> uuid) \<Rightarrow> timestamp \<Rightarrow> track_world \<Rightarrow>
   (batch_result, track_world) outcome" where
  "ingestBatchLocation driverId role points ids now w =
     (if \<not> truthy driverId then (fail_with Forbidden ''DRIVER_PROFILE_REQUIRED'', w)
      else processBatch points (the driverId) role now ids now w)"

end
