(* ===== verification/Gateway.thy ===== *)
theory Gateway
  imports Rooms Tracking
begin

text \<open>
  The WebSocket gateway: \<open>realtime.gateway.ts\<close>.  Each handler is a function on the whole state, with the
  check of the socket that precedes a sensitive message.  A message to a room is an emission; a message to
  one client is appended to what was handed to its socket.  Of the envelopes the payload is kept, and for
  rooms the user, role and driver of the actor; message texts are left out.

  The interval that sends the pings and the timeout that closes a stale socket are flags of the socket;
  \<open>sendHeartbeatPing\<close> and \<open>handleStaleSocketTimeout\<close> are what runs when they go off.  \<open>gw_exec\<close> runs one event
  of the gateway; each event runs alone.
\<close>

section \<open>State\<close>

record rt_world =
  rt_users :: "user list"
  rt_roles :: "role list"
  rt_sessions :: "session list"
  rt_comm :: comm_world
  rt_points :: "location_point list"
  rt_conn :: conn_state

text \<open>The tables of the authentication services, and Redis written back.\<close>

definition auth_view :: "rt_world \<Rightarrow> auth_world" where
  "auth_view w =
     \<lparr>aw_users = rt_users w, aw_roles = rt_roles w, aw_devices = cm_devices (rt_comm w), aw_sessions = rt_sessions w,
      aw_drivers = cm_drivers (rt_comm w), aw_audit = cm_audit (rt_comm w), aw_redis = cm_redis (rt_comm w)\<rparr>"

text \<open>The tables of the tracking service, and written back.\<close>

definition track_view :: "rt_world \<Rightarrow> track_world" where
  "track_view w = \<lparr>tk_users = rt_users w, tk_comm = rt_comm w, tk_points = rt_points w\<rparr>"

definition put_track :: "track_world \<Rightarrow> rt_world \<Rightarrow> rt_world" where
  "put_track tw w = w\<lparr>rt_comm := tk_comm tw, rt_points := tk_points tw\<rparr>"

definition rt_redis :: "redis \<Rightarrow> rt_world \<Rightarrow> rt_world" where
  "rt_redis rd w = w\<lparr>rt_comm := (rt_comm w)\<lparr>cm_redis := rd\<rparr>\<rparr>"

definition on_conn :: "(conn_state \<Rightarrow> conn_state) \<Rightarrow> rt_world \<Rightarrow> rt_world" where
  "on_conn f w = w\<lparr>rt_conn := f (rt_conn w)\<rparr>"

definition client_emit :: "string \<Rightarrow> string \<Rightarrow> json \<Rightarrow> rt_world \<Rightarrow> rt_world" where
  "client_emit sid event payload = on_conn (on_socket sid (socket_emit event payload))"

definition client_error :: "string \<Rightarrow> string \<Rightarrow> string \<Rightarrow> rt_world \<Rightarrow> rt_world" where
  "client_error sid event code = client_emit sid event (JObj [(''code'', JStr code)])"

definition client_data :: "string \<Rightarrow> rt_world \<Rightarrow> socket_data option" where
  "client_data sid w = data_of (rt_conn w) sid"

definition room_emit :: "string \<Rightarrow> string \<Rightarrow> json \<Rightarrow> socket_data \<Rightarrow> rt_world \<Rightarrow> rt_world" where
  "room_emit room event payload d w =
     w\<lparr>rt_comm := comm_emit \<lparr>em_room = room, em_event = event, em_payload = payload,
        em_actor = \<lparr>ea_userId = sd_userId d, ea_role = sd_role d, ea_driverId = sd_driverId d\<rparr>\<rparr> (rt_comm w)\<rparr>"

section \<open>Connecting and disconnecting\<close>

definition stopHeartbeatTimers :: "string \<Rightarrow> rt_world \<Rightarrow> rt_world" where
  "stopHeartbeatTimers sid = on_conn (on_socket sid (on_data clear_timers))"

definition startHeartbeatCycle :: "string \<Rightarrow> rt_world \<Rightarrow> rt_world" where
  "startHeartbeatCycle sid w =
     on_conn (on_socket sid (on_data (\<lambda>d. d\<lparr>sd_heartbeatTimer := True\<rparr>))) (stopHeartbeatTimers sid w)"

definition handleConnection :: "string \<Rightarrow> timestamp \<Rightarrow> rt_world \<Rightarrow> rt_world" where
  "handleConnection sid now w =
     (case client_data sid w of
        None \<Rightarrow> on_conn (on_socket sid socket_disconnect) w
      | Some d \<Rightarrow>
          if sd_userId d = [] then on_conn (on_socket sid socket_disconnect) w
          else
            startHeartbeatCycle sid
              (client_emit sid ''connected''
                (JObj [(''socketId'', JStr sid), (''userId'', JStr (sd_userId d)), (''role'', JStr (sd_role d)),
                       (''connectedAt'', JNum (of_int (sd_connectedAt d)))])
                (on_conn (registerSocket sid now) w)))"

definition handleDisconnect :: "string \<Rightarrow> rt_world \<Rightarrow> rt_world" where
  "handleDisconnect sid w = on_conn (removeSocket sid) (stopHeartbeatTimers sid w)"

definition revalidateSensitiveSocket :: "string \<Rightarrow> timestamp \<Rightarrow> rt_world \<Rightarrow> bool \<times> rt_world" where
  "revalidateSensitiveSocket sid now w =
     (let (r, aw) = validateSocket (client_data sid w) now (auth_view w);
          w1 = rt_redis (aw_redis aw) w
      in case r of
           Inr _ \<Rightarrow> (True, w1)
         | Inl _ \<Rightarrow>
             (False,
              on_conn (removeSocket sid)
                (on_conn (on_socket sid socket_disconnect)
                  (stopHeartbeatTimers sid (client_error sid ''auth_error'' ''UNAUTHORIZED'' w1)))))"

section \<open>Heartbeat\<close>

definition find_socket :: "string \<Rightarrow> rt_world \<Rightarrow> socket option" where
  "find_socket sid w = find_row sk_id sid (cs_heap (rt_conn w))"

definition is_connected :: "string \<Rightarrow> rt_world \<Rightarrow> bool" where
  "is_connected sid w = (case find_socket sid w of None \<Rightarrow> False | Some s \<Rightarrow> sk_connected s)"

definition sendHeartbeatPing :: "string \<Rightarrow> timestamp \<Rightarrow> rt_world \<Rightarrow> rt_world" where
  "sendHeartbeatPing sid now w =
     (if \<not> is_connected sid w then stopHeartbeatTimers sid w
      else case client_data sid w of
             None \<Rightarrow> w
           | Some _ \<Rightarrow>
               client_emit sid ''ping'' (JObj [(''serverTime'', JNum (of_int now))])
                 (on_conn (on_socket sid (on_data (\<lambda>d. d\<lparr>sd_lastPingSentAt := Some now, sd_pongTimer := True\<rparr>))) w))"

definition handleStaleSocketTimeout :: "string \<Rightarrow> timestamp \<Rightarrow> rt_world \<Rightarrow> rt_world" where
  "handleStaleSocketTimeout sid now w =
     (if \<not> is_connected sid w then w
      else
        on_conn (removeSocket sid)
          (on_conn (on_socket sid socket_disconnect)
            (stopHeartbeatTimers sid
              (client_emit sid ''disconnect_notice'' (disconnect_notice ''STALE_HEARTBEAT_TIMEOUT'' [] now) w))))"

definition pong_rtt :: "timestamp option \<Rightarrow> json option \<Rightarrow> timestamp \<Rightarrow> rat option" where
  "pong_rtt lastPingSentAt pingServerTime now =
     (let pingSentAt = (case lastPingSentAt of
            Some n \<Rightarrow> if n \<noteq> 0 then Some (JNum (of_int n)) else pingServerTime
          | None \<Rightarrow> pingServerTime)
      in case pingSentAt of
           Some (JNum q) \<Rightarrow> if q \<noteq> 0 then Some (max 0 (of_int now - q)) else None
         | _ \<Rightarrow> None)"

definition handlePongMessage :: "string \<Rightarrow> json option \<Rightarrow> timestamp \<Rightarrow> rt_world \<Rightarrow> rt_world" where
  "handlePongMessage sid pingServerTime now w =
     on_conn (on_socket sid (on_data (\<lambda>d.
       d\<lparr>sd_lastPongReceivedAt := Some now, sd_pongTimer := False,
         sd_rttLatencyMs := (case pong_rtt (sd_lastPingSentAt d) pingServerTime now of
                               None \<Rightarrow> sd_rttLatencyMs d | Some rtt \<Rightarrow> Some rtt)\<rparr>))) w"

section \<open>Rooms\<close>

definition join_room :: "string \<Rightarrow> string \<Rightarrow> rt_world \<Rightarrow> rt_world" where
  "join_room sid room w =
     on_conn (on_socket sid (\<lambda>s. on_data (\<lambda>d. d\<lparr>sd_joinedRooms := set_add room (sd_joinedRooms d)\<rparr>)
       (s\<lparr>sk_rooms := set_add room (sk_rooms s)\<rparr>))) w"

text \<open>The room of the message is \<open>None\<close> when it is missing or no string.\<close>

definition handleJoinRoom :: "string \<Rightarrow> string option \<Rightarrow> timestamp \<Rightarrow> rt_world \<Rightarrow> rt_world" where
  "handleJoinRoom sid room now w =
     (let (ok, w1) = revalidateSensitiveSocket sid now w in
      if \<not> ok then w1
      else case client_data sid w1 of
             None \<Rightarrow> client_error sid ''room_error'' ''UNAUTHENTICATED'' w1
           | Some d \<Rightarrow>
               if sd_userId d = [] then client_error sid ''room_error'' ''UNAUTHENTICATED'' w1
               else if \<not> truthy room then client_error sid ''room_error'' ''INVALID_ROOM_FORMAT'' w1
               else (case authorizeRoomJoin (Some d) (the room) (rt_comm w1) of
                       Refused reason \<Rightarrow>
                         client_emit sid ''room_error''
                           (JObj [(''code'', JStr (if reason = [] then ''ROOM_ACCESS_DENIED'' else reason)),
                                  (''room'', JStr (the room))]) w1
                     | Authorized normalizedRoom \<Rightarrow>
                         let targetRoom = (if normalizedRoom = [] then the room else normalizedRoom) in
                         client_emit sid ''room_joined'' (JObj [(''room'', JStr targetRoom)])
                           (join_room sid targetRoom w1)))"

definition handleLeaveRoom :: "string \<Rightarrow> string option \<Rightarrow> rt_world \<Rightarrow> rt_world" where
  "handleLeaveRoom sid room w =
     (if \<not> truthy room then w
      else
        client_emit sid ''room_left'' (JObj [(''room'', JStr (the room))])
          (on_conn (on_socket sid (\<lambda>s.
             on_data (\<lambda>d. d\<lparr>sd_joinedRooms := filter (\<lambda>r. r \<noteq> the room) (sd_joinedRooms d)\<rparr>)
               (s\<lparr>sk_rooms := filter (\<lambda>r. r \<noteq> the room) (sk_rooms s)\<rparr>))) w))"

section \<open>Chat and calls\<close>

text \<open>The code of an exception, when its response has one.\<close>

definition code_or :: "string \<Rightarrow> api_error \<Rightarrow> string" where
  "code_or fallback e = (if err_kind e = Internal \<or> err_code e = [] then fallback else err_code e)"

definition socket_actor :: "socket_data \<Rightarrow> user_actor" where
  "socket_actor d =
     \<lparr>ua_userId = sd_userId d, ua_role = sd_role d, ua_driverId = sd_driverId d, ua_deviceId = Some (sd_deviceId d)\<rparr>"

definition call_actor :: "socket_data \<Rightarrow> user_actor" where
  "call_actor d = (socket_actor d)\<lparr>ua_deviceId := None\<rparr>"

definition relayed_message :: "chat_message \<Rightarrow> json" where
  "relayed_message m =
     JObj [(''messageId'', JStr (msg_id m)), (''conversationId'', JStr (msg_conversationId m)),
           (''senderUserId'', JStr (msg_senderUserId m)), (''senderDeviceId'', JStr (msg_senderDeviceId m)),
           (''recipientDeviceId'', JStr (msg_recipientDeviceId m)),
           (''protocolVersion'', JNum (of_int (msg_protocolVersion m))),
           (''ciphertextBlob'', JStr (msg_ciphertextBlob m)), (''headerJson'', msg_headerJson m),
           (''createdAt'', JNum (of_int (msg_createdAt m)))]"

text \<open>A handler behind the check: \<open>body\<close> gets the data of the socket.\<close>

definition with_valid_socket ::
  "string \<Rightarrow> timestamp \<Rightarrow> (rt_world \<Rightarrow> rt_world) \<Rightarrow> (socket_data \<Rightarrow> rt_world \<Rightarrow> rt_world) \<Rightarrow> rt_world \<Rightarrow> rt_world" where
  "with_valid_socket sid now no_user body w =
     (let (ok, w1) = revalidateSensitiveSocket sid now w in
      if \<not> ok then w1
      else case client_data sid w1 of
             None \<Rightarrow> no_user w1
           | Some d \<Rightarrow> if sd_userId d = [] then no_user w1 else body d w1)"

definition handleDriverLocationUpdate :: "string \<Rightarrow> location_dto \<Rightarrow> uuid \<Rightarrow> timestamp \<Rightarrow> rt_world \<Rightarrow> rt_world" where
  "handleDriverLocationUpdate sid dto newId now =
     with_valid_socket sid now (client_error sid ''location_error'' ''UNAUTHENTICATED'')
       (\<lambda>d w. if sd_role d \<noteq> ''DRIVER'' \<or> \<not> truthy (sd_driverId d) then client_error sid ''location_error'' ''FORBIDDEN'' w
        else case processTelemetry dto (the (sd_driverId d)) (sd_role d) now ''/v1/realtime'' False newId now (track_view w) of
          (Inl e, tw) \<Rightarrow> client_error sid ''location_error'' (code_or ''GPS_VALIDATION_FAILED'' e) (put_track tw w)
        | (Inr r, tw) \<Rightarrow>
            client_emit sid ''location_accepted''
              (JObj [(''success'', JBool True),
                     (''data'', if tr_idempotent r then with_idempotent (telemetry_json r) else telemetry_json r)])
              (put_track tw w))"

definition handleChatMessageSend ::
  "string \<Rightarrow> uuid \<Rightarrow> send_message_dto \<Rightarrow> uuid \<Rightarrow> timestamp \<Rightarrow> rt_world \<Rightarrow> rt_world" where
  "handleChatMessageSend sid conversationId dto newId now =
     with_valid_socket sid now (client_error sid ''chat_error'' ''UNAUTHENTICATED'')
       (\<lambda>d w. case sendMessage conversationId dto (socket_actor d) ''/v1/realtime'' newId now (rt_comm w) of
          (Inl e, cw) \<Rightarrow> client_error sid ''chat_error'' (code_or ''CHAT_SEND_FAILED'' e) (w\<lparr>rt_comm := cw\<rparr>)
        | (Inr r, cw) \<Rightarrow>
            let m = mrs_message r;
                w1 = client_emit sid ''chat.message.ack''
                  (JObj [(''messageId'', JStr (msg_id m)), (''status'', JStr ''SENT''),
                         (''createdAt'', JNum (of_int (msg_createdAt m)))]) (w\<lparr>rt_comm := cw\<rparr>)
            in if mrs_idempotent r then w1
               else room_emit (''conversation:'' @ conversationId) ''chat.message.relayed'' (relayed_message m) d w1)"

definition session_room :: "uuid \<Rightarrow> string" where
  "session_room sessionId = ''session:'' @ sessionId"

definition handleWebrtcCallRespond :: "string \<Rightarrow> uuid \<Rightarrow> call_action \<Rightarrow> timestamp \<Rightarrow> timestamp \<Rightarrow> rt_world \<Rightarrow> rt_world" where
  "handleWebrtcCallRespond sid sessionId action now now' =
     with_valid_socket sid now (\<lambda>w. w)
       (\<lambda>d w. case respondToCallSession sessionId action (call_actor d) now now' (rt_comm w) of
          (Inl e, cw) \<Rightarrow> client_error sid ''call_error'' (code_or ''CALL_RESPOND_FAILED'' e) (w\<lparr>rt_comm := cw\<rparr>)
        | (Inr _, cw) \<Rightarrow>
            if action = ACCEPT then join_room sid (session_room sessionId) (w\<lparr>rt_comm := cw\<rparr>) else w\<lparr>rt_comm := cw\<rparr>)"

definition handleWebrtcCallHangup :: "string \<Rightarrow> uuid \<Rightarrow> timestamp \<Rightarrow> rt_world \<Rightarrow> rt_world" where
  "handleWebrtcCallHangup sid sessionId now =
     with_valid_socket sid now (\<lambda>w. w)
       (\<lambda>d w. case endCallSession sessionId (call_actor d) now (rt_comm w) of
          (Inl e, cw) \<Rightarrow> client_error sid ''call_error'' ''HANGUP_FAILED'' (w\<lparr>rt_comm := cw\<rparr>)
        | (Inr _, cw) \<Rightarrow> w\<lparr>rt_comm := cw\<rparr>)"

section \<open>Signalling\<close>

record signal_dto =
  sg_sessionId :: uuid
  sg_nonce :: uuid
  sg_seq :: int
  sg_timestamp :: timestamp
  sg_body :: json

definition valid_signal :: "signal_dto \<Rightarrow> bool" where
  "valid_signal dto \<longleftrightarrow> sg_sessionId dto \<noteq> [] \<and> sg_nonce dto \<noteq> [] \<and> 1 \<le> sg_seq dto"

definition nonce_key :: "signal_dto \<Rightarrow> string" where
  "nonce_key dto = ''replay:nonce:'' @ sg_sessionId dto @ '':'' @ sg_nonce dto"

definition seq_key :: "signal_dto \<Rightarrow> uuid \<Rightarrow> string" where
  "seq_key dto senderId = ''seq:webrtc:'' @ sg_sessionId dto @ '':'' @ senderId"

definition validateWebrtcAntiReplay :: "string \<Rightarrow> signal_dto \<Rightarrow> uuid \<Rightarrow> timestamp \<Rightarrow> rt_world \<Rightarrow> bool \<times> rt_world" where
  "validateWebrtcAntiReplay sid dto senderId now w =
     (if 30000 < \<bar>now - sg_timestamp dto\<bar> then (False, client_error sid ''call_error'' ''CLOCK_SKEW_EXCEEDED'' w)
      else
        let (claimed, rd1) = setNxEx (nonce_key dto) ''1'' 60 now (cm_redis (rt_comm w));
            w1 = rt_redis rd1 w
        in if \<not> claimed then (False, client_error sid ''call_error'' ''REPLAY_DETECTED'' w1)
           else
             let (validSeq, rd2) = verifyAndSetSequence (seq_key dto senderId) (sg_seq dto) 3600 now (cm_redis (rt_comm w1));
                 w2 = rt_redis rd2 w1
             in if \<not> validSeq then (False, client_error sid ''call_error'' ''OUT_OF_ORDER_SEQUENCE'' w2)
                else (True, w2))"

definition assertWebrtcSignalAccess :: "string \<Rightarrow> socket_data \<Rightarrow> uuid \<Rightarrow> timestamp \<Rightarrow> rt_world \<Rightarrow> api_error + unit" where
  "assertWebrtcSignalAccess sid d sessionId now w =
     (case find_socket sid w of
        None \<Rightarrow> fail_with Forbidden ''ROOM_ACCESS_DENIED''
      | Some s \<Rightarrow>
          if session_room sessionId \<notin> set (sk_rooms s) then fail_with Forbidden ''ROOM_ACCESS_DENIED''
          else case authorizeSignal sessionId (socket_actor d) now (rt_comm w) of Inl e \<Rightarrow> Inl e | Inr _ \<Rightarrow> Inr ())"

text \<open>Offers, answers and candidates differ in the event, in the body, and in the limit on candidates.\<close>

definition handleSignal ::
  "string \<Rightarrow> (string \<Rightarrow> signal_dto \<Rightarrow> timestamp \<Rightarrow> rt_world \<Rightarrow> bool \<times> rt_world) \<Rightarrow> string \<Rightarrow> string \<Rightarrow> signal_dto \<Rightarrow>
   timestamp \<Rightarrow> rt_world \<Rightarrow> rt_world" where
  "handleSignal field_name limit event sid dto now =
     with_valid_socket sid now (\<lambda>w. w)
       (\<lambda>d w. case assertWebrtcSignalAccess sid d (sg_sessionId dto) now w of
          Inl e \<Rightarrow> client_error sid ''call_error'' ''SIGNALING_FAILED'' w
        | Inr _ \<Rightarrow>
            let (isClean, w1) = validateWebrtcAntiReplay sid dto (sd_userId d) now w in
            if \<not> isClean then w1
            else
              let (allowed, w2) = limit sid dto now w1 in
              if \<not> allowed then w2
              else room_emit (session_room (sg_sessionId dto)) event
                     (JObj [(''sessionId'', JStr (sg_sessionId dto)), (field_name, sg_body dto),
                            (''seq'', JNum (of_int (sg_seq dto))), (''nonce'', JStr (sg_nonce dto))]) d w2)"

definition no_limit :: "string \<Rightarrow> signal_dto \<Rightarrow> timestamp \<Rightarrow> rt_world \<Rightarrow> bool \<times> rt_world" where
  "no_limit sid dto now w = (True, w)"

definition candidate_limit :: "string \<Rightarrow> signal_dto \<Rightarrow> timestamp \<Rightarrow> rt_world \<Rightarrow> bool \<times> rt_world" where
  "candidate_limit sid dto now w =
     (let (candidateCount, rd) =
            incrRateLimit (''throttle:ice:'' @ sid @ '':'' @ sg_sessionId dto) 60 now (cm_redis (rt_comm w));
          w1 = rt_redis rd w
      in if 50 < candidateCount then (False, client_error sid ''call_error'' ''ICE_CANDIDATE_LIMIT_EXCEEDED'' w1)
         else (True, w1))"

definition handleWebrtcSignalOffer :: "string \<Rightarrow> signal_dto \<Rightarrow> timestamp \<Rightarrow> rt_world \<Rightarrow> rt_world" where
  "handleWebrtcSignalOffer = handleSignal ''sdp'' no_limit ''webrtc.signal.offer''"

definition handleWebrtcSignalAnswer :: "string \<Rightarrow> signal_dto \<Rightarrow> timestamp \<Rightarrow> rt_world \<Rightarrow> rt_world" where
  "handleWebrtcSignalAnswer = handleSignal ''sdp'' no_limit ''webrtc.signal.answer''"

definition handleWebrtcSignalIceCandidate :: "string \<Rightarrow> signal_dto \<Rightarrow> timestamp \<Rightarrow> rt_world \<Rightarrow> rt_world" where
  "handleWebrtcSignalIceCandidate = handleSignal ''candidate'' candidate_limit ''webrtc.signal.ice_candidate''"

section \<open>Revocation messages\<close>

definition string_field :: "string \<Rightarrow> json \<Rightarrow> string option" where
  "string_field k j = (case jget k j of Some (JStr s) \<Rightarrow> Some s | _ \<Rightarrow> None)"

text \<open>The parsed message; the publishers write string fields only.\<close>

definition handleRevocationMessage :: "json \<Rightarrow> timestamp \<Rightarrow> rt_world \<Rightarrow> rt_world" where
  "handleRevocationMessage event now w =
     (let reason_or = (\<lambda>fallback. if truthy (string_field ''reason'' event) then the (string_field ''reason'' event) else fallback);
          sessionId = string_field ''sessionId'' event;
          deviceId = string_field ''deviceId'' event;
          userId = string_field ''userId'' event;
          ty = string_field ''type'' event
      in if \<not> truthy ty then w
         else if ty = Some ''SESSION_REVOKED''
         then if truthy sessionId
              then on_conn (\<lambda>st. snd (disconnectSession (the sessionId) (reason_or ''SESSION_REVOKED'') now st)) w else w
         else if ty = Some ''DEVICE_REVOKED''
         then if truthy deviceId
              then on_conn (\<lambda>st. snd (disconnectDevice (the deviceId) (reason_or ''DEVICE_REVOKED'') now st)) w else w
         else if ty = Some ''USER_REVOKED''
         then if truthy userId
              then on_conn (\<lambda>st. snd (disconnectUser (the userId) (reason_or ''USER_REVOKED'') now st)) w else w
         else w)"

section \<open>Events\<close>

text \<open>A connection starts with a handshake that was accepted; a refused one never reaches the gateway.\<close>

datatype gw_event =
    Connected string socket_data
  | Disconnected string
  | PingDue string
  | PongLate string
  | Pong string "json option"
  | JoinRoom string "string option"
  | LeaveRoom string "string option"
  | LocationUpdate string location_dto uuid
  | ChatSend string uuid send_message_dto uuid
  | CallRespond string uuid call_action
  | CallHangup string uuid
  | SignalOffer string signal_dto
  | SignalAnswer string signal_dto
  | SignalCandidate string signal_dto
  | RevocationMessage json

fun gw_exec :: "gw_event \<Rightarrow> timestamp \<Rightarrow> rt_world \<Rightarrow> rt_world" where
  "gw_exec (Connected sid d) t w =
     handleConnection sid t (on_conn (\<lambda>st. st\<lparr>cs_heap := cs_heap st @ [fresh_socket sid d]\<rparr>) w)"
| "gw_exec (Disconnected sid) t w = handleDisconnect sid (on_conn (on_socket sid socket_disconnect) w)"
| "gw_exec (PingDue sid) t w = sendHeartbeatPing sid t w"
| "gw_exec (PongLate sid) t w = handleStaleSocketTimeout sid t w"
| "gw_exec (Pong sid p) t w = handlePongMessage sid p t w"
| "gw_exec (JoinRoom sid room) t w = handleJoinRoom sid room t w"
| "gw_exec (LeaveRoom sid room) t w = handleLeaveRoom sid room w"
| "gw_exec (LocationUpdate sid dto i) t w = handleDriverLocationUpdate sid dto i t w"
| "gw_exec (ChatSend sid c dto i) t w = handleChatMessageSend sid c dto i t w"
| "gw_exec (CallRespond sid c a) t w = handleWebrtcCallRespond sid c a t t w"
| "gw_exec (CallHangup sid c) t w = handleWebrtcCallHangup sid c t w"
| "gw_exec (SignalOffer sid dto) t w = handleWebrtcSignalOffer sid dto t w"
| "gw_exec (SignalAnswer sid dto) t w = handleWebrtcSignalAnswer sid dto t w"
| "gw_exec (SignalCandidate sid dto) t w = handleWebrtcSignalIceCandidate sid dto t w"
| "gw_exec (RevocationMessage m) t w = handleRevocationMessage m t w"

end
