(* ===== verification/ConnLemmas.thy ===== *)
theory ConnLemmas
  imports ConnManager
begin

text \<open>
  The invariant of the connection registry: its indexes are exactly the columns of the registered sockets,
  and a driver is mapped to a registered socket of that driver.  Every operation keeps it.
\<close>

section \<open>Socket objects\<close>

text \<open>The part of a socket's data that never changes after the handshake.\<close>

definition ident :: "socket_data \<Rightarrow> uuid \<times> uuid \<times> uuid \<times> string \<times> uuid option" where
  "ident d = (sd_userId d, sd_sessionId d, sd_deviceId d, sd_role d, sd_driverId d)"

definition who :: "conn_state \<Rightarrow> string \<Rightarrow> (uuid \<times> uuid \<times> uuid \<times> string \<times> uuid option) option" where
  "who st x = map_option ident (data_of st x)"

definition column :: "(socket_data \<Rightarrow> uuid) \<Rightarrow> conn_state \<Rightarrow> string \<Rightarrow> uuid option" where
  "column c st x = map_option c (data_of st x)"

lemma columns_of_who:
  "column sd_userId st x = map_option fst (who st x)"
  "column sd_sessionId st x = map_option (fst \<circ> snd) (who st x)"
  "column sd_deviceId st x = map_option (fst \<circ> snd \<circ> snd) (who st x)"
  by (cases "data_of st x"; simp add: column_def who_def ident_def)+

lemma on_socket_frame [simp]:
  "cs_sockets (on_socket i f st) = cs_sockets st" "cs_userSockets (on_socket i f st) = cs_userSockets st"
  "cs_sessionSockets (on_socket i f st) = cs_sessionSockets st" "cs_deviceSockets (on_socket i f st) = cs_deviceSockets st"
  "cs_driverSockets (on_socket i f st) = cs_driverSockets st" "cs_heap (on_socket i f st) = update_row sk_id i f (cs_heap st)"
  by (simp_all add: on_socket_def)

lemma who_on_socket:
  assumes "\<And>s. sk_id (f s) = sk_id s" and "\<And>s. map_option ident (sk_data (f s)) = map_option ident (sk_data s)"
  shows "who (on_socket i f st) = who st"
proof
  fix x
  show "who (on_socket i f st) x = who st x"
    using assms by (simp add: who_def data_of_def find_row_update_row split: option.split)
qed

lemma ident_clear [simp]: "ident (clear_timers d) = ident d"
  by (simp add: ident_def clear_timers_def)

lemma who_clear [simp]: "who (on_socket i (on_data clear_timers) st) = who st"
  by (rule who_on_socket) (simp_all add: on_data_def option.map_comp o_def)

lemma who_say_bye [simp]: "who (on_socket i (\<lambda>s. socket_disconnect (socket_emit e p s)) st) = who st"
  by (rule who_on_socket) (simp_all add: socket_disconnect_def socket_emit_def)

lemma who_cong: "cs_heap st' = cs_heap st \<Longrightarrow> who st' = who st"
  by (simp add: who_def data_of_def fun_eq_iff)

section \<open>The invariant\<close>

definition registry_ok :: "conn_state \<Rightarrow> bool" where
  "registry_ok st \<longleftrightarrow> distinct (cs_sockets st) \<and>
     (\<forall>x \<in> set (cs_sockets st). \<exists>d. data_of st x = Some d \<and> sd_userId d \<noteq> []) \<and>
     idx.exact (column sd_userId st) (set (cs_sockets st)) (cs_userSockets st) \<and>
     idx.exact (column sd_sessionId st) (set (cs_sockets st)) (cs_sessionSockets st) \<and>
     idx.exact (column sd_deviceId st) (set (cs_sockets st)) (cs_deviceSockets st) \<and>
     (\<forall>k x. map_of (cs_driverSockets st) k = Some x \<longrightarrow>
        k \<noteq> [] \<and> x \<in> set (cs_sockets st) \<and> (\<exists>d. data_of st x = Some d \<and> sd_driverId d = Some k))"

lemma who_data:
  "(\<exists>d. data_of st x = Some d \<and> sd_userId d \<noteq> []) \<longleftrightarrow> (\<exists>u r. who st x = Some (u, r) \<and> u \<noteq> [])"
  "(\<exists>d. data_of st x = Some d \<and> sd_driverId d = Some k) \<longleftrightarrow> (\<exists>a b c r. who st x = Some (a, b, c, r, Some k))"
  by (cases "data_of st x"; auto simp: who_def ident_def)+

lemma registry_cong:
  assumes "registry_ok st" and "who st' = who st" and "cs_sockets st' = cs_sockets st"
    and "cs_userSockets st' = cs_userSockets st" and "cs_sessionSockets st' = cs_sessionSockets st"
    and "cs_deviceSockets st' = cs_deviceSockets st" and "cs_driverSockets st' = cs_driverSockets st"
  shows "registry_ok st'"
proof -
  have "column sd_userId st' = column sd_userId st" "column sd_sessionId st' = column sd_sessionId st"
    "column sd_deviceId st' = column sd_deviceId st"
    using assms(2) by (simp_all add: columns_of_who fun_eq_iff)
  then show ?thesis
    using assms unfolding registry_ok_def who_data by simp
qed

section \<open>Removing\<close>

text \<open>What a removal leaves, as one record.\<close>

definition without_socket :: "string \<Rightarrow> socket_data \<Rightarrow> conn_state \<Rightarrow> conn_state" where
  "without_socket x d st =
     (on_socket x (on_data clear_timers) st)
       \<lparr>cs_userSockets := removeSocketFromIndex (sd_userId d) x (cs_userSockets st),
        cs_sessionSockets := removeSocketFromIndex (sd_sessionId d) x (cs_sessionSockets st),
        cs_deviceSockets := removeSocketFromIndex (sd_deviceId d) x (cs_deviceSockets st),
        cs_driverSockets :=
          (if truthy (sd_driverId d) \<and> map_of (cs_driverSockets st) (the (sd_driverId d)) = Some x
           then js_map_delete (the (sd_driverId d)) (cs_driverSockets st) else cs_driverSockets st),
        cs_sockets := filter (\<lambda>i. i \<noteq> x) (cs_sockets st)\<rparr>"

lemma removeSocket_eq:
  assumes "x \<in> set (cs_sockets st)" and "data_of st x = Some d"
  shows "removeSocket x st = without_socket x d st"
  using assms by (simp add: removeSocket_def without_socket_def Let_def)

lemma removeSocket_skip: "x \<notin> set (cs_sockets st) \<Longrightarrow> removeSocket x st = st"
  by (simp add: removeSocket_def)

lemma who_without [simp]: "who (without_socket x d st) = who st"
proof -
  have "who (without_socket x d st) = who (on_socket x (on_data clear_timers) st)"
    by (rule who_cong) (simp add: without_socket_def)
  then show ?thesis by simp
qed

lemma without_sockets [simp]: "cs_sockets (without_socket x d st) = filter (\<lambda>i. i \<noteq> x) (cs_sockets st)"
  by (simp add: without_socket_def)

lemma registry_without:
  assumes "registry_ok st" and "data_of st x = Some d"
  shows "registry_ok (without_socket x d st)"
proof -
  let ?st = "without_socket x d st"
  have cols: "column sd_userId ?st = column sd_userId st" "column sd_sessionId ?st = column sd_sessionId st"
    "column sd_deviceId ?st = column sd_deviceId st"
    by (simp_all add: columns_of_who fun_eq_iff)
  have S: "set (filter (\<lambda>i. i \<noteq> x) (cs_sockets st)) = set (cs_sockets st) - {x}" by auto
  have at: "column c st x = Some (c d)" for c using assms(2) by (simp add: column_def)
  have drv: "k \<noteq> [] \<and> y \<in> set (cs_sockets ?st) \<and> (\<exists>a b c r. who ?st y = Some (a, b, c, r, Some k))"
    if m: "map_of (cs_driverSockets ?st) k = Some y" for k y
  proof -
    have old: "map_of (cs_driverSockets st) k = Some y"
      using m by (auto simp: without_socket_def map_of_js_delete split: if_splits)
    have y: "k \<noteq> []" "y \<in> set (cs_sockets st)" "\<exists>e. data_of st y = Some e \<and> sd_driverId e = Some k"
      using assms(1) old by (auto simp: registry_ok_def)
    have "y \<noteq> x"
    proof
      assume "y = x"
      then have "sd_driverId d = Some k" using y(3) assms(2) by simp
      then show False
        using m old y(1) \<open>y = x\<close> by (simp add: without_socket_def map_of_js_delete)
    qed
    then show ?thesis using y unfolding who_data(2)[symmetric] by (simp add: who_data(2))
  qed
  have "distinct (filter (\<lambda>i. i \<noteq> x) (cs_sockets st))" using assms(1) by (simp add: registry_ok_def)
  moreover have "\<forall>y \<in> set (cs_sockets ?st). \<exists>u r. who ?st y = Some (u, r) \<and> u \<noteq> []"
    using assms(1) by (simp add: registry_ok_def who_data)
  ultimately show ?thesis
    using assms(1) drv idx.exact_remove[of "column sd_userId st" _ _ x, OF _ at]
      idx.exact_remove[of "column sd_sessionId st" _ _ x, OF _ at]
      idx.exact_remove[of "column sd_deviceId st" _ _ x, OF _ at]
    unfolding registry_ok_def cols who_data without_sockets S by (simp add: without_socket_def)
qed

lemma registry_remove: "registry_ok st \<Longrightarrow> registry_ok (removeSocket x st)"
proof (cases "x \<in> set (cs_sockets st)")
  case True
  moreover assume ok: "registry_ok st"
  ultimately obtain d where "data_of st x = Some d" by (auto simp: registry_ok_def)
  then show ?thesis using True ok registry_without removeSocket_eq by simp
qed (simp add: removeSocket_skip)

lemma removeSocket_sockets:
  assumes "registry_ok st"
  shows "set (cs_sockets (removeSocket x st)) = set (cs_sockets st) - {x}" and "who (removeSocket x st) = who st"
proof -
  have "\<exists>d. data_of st x = Some d" if "x \<in> set (cs_sockets st)" using assms that by (auto simp: registry_ok_def)
  then show "set (cs_sockets (removeSocket x st)) = set (cs_sockets st) - {x}" "who (removeSocket x st) = who st"
    by (cases "x \<in> set (cs_sockets st)"; auto simp: removeSocket_eq removeSocket_skip)+
qed

text \<open>Dropping a socket: the notice and the disconnect come first.\<close>

abbreviation say_bye :: "string \<Rightarrow> (string \<times> json) list \<Rightarrow> timestamp \<Rightarrow> socket \<Rightarrow> socket" where
  "say_bye reason details now s \<equiv>
     socket_disconnect (socket_emit ''disconnect_notice'' (disconnect_notice reason details now) s)"

lemma registry_bye: "registry_ok st \<Longrightarrow> registry_ok (on_socket x (say_bye reason details now) st)"
  by (erule registry_cong) simp_all

lemma registry_drop: "registry_ok st \<Longrightarrow> registry_ok (drop_socket reason details now x st)"
  by (simp add: drop_socket_def registry_remove registry_bye)

lemma drop_sockets:
  assumes "registry_ok st"
  shows "set (cs_sockets (drop_socket reason details now x st)) = set (cs_sockets st) - {x}"
    and "who (drop_socket reason details now x st) = who st"
  using removeSocket_sockets[OF registry_bye[OF assms]] by (simp_all add: drop_socket_def)

section \<open>Registering\<close>

lemma registry_supersede: "registry_ok st \<Longrightarrow> registry_ok (supersede d x now st)"
  by (simp add: supersede_def registry_drop split: option.split)

lemma supersede_who: "registry_ok st \<Longrightarrow> who (supersede d x now st) = who st"
  by (simp add: supersede_def drop_sockets split: option.split)

lemma supersede_keeps:
  "registry_ok st \<Longrightarrow> x \<in> set (cs_sockets st) \<Longrightarrow> x \<in> set (cs_sockets (supersede d x now st))"
  by (auto simp: supersede_def drop_sockets split: option.split)

lemma registry_register:
  assumes "registry_ok st"
  shows "registry_ok (registerSocket x now st)"
proof (cases "\<exists>d. data_of st x = Some d \<and> sd_userId d \<noteq> []")
  case False
  then show ?thesis using assms by (auto simp: registerSocket_def split: option.split)
next
  case True
  then obtain d where d: "data_of st x = Some d" "sd_userId d \<noteq> []" by blast
  define s1 where "s1 = supersede d x now st"
  have ok: "registry_ok s1" using registry_supersede[OF assms] by (simp add: s1_def)
  have who1: "who s1 = who st" using supersede_who[OF assms] by (simp add: s1_def)
  let ?st = "registerSocket x now st"
  have st: "?st = s1\<lparr>cs_sockets := set_add x (cs_sockets s1),
      cs_userSockets := addSocketToIndex (sd_userId d) x (cs_userSockets s1),
      cs_sessionSockets := addSocketToIndex (sd_sessionId d) x (cs_sessionSockets s1),
      cs_deviceSockets := addSocketToIndex (sd_deviceId d) x (cs_deviceSockets s1),
      cs_driverSockets := (if truthy (sd_driverId d) then js_map_set (the (sd_driverId d)) x (cs_driverSockets s1)
                           else cs_driverSockets s1)\<rparr>"
    using d by (simp add: registerSocket_def s1_def Let_def)
  have who2: "who ?st = who s1" by (rule who_cong) (simp add: st)
  have cols: "column sd_userId ?st = column sd_userId s1" "column sd_sessionId ?st = column sd_sessionId s1"
    "column sd_deviceId ?st = column sd_deviceId s1"
    by (simp_all add: columns_of_who who2 fun_eq_iff)
  have wx: "who s1 x = Some (ident d)" using d who1 by (simp add: who_def)
  have at: "column sd_userId s1 x = Some (sd_userId d)" "column sd_sessionId s1 x = Some (sd_sessionId d)"
    "column sd_deviceId s1 x = Some (sd_deviceId d)"
    using wx by (simp_all add: columns_of_who ident_def)
  have S: "set (cs_sockets ?st) = insert x (set (cs_sockets s1))" by (auto simp: st set_add_def)
  have drv: "k \<noteq> [] \<and> y \<in> set (cs_sockets ?st) \<and> (\<exists>a b c r. who ?st y = Some (a, b, c, r, Some k))"
    if m: "map_of (cs_driverSockets ?st) k = Some y" for k y
  proof (cases "truthy (sd_driverId d) \<and> k = the (sd_driverId d)")
    case True
    then have "y = x" using m by (simp add: st map_of_js_set)
    moreover have "sd_driverId d = Some k" "k \<noteq> []" using True by (auto simp: truthy_iff)
    ultimately show ?thesis using wx S by (simp add: who2 ident_def)
  next
    case False
    then have "map_of (cs_driverSockets s1) k = Some y"
      using m by (auto simp: st map_of_js_set split: if_splits)
    then show ?thesis using ok S unfolding registry_ok_def who_data who2 by auto
  qed
  have "distinct (cs_sockets ?st)" using ok by (auto simp: st set_add_def registry_ok_def)
  moreover have "\<forall>y \<in> set (cs_sockets ?st). \<exists>u r. who ?st y = Some (u, r) \<and> u \<noteq> []"
    using ok wx d(2) unfolding S by (auto simp: registry_ok_def who_data who2 ident_def)
  ultimately show ?thesis
    using ok drv idx.exact_add[of "column sd_userId s1" _ _ x, OF _ at(1)]
      idx.exact_add[of "column sd_sessionId s1" _ _ x, OF _ at(2)]
      idx.exact_add[of "column sd_deviceId s1" _ _ x, OF _ at(3)]
    unfolding registry_ok_def cols who_data S by (simp add: st)
qed

section \<open>Dropping several sockets\<close>

lemma registry_disconnect: "registry_ok st \<Longrightarrow> registry_ok (disconnectSockets xs reason details now st)"
  by (induction xs arbitrary: st) (simp_all add: disconnectSockets_def registry_drop)

lemma disconnect_sockets:
  assumes "registry_ok st"
  shows "set (cs_sockets (disconnectSockets xs reason details now st)) = set (cs_sockets st) - set xs \<and>
    who (disconnectSockets xs reason details now st) = who st"
  using assms
proof (induction xs arbitrary: st)
  case (Cons x xs)
  have "disconnectSockets (x # xs) reason details now st =
      disconnectSockets xs reason details now (drop_socket reason details now x st)"
    by (simp add: disconnectSockets_def)
  then show ?case
    using Cons.IH[OF registry_drop[OF Cons.prems]] drop_sockets[OF Cons.prems] by auto
qed (simp add: disconnectSockets_def)

end
