(* ===== verification/TrackLemmas.thy ===== *)
theory TrackLemmas
  imports Tracking
begin

text \<open>
  Lemmas on telemetry: Redis without failures, the cache of latest locations, and what the handling of one
  point changes.
\<close>

section \<open>Redis without failures\<close>

definition healthy :: "redis \<Rightarrow> bool" where
  "healthy rd \<longleftrightarrow> rd_connected rd \<and> rd_oracle rd = []"

lemma healthy_store [simp]: "healthy (store k v e rd) \<longleftrightarrow> healthy rd"
  by (simp add: healthy_def store_def)

lemma healthy_get: "healthy rd \<Longrightarrow> redis_get k now rd = (live rd now k, rd)"
  by (simp add: healthy_def redis_get_def send_command_def)

lemma healthy_set: "healthy rd \<Longrightarrow> redis_set k v ttl now rd = store k v (Some (now + ttl * 1000)) rd"
  by (simp add: healthy_def redis_set_def send_command_def)

lemma store_data [simp]: "rd_data (store k v e rd) = (rd_data rd)(k \<mapsto> (v, e))"
  by (simp add: store_def)

lemma healthy_incr:
  "healthy rd \<Longrightarrow> healthy (snd (incrRateLimit k n now rd)) \<and>
     (\<forall>j. j \<noteq> k \<longrightarrow> rd_data (snd (incrRateLimit k n now rd)) j = rd_data rd j)"
  by (auto simp: incrRateLimit_def send_command_def healthy_def Let_def store_def split: option.split)

section \<open>The cache\<close>

lemma cached_time_json [simp]: "cached_time (Some (cached_json c)) = cl_recordedAt c"
  by (cases "cl_recordedAt c") (simp_all add: cached_time_def cached_json_def jdate_def json_time_def)

lemma healthy_validate: "healthy rd \<Longrightarrow> snd (validateSinglePoint dto d rcv now rd) = rd"
  by (simp add: validateSinglePoint_def healthy_get Let_def split: option.split)

lemma healthy_latest:
  assumes "healthy rd" and "d \<noteq> []"
  shows "snd (setLatestLocation d c now rd) =
    (if not_newer (cl_recordedAt c) (cached_time (parse_cached (live rd now (latest_key d)))) then rd
     else store (latest_key d) (RJson (cached_json c)) (Some (now + 86400000)) rd)"
  using assms by (simp add: setLatestLocation_def healthy_get healthy_set)

lemma latest_key_inj [simp]: "latest_key d = latest_key d' \<longleftrightarrow> d = d'"
  by (simp add: latest_key_def)

lemma latest_not_throttle [simp]:
  "latest_key d \<noteq> location_throttle_key d'" "latest_key d \<noteq> batch_throttle_key d'"
  by (simp_all add: latest_key_def location_throttle_key_def batch_throttle_key_def)

section \<open>What a point must be like\<close>

definition plausible :: "location_dto \<Rightarrow> timestamp \<Rightarrow> bool" where
  "plausible dto receivedAt \<longleftrightarrow>
     - 90 \<le> loc_latitude dto \<and> loc_latitude dto \<le> 90 \<and> - 180 \<le> loc_longitude dto \<and> loc_longitude dto \<le> 180 \<and>
     0 < loc_accuracyM dto \<and> loc_accuracyM dto \<le> 50 \<and>
     (\<exists>t. loc_recordedAt dto = Some t \<and> receivedAt - 3600000 \<le> t \<and> t \<le> receivedAt + 300000)"

lemma lv_valid_iff: "lv_valid (fst (validateSinglePoint dto d rcv now rd)) \<longleftrightarrow> plausible dto rcv"
proof (cases "validateClockSkew (loc_recordedAt dto) rcv 300000 3600000")
  case None
  then show ?thesis
    using clock_skew_valid_iff[of "loc_recordedAt dto" rcv 300000 3600000]
    by (auto simp: validateSinglePoint_def plausible_def validateCoordinateBounds_def
        validateAccuracyThreshold_def rejected_def Let_def split: option.split prod.split)
next
  case (Some reason)
  then have "\<not> (\<exists>t. loc_recordedAt dto = Some t \<and> rcv - 3600000 \<le> t \<and> t \<le> rcv + 300000)"
    using clock_skew_valid_iff[of "loc_recordedAt dto" rcv 300000 3600000] by auto
  with Some show ?thesis
    by (auto simp: validateSinglePoint_def plausible_def rejected_def)
qed

lemma lv_status_valid:
  "lv_valid (fst (validateSinglePoint dto d rcv now rd)) \<Longrightarrow>
   lv_status (fst (validateSinglePoint dto d rcv now rd)) \<in> {''VALID'', ''ANOMALY_VELOCITY''}"
  by (auto simp: validateSinglePoint_def rejected_def Let_def split: if_splits option.splits prod.splits)

lemma new_point_shape:
  "new_point dto d rcv s i = Some p \<Longrightarrow>
   lpt_id p = i \<and> lpt_driverId p = d \<and> lpt_deliveryId p = or_null (loc_deliveryId dto) \<and> lpt_receivedAt p = rcv \<and>
   loc_recordedAt dto = Some (lpt_recordedAt p) \<and> lpt_status p = s \<and>
   decimal 10 7 (loc_latitude dto) = Some (lpt_latitude p) \<and> decimal 10 7 (loc_longitude dto) = Some (lpt_longitude p)"
  by (auto simp: new_point_def split: option.splits)

lemma new_point_exists: "new_point dto d rcv s i = None \<longleftrightarrow> new_point dto d' rcv' s' i' = None"
  by (auto simp: new_point_def split: option.splits)

section \<open>What the handling of one point changes\<close>

lemma with_redis_simps [simp]:
  "tk_redis (with_redis rd w) = rd" "tk_points (with_redis rd w) = tk_points w"
  "tk_users (with_redis rd w) = tk_users w" "tk_redis (w\<lparr>tk_points := ps\<rparr>) = tk_redis w"
  "cm_drivers (tk_comm (with_redis rd w)) = cm_drivers (tk_comm w)"
  "cm_deliveries (tk_comm (with_redis rd w)) = cm_deliveries (tk_comm w)"
  "cm_idempotency (tk_comm (with_redis rd w)) = cm_idempotency (tk_comm w)"
  "cm_emitted (tk_comm (with_redis rd w)) = cm_emitted (tk_comm w)"
  "cm_gatewayUp (tk_comm (with_redis rd w)) = cm_gatewayUp (tk_comm w)"
  by (simp_all add: tk_redis_def with_redis_def)

lemma save_record_frame [simp]:
  "tk_points (save_record dto d ep r now w) = tk_points w"
  "tk_redis (save_record dto d ep r now w) = tk_redis w"
  by (simp_all add: save_record_def tk_redis_def split: option.split)

lemma location_broadcast_frame [simp]:
  "tk_points (broadcast_location dto d rcv w) = tk_points w"
  "tk_redis (broadcast_location dto d rcv w) = tk_redis w"
  "cm_idempotency (tk_comm (broadcast_location dto d rcv w)) = cm_idempotency (tk_comm w)"
  "cm_drivers (tk_comm (broadcast_location dto d rcv w)) = cm_drivers (tk_comm w)"
  by (simp_all add: broadcast_location_def tk_redis_def comm_emit_def Let_def)

text \<open>Nothing that concerns locations has changed.\<close>

definition stays :: "track_world \<Rightarrow> track_world \<Rightarrow> bool" where
  "stays w w' \<longleftrightarrow> tk_points w' = tk_points w \<and> healthy (tk_redis w') \<and>
     (\<forall>d. rd_data (tk_redis w') (latest_key d) = rd_data (tk_redis w) (latest_key d))"

text \<open>One point has been stored, and the cache has been offered it.\<close>

definition stored :: "location_dto \<Rightarrow> uuid \<Rightarrow> timestamp \<Rightarrow> location_point \<Rightarrow> track_world \<Rightarrow> track_world \<Rightarrow> bool" where
  "stored dto d now p w w' \<longleftrightarrow> d \<noteq> [] \<and> plausible dto now \<and> (\<exists>s i. new_point dto d now s i = Some p) \<and>
     tk_points w' = tk_points w @ [p] \<and> healthy (tk_redis w') \<and>
     (\<forall>d'. rd_data (tk_redis w') (latest_key d') =
        (if d' = d \<and> \<not> not_newer (loc_recordedAt dto) (cached_time (parse_cached (live (tk_redis w) now (latest_key d))))
         then Some (RJson (cached_json (location_payload dto d now)), Some (now + 86400000))
         else rd_data (tk_redis w) (latest_key d')))"

lemma with_redis_twice [simp]: "with_redis rd' (with_redis rd w) = with_redis rd' w"
  by (simp add: with_redis_def)

lemma ingest_eq:
  assumes l: "(if skip then (0, tk_redis w) else incrRateLimit (location_throttle_key d) 1 now (tk_redis w)) = (n, rd1)"
    and v: "validateSinglePoint dto d rcv now rd1 = (v, rd2)"
  shows "ingest dto d rcv ep skip i now w =
    (if 1 < n then (fail_with TooManyRequests ''RATE_LIMIT_EXCEEDED'', with_redis rd1 w)
     else if \<not> lv_valid v
     then (fail_with Unprocessable (if truthy (lv_reason v) then the (lv_reason v) else ''GPS_VALIDATION_FAILED''), with_redis rd2 w)
     else case insert_point dto d rcv (lv_status v) i (with_redis rd2 w) of
            None \<Rightarrow> (fail_with Internal [], with_redis rd2 w)
          | Some w3 \<Rightarrow>
              let r = \<lparr>tr_locationId = i, tr_validationStatus = lv_status v, tr_receivedAt = rcv, tr_idempotent = False\<rparr>;
                  w4 = save_record dto d ep r now w3;
                  w5 = with_redis (snd (setLatestLocation d (location_payload dto d rcv) now (tk_redis w4))) w4
              in (Inr r, if lv_status v = ''VALID'' then broadcast_location dto d rcv w5 else w5))"
  unfolding ingest_def l Let_def prod.case with_redis_simps v with_redis_twice by (rule refl)

lemma ingest_changes:
  assumes h: "healthy (tk_redis w)" and d: "d \<noteq> []" and i: "ingest dto d now ep skip i now w = (r, w')"
  shows "stays w w' \<and> (\<exists>e. r = Inl e) \<or> (\<exists>p. stored dto d now p w w')"
proof -
  obtain n rd1 where l: "(if skip then (0, tk_redis w) else incrRateLimit (location_throttle_key d) 1 now (tk_redis w)) = (n, rd1)"
    by fastforce
  have rd1: "healthy rd1" "rd_data rd1 (latest_key d') = rd_data (tk_redis w) (latest_key d')" for d'
    using l h healthy_incr[OF h, of "location_throttle_key d" 1 now] by (auto split: if_splits)
  have live1: "live rd1 now (latest_key d) = live (tk_redis w) now (latest_key d)"
    by (simp add: live_def rd1)
  obtain v rd2 where v: "validateSinglePoint dto d now now rd1 = (v, rd2)" by fastforce
  have rd2: "rd2 = rd1" using healthy_validate[OF rd1(1), of dto d now now] v by simp
  have pl: "lv_valid v \<longleftrightarrow> plausible dto now" using lv_valid_iff[of dto d now now rd1] v by simp
  note eq = ingest_eq[OF l v, of ep i, unfolded rd2]
  have same: "stays w (with_redis rd1 w)" using rd1 by (simp add: stays_def)
  show ?thesis
  proof (cases "n \<le> 1 \<and> lv_valid v \<and> insert_point dto d now (lv_status v) i (with_redis rd1 w) \<noteq> None")
    case False
    then have "w' = with_redis rd1 w \<and> (\<exists>e. r = Inl e)"
      using i[unfolded eq] by (auto split: if_splits)
    with same show ?thesis by simp
  next
    case True
    then obtain p where p: "new_point dto d now (lv_status v) i = Some p"
      and ins: "insert_point dto d now (lv_status v) i (with_redis rd1 w) = Some ((with_redis rd1 w)\<lparr>tk_points := tk_points w @ [p]\<rparr>)"
      by (auto simp: insert_point_def split: if_splits)
    have w': "tk_points w' = tk_points w @ [p]"
      "tk_redis w' = snd (setLatestLocation d (location_payload dto d now) now rd1)"
      using i[unfolded eq] True ins by (auto simp: Let_def)
    have rec: "cl_recordedAt (location_payload dto d now) = loc_recordedAt dto" by (simp add: location_payload_def)
    have r: "tk_redis w' = (if not_newer (loc_recordedAt dto) (cached_time (parse_cached (live (tk_redis w) now (latest_key d)))) then rd1
        else store (latest_key d) (RJson (cached_json (location_payload dto d now))) (Some (now + 86400000)) rd1)"
      unfolding w'(2) healthy_latest[OF rd1(1) d] rec live1 ..
    have "stored dto d now p w w'"
      using d True pl p w'(1) rd1 unfolding stored_def r by auto
    then show ?thesis by blast
  qed
qed

lemma telemetry_changes:
  assumes h: "healthy (tk_redis w)" and i: "processTelemetry dto d role now ep skip i now w = (r, w')"
  shows "stays w w' \<and> ((\<exists>e. r = Inl e) \<or> (\<exists>x. r = Inr x \<and> tr_idempotent x)) \<or> (\<exists>p. stored dto d now p w w')"
proof (cases "telemetry_check dto d role ep i now w")
  case (Inl e)
  with i h show ?thesis by (auto simp: processTelemetry_def stays_def)
next
  case (Inr x)
  then have "d \<noteq> []"
    by (auto simp: telemetry_check_def telemetry_guard_def split: if_splits)
  with Inr i h show ?thesis
    using ingest_changes[OF h, where d = d and dto = dto and ep = ep and skip = skip and i = i and now = now and r = r and w' = w']
    by (cases x) (auto simp: processTelemetry_def stays_def telemetry_check_def replayed_telemetry_def
        split: sum.splits option.splits)
qed

end
