(* ===== verification/GatewayLemmas.thy ===== *)
theory GatewayLemmas
  imports Gateway ConnLemmas TrackLemmas
begin

text \<open>
  What one event of the gateway can change: the sockets, the membership tables, and Redis.
\<close>

section \<open>Sockets\<close>

text \<open>Every socket of the new heap is one of the old: same identity, no new rooms.\<close>

definition comes_from :: "socket \<Rightarrow> socket \<Rightarrow> bool" where
  "comes_from s' s \<longleftrightarrow> sk_id s' = sk_id s \<and> map_option ident (sk_data s') = map_option ident (sk_data s) \<and>
     set (sk_rooms s') \<subseteq> set (sk_rooms s)"

definition shrinks :: "conn_state \<Rightarrow> conn_state \<Rightarrow> bool" where
  "shrinks st st' \<longleftrightarrow> map sk_id (cs_heap st') = map sk_id (cs_heap st) \<and>
     (\<forall>s' \<in> set (cs_heap st'). \<exists>s \<in> set (cs_heap st). comes_from s' s)"

definition tame :: "(socket \<Rightarrow> socket) \<Rightarrow> bool" where
  "tame f \<longleftrightarrow> (\<forall>s. comes_from (f s) s)"

lemma comes_from_refl [simp]: "comes_from s s"
  by (simp add: comes_from_def)

lemma comes_from_trans: "comes_from s2 s1 \<Longrightarrow> comes_from s1 s0 \<Longrightarrow> comes_from s2 s0"
  unfolding comes_from_def by (elim conjE, intro conjI) (simp, simp, rule order_trans)

lemma shrinks_refl [simp]: "shrinks st st"
  unfolding shrinks_def using comes_from_refl by blast

lemma shrinks_trans: "shrinks a b \<Longrightarrow> shrinks b c \<Longrightarrow> shrinks a c"
  unfolding shrinks_def by (metis comes_from_trans)

lemma shrinks_heap: "cs_heap st' = cs_heap st \<Longrightarrow> shrinks st st'"
  unfolding shrinks_def by (metis comes_from_refl)

lemma tame_on_socket: "tame f \<Longrightarrow> shrinks st (on_socket i f st)"
  unfolding shrinks_def tame_def
  by (auto simp: map_key_update_row comes_from_def) (auto simp: update_row_def update_where_def comes_from_def)

lemma tame_data: "(\<And>d. ident (f d) = ident d) \<Longrightarrow> tame (on_data f)"
  by (simp add: tame_def comes_from_def on_data_def option.map_comp o_def)

lemma tame_simps [simp]:
  "tame (socket_emit e p)" "tame socket_disconnect" "tame (on_data clear_timers)"
  "tame (\<lambda>s. socket_disconnect (socket_emit e p s))"
  by (rule tame_data | simp add: tame_def comes_from_def socket_emit_def socket_disconnect_def)+

lemma shrinks_remove [simp]: "shrinks st (removeSocket i st)"
proof (cases "data_of st i")
  case None
  then show ?thesis by (simp add: removeSocket_def shrinks_heap)
next
  case (Some d)
  have "cs_heap (without_socket i d st) = cs_heap (on_socket i (on_data clear_timers) st)" by (simp add: without_socket_def)
  then have "shrinks st (without_socket i d st)"
    using shrinks_trans[OF tame_on_socket shrinks_heap] tame_simps(3) by blast
  then show ?thesis using removeSocket_eq[OF _ Some] removeSocket_skip by (cases "i \<in> set (cs_sockets st)") simp_all
qed

lemma shrinks_drop [simp]: "shrinks st (drop_socket reason details now i st)"
  unfolding drop_socket_def by (rule shrinks_trans[OF tame_on_socket shrinks_remove]) simp

lemma shrinks_disconnect [simp]: "shrinks st (disconnectSockets xs reason details now st)"
  unfolding disconnectSockets_def
  by (induction xs arbitrary: st) (auto intro: shrinks_trans[OF shrinks_drop])

lemma shrinks_register [simp]: "shrinks st (registerSocket i now st)"
proof (cases "data_of st i")
  case (Some d)
  have "shrinks st (supersede d i now st)" by (simp add: supersede_def split: option.split)
  then show ?thesis using Some
    by (auto simp: registerSocket_def Let_def intro: shrinks_trans[OF _ shrinks_heap])
qed (simp add: registerSocket_def)

section \<open>Membership\<close>

text \<open>Conversations and calls are never removed and never change hands.\<close>

definition keeps_members :: "comm_world \<Rightarrow> comm_world \<Rightarrow> bool" where
  "keeps_members cw cw' \<longleftrightarrow>
     (\<lambda>c. (cnv_id c, cnv_ownerId c, cnv_driverId c)) ` set (cm_conversations cw)
       \<subseteq> (\<lambda>c. (cnv_id c, cnv_ownerId c, cnv_driverId c)) ` set (cm_conversations cw') \<and>
     (\<lambda>c. (cal_id c, cal_ownerId c, cal_driverId c)) ` set (cm_calls cw)
       \<subseteq> (\<lambda>c. (cal_id c, cal_ownerId c, cal_driverId c)) ` set (cm_calls cw')"

lemma keeps_refl [simp]: "keeps_members cw cw"
  by (simp add: keeps_members_def)

lemma keeps_trans: "keeps_members a b \<Longrightarrow> keeps_members b c \<Longrightarrow> keeps_members a c"
  unfolding keeps_members_def by (meson order_trans)

lemma keeps_same:
  "cm_conversations b = cm_conversations a \<Longrightarrow> map (\<lambda>c. (cal_id c, cal_ownerId c, cal_driverId c)) (cm_calls b) =
     map (\<lambda>c. (cal_id c, cal_ownerId c, cal_driverId c)) (cm_calls a) \<Longrightarrow> keeps_members a b"
  unfolding keeps_members_def by (metis (no_types, lifting) list.set_map order_refl)

lemma calls_update:
  assumes "\<And>c. (cal_id (f c), cal_ownerId (f c), cal_driverId (f c)) = (cal_id c, cal_ownerId c, cal_driverId c)"
  shows "map (\<lambda>c. (cal_id c, cal_ownerId c, cal_driverId c)) (update_where P f cs) =
    map (\<lambda>c. (cal_id c, cal_ownerId c, cal_driverId c)) cs"
  using assms by (induction cs) (auto simp: update_where_def)

lemma keeps_respond: "keeps_members cw (snd (respondToCallSession i action actor now now' cw))"
proof -
  have "keeps_members cw (snd (respond_write i action actor now now' cw))"
    by (rule keeps_same)
      (auto simp: respond_write_def claim_def Let_def comm_audit_def comm_emit_def broadcastCallResponded_def respond_row_def
        intro!: calls_update)
  then show ?thesis by (simp add: respondToCallSession_def split: sum.split)
qed

lemma keeps_end: "keeps_members cw (snd (endCallSession i actor now cw))"
proof -
  have "keeps_members cw (snd (end_write i actor now cw))"
    by (rule keeps_same)
      (auto simp: end_write_def update_row_def Let_def comm_audit_def comm_emit_def broadcastCallEnded_def end_row_def
        split: option.split intro!: calls_update)
  then show ?thesis by (simp add: endCallSession_def split: sum.split)
qed

section \<open>Redis\<close>

text \<open>The commands the gateway and the services it calls send at time \<open>t\<close>.\<close>

inductive rd_ops :: "timestamp \<Rightarrow> redis \<Rightarrow> redis \<Rightarrow> bool" for t rd where
  none: "rd_ops t rd rd"
| revoked: "rd_ops t rd rd' \<Longrightarrow> rd_ops t rd (snd (isRevoked k t rd'))"
| count: "rd_ops t rd rd' \<Longrightarrow> prefix ''throttle:'' k \<Longrightarrow> rd_ops t rd (snd (incrRateLimit k n t rd'))"
| claim: "rd_ops t rd rd' \<Longrightarrow> rd_ops t rd (snd (setNxEx (nonce_key dto) v 60 t rd'))"
| advance: "rd_ops t rd rd' \<Longrightarrow> rd_ops t rd (snd (verifyAndSetSequence (seq_key dto u) s 3600 t rd'))"
| read: "rd_ops t rd rd' \<Longrightarrow> rd_ops t rd (snd (redis_get k t rd'))"
| put: "rd_ops t rd rd' \<Longrightarrow> rd_ops t rd (redis_set (latest_key d) v n t rd')"

lemma rd_ops_trans: "rd_ops t b c \<Longrightarrow> rd_ops t a b \<Longrightarrow> rd_ops t a c"
  by (induction rule: rd_ops.induct) (auto intro: rd_ops.intros)

lemma ops_validate: "rd_ops t (aw_redis w) (aw_redis (snd (validateSocket data t w)))"
  by (auto simp: validateSocket_def Let_def split_beta intro!: rd_ops.intros split: option.split)

lemma ops_send: "rd_ops t (cm_redis cw) (cm_redis (snd (sendMessage c dto actor ep i t cw)))"
proof -
  have chk: "rd_ops t (cm_redis cw) (cm_redis (snd (send_check c dto actor ep t cw)))"
    by (auto simp: send_check_def Let_def split_beta chat_throttle_key_def intro!: rd_ops.intros split: sum.split)
  have "cm_redis (snd (send_write c dto actor ep i t w1)) = cm_redis w1" for w1
    by (simp add: send_write_def Let_def split: option.split)
  then show ?thesis using chk
    by (cases "send_check c dto actor ep t cw") (auto simp: sendMessage_def Let_def split_beta split: sum.split option.split)
qed

lemma ops_respond: "cm_redis (snd (respondToCallSession i action actor now now' cw)) = cm_redis cw"
  by (simp add: respondToCallSession_def respond_write_def Let_def split_beta comm_audit_def comm_emit_def
      broadcastCallResponded_def split: sum.split)

lemma ops_end: "cm_redis (snd (endCallSession i actor now cw)) = cm_redis cw"
  by (simp add: endCallSession_def end_write_def Let_def comm_audit_def comm_emit_def broadcastCallEnded_def
      split: sum.split option.split)

lemma ops_latest: "rd_ops t rd (snd (setLatestLocation d c t rd))"
  by (auto simp: setLatestLocation_def Let_def split_beta intro!: rd_ops.intros)

lemma ops_point: "rd_ops t rd (snd (validateSinglePoint dto d rcv t rd))"
  by (auto simp: validateSinglePoint_def Let_def split_beta intro!: rd_ops.intros split: option.split)

lemma ops_telemetry: "rd_ops t (tk_redis w) (tk_redis (snd (processTelemetry dto d role rcv ep skip i t w)))"
proof -
  obtain n rd1 where l: "(if skip then (0, tk_redis w) else incrRateLimit (location_throttle_key d) 1 t (tk_redis w)) = (n, rd1)"
    by fastforce
  obtain v rd2 where v: "validateSinglePoint dto d rcv t rd1 = (v, rd2)" by fastforce
  have "rd_ops t (tk_redis w) (snd (incrRateLimit (location_throttle_key d) 1 t (tk_redis w)))"
    by (rule rd_ops.count[OF rd_ops.none]) (simp add: location_throttle_key_def)
  then have 1: "rd_ops t (tk_redis w) rd1" using l by (auto intro: rd_ops.none split: if_splits)
  have 2: "rd_ops t (tk_redis w) rd2" using rd_ops_trans[OF ops_point[of t rd1 dto d rcv] 1] v by simp
  have 3: "rd_ops t (tk_redis w) (snd (setLatestLocation d c t rd2))" for c
    by (rule rd_ops_trans[OF ops_latest 2])
  have "rd_ops t (tk_redis w) (tk_redis (snd (ingest dto d rcv ep skip i t w)))"
    unfolding ingest_eq[OF l v] using 1 2 3
    by (auto simp: insert_point_def Let_def split: option.split)
  then show ?thesis
    by (auto simp: processTelemetry_def rd_ops.none split: sum.split option.split)
qed

end
