(* ===== verification/GatewaySteps.thy ===== *)
theory GatewaySteps
  imports GatewayLemmas
begin

text \<open>
  Histories of the gateway.  Every event is a \<open>benign\<close> change, which puts no socket into a room, followed in
  three cases by one socket joining one room it is entitled to.
\<close>

section \<open>Benign changes\<close>

abbreviation rds :: "rt_world \<Rightarrow> redis" where
  "rds w \<equiv> cm_redis (rt_comm w)"

definition benign :: "timestamp \<Rightarrow> rt_world \<Rightarrow> rt_world \<Rightarrow> bool" where
  "benign t w w' \<longleftrightarrow> shrinks (rt_conn w) (rt_conn w') \<and> keeps_members (rt_comm w) (rt_comm w') \<and> rd_ops t (rds w) (rds w')"

lemma benign_refl [simp]: "benign t w w"
  by (simp add: benign_def rd_ops.none)

lemma benign_trans: "benign t a b \<Longrightarrow> benign t b c \<Longrightarrow> benign t a c"
  unfolding benign_def using shrinks_trans keeps_trans rd_ops_trans by blast

lemma on_conn_simps [simp]:
  "rt_comm (on_conn f w) = rt_comm w" "rt_conn (on_conn f w) = f (rt_conn w)" "rt_points (on_conn f w) = rt_points w"
  by (simp_all add: on_conn_def)

lemma benign_conn: "shrinks (rt_conn w) (f (rt_conn w)) \<Longrightarrow> benign t w (on_conn f w)"
  by (simp add: benign_def rd_ops.none)

lemma benign_socket: "tame f \<Longrightarrow> benign t w (on_conn (on_socket i f) w)"
  by (rule benign_conn) (rule tame_on_socket)

lemma benign_after: "benign t w w1 \<Longrightarrow> (\<And>x. benign t x (f x)) \<Longrightarrow> benign t w (f w1)"
  using benign_trans by blast

lemma benign_ops [simp]:
  "benign t w (client_emit i e p w)" "benign t w (client_error i e c w)" "benign t w (stopHeartbeatTimers i w)"
  "benign t w (on_conn (removeSocket i) w)" "benign t w (on_conn (on_socket i socket_disconnect) w)"
  "benign t w (on_conn (registerSocket i now) w)"
  by (simp_all add: client_emit_def client_error_def stopHeartbeatTimers_def benign_socket benign_conn)

lemma ident_timers [simp]:
  "ident (d\<lparr>sd_heartbeatTimer := b\<rparr>) = ident d" "ident (d\<lparr>sd_pongTimer := b\<rparr>) = ident d"
  "ident (d\<lparr>sd_lastPingSentAt := x\<rparr>) = ident d" "ident (d\<lparr>sd_lastPongReceivedAt := x\<rparr>) = ident d"
  "ident (d\<lparr>sd_rttLatencyMs := y\<rparr>) = ident d"
  "ident (d\<lparr>sd_joinedRooms := rs\<rparr>) = ident d"
  by (simp_all add: ident_def)

lemma benign_heartbeat [simp]: "benign t w (startHeartbeatCycle i w)"
  unfolding startHeartbeatCycle_def by (rule benign_trans[OF benign_ops(3)]) (rule benign_socket, rule tame_data, simp)

lemma benign_connection [simp]: "benign t w (handleConnection i now w)"
  unfolding handleConnection_def
  by (auto split: option.split intro!: benign_trans[OF _ benign_heartbeat] benign_trans[OF _ benign_ops(1)])

lemma benign_disconnect [simp]: "benign t w (handleDisconnect i w)"
  unfolding handleDisconnect_def by (rule benign_trans[OF benign_ops(3) benign_ops(4)])

lemma benign_ping [simp]: "benign t w (sendHeartbeatPing i now w)"
proof -
  have "benign t w (on_conn (on_socket i (on_data (\<lambda>d. d\<lparr>sd_lastPingSentAt := Some now, sd_pongTimer := True\<rparr>))) w)"
    by (rule benign_socket, rule tame_data) simp
  then show ?thesis
    by (auto simp: sendHeartbeatPing_def split: option.split intro: benign_trans[OF _ benign_ops(1)])
qed

lemma benign_stale [simp]: "benign t w (handleStaleSocketTimeout i now w)"
  unfolding handleStaleSocketTimeout_def
  by (auto intro!: benign_trans[OF _ benign_ops(4)] benign_trans[OF _ benign_ops(5)] benign_trans[OF _ benign_ops(3)])

lemma benign_pong [simp]: "benign t w (handlePongMessage i p now w)"
  unfolding handlePongMessage_def by (rule benign_socket, rule tame_data) simp

lemma benign_leave [simp]: "benign t w (handleLeaveRoom i r w)"
proof -
  have "tame (\<lambda>s. on_data (\<lambda>d. d\<lparr>sd_joinedRooms := filter (\<lambda>x. x \<noteq> the r) (sd_joinedRooms d)\<rparr>)
      (s\<lparr>sk_rooms := filter (\<lambda>x. x \<noteq> the r) (sk_rooms s)\<rparr>))"
    by (auto simp: tame_def comes_from_def on_data_def option.map_comp o_def)
  then show ?thesis
    by (auto simp: handleLeaveRoom_def intro: benign_trans[OF benign_socket benign_ops(1)])
qed

lemma benign_revocation [simp]: "benign t w (handleRevocationMessage m now w)"
  by (auto simp: handleRevocationMessage_def disconnectSession_def disconnectDevice_def disconnectUser_def Let_def
      intro!: benign_conn)

section \<open>The check of the socket\<close>

lemma view_redis [simp]: "aw_redis (auth_view w) = rds w"
  by (simp add: auth_view_def)

lemma rt_redis_simps [simp]:
  "rds (rt_redis rd w) = rd" "rt_conn (rt_redis rd w) = rt_conn w" "rt_points (rt_redis rd w) = rt_points w"
  "cm_conversations (rt_comm (rt_redis rd w)) = cm_conversations (rt_comm w)"
  "cm_calls (rt_comm (rt_redis rd w)) = cm_calls (rt_comm w)"
  "cm_deliveries (rt_comm (rt_redis rd w)) = cm_deliveries (rt_comm w)"
  "cm_emitted (rt_comm (rt_redis rd w)) = cm_emitted (rt_comm w)"
  by (simp_all add: rt_redis_def)

lemma benign_redis: "rd_ops t (rds w) rd \<Longrightarrow> benign t w (rt_redis rd w)"
  by (simp add: benign_def keeps_members_def)

definition checked :: "string \<Rightarrow> timestamp \<Rightarrow> rt_world \<Rightarrow> rt_world" where
  "checked i now w = rt_redis (aw_redis (snd (validateSocket (client_data i w) now (auth_view w)))) w"

definition socket_valid :: "string \<Rightarrow> timestamp \<Rightarrow> rt_world \<Rightarrow> bool" where
  "socket_valid i now w \<longleftrightarrow> fst (validateSocket (client_data i w) now (auth_view w)) = Inr ()"

lemma benign_checked [simp]: "benign t w (checked i t w)"
  unfolding checked_def by (rule benign_redis) (use ops_validate[of t "auth_view w"] in simp)

lemma client_data_conn: "rt_conn w' = rt_conn w \<Longrightarrow> client_data i w' = client_data i w"
  by (simp add: client_data_def)

lemma checked_frame [simp]:
  "rt_conn (checked i now w) = rt_conn w" "cm_conversations (rt_comm (checked i now w)) = cm_conversations (rt_comm w)"
  "cm_calls (rt_comm (checked i now w)) = cm_calls (rt_comm w)" "cm_emitted (rt_comm (checked i now w)) = cm_emitted (rt_comm w)"
  "cm_deliveries (rt_comm (checked i now w)) = cm_deliveries (rt_comm w)"
  "client_data j (checked i now w) = client_data j w"
  by (simp_all add: checked_def client_data_def)

text \<open>A refused socket is told, disconnected and removed; nothing is sent to a room.\<close>

lemma revalidate_cases:
  obtains (valid) "socket_valid i now w" "revalidateSensitiveSocket i now w = (True, checked i now w)"
  | (refused) w' where "\<not> socket_valid i now w" "revalidateSensitiveSocket i now w = (False, w')" "benign now w w'"
      "rt_comm w' = rt_comm (checked i now w)"
proof (cases "fst (validateSocket (client_data i w) now (auth_view w))")
  case (Inr u)
  then show thesis
    by (intro valid) (auto simp: socket_valid_def revalidateSensitiveSocket_def checked_def Let_def split_beta)
next
  case (Inl e)
  let ?w = "on_conn (removeSocket i) (on_conn (on_socket i socket_disconnect)
    (stopHeartbeatTimers i (client_error i ''auth_error'' ''UNAUTHORIZED'' (checked i now w))))"
  have "benign now w ?w"
    by (rule benign_trans[OF _ benign_ops(4)], rule benign_trans[OF _ benign_ops(5)],
        rule benign_trans[OF _ benign_ops(3)], rule benign_trans[OF _ benign_ops(2)]) simp
  moreover have "rt_comm ?w = rt_comm (checked i now w)"
    by (simp add: stopHeartbeatTimers_def client_error_def client_emit_def)
  ultimately show thesis using Inl
    by (intro refused[of ?w]) (simp_all add: socket_valid_def revalidateSensitiveSocket_def checked_def Let_def split_beta)
qed

lemma with_valid_cases:
  obtains (refused) w' where "\<not> socket_valid i now w" "with_valid_socket i now nu body w = w'" "benign now w w'"
      "rt_comm w' = rt_comm (checked i now w)"
  | (anonymous) "with_valid_socket i now nu body w = nu (checked i now w)"
  | (valid) d where "socket_valid i now w" "client_data i w = Some d" "sd_userId d \<noteq> []"
      "with_valid_socket i now nu body w = body d (checked i now w)"
proof (cases i now w rule: revalidate_cases)
  case (refused w')
  then show thesis by (intro that(1)[of w']) (simp_all add: with_valid_socket_def)
next
  case valid
  show thesis
  proof (cases "\<exists>d. client_data i w = Some d \<and> sd_userId d \<noteq> []")
    case True
    then obtain d where "client_data i w = Some d" "sd_userId d \<noteq> []" by blast
    with valid show thesis by (intro that(3)[of d]) (simp_all add: with_valid_socket_def)
  next
    case False
    with valid show thesis by (intro that(2)) (auto simp: with_valid_socket_def split: option.split)
  qed
qed

section \<open>Messages\<close>

lemma benign_comm:
  "keeps_members (rt_comm w) cw \<Longrightarrow> rd_ops t (rds w) (cm_redis cw) \<Longrightarrow> benign t w (w\<lparr>rt_comm := cw\<rparr>)"
  by (simp add: benign_def)

lemma benign_room [simp]: "benign t w (room_emit room ev p d w)"
  unfolding room_emit_def by (rule benign_comm) (simp_all add: comm_emit_def keeps_members_def rd_ops.none)

lemma send_members: "keeps_members cw (snd (sendMessage c dto actor ep i now cw))"
proof -
  have "cm_conversations (snd (send_check c dto actor ep now cw)) = cm_conversations cw \<and>
      cm_calls (snd (send_check c dto actor ep now cw)) = cm_calls cw"
    by (simp add: send_check_def Let_def split_beta split: sum.split)
  moreover have "cm_conversations (snd (send_write c dto actor ep i now w1)) = cm_conversations w1 \<and>
      cm_calls (snd (send_write c dto actor ep i now w1)) = cm_calls w1" for w1
    by (simp add: send_write_def Let_def split: option.split)
  ultimately show ?thesis
    by (cases "send_check c dto actor ep now cw")
      (auto simp: sendMessage_def Let_def split_beta keeps_members_def split: sum.split option.split)
qed

lemma benign_send: "benign t w (w\<lparr>rt_comm := snd (sendMessage c dto actor ep i t (rt_comm w))\<rparr>)"
  by (rule benign_comm) (simp_all add: send_members ops_send)

lemma benign_valid:
  assumes "benign t (checked i t w) (nu (checked i t w))"
    and "\<And>d. client_data i w = Some d \<Longrightarrow> benign t (checked i t w) (body d (checked i t w))"
  shows "benign t w (with_valid_socket i t nu body w)"
proof (cases rule: with_valid_cases[where i = i and now = t and w = w and nu = nu and body = body])
  case anonymous
  with assms(1) show ?thesis using benign_trans[OF benign_checked] by metis
next
  case (valid d)
  with assms(2) show ?thesis using benign_trans[OF benign_checked] by metis
qed simp

lemma benign_chat [simp]: "benign t w (handleChatMessageSend i c dto newId t w)"
  unfolding handleChatMessageSend_def
proof (rule benign_valid)
  fix d :: socket_data
  let ?w = "checked i t w"
  obtain r cw where r: "sendMessage c dto (socket_actor d) ''/v1/realtime'' newId t (rt_comm ?w) = (r, cw)" by fastforce
  then have 1: "benign t ?w (?w\<lparr>rt_comm := cw\<rparr>)"
    using benign_send[of t ?w c dto "socket_actor d" "''/v1/realtime''" newId] by simp
  show "benign t ?w (case sendMessage c dto (socket_actor d) ''/v1/realtime'' newId t (rt_comm ?w) of
          (Inl e, cw) \<Rightarrow> client_error i ''chat_error'' (code_or ''CHAT_SEND_FAILED'' e) (?w\<lparr>rt_comm := cw\<rparr>)
        | (Inr r, cw) \<Rightarrow>
            let m = mrs_message r;
                w1 = client_emit i ''chat.message.ack''
                  (JObj [(''messageId'', JStr (msg_id m)), (''status'', JStr ''SENT''),
                         (''createdAt'', JNum (of_int (msg_createdAt m)))]) (?w\<lparr>rt_comm := cw\<rparr>)
            in if mrs_idempotent r then w1
               else room_emit (''conversation:'' @ c) ''chat.message.relayed'' (relayed_message m) d w1)"
    using benign_trans[OF 1 benign_ops(1)] benign_trans[OF 1 benign_ops(2)] benign_trans[OF _ benign_room]
    unfolding r by (cases r) (simp_all add: Let_def)
qed simp

lemma telemetry_members: "keeps_members (tk_comm w) (tk_comm (snd (processTelemetry dto d role rcv ep skip i now w)))"
proof -
  obtain n rd1 where l: "(if skip then (0, tk_redis w) else incrRateLimit (location_throttle_key d) 1 now (tk_redis w)) = (n, rd1)"
    by fastforce
  obtain v rd2 where v: "validateSinglePoint dto d rcv now rd1 = (v, rd2)" by fastforce
  have rec: "cm_conversations (tk_comm (save_record dto d ep r now x)) = cm_conversations (tk_comm x)"
    "cm_calls (tk_comm (save_record dto d ep r now x)) = cm_calls (tk_comm x)" for r x
    by (simp_all add: save_record_def split: option.split)
  have redis: "cm_conversations (tk_comm (with_redis rd x)) = cm_conversations (tk_comm x)"
    "cm_calls (tk_comm (with_redis rd x)) = cm_calls (tk_comm x)" for rd x
    by (simp_all add: with_redis_def)
  have cast: "cm_conversations (tk_comm (broadcast_location dto d rcv x)) = cm_conversations (tk_comm x)"
    "cm_calls (tk_comm (broadcast_location dto d rcv x)) = cm_calls (tk_comm x)" for x
    by (simp_all add: broadcast_location_def comm_emit_def Let_def)
  have "keeps_members (tk_comm w) (tk_comm (snd (ingest dto d rcv ep skip i now w)))"
    unfolding ingest_eq[OF l v]
    by (rule keeps_same; auto simp: insert_point_def Let_def rec redis cast split: option.split)
  then show ?thesis by (auto simp: processTelemetry_def split: sum.split option.split)
qed

lemma view_track [simp]: "tk_redis (track_view w) = rds w" "tk_comm (track_view w) = rt_comm w"
  by (simp_all add: track_view_def tk_redis_def)

lemma benign_put: "keeps_members (rt_comm w) (tk_comm tw) \<Longrightarrow> rd_ops t (rds w) (tk_redis tw) \<Longrightarrow> benign t w (put_track tw w)"
  by (simp add: benign_def put_track_def tk_redis_def)

lemma benign_location [simp]: "benign t w (handleDriverLocationUpdate i dto newId t w)"
  unfolding handleDriverLocationUpdate_def
proof (rule benign_valid)
  fix d :: socket_data
  let ?w = "checked i t w"
  obtain r tw where r: "processTelemetry dto (the (sd_driverId d)) (sd_role d) t ''/v1/realtime'' False newId t (track_view ?w) = (r, tw)"
    by fastforce
  have 1: "benign t ?w (put_track tw ?w)"
    using telemetry_members[of "track_view ?w" dto "the (sd_driverId d)" "sd_role d" t "''/v1/realtime''" False newId t]
      ops_telemetry[of t "track_view ?w" dto "the (sd_driverId d)" "sd_role d" t "''/v1/realtime''" False newId] r
    by (intro benign_put) simp_all
  show "benign t ?w (if sd_role d \<noteq> ''DRIVER'' \<or> \<not> truthy (sd_driverId d) then client_error i ''location_error'' ''FORBIDDEN'' ?w
        else case processTelemetry dto (the (sd_driverId d)) (sd_role d) t ''/v1/realtime'' False newId t (track_view ?w) of
          (Inl e, tw) \<Rightarrow> client_error i ''location_error'' (code_or ''GPS_VALIDATION_FAILED'' e) (put_track tw ?w)
        | (Inr r, tw) \<Rightarrow>
            client_emit i ''location_accepted''
              (JObj [(''success'', JBool True),
                     (''data'', if tr_idempotent r then with_idempotent (telemetry_json r) else telemetry_json r)])
              (put_track tw ?w))"
    using benign_trans[OF 1 benign_ops(1)] benign_trans[OF 1 benign_ops(2)] unfolding r by (cases r) simp_all
qed simp

lemma benign_hangup [simp]: "benign t w (handleWebrtcCallHangup i c t w)"
  unfolding handleWebrtcCallHangup_def
proof (rule benign_valid)
  fix d :: socket_data
  let ?w = "checked i t w"
  obtain r cw where r: "endCallSession c (call_actor d) t (rt_comm ?w) = (r, cw)" by fastforce
  then have 1: "benign t ?w (?w\<lparr>rt_comm := cw\<rparr>)"
    using keeps_end[of "rt_comm ?w" c "call_actor d" t] ops_end[of c "call_actor d" t "rt_comm ?w"]
    by (intro benign_comm) (simp_all add: rd_ops.none)
  show "benign t ?w (case endCallSession c (call_actor d) t (rt_comm ?w) of
          (Inl e, cw) \<Rightarrow> client_error i ''call_error'' ''HANGUP_FAILED'' (?w\<lparr>rt_comm := cw\<rparr>)
        | (Inr _, cw) \<Rightarrow> ?w\<lparr>rt_comm := cw\<rparr>)"
    using 1 benign_trans[OF 1 benign_ops(2)] unfolding r by (cases r) simp_all
qed simp

section \<open>Signals\<close>

lemma benign_replay: "benign t w (snd (validateWebrtcAntiReplay i dto u t w))"
proof -
  have c: "benign t w (rt_redis (snd (setNxEx (nonce_key dto) ''1'' 60 t (rds w))) w)"
    by (rule benign_redis) (rule rd_ops.claim[OF rd_ops.none])
  have a: "benign t x (rt_redis (snd (verifyAndSetSequence (seq_key dto u) (sg_seq dto) 3600 t (rds x))) x)" for x
    by (rule benign_redis) (rule rd_ops.advance[OF rd_ops.none])
  show ?thesis
    using benign_trans[OF c a] benign_trans[OF c benign_ops(2)] benign_trans[OF benign_trans[OF c a] benign_ops(2)]
    by (auto simp: validateWebrtcAntiReplay_def Let_def split_beta)
qed

lemma benign_limit: "benign t w (snd (candidate_limit i dto t w))"
proof -
  have c: "benign t w (rt_redis (snd (incrRateLimit (''throttle:ice:'' @ i @ '':'' @ sg_sessionId dto) 60 t (rds w))) w)"
    by (rule benign_redis) (rule rd_ops.count[OF rd_ops.none], simp)
  show ?thesis
    using c benign_trans[OF c benign_ops(2)] by (auto simp: candidate_limit_def Let_def split_beta)
qed

lemma benign_signal:
  assumes "\<And>x. benign t x (snd (limit i dto t x))"
  shows "benign t w (handleSignal field_name limit ev i dto t w)"
  unfolding handleSignal_def
proof (rule benign_valid)
  fix d :: socket_data
  let ?w = "checked i t w"
  obtain b w1 where 1: "validateWebrtcAntiReplay i dto (sd_userId d) t ?w = (b, w1)" by fastforce
  then have b1: "benign t ?w w1" using benign_replay[of t ?w i dto "sd_userId d"] by simp
  obtain a w2 where 2: "limit i dto t w1 = (a, w2)" by fastforce
  then have b2: "benign t ?w w2" using benign_trans[OF b1] assms[of w1] by simp
  show "benign t ?w (case assertWebrtcSignalAccess i d (sg_sessionId dto) t ?w of
          Inl e \<Rightarrow> client_error i ''call_error'' ''SIGNALING_FAILED'' ?w
        | Inr _ \<Rightarrow>
            let (isClean, w1) = validateWebrtcAntiReplay i dto (sd_userId d) t ?w in
            if \<not> isClean then w1
            else
              let (allowed, w2) = limit i dto t w1 in
              if \<not> allowed then w2
              else room_emit (session_room (sg_sessionId dto)) ev
                     (JObj [(''sessionId'', JStr (sg_sessionId dto)), (field_name, sg_body dto),
                            (''seq'', JNum (of_int (sg_seq dto))), (''nonce'', JStr (sg_nonce dto))]) d w2)"
    using b1 b2 benign_trans[OF b2 benign_room] unfolding 1 Let_def prod.case 2 by (simp split: sum.split)
qed simp

lemma benign_signals [simp]:
  "benign t w (handleWebrtcSignalOffer i dto t w)" "benign t w (handleWebrtcSignalAnswer i dto t w)"
  "benign t w (handleWebrtcSignalIceCandidate i dto t w)"
  by (simp_all add: handleWebrtcSignalOffer_def handleWebrtcSignalAnswer_def handleWebrtcSignalIceCandidate_def
      benign_signal benign_limit no_limit_def)

end
