(* ===== verification/Keys.thy ===== *)
theory Keys
  imports Calls
begin

text \<open>
  End-to-end encryption keys: \<open>e2ee-keys.service.ts\<close>.  Devices publish identity keys and batches of
  one-time prekeys; a sender takes one prekey of the recipient's device.  The taking is one SQL statement
  (\<open>UPDATE ... WHERE id = (SELECT ... FOR UPDATE SKIP LOCKED)\<close>): it skips the rows that other running
  statements have locked, which is the argument \<open>locked\<close>.
\<close>

section \<open>Publishing keys\<close>

record register_device_keys_dto =
  rdk_deviceId :: uuid
  rdk_identityKeyPublic :: string
  rdk_signedPrekeyPublic :: string
  rdk_signedPrekeySig :: string

definition own_device :: "uuid \<Rightarrow> uuid \<Rightarrow> comm_world \<Rightarrow> api_error + device" where
  "own_device deviceId actorUserId w =
     (case find_row dvc_id deviceId (cm_devices w) of
        None \<Rightarrow> fail_with NotFound []
      | Some d \<Rightarrow> if dvc_userId d \<noteq> actorUserId then fail_with Forbidden ''DEVICE_OWNERSHIP_REQUIRED'' else Inr d)"

definition set_keys :: "register_device_keys_dto \<Rightarrow> device_key \<Rightarrow> device_key" where
  "set_keys dto k =
     k\<lparr>dky_identityKeyPublic := rdk_identityKeyPublic dto, dky_signedPrekeyPublic := rdk_signedPrekeyPublic dto,
       dky_signedPrekeySig := rdk_signedPrekeySig dto\<rparr>"

definition registerDeviceKeys ::
  "register_device_keys_dto \<Rightarrow> uuid \<Rightarrow> uuid \<Rightarrow> comm_world \<Rightarrow> (device_key, comm_world) outcome" where
  "registerDeviceKeys dto actorUserId newId w =
     (case own_device (rdk_deviceId dto) actorUserId w of
        Inl e \<Rightarrow> (Inl e, w)
      | Inr _ \<Rightarrow>
          let (k, ks) =
                (case find_row dky_deviceId (rdk_deviceId dto) (cm_deviceKeys w) of
                   Some k \<Rightarrow>
                     (set_keys dto k, update_row dky_deviceId (rdk_deviceId dto) (set_keys dto) (cm_deviceKeys w))
                 | None \<Rightarrow>
                     let k = \<lparr>dky_id = newId, dky_deviceId = rdk_deviceId dto,
                              dky_identityKeyPublic = rdk_identityKeyPublic dto,
                              dky_signedPrekeyPublic = rdk_signedPrekeyPublic dto,
                              dky_signedPrekeySig = rdk_signedPrekeySig dto\<rparr>
                     in (k, cm_deviceKeys w @ [k]))
          in (Inr k,
              comm_audit (success_audit actorUserId ''E2EE_KEYS_REGISTERED'' ''DEVICE_KEY'' (dky_id k) JNull)
                (w\<lparr>cm_deviceKeys := ks\<rparr>)))"

record prekey_item =
  pki_keyId :: int
  pki_publicKey :: string

record upload_prekeys_dto =
  upk_deviceId :: uuid
  upk_prekeys :: "prekey_item list"

definition valid_upload :: "upload_prekeys_dto \<Rightarrow> bool" where
  "valid_upload dto \<longleftrightarrow> 1 \<le> length (upk_prekeys dto) \<and> length (upk_prekeys dto) \<le> 100 \<and>
     list_all (\<lambda>p. pki_publicKey p \<noteq> []) (upk_prekeys dto)"

text \<open>The column is a 32-bit integer; the validator admits every integer and the insert fails.\<close>

definition fits_int4 :: "int \<Rightarrow> bool" where
  "fits_int4 n \<longleftrightarrow> - (2 ^ 31) \<le> n \<and> n < 2 ^ 31"

text \<open>\<open>createMany\<close> with \<open>skipDuplicates\<close>: a row whose device and key id exist is not inserted.\<close>

definition add_prekey :: "uuid \<Rightarrow> prekey list \<Rightarrow> uuid \<times> prekey_item \<Rightarrow> prekey list" where
  "add_prekey deviceId ps ip =
     (if \<exists>p \<in> set ps. pky_deviceId p = deviceId \<and> pky_keyId p = pki_keyId (snd ip) then ps
      else ps @ [\<lparr>pky_id = fst ip, pky_deviceId = deviceId, pky_keyId = pki_keyId (snd ip),
                  pky_publicKey = pki_publicKey (snd ip), pky_isConsumed = False, pky_consumedAt = None\<rparr>])"

definition available :: "uuid \<Rightarrow> prekey \<Rightarrow> bool" where
  "available deviceId p \<longleftrightarrow> pky_deviceId p = deviceId \<and> \<not> pky_isConsumed p"

definition uploadPrekeys ::
  "upload_prekeys_dto \<Rightarrow> uuid \<Rightarrow> uuid list \<Rightarrow> comm_world \<Rightarrow> (nat \<times> nat, comm_world) outcome" where
  "uploadPrekeys dto actorUserId newIds w =
     (case own_device (upk_deviceId dto) actorUserId w of
        Inl e \<Rightarrow> (Inl e, w)
      | Inr _ \<Rightarrow>
          if \<not> list_all (\<lambda>p. fits_int4 (pki_keyId p)) (upk_prekeys dto) then (fail_with Internal [], w)
          else
            let ps = foldl (add_prekey (upk_deviceId dto)) (cm_prekeys w) (zip newIds (upk_prekeys dto));
                uploadedCount = length (upk_prekeys dto);
                totalAvailable = count_where (available (upk_deviceId dto)) ps
            in (Inr (uploadedCount, totalAvailable),
                comm_audit (success_audit actorUserId ''PREKEY_BATCH_UPLOADED'' ''PREKEY'' (upk_deviceId dto)
                    (JObj [(''uploadedCount'', JNum (of_nat uploadedCount)),
                           (''totalAvailable'', JNum (of_nat totalAvailable))]))
                  (w\<lparr>cm_prekeys := ps\<rparr>)))"

section \<open>Taking a prekey\<close>

record prekey_bundle =
  pkb_deviceId :: uuid
  pkb_identityKeyPublic :: string
  pkb_signedPrekeyPublic :: string
  pkb_signedPrekeySig :: string
  pkb_oneTimePrekey :: "(int \<times> string) option"

definition candidates :: "uuid \<Rightarrow> uuid list \<Rightarrow> prekey list \<Rightarrow> prekey list" where
  "candidates deviceId locked ps = sort_key pky_keyId (filter (\<lambda>p. available deviceId p \<and> pky_id p \<notin> set locked) ps)"

definition consume_row :: "timestamp \<Rightarrow> prekey \<Rightarrow> prekey" where
  "consume_row now p = p\<lparr>pky_isConsumed := True, pky_consumedAt := Some now\<rparr>"

definition take_prekey :: "uuid \<Rightarrow> uuid list \<Rightarrow> timestamp \<Rightarrow> prekey list \<Rightarrow> prekey option \<times> prekey list" where
  "take_prekey deviceId locked now ps =
     (case candidates deviceId locked ps of
        [] \<Rightarrow> (None, ps)
      | p # _ \<Rightarrow> (Some p, update_row pky_id (pky_id p) (consume_row now) ps))"

definition consumePrekeyBundle ::
  "uuid \<Rightarrow> uuid list \<Rightarrow> timestamp \<Rightarrow> comm_world \<Rightarrow> (prekey_bundle, comm_world) outcome" where
  "consumePrekeyBundle targetDeviceId locked now w =
     (case find_row dky_deviceId targetDeviceId (cm_deviceKeys w) of
        None \<Rightarrow> (fail_with NotFound [], w)
      | Some k \<Rightarrow>
          let (taken, ps) = take_prekey targetDeviceId locked now (cm_prekeys w) in
          (Inr \<lparr>pkb_deviceId = targetDeviceId, pkb_identityKeyPublic = dky_identityKeyPublic k,
                pkb_signedPrekeyPublic = dky_signedPrekeyPublic k, pkb_signedPrekeySig = dky_signedPrekeySig k,
                pkb_oneTimePrekey = map_option (\<lambda>p. (pky_keyId p, pky_publicKey p)) taken\<rparr>,
           w\<lparr>cm_prekeys := ps\<rparr>))"

definition getPrekeyStatus :: "uuid \<Rightarrow> uuid \<Rightarrow> comm_world \<Rightarrow> api_error + nat \<times> bool" where
  "getPrekeyStatus deviceId actorUserId w =
     (case own_device deviceId actorUserId w of
        Inl e \<Rightarrow> Inl e
      | Inr _ \<Rightarrow>
          let availablePrekeysCount = count_where (available deviceId) (cm_prekeys w)
          in Inr (availablePrekeysCount, availablePrekeysCount < 20))"

end
