(* ===== verification/AuthSteps.thy ===== *)
theory AuthSteps
  imports Auth
begin

text \<open>
  The requests that touch sessions as one datatype, and what every one of them does to the table of
  sessions: rows are only added and revoked, never removed, reassigned or activated again.
\<close>

section \<open>Requests\<close>

text \<open>
  \<open>FinishRefresh\<close> is the tail of a refresh whose lookup ran in an earlier state: \<open>existing\<close> is the row
  it has read then.
\<close>

datatype auth_request =
    Login login_dto string bool fresh_values timestamp
  | Refresh "string option" client_type bool fresh_values timestamp
  | FinishRefresh session fresh_values timestamp
  | Logout "uuid option" "uuid option" timestamp
  | LogoutAll "uuid option" timestamp
  | Register register_user_dto uuid
  | ChangeRole uuid string uuid timestamp
  | ChangeStatus uuid account_status uuid timestamp
  | ResetPassword uuid string uuid timestamp
  | RegisterDevice uuid register_device_dto uuid
  | RevokeDevice uuid uuid string timestamp
  | Authenticate jwt_payload timestamp

fun exec_auth :: "argon2 \<Rightarrow> (string \<Rightarrow> string) \<Rightarrow> auth_request \<Rightarrow> auth_world \<Rightarrow> auth_world" where
  "exec_auth lib h (Login dto ip hasRes fv now) w = snd (login lib h dto ip hasRes fv now w)"
| "exec_auth lib h (Refresh raw ct hasRes fv now) w = snd (refresh h raw ct hasRes fv now w)"
| "exec_auth lib h (FinishRefresh s fv now) w =
     snd (rotate_finish h s (fv_rawToken fv) (fv_sessionId fv) now w)"
| "exec_auth lib h (Logout i u now) w = logout i u now w"
| "exec_auth lib h (LogoutAll u now) w = logoutAll u now w"
| "exec_auth lib h (Register dto i) w = snd (registerUser lib dto i w)"
| "exec_auth lib h (ChangeRole u r a now) w = snd (updateUserRole u r a now w)"
| "exec_auth lib h (ChangeStatus u s a now) w = snd (updateUserStatus u s a now w)"
| "exec_auth lib h (ResetPassword u p a now) w = snd (adminResetPassword lib u p a now w)"
| "exec_auth lib h (RegisterDevice u dto i) w = snd (registerDevice u dto i w)"
| "exec_auth lib h (RevokeDevice d a r now) w = snd (revokeDevice d a r now w)"
| "exec_auth lib h (Authenticate p now) w = snd (validate p now w)"

inductive auth_served :: "argon2 \<Rightarrow> (string \<Rightarrow> string) \<Rightarrow> auth_world \<Rightarrow> auth_world \<Rightarrow> bool"
  for lib h where
  none: "auth_served lib h w w"
| more: "auth_served lib h w w' \<Longrightarrow> auth_served lib h w (exec_auth lib h r w')"

section \<open>The life of a session row\<close>

text \<open>What never changes in a row, and the flag that only goes up.\<close>

definition session_life :: "session \<Rightarrow> (uuid \<times> uuid \<times> uuid \<times> string \<times> uuid \<times> timestamp) \<times> bool" where
  "session_life s =
     ((ses_id s, ses_userId s, ses_deviceId s, ses_refreshTokenHash s, ses_tokenFamily s, ses_expiresAt s),
      ses_isRevoked s)"

fun life_edge :: "'a \<times> bool \<Rightarrow> 'a \<times> bool \<Rightarrow> bool" where
  "life_edge (c, b) (c', b') = (c = c' \<and> (b \<longrightarrow> b'))"

interpretation revoking: status_graph life_edge snd
  by unfold_locales auto

lemma life_edge_trans: "life_edge\<^sup>*\<^sup>* x y \<Longrightarrow> life_edge x y"
  by (induction rule: rtranclp_induct) (cases x; force)+

abbreviation sessions_live_on :: "(session \<Rightarrow> 'k) \<Rightarrow> session list \<Rightarrow> session list \<Rightarrow> bool" where
  "sessions_live_on key \<equiv> table_run key session_life life_edge"

lemma live_on_update:
  assumes "\<And>r. key (f r) = key r" and "\<And>r. life_edge (session_life r) (session_life (f r))"
  shows "sessions_live_on key ss (update_where P f ss)"
  using assms by (auto simp: table_run_def find_row_update_where)

lemma live_on_update_row:
  assumes "\<And>r. key (f r) = key r" and "\<And>r. life_edge (session_life r) (session_life (f r))"
  shows "sessions_live_on key ss (update_row ses_id i f ss)"
  unfolding update_row_def by (rule live_on_update) (fact assms)+

lemma live_on_append: "sessions_live_on key ss (ss @ new)"
  by (rule table_step_run[OF table_step_append])

lemma revoke_row_life [simp]: "life_edge (session_life r) (session_life (revoke_row r))"
  by (simp add: session_life_def revoke_row_def)

lemma rotate_row_life [simp]: "life_edge (session_life r) (session_life (rotate_row now r))"
  by (simp add: session_life_def rotate_row_def)

text \<open>The two columns by which rows are looked up.\<close>

definition lookup_column :: "(session \<Rightarrow> string) \<Rightarrow> bool" where
  "lookup_column key \<longleftrightarrow> key = ses_id \<or> key = ses_refreshTokenHash"

lemma lookup_columns [simp]: "lookup_column ses_id" "lookup_column ses_refreshTokenHash"
  by (simp_all add: lookup_column_def)

lemma column_kept:
  "lookup_column key \<Longrightarrow> key (revoke_row r) = key r"
  "lookup_column key \<Longrightarrow> key (rotate_row now r) = key r"
  by (auto simp: lookup_column_def revoke_row_def rotate_row_def)

lemma live_on_revoke:
  assumes "lookup_column key"
  shows "sessions_live_on key ss (update_where P revoke_row ss)"
    and "sessions_live_on key ss (update_row ses_id i revoke_row ss)"
  using column_kept(1)[OF assms] by (simp_all add: live_on_update live_on_update_row)

section \<open>Every operation\<close>

lemma insert_session_eq:
  "insert_session s w = Inr w' \<Longrightarrow> w' = w\<lparr>aw_sessions := aw_sessions w @ [s]\<rparr>"
  by (auto simp: insert_session_def split: if_splits)

lemma live_on_evict:
  assumes "lookup_column key"
  shows "sessions_live_on key (aw_sessions w) (aw_sessions (foldl (evict now) w ss))"
proof (induction ss arbitrary: w)
  case (Cons s ss)
  have "sessions_live_on key (aw_sessions w) (aw_sessions (evict now w s))"
    by (simp add: live_on_revoke(2)[OF assms])
  then show ?case
    using Cons.IH[of "evict now w s"] by (auto intro: table_run_trans)
qed simp

lemma live_on_create:
  assumes "lookup_column key" and "createSession h u d role raw fam i now w = (r, w')"
  shows "sessions_live_on key (aw_sessions w) (aw_sessions w')"
proof -
  define s where "s = new_session i u d (h raw) fam now"
  show ?thesis
  proof (cases "role = ''DRIVER''")
    case True
    then have c: "create_driver_session s raw now w = (r, w')"
      using assms(2) by (simp add: createSession_def s_def Let_def)
    let ?w1 = "revoke_session_keys (active_of (ses_userId s) (aw_sessions w)) now w"
    show ?thesis
    proof (cases "insert_session s (revoke_user_rows (ses_userId s) ?w1)")
      case (Inl e)
      then show ?thesis using c by (auto simp: create_driver_session_def Let_def)
    next
      case (Inr w3)
      then have "aw_sessions w' = update_where (\<lambda>t. ses_userId t = ses_userId s \<and> \<not> ses_isRevoked t) revoke_row
          (aw_sessions w) @ [s]"
        using c insert_session_eq[OF Inr] by (auto simp: create_driver_session_def Let_def)
      then show ?thesis
        using table_run_trans[OF live_on_revoke(1)[OF assms(1)] live_on_append] by simp
    qed
  next
    case False
    then have c: "create_limited_session s raw now w = (r, w')"
      using assms(2) by (simp add: createSession_def s_def Let_def)
    define w1 where "w1 = foldl (evict now) w (sessions_to_evict (ses_userId s) w)"
    have e: "sessions_live_on key (aw_sessions w) (aw_sessions w1)"
      unfolding w1_def by (rule live_on_evict[OF assms(1)])
    show ?thesis
    proof (cases "insert_session s w1")
      case (Inl err)
      then show ?thesis using c e by (simp add: create_limited_session_def Let_def w1_def)
    next
      case (Inr w2)
      then show ?thesis
        using c insert_session_eq[OF Inr] table_run_trans[OF e live_on_append]
        by (auto simp: create_limited_session_def Let_def w1_def)
    qed
  qed
qed

lemma family_frame [simp]:
  "aw_sessions (revokeTokenFamily s now w) =
     update_where (\<lambda>r. ses_tokenFamily r = ses_tokenFamily s) revoke_row (aw_sessions w)"
  "aw_users (revokeTokenFamily s now w) = aw_users w"
  by (simp_all add: revokeTokenFamily_def Let_def)

lemma live_on_reuse:
  "lookup_column key \<Longrightarrow> sessions_live_on key (aw_sessions w) (aw_sessions (snd (reuse_detected s now w)))"
  by (simp add: reuse_detected_def live_on_revoke)

lemma live_on_rotate_finish:
  assumes "lookup_column key"
  shows "sessions_live_on key (aw_sessions w) (aw_sessions (snd (rotate_finish h s raw i now w)))"
proof (cases "rotate_claim h s raw i now w")
  case None
  then show ?thesis using live_on_reuse[OF assms] by (simp add: rotate_finish_def)
next
  case (Some res)
  show ?thesis
  proof (cases res)
    case (Inl e)
    then show ?thesis using Some by (simp add: rotate_finish_def)
  next
    case (Inr a)
    obtain n ss where c: "claim ses_id not_revoked (rotate_row now) (ses_id s) (aw_sessions w) = (n, ss)"
      by fastforce
    have ss: "sessions_live_on key (aw_sessions w) ss"
      using c live_on_update[of key "rotate_row now"] column_kept(2)[OF assms]
      by (auto simp: claim_def simp del: life_edge.simps)
    show ?thesis
      using Some Inr c table_run_trans[OF ss live_on_append]
      by (auto simp: rotate_finish_def rotate_claim_def Let_def insert_session_def split: if_splits)
  qed
qed

lemma live_on_rotate:
  assumes "lookup_column key"
  shows "sessions_live_on key (aw_sessions w) (aw_sessions (snd (rotateSession h raw newRaw i now w)))"
  using live_on_reuse[OF assms] live_on_rotate_finish[OF assms]
  by (simp add: rotateSession_def split: rotate_check.split)

lemma login_throttle_frame:
  "login_throttle n ip now w = (r, w') \<Longrightarrow> \<exists>rd. w' = w\<lparr>aw_redis := rd\<rparr>"
  by (auto simp: login_throttle_def Let_def split: prod.splits if_splits)

lemma login_credentials_frame:
  "login_credentials lib dto w = (r, w') \<Longrightarrow>
   aw_sessions w' = aw_sessions w \<and> aw_users w' = aw_users w \<and> aw_devices w' = aw_devices w \<and>
   aw_roles w' = aw_roles w \<and> aw_drivers w' = aw_drivers w \<and> aw_redis w' = aw_redis w"
  by (auto simp: login_credentials_def split: option.splits if_splits)

lemma update_user_frame [simp]:
  "aw_sessions (update_user i f w) = aw_sessions w" "aw_devices (update_user i f w) = aw_devices w"
  "aw_roles (update_user i f w) = aw_roles w" "aw_drivers (update_user i f w) = aw_drivers w"
  "aw_redis (update_user i f w) = aw_redis w" "aw_users (update_user i f w) = update_row usr_id i f (aw_users w)"
  by (simp_all add: update_user_def)

lemma rehash_frame [simp]:
  "aw_sessions (rehash lib u pw w) = aw_sessions w" "aw_devices (rehash lib u pw w) = aw_devices w"
  "aw_roles (rehash lib u pw w) = aw_roles w" "aw_drivers (rehash lib u pw w) = aw_drivers w"
  "aw_redis (rehash lib u pw w) = aw_redis w"
  by (simp_all add: rehash_def)

lemma login_device_frame:
  "login_device dto u i now w = (d, w') \<Longrightarrow>
   aw_sessions w' = aw_sessions w \<and> aw_users w' = aw_users w \<and> aw_roles w' = aw_roles w \<and>
   aw_drivers w' = aw_drivers w \<and> aw_redis w' = aw_redis w"
  by (auto simp: login_device_def split: if_splits)

text \<open>A login that gets past the password, as the states before and after the session is created.\<close>

lemma login_cases:
  assumes "login lib h dto ip hasRes fv now w = (r, w')"
  obtains (refused) e where "r = Inl e" "aw_sessions w' = aw_sessions w" "aw_users w' = aw_users w"
  | (created) w1 w2 u d w5 rs w6 where
      "login_throttle (lgn_username dto) ip now w = (Inr (), w1)"
      "login_credentials lib dto w1 = (Inr u, w2)"
      "login_device dto (usr_id u) (fv_deviceId fv) now
         (rehash lib u (lgn_password dto) (on_redis (resetRateLimit (user_throttle_key (lgn_username dto))) w2)) = (d, w5)"
      "createSession h (usr_id u) d (usr_role u) (fv_rawToken fv) (fv_family fv) (fv_sessionId fv) now w5 = (rs, w6)"
      "aw_sessions w5 = aw_sessions w" "aw_sessions w' = aw_sessions w6"
      "\<And>e. rs = Inl e \<Longrightarrow> r = Inl e \<and> w' = w6"
      "\<And>s. rs = Inr s \<Longrightarrow> \<exists>web. r = Inr \<lparr>lga_accessToken = access_payload u (s\<lparr>sn_deviceId := d\<rparr>),
             lga_refreshToken = (if web then None else Some (sn_rawRefreshToken s)),
             lga_cookie = (if web then Some (sn_rawRefreshToken s) else None),
             lga_driverId = or_null (driver_of (usr_id u) w6)\<rparr> \<and>
           w' = log_audit (auth_audit (Some (usr_id u)) ''LOGIN_SUCCESS'' ''USER'' (usr_id u) ''SUCCESS'' JNull)
                  (update_user (usr_id u) (\<lambda>r. r\<lparr>usr_lastLoginAt := Some now\<rparr>) w6)"
proof -
  obtain r1 w1 where t: "login_throttle (lgn_username dto) ip now w = (r1, w1)" by fastforce
  obtain rd where w1: "w1 = w\<lparr>aw_redis := rd\<rparr>" using login_throttle_frame[OF t] by blast
  show thesis
  proof (cases r1)
    case (Inl e)
    then show thesis using assms t w1 by (intro refused[of e]) (auto simp: login_def)
  next
    case (Inr x)
    obtain r2 w2 where c: "login_credentials lib dto w1 = (r2, w2)" by fastforce
    note cf = login_credentials_frame[OF c]
    show thesis
    proof (cases r2)
      case (Inl e)
      then show thesis using assms t w1 Inr c cf by (intro refused[of e]) (auto simp: login_def)
    next
      case u: (Inr u)
      let ?w4 = "rehash lib u (lgn_password dto) (on_redis (resetRateLimit (user_throttle_key (lgn_username dto))) w2)"
      obtain d w5 where d: "login_device dto (usr_id u) (fv_deviceId fv) now ?w4 = (d, w5)" by fastforce
      obtain rs w6 where s: "createSession h (usr_id u) d (usr_role u) (fv_rawToken fv) (fv_family fv)
          (fv_sessionId fv) now w5 = (rs, w6)" by fastforce
      have l: "login lib h dto ip hasRes fv now w =
        (case rs of Inl e \<Rightarrow> (Inl e, w6)
         | Inr s \<Rightarrow>
            (Inr \<lparr>lga_accessToken = access_payload u (s\<lparr>sn_deviceId := d\<rparr>),
              lga_refreshToken = (if lgn_clientType dto = WEB_CLIENT \<and> hasRes then None else Some (sn_rawRefreshToken s)),
              lga_cookie = (if lgn_clientType dto = WEB_CLIENT \<and> hasRes then Some (sn_rawRefreshToken s) else None),
              lga_driverId = or_null (driver_of (usr_id u) w6)\<rparr>,
             log_audit (auth_audit (Some (usr_id u)) ''LOGIN_SUCCESS'' ''USER'' (usr_id u) ''SUCCESS'' JNull)
               (update_user (usr_id u) (\<lambda>r. r\<lparr>usr_lastLoginAt := Some now\<rparr>) w6)))"
        using t Inr c u d s by (simp add: login_def Let_def split: sum.split)
      show thesis
      proof (rule created[OF _ c[unfolded u] d s])
        show "login_throttle (lgn_username dto) ip now w = (Inr (), w1)" using t Inr by simp
        show "aw_sessions w5 = aw_sessions w" using login_device_frame[OF d] cf w1 by simp
        show "aw_sessions w' = aw_sessions w6" using assms l by (cases rs) auto
        show "r = Inl e \<and> w' = w6" if "rs = Inl e" for e using assms l that by simp
        show "\<exists>web. r = Inr \<lparr>lga_accessToken = access_payload u (s\<lparr>sn_deviceId := d\<rparr>),
             lga_refreshToken = (if web then None else Some (sn_rawRefreshToken s)),
             lga_cookie = (if web then Some (sn_rawRefreshToken s) else None),
             lga_driverId = or_null (driver_of (usr_id u) w6)\<rparr> \<and>
           w' = log_audit (auth_audit (Some (usr_id u)) ''LOGIN_SUCCESS'' ''USER'' (usr_id u) ''SUCCESS'' JNull)
                  (update_user (usr_id u) (\<lambda>r. r\<lparr>usr_lastLoginAt := Some now\<rparr>) w6)" if "rs = Inr s" for s
          using assms l that by (intro exI[of _ "lgn_clientType dto = WEB_CLIENT \<and> hasRes"]) simp
      qed
    qed
  qed
qed

lemma live_on_login:
  assumes "lookup_column key"
  shows "sessions_live_on key (aw_sessions w) (aw_sessions (snd (login lib h dto ip hasRes fv now w)))"
proof -
  obtain r w' where l: "login lib h dto ip hasRes fv now w = (r, w')" by fastforce
  from l show ?thesis
  proof (cases rule: login_cases)
    case refused
    then show ?thesis using l by simp
  next
    case created
    then show ?thesis using l live_on_create[OF assms created(4)] by simp
  qed
qed

lemma live_on_refresh:
  assumes "lookup_column key"
  shows "sessions_live_on key (aw_sessions w) (aw_sessions (snd (refresh h raw ct hasRes fv now w)))"
proof -
  obtain r w1 where r: "rotateSession h (the raw) (fv_rawToken fv) (fv_sessionId fv) now w = (r, w1)" by fastforce
  have "sessions_live_on key (aw_sessions w) (aw_sessions w1)"
    using live_on_rotate[OF assms, of w h "the raw" "fv_rawToken fv" "fv_sessionId fv" now] r by simp
  then show ?thesis
    using r by (simp add: refresh_def Let_def split: sum.split option.split)
qed

lemma validate_frame:
  "aw_sessions (snd (validate p now w)) = aw_sessions w \<and> aw_users (snd (validate p now w)) = aw_users w \<and>
   aw_devices (snd (validate p now w)) = aw_devices w"
  by (simp add: validate_def Let_def split: prod.split option.split)

lemma live_on_exec:
  assumes "lookup_column key"
  shows "sessions_live_on key (aw_sessions w) (aw_sessions (exec_auth lib h r w))"
proof (cases r)
  case (Logout i u now)
  then show ?thesis
    using live_on_revoke[OF assms] by (simp add: logout_def revokeSession_def split: option.split)
next
  case (RevokeDevice d a role now)
  then show ?thesis
    using live_on_revoke[OF assms] by (simp add: revokeDevice_def Let_def split: option.split)
next
  case (Register dto i)
  then show ?thesis by (simp add: registerUser_def Let_def)
next
  case (RegisterDevice u dto i)
  then show ?thesis by (simp add: registerDevice_def Let_def split: option.split)
qed (simp_all add: live_on_revoke[OF assms] live_on_login[OF assms] live_on_refresh[OF assms]
       live_on_rotate_finish[OF assms] validate_frame
       logoutAll_def revokeAllUserSessions_def updateUserRole_def updateUserStatus_def
       adminResetPassword_def Let_def split: option.split)

lemma live_on_served:
  assumes "auth_served lib h w w'" and "lookup_column key"
  shows "sessions_live_on key (aw_sessions w) (aw_sessions w')"
  using assms(1)
proof induction
  case (more w w' r)
  then show ?case using live_on_exec[OF assms(2)] by (blast intro: table_run_trans)
qed simp

lemma later_row:
  assumes "auth_served lib h w w'" and "lookup_column key" and "find_row key k (aw_sessions w) = Some s"
  obtains s' where "find_row key k (aw_sessions w') = Some s'" "ses_id s' = ses_id s"
    "ses_userId s' = ses_userId s" "ses_tokenFamily s' = ses_tokenFamily s"
    "ses_isRevoked s \<Longrightarrow> ses_isRevoked s'"
proof -
  obtain s' where s': "find_row key k (aw_sessions w') = Some s'" "life_edge (session_life s) (session_life s')"
    using live_on_served[OF assms(1,2)] assms(3) life_edge_trans unfolding table_run_def by blast
  then show thesis using that[OF s'(1)] by (simp add: session_life_def)
qed

end
