(* ===== verification/DeliveryProps.thy ===== *)
theory DeliveryProps
  imports Service
begin

text \<open>
  The properties of the delivery core: what every reachable state satisfies, and the behaviour of
  the single handlers on every branch.
\<close>

section \<open>Reachable states\<close>


definition demo_create :: create_delivery_dto where
  "demo_create = \<lparr>cd_deliveryCode = ''D-7'', cd_plannedStartAt = None,
     cd_items = [\<lparr>ci_itemCode = ''I'', ci_itemName = ''Box'', ci_quantity = 1, ci_unit = ''pc'',
                  ci_weightKg = None, ci_volumeM3 = None\<rparr>],
     cd_stops = [\<lparr>cs_sequence = 1, cs_destinationName = ''Shop'', cs_address = ''Road'',
                  cs_latitude = 1, cs_longitude = 2, cs_geofenceRadiusM = None\<rparr>]\<rparr>"

definition demo_ids :: "nat \<Rightarrow> uuid" where
  "demo_ids n = replicate (Suc n) (CHR ''x'')"

lemma demo_fresh: "fresh_ids demo_ids empty_world"
  by (auto simp: fresh_ids_def inj_def demo_ids_def empty_world_def)




text \<open>
  C3.  Refinement: whatever request a consistent state receives, the tables after the code's handler
  are reached from the tables before it by steps of the abstract lifecycle, and the invariant holds
  again.
\<close>

theorem exec_refines:
  assumes "core_inv (core_of w)" and "fresh_request r w"
  shows "core_step\<^sup>*\<^sup>* (core_of w) (core_of (exec r w)) \<and> core_inv (core_of (exec r w))"
  using exec_steps[OF assms] core_steps_inv[OF exec_steps[OF assms] assms(1)] by blast

theorem exec_refines_witness:
  "core_inv (core_of (sample_world EN_ROUTE S_ARRIVED S_SKIPPED)) \<and>
   core_inv (core_of (exec (Fail ''stp1'' None ''drv1'' ''usr1'' 5) (sample_world EN_ROUTE S_ARRIVED S_SKIPPED)))"
  using exec_refines[OF core_inv_sample, of EN_ROUTE "Fail ''stp1'' None ''drv1'' ''usr1'' 5" S_ARRIVED S_SKIPPED]
    core_inv_sample[of EN_ROUTE S_ARRIVED S_SKIPPED]
  by (simp del: exec.simps)



end
