(* ===== verification/PodProps.thy ===== *)
theory PodProps
  imports DeliveryProps
begin

text \<open>
  Properties of the proof of delivery, of the offline synchronisation with its conflict tickets, and
  of the creation of deliveries.
\<close>

section \<open>Replay of a submission\<close>

lemma auto_complete_driver:
  assumes "unique_keys dlv_id (deliveries w)" and "find_row dlv_id k (deliveries w) = Some d"
  shows "\<exists>d'. find_row dlv_id k (deliveries (completeDeliveryIfEligible i actor now w)) = Some d' \<and>
    dlv_driverId d' = dlv_driverId d"
  using assms(2)
  by (auto simp: auto_complete_deliveries[OF assms(1)] find_row_update_row row_defs
      split: completion.split option.split)

lemma verify_after_pod:
  assumes "getStopAndVerifyDriver j drv w = Inr (s, d)"
    and "deliveryStops w' = update_row stp_id j (pod_row now) (deliveryStops w)"
    and "find_row dlv_id (stp_deliveryId s) (deliveries w') = Some d'" and "dlv_driverId d' = dlv_driverId d"
  shows "\<exists>s' d''. getStopAndVerifyDriver j drv w' = Inr (s', d'')"
proof -
  have s: "find_row stp_id j (deliveryStops w) = Some s" "\<not> (truthy drv \<and> dlv_driverId d \<noteq> drv)"
    using assms(1) by (auto simp: getStopAndVerifyDriver_def split: option.splits if_splits)
  then show ?thesis
    using assms(2-4)
    by (auto simp: getStopAndVerifyDriver_def find_row_update_row row_defs)
qed

lemma pod_committed_record:
  assumes "stored_response (Some k) w = None"
  shows "\<exists>r. find_row idm_key k (idempotencyRecords (pod_committed i j dto u (Some k) podId now w)) = Some r \<and>
    idm_responseBody r = pod_result podId j now"
  using assms
  by (auto simp: pod_committed_def stored_response_def finish_idempotency_def find_row_update_row find_row_append)

text \<open>
  C8.  Submitting a proof of delivery is idempotent: a submission with an idempotency key that changed
  the database is answered again with the same body, marked as a replay, and the repetition changes
  nothing.
\<close>

theorem pod_submission_replays:
  assumes "core_inv (core_of w)" and "truthy (sp_idempotencyKey dto)"
    and "submitPod j dto actor endpoint podId now w = (r, w1)" and "w1 \<noteq> w"
  shows "\<exists>body. r = Inr body \<and>
    submitPod j dto actor endpoint podId' now' w1 = (Inr (with_idempotent body), w1)"
  using inv_keys(2)[OF assms(1)] inv_proofs[OF assms(1)]
proof (cases rule: submitPod_cases[of w j dto actor endpoint podId now])
  case (unchanged r')
  with assms(3,4) show ?thesis by simp
next
  case (committed s d)
  obtain k where k: "request_key (sp_idempotencyKey dto) (act_userId actor) endpoint = Some k"
    using assms(2) by (simp add: request_key_def)
  let ?w0 = "broadcastPodCreated (stp_deliveryId s) j podId actor
     (pod_committed (stp_deliveryId s) j dto (act_userId actor) (Some k) podId now w)"
  have w1: "w1 = completeDeliveryIfEligible (stp_deliveryId s) actor now ?w0"
    and r: "r = Inr (pod_result podId j now)"
    using committed(5) assms(3) by (simp_all add: k)
  obtain d' where "find_row dlv_id (stp_deliveryId s) (deliveries w1) = Some d'" "dlv_driverId d' = dlv_driverId d"
    using auto_complete_driver[of ?w0 "stp_deliveryId s" d] inv_keys(1)[OF assms(1)]
      verify_stop_found[OF committed(1)] unfolding w1 by fastforce
  then obtain s' d'' where v: "getStopAndVerifyDriver j (pod_actor_driver actor) w1 = Inr (s', d'')"
    using verify_after_pod[OF committed(1), of w1 now] by (auto simp: w1)
  have "stored_response (Some k) w1 = Some (with_idempotent (pod_result podId j now))"
    using pod_committed_record[OF committed(2)[unfolded k], of "stp_deliveryId s" j dto "act_userId actor" podId now]
    by (auto simp: w1 stored_response_def)
  then have "submitPod j dto actor endpoint podId' now' w1 = (Inr (with_idempotent (pod_result podId j now)), w1)"
    using v by (simp add: submitPod_def pod_actor_driver_def k)
  with r show ?thesis by blast
qed

definition demo_pod :: submit_pod_dto where
  "demo_pod = \<lparr>sp_receiverName = ''Ann'', sp_photoFileId = None, sp_signatureFileId = None,
     sp_notes = None, sp_idempotencyKey = Some ''key1''\<rparr>"

lemma demo_pod_commits:
  "\<exists>w1. submitPod ''stp1'' demo_pod (driver_actor ''usr1'' ''drv1'') podEndpoint ''pod1'' 9
     (sample_world EN_ROUTE S_ARRIVED S_PENDING) = (Inr (pod_result ''pod1'' ''stp1'' 9), w1) \<and>
     proofs w1 \<noteq> proofs (sample_world EN_ROUTE S_ARRIVED S_PENDING)"
proof -
  let ?w = "sample_world EN_ROUTE S_ARRIVED S_PENDING"
  let ?s = "sample_stop ''stp1'' 1 S_ARRIVED"
  have v: "getStopAndVerifyDriver ''stp1'' (Some ''drv1'') ?w = Inr (?s, sample_delivery EN_ROUTE)"
    by (simp add: getStopAndVerifyDriver_def sample_defs)
  have tx: "submitPod_tx ''dlv1'' ''stp1'' demo_pod ''usr1'' (Some (''key1'', ''usr1'', podEndpoint)) ''pod1'' 9 ?w =
      (Inr (pod_result ''pod1'' ''stp1'' 9),
       pod_committed ''dlv1'' ''stp1'' demo_pod ''usr1'' (Some (''key1'', ''usr1'', podEndpoint)) ''pod1'' 9 ?w)"
    by (rule submitPod_tx_commit[of ?w "''stp1''" ?s])
      (simp_all add: sample_defs parent_open_def terminal_delivery_def stored_response_def)
  have key: "request_key (sp_idempotencyKey demo_pod) ''usr1'' podEndpoint = Some (''key1'', ''usr1'', podEndpoint)"
    by (simp add: demo_pod_def request_key_def)
  have st: "stored_response (Some (''key1'', ''usr1'', podEndpoint)) ?w = None"
    by (simp add: stored_response_def sample_defs)
  have f: "stp_status ?s = S_ARRIVED" "stp_deliveryId ?s = ''dlv1''"
      "dlv_status (sample_delivery EN_ROUTE) = EN_ROUTE"
    by (simp_all add: sample_stop_def sample_delivery_def)
  show ?thesis
    by (simp add: submitPod_def driver_actor_def v key st f tx terminal_delivery_def Let_def)
qed

theorem pod_submission_replays_witness:
  "\<exists>w1. submitPod ''stp1'' demo_pod (driver_actor ''usr1'' ''drv1'') podEndpoint ''pod2'' 11 w1 =
     (Inr (with_idempotent (pod_result ''pod1'' ''stp1'' 9)), w1)"
proof -
  let ?w = "sample_world EN_ROUTE S_ARRIVED S_PENDING"
  obtain w1 where s: "submitPod ''stp1'' demo_pod (driver_actor ''usr1'' ''drv1'') podEndpoint ''pod1'' 9 ?w =
      (Inr (pod_result ''pod1'' ''stp1'' 9), w1)" "proofs w1 \<noteq> proofs ?w"
    using demo_pod_commits by blast
  have inv: "core_inv (core_of ?w)" by (rule core_inv_sample) simp
  have key: "truthy (sp_idempotencyKey demo_pod)" by (simp add: demo_pod_def)
  from s(2) have ne: "w1 \<noteq> ?w" by auto
  from pod_submission_replays[OF inv key s(1) ne, of "''pod2''" 11] show ?thesis by auto
qed

lemma core_step_keeps_proofs:
  "core_step c c' \<Longrightarrow> pod_deliveryStopId ` set (c_proofs c) \<subseteq> pod_deliveryStopId ` set (c_proofs c')"
proof (induction rule: core_step.induct)
  case (overridden t c j s ss now ds ps podId receiver photo u)
  have "set (map pod_deliveryStopId rows) \<subseteq> set (map pod_deliveryStopId (upsert_pod podId j receiver photo u now rows))" for rows
    by (cases "find_row pod_deliveryStopId j rows = None") (auto simp: upsert_pod_def map_key_update_row simp flip: set_map)
  then show ?case using overridden.hyps by (metis core.select_convs(3) core.surjective core.update_convs(3) list.set_map order_refl)
qed auto

lemma core_steps_keep_proofs:
  "core_step\<^sup>*\<^sup>* c c' \<Longrightarrow> pod_deliveryStopId ` set (c_proofs c) \<subseteq> pod_deliveryStopId ` set (c_proofs c')"
proof (induction rule: rtranclp_induct)
  case (step y z)
  from step.IH core_step_keeps_proofs[OF step.hyps(2)] show ?case by (rule subset_trans)
qed simp

text \<open>
  C9.  From a consistent state on, whatever is requested: a stop has at most one proof of delivery, a
  proof exists for delivered stops only, and no stop loses its proof.
\<close>

theorem proofs_unique_and_kept:
  assumes "core_inv (core_of w)" and "served w w'"
  shows "(\<forall>p \<in> set (proofs w'). \<forall>q \<in> set (proofs w'). pod_deliveryStopId p = pod_deliveryStopId q \<longrightarrow> p = q) \<and>
    (\<forall>p \<in> set (proofs w'). \<exists>s. find_row stp_id (pod_deliveryStopId p) (deliveryStops w') = Some s \<and>
        stp_status s = S_DELIVERED) \<and>
    (\<forall>p \<in> set (proofs w). \<exists>q \<in> set (proofs w'). pod_deliveryStopId q = pod_deliveryStopId p)"
proof -
  have inv: "core_inv (core_of w')"
    using served_inv[OF assms(2,1)] .
  have uniq: "p = q" if "p \<in> set (proofs w')" "q \<in> set (proofs w')" "pod_deliveryStopId p = pod_deliveryStopId q" for p q
    using find_row_unique[OF inv_keys(3)[OF inv] that(1)] find_row_unique[OF inv_keys(3)[OF inv] that(2)]
    unfolding that(3) by (metis option.inject)
  have kept: "pod_deliveryStopId ` set (proofs w) \<subseteq> pod_deliveryStopId ` set (proofs w')"
    using core_steps_keep_proofs[OF served_steps[OF assms(2,1)]] by simp
  have "\<exists>q \<in> set (proofs w'). pod_deliveryStopId q = pod_deliveryStopId p" if p: "p \<in> set (proofs w)" for p
  proof -
    have "pod_deliveryStopId p \<in> pod_deliveryStopId ` set (proofs w')"
      using kept p by blast
    then obtain q where "pod_deliveryStopId p = pod_deliveryStopId q" "q \<in> set (proofs w')"
      by (rule imageE)
    then show ?thesis by (intro bexI[of _ q]) simp_all
  qed
  then show ?thesis
    using inv_proofs[OF inv] uniq by blast
qed

theorem proofs_unique_and_kept_witness:
  "\<exists>w' p. served (sample_world EN_ROUTE S_ARRIVED S_PENDING) w' \<and> p \<in> set (proofs w') \<and>
     (\<exists>s. find_row stp_id (pod_deliveryStopId p) (deliveryStops w') = Some s \<and> stp_status s = S_DELIVERED)"
proof -
  let ?w = "sample_world EN_ROUTE S_ARRIVED S_PENDING"
  let ?r = "SubmitPod ''stp1'' demo_pod (driver_actor ''usr1'' ''drv1'') ''pod1'' 9"
  have inv: "core_inv (core_of ?w)" by (rule core_inv_sample) simp
  have sv: "served ?w (exec ?r ?w)" by (rule served.request[OF served.start]) simp
  have "proofs (exec ?r ?w) \<noteq> proofs ?w"
    using demo_pod_commits by fastforce
  moreover have "proofs ?w = []" by (simp add: sample_defs)
  ultimately obtain p where "p \<in> set (proofs (exec ?r ?w))"
    by (metis list.set_intros(1) neq_Nil_conv)
  with proofs_unique_and_kept[OF inv sv] sv show ?thesis by blast
qed

section \<open>Creating a delivery\<close>

definition new_stops :: "uuid \<Rightarrow> (nat \<Rightarrow> uuid) \<Rightarrow> nat \<Rightarrow> create_stop_dto list \<Rightarrow> delivery_stop list" where
  "new_stops i ids n dtos = map (\<lambda>(k, d). new_stop (ids k) i d) (enumerate n dtos)"

lemma insert_stops_valid:
  "list_all valid_create_stop dtos \<Longrightarrow>
   insert_stops i ids n dtos ss =
     (if distinct (map cs_sequence dtos) \<and>
         (\<forall>s \<in> set ss. stp_deliveryId s = i \<longrightarrow> stp_sequence s \<notin> cs_sequence ` set dtos)
      then Inr (ss @ new_stops i ids n dtos) else fail_with Internal ''P2010'')"
proof (induction dtos arbitrary: n ss)
  case Nil
  then show ?case by (simp add: new_stops_def)
next
  case (Cons d dtos)
  let ?s = "new_stop (ids n) i d"
  have s: "stp_deliveryId ?s = i" "stp_sequence ?s = cs_sequence d"
      "stp_latitude ?s = cs_latitude d" "stp_longitude ?s = cs_longitude d"
    by (simp_all add: new_stop_def)
  have one: "insert_stop ?s ss =
      (if \<exists>t \<in> set ss. stp_deliveryId t = i \<and> stp_sequence t = cs_sequence d
       then fail_with Internal ''P2010'' else Inr (ss @ [?s]))"
    using Cons.prems by (simp add: insert_stop_def s valid_create_stop_def)
  show ?case
  proof (cases "\<exists>t \<in> set ss. stp_deliveryId t = i \<and> stp_sequence t = cs_sequence d")
    case True
    then show ?thesis by (auto simp: one)
  next
    case False
    then show ?thesis
      using Cons.IH[of "Suc n" "ss @ [?s]"] Cons.prems s
      by (auto simp: one new_stops_def image_iff)
  qed
qed

text \<open>
   Creating a delivery with a valid body succeeds exactly when the delivery code is unused and
  the stop sequences are pairwise different.  Then the delivery is a DRAFT without driver, its stops
  are all PENDING in the order of the body, and nothing else changes in the tables of the lifecycle;
  otherwise the database is unchanged.
\<close>

theorem create_exactly_when:
  fixes u :: uuid
  assumes "core_inv (core_of w)" and "fresh_ids ids w" and "valid_create_delivery dto"
  defines "r \<equiv> createDelivery dto u ids w"
  shows "((\<exists>d. fst r = Inr d) \<longleftrightarrow>
            find_row dlv_code (cd_deliveryCode dto) (deliveries w) = None \<and>
            distinct (map cs_sequence (cd_stops dto))) \<and>
    (\<forall>d. fst r = Inr d \<longrightarrow>
        dlv_status d = DRAFT \<and> dlv_driverId d = None \<and> dlv_createdBy d = u \<and>
        deliveries (snd r) = deliveries w @ [d] \<and>
        deliveryStops (snd r) = deliveryStops w @ new_stops (dlv_id d) ids 1 (cd_stops dto) \<and>
        stops_of (dlv_id d) (deliveryStops (snd r)) = new_stops (dlv_id d) ids 1 (cd_stops dto) \<and>
        proofs (snd r) = proofs w \<and> conflicts (snd r) = conflicts w) \<and>
    ((\<nexists>d. fst r = Inr d) \<longrightarrow> snd r = w)"
proof -
  let ?i = "ids 0"
  have stops: "list_all valid_create_stop (cd_stops dto)"
    using assms(3) by (simp add: valid_create_delivery_def)
  have "find_row dlv_id ?i (deliveries w) = None"
    using assms(2) by (simp add: fresh_ids_def)
  then have none: "\<forall>s \<in> set (deliveryStops w). stp_deliveryId s \<noteq> ?i"
    using assms(1) by (auto simp: core_inv_def keys_ok_def)
  have id: "dlv_id (new_delivery ?i dto u) = ?i" by (simp add: new_delivery_def)
  have ins: "insert_stops ?i ids 1 (cd_stops dto) (deliveryStops w) =
      (if distinct (map cs_sequence (cd_stops dto))
       then Inr (deliveryStops w @ new_stops ?i ids 1 (cd_stops dto)) else fail_with Internal ''P2010'')"
    using none by (auto simp: insert_stops_valid[OF stops])
  have mine: "stops_of ?i (deliveryStops w @ new_stops ?i ids 1 (cd_stops dto)) = new_stops ?i ids 1 (cd_stops dto)"
    using none by (auto simp: stops_of_def new_stops_def new_stop_def filter_id_conv)
  show ?thesis
  proof (cases "find_row dlv_code (cd_deliveryCode dto) (deliveries w) = None \<and>
      distinct (map cs_sequence (cd_stops dto))")
    case True
    then have "r = (Inr (new_delivery ?i dto u),
        add_audit (success_audit u ''DELIVERY_CREATED'' ''DELIVERY'' ?i JNull)
          (w\<lparr>deliveries := deliveries w @ [new_delivery ?i dto u],
             deliveryItems := deliveryItems w @ map (new_item ?i) (cd_items dto),
             deliveryStops := deliveryStops w @ new_stops ?i ids 1 (cd_stops dto)\<rparr>))"
      unfolding r_def createDelivery_def Let_def id ins by simp
    with True mine show ?thesis
      by (simp add: id) (simp add: new_delivery_def)
  next
    case False
    then have "\<exists>e. r = (Inl e, w)"
      unfolding r_def createDelivery_def Let_def id ins by auto
    with False show ?thesis by auto
  qed
qed

theorem create_exactly_when_witness:
  "(\<exists>d. fst (createDelivery demo_create ''own1'' demo_ids empty_world) = Inr d) \<and>
   deliveries (snd (createDelivery (demo_create\<lparr>cd_stops := cd_stops demo_create @ cd_stops demo_create\<rparr>)
      ''own1'' demo_ids empty_world)) = []"
proof -
  let ?twice = "demo_create\<lparr>cd_stops := cd_stops demo_create @ cd_stops demo_create\<rparr>"
  have v: "valid_create_delivery demo_create" "valid_create_delivery ?twice"
    by (simp_all add: valid_create_delivery_def demo_create_def valid_create_item_def valid_create_stop_def
        text_upto_def optional_min_def)
  have "find_row dlv_code (cd_deliveryCode demo_create) (deliveries empty_world) = None"
      "distinct (map cs_sequence (cd_stops demo_create))"
      "\<not> distinct (map cs_sequence (cd_stops ?twice))" "deliveries empty_world = []"
    by (simp_all add: empty_world_def demo_create_def)
  with create_exactly_when[OF core_inv_empty demo_fresh v(1), of "''own1''"]
    create_exactly_when[OF core_inv_empty demo_fresh v(2), of "''own1''"]
  show ?thesis by auto
qed

end
