(* ===== verification/TicketProps.thy ===== *)
theory TicketProps
  imports PodProps
begin

text \<open>
  Properties of the offline synchronisation and of the resolution of its conflict tickets.
\<close>

section \<open>Synchronising with a cancelled delivery\<close>

definition about_cancelled :: "world \<Rightarrow> outbox_item \<Rightarrow> bool" where
  "about_cancelled w it \<longleftrightarrow>
     (\<exists>j s. jstring (payload_stop (ob_payload it)) = Some j \<and> j \<noteq> [] \<and> cancelled_stop j w = Some s)"

lemma cancelled_stop_cong:
  "deliveryStops w' = deliveryStops w \<Longrightarrow> deliveries w' = deliveries w \<Longrightarrow> cancelled_stop j w' = cancelled_stop j w"
  by (simp add: cancelled_stop_def cong: option.case_cong)

lemma jstring_truthy: "jstring x = Some j \<Longrightarrow> j \<noteq> [] \<Longrightarrow> jtruthy x"
  by (auto simp: jstring_def split: option.splits json.splits)

lemma sync_one_cancelled:
  assumes "about_cancelled w it"
  shows "\<exists>i. sync_one it drv u k now w =
    (Conflicted \<lparr>sc_clientEventId = ob_clientEventId it, sc_conflictId = k, sc_type = ''STALE_OFFLINE_COMPLETION''\<rparr>,
     w\<lparr>conflicts := conflicts w @ [new_conflict k i it]\<rparr>)"
  using assms jstring_truthy
  by (fastforce simp: about_cancelled_def sync_one_def Let_def)

lemma sync_loop_cancelled:
  "\<forall>it \<in> set its. about_cancelled w it \<Longrightarrow>
   \<exists>ts cs. sync_loop its drv u ids n now (acked, confl) w =
       ((acked, confl @ cs), w\<lparr>conflicts := conflicts w @ ts\<rparr>) \<and>
     map sc_clientEventId cs = map ob_clientEventId its \<and>
     map cfl_clientEventId ts = map ob_clientEventId its \<and>
     map cfl_clientPayload ts = map item_json its \<and> (\<forall>t \<in> set ts. cfl_status t = OPEN)"
proof (induction its arbitrary: n acked confl w)
  case Nil
  then show ?case by (intro exI[of _ "[]"]) simp
next
  case (Cons it its)
  obtain i where one: "sync_one it drv u (ids n) now w =
      (Conflicted \<lparr>sc_clientEventId = ob_clientEventId it, sc_conflictId = ids n, sc_type = ''STALE_OFFLINE_COMPLETION''\<rparr>,
       w\<lparr>conflicts := conflicts w @ [new_conflict (ids n) i it]\<rparr>)"
    using sync_one_cancelled Cons.prems by (metis list.set_intros(1))
  let ?c = "\<lparr>sc_clientEventId = ob_clientEventId it, sc_conflictId = ids n, sc_type = ''STALE_OFFLINE_COMPLETION''\<rparr>"
  let ?t = "new_conflict (ids n) i it"
  let ?w = "w\<lparr>conflicts := conflicts w @ [?t]\<rparr>"
  have "\<forall>it \<in> set its. about_cancelled ?w it"
    using Cons.prems cancelled_stop_cong[of ?w w] by (simp add: about_cancelled_def)
  from Cons.IH[OF this, of "Suc n" acked "confl @ [?c]"] obtain ts cs where
    "sync_loop its drv u ids (Suc n) now (acked, confl @ [?c]) ?w =
       ((acked, (confl @ [?c]) @ cs), ?w\<lparr>conflicts := conflicts ?w @ ts\<rparr>)"
    "map sc_clientEventId cs = map ob_clientEventId its" "map cfl_clientEventId ts = map ob_clientEventId its"
    "map cfl_clientPayload ts = map item_json its" "\<forall>t \<in> set ts. cfl_status t = OPEN" by blast
  then show ?case
    by (intro exI[of _ "?t # ts"] exI[of _ "?c # cs"]) (simp add: one, simp add: new_conflict_def)
qed

text \<open>
   An outbox whose events are all about stops of cancelled deliveries is answered with one
  conflict per event and no acknowledgement: each event is kept as an OPEN ticket with its payload,
  and no delivery, stop, proof, audit row or broadcast is touched.  No driver check is made: the
  answer is the same for every driver.
\<close>

theorem sync_with_cancelled_deliveries:
  assumes "\<forall>it \<in> set events. about_cancelled w it"
  shows "\<exists>ts cs. syncOutbox events drv u ids now w = (([], cs), w\<lparr>conflicts := conflicts w @ ts\<rparr>) \<and>
     map sc_clientEventId cs = map ob_clientEventId events \<and>
     map cfl_clientEventId ts = map ob_clientEventId events \<and>
     map cfl_clientPayload ts = map item_json events \<and> (\<forall>t \<in> set ts. cfl_status t = OPEN)"
  using sync_loop_cancelled[OF assms, of drv u ids 0 now "[]" "[]"] by (simp add: syncOutbox_def)

definition demo_event :: outbox_item where
  "demo_event = \<lparr>ob_clientEventId = ''e1'', ob_eventType = ''stop.pod'', ob_occurredAt = ''t'',
     ob_payload = JObj [(''stopId'', JStr ''stp1''), (''receiverName'', JStr ''Ann'')], ob_idempotencyKey = None\<rparr>"

lemma demo_event_cancelled: "about_cancelled (sample_world CANCELLED S_ARRIVED S_SKIPPED) demo_event"
  by (simp add: about_cancelled_def demo_event_def payload_stop_def jor_def jstring_def cancelled_stop_def
      sample_defs)

theorem sync_with_cancelled_deliveries_witness:
  "\<exists>cs. fst (syncOutbox [demo_event, demo_event] ''stranger'' ''usr9'' demo_ids 5
      (sample_world CANCELLED S_ARRIVED S_SKIPPED)) = ([], cs) \<and> length cs = 2"
proof -
  have "\<forall>it \<in> set [demo_event, demo_event]. about_cancelled (sample_world CANCELLED S_ARRIVED S_SKIPPED) it"
    using demo_event_cancelled by simp
  from sync_with_cancelled_deliveries[OF this, of "''stranger''" "''usr9''" demo_ids 5]
  obtain cs where "fst (syncOutbox [demo_event, demo_event] ''stranger'' ''usr9'' demo_ids 5
      (sample_world CANCELLED S_ARRIVED S_SKIPPED)) = ([], cs)"
      "map sc_clientEventId cs = map ob_clientEventId [demo_event, demo_event]"
    by auto
  moreover from this(2) have "length cs = 2"
    by (metis length_map length_Cons list.size(3) numeral_2_eq_2)
  ultimately show ?thesis by blast
qed

section \<open>Overriding a ticket\<close>

lemma override_stop_result:
  assumes "find_row stp_id j (deliveryStops w) = Some s"
  shows "override_stop c j u podId now w = Inr (w\<lparr>
     proofs := (if jtruthy (jget ''receiverName'' (evidence c))
       then upsert_pod podId j (case jstring (jget ''receiverName'' (evidence c)) of None \<Rightarrow> [] | Some n \<Rightarrow> n)
              (or_null (jstring (jget ''photoFileId'' (evidence c)))) u now (proofs w)
       else proofs w),
     deliveryStops := update_row stp_id j (pod_row now) (deliveryStops w),
     deliveries := (if override_completes (cfl_deliveryId c) (update_row stp_id j (pod_row now) (deliveryStops w))
       then update_row dlv_id (cfl_deliveryId c) (finish_row COMPLETED now) (deliveries w) else deliveries w)\<rparr>)"
  using assms by (simp add: override_stop_def Let_def)

lemma upsert_has_pod: "find_row pod_deliveryStopId j (upsert_pod podId j receiver photo u now ps) \<noteq> None"
  by (cases "find_row pod_deliveryStopId j ps")
    (auto simp: upsert_pod_def find_row_update_row find_row_append)

lemma completes_after_override:
  assumes "unique_keys stp_id ss" and "find_row stp_id j ss = Some s" and "stp_deliveryId s = i"
  shows "override_completes i (update_row stp_id j (pod_row now) ss) \<longleftrightarrow>
    (\<forall>r \<in> set (stops_of i ss). stp_id r = j \<or> terminal_stop (stp_status r))"
  using assms find_row_SomeD[OF assms(2)]
  by (auto simp: override_completes_def Let_def stops_of_def set_update_row list_all_iff list_ex_iff
      row_defs terminal_stop_def)


definition demo_ticket :: delivery_conflict where
  "demo_ticket = new_conflict ''cf1'' ''dlv1'' demo_event"

definition ticket_world :: world where
  "ticket_world = (sample_world CANCELLED S_ARRIVED S_SKIPPED)\<lparr>conflicts := [demo_ticket]\<rparr>"

lemma demo_ticket_stop: "ticket_stop demo_ticket = Some ''stp1''"
  unfolding demo_ticket_def
  by (rule ticket_stop_new) (simp add: demo_event_def payload_stop_def jor_def jstring_def)

lemma ticket_world_inv: "core_inv (core_of ticket_world)"
  using demo_ticket_stop
  by (auto simp: core_inv_def keys_ok_def verdict_ok_def proofs_ok_def tickets_ok_def core_of_def
      ticket_world_def sample_defs demo_ticket_def new_conflict_def)


end
