(* ===== verification/RouteProps.thy ===== *)
theory RouteProps
  imports TicketProps
begin

text \<open>
  Properties of the route service: optimality of the recommended tours, agreement between what is
  recommended, selected, reordered and read back, and the race of two requests with one key.
\<close>

section \<open>Recommended tours\<close>

definition allowed_order :: "bool \<Rightarrow> nat \<Rightarrow> nat list \<Rightarrow> bool" where
  "allowed_order fixedOrigin n order \<longleftrightarrow> mset order = mset [0..<n] \<and> (fixedOrigin \<longrightarrow> hd order = 0)"

text \<open>
  C11.  Exhaustive search is globally optimal with deterministic tie-breaking: the order it returns is
  a permutation of the waypoints (with the origin first when it is fixed) and no other such order has
  a smaller duration, at equal duration a smaller distance, or at equal both a smaller list of ids.
\<close>

theorem exhaustive_search_optimal:
  assumes "2 \<le> length ws"
  shows "\<exists>order. allowed_order fixedOrigin (length ws) order \<and>
    solveExhaustivePermutation ws dst dur fixedOrigin =
      tour_solution EXHAUSTIVE_PERMUTATION ws order (computeTourCost order dur) (computeTourCost order dst) \<and>
    (\<forall>other. allowed_order fixedOrigin (length ws) other \<longrightarrow>
       (computeTourCost order dur, computeTourCost order dst, tour_ids ws order) \<le>
       (computeTourCost other dur, computeTourCost other dst, tour_ids ws other))"
proof -
  have pos: "0 < length ws" using assms by linarith
  let ?order = "exhaustive_order ws dst dur fixedOrigin"
  have "allowed_order fixedOrigin (length ws) ?order"
    using exhaustive_order_candidate[OF pos, of dst dur fixedOrigin]
    unfolding candidate_orders_set[OF pos] allowed_order_def .
  moreover have "tour_key ws dst dur ?order \<le> tour_key ws dst dur other"
    if "allowed_order fixedOrigin (length ws) other" for other
    using exhaustive_order_least[OF pos] that
    unfolding candidate_orders_set[OF pos] allowed_order_def by blast
  ultimately show ?thesis
    using solveExhaustive_eq[OF assms, of dst dur fixedOrigin]
    by (intro exI[of _ ?order]) (simp add: tour_key_def Let_def)
qed

definition demo_waypoints :: "waypoint list" where
  "demo_waypoints = map (\<lambda>i. \<lparr>wp_id = i, wp_latitude = 0, wp_longitude = 0\<rparr>) [''a'', ''b'', ''c'']"

definition demo_matrix :: matrix where
  "demo_matrix = [[Some 0, Some 4, Some 1], [Some 4, Some 0, Some 2], [Some 1, Some 2, Some 0]]"

theorem exhaustive_search_optimal_witness:
  "\<exists>order. allowed_order True 3 order \<and>
     (computeTourCost order demo_matrix, computeTourCost order demo_matrix, tour_ids demo_waypoints order) \<le> (3, 3, ''a,c,b'')"
proof -
  have n: "2 \<le> length demo_waypoints" "length demo_waypoints = 3" by (simp_all add: demo_waypoints_def)
  have o: "allowed_order True 3 [0, 2, 1]"
    by (simp add: allowed_order_def upt_conv_Cons)
  have v: "computeTourCost [0, 2, 1] demo_matrix = 3" "tour_ids demo_waypoints [0, 2, 1] = ''a,c,b''"
    by (simp_all add: computeTourCost_def demo_matrix_def leg_def num_def tour_ids_def demo_waypoints_def upt_conv_Cons)
  from exhaustive_search_optimal[OF n(1), of True demo_matrix demo_matrix] o v n(2) show ?thesis by metis
qed



text \<open>
  A leg for which OSRM reports no road (\<open>null\<close>) is added as zero seconds and is therefore preferred:
  with no road from the first to the third stop, the recommended tour drives exactly there.
\<close>

definition gap_matrix :: matrix where
  "gap_matrix = [[Some 0, Some 4, None], [Some 4, Some 0, Some 2], [None, Some 2, Some 0]]"

theorem missing_road_preferred:
  "map wp_id (sol_orderedWaypoints (solveExhaustivePermutation demo_waypoints gap_matrix gap_matrix True)) =
     [''a'', ''c'', ''b''] \<and> leg gap_matrix 0 2 = None"
proof -
  have p: "generatePermutations [x, y] = [[x, y], [y, x]]" for x y :: nat
    by (simp add: generatePermutations.simps[of "[x, y]"] generatePermutations.simps[of "[x]"]
        generatePermutations.simps[of "[y]"] upt_conv_Cons)
  have c: "candidate_orders (length demo_waypoints) True = [[0, 1, 2], [0, 2, 1]]"
    by (simp add: candidate_orders_def demo_waypoints_def upt_conv_Cons numeral_3_eq_3 numeral_2_eq_2 p)
  have costs: "computeTourCost [0, 1, 2] gap_matrix = 6" "computeTourCost [0, 2, 1] gap_matrix = 2"
    by (simp_all add: computeTourCost_def gap_matrix_def leg_def num_def upt_conv_Cons)
  have "exhaustive_best demo_waypoints gap_matrix gap_matrix True = Some (2, 2, [0, 2, 1])"
    unfolding exhaustive_best_def c foldl.simps exhaustive_step_def Let_def better_tour_def costs by simp
  then show ?thesis
    by (simp add: solveExhaustivePermutation_def demo_waypoints_def gap_matrix_def leg_def)
qed

section \<open>From the recommendation to the selection\<close>

lemma verify_access_frame:
  assumes "verifyDeliveryAccess i actor w = Inr (d, stops)"
    and "deliveries w' = update_row dlv_id i (mode_row source) (deliveries w)"
  shows "\<exists>d'. verifyDeliveryAccess i actor w' = Inr (d', sort_key stp_sequence (stops_of i (deliveryStops w')))"
  using assms
  by (auto simp: verifyDeliveryAccess_def find_row_update_row row_defs split: option.splits if_splits)

lemma verify_access_stops:
  "verifyDeliveryAccess i actor w = Inr (d, stops) \<Longrightarrow> stops = sort_key stp_sequence (stops_of i (deliveryStops w))"
  by (auto simp: verifyDeliveryAccess_def split: option.splits if_splits)

lemma route_guard_stops:
  assumes "route_request_guard i actor now w = (Inr (d, stops), w1)"
  shows "verifyDeliveryAccess i actor w = Inr (d, stops)"
    and "\<exists>rd. w1 = w\<lparr>redisState := rd\<rparr>"
  using assms route_guard_world[OF assms]
  by (auto simp: route_request_guard_def split: sum.splits prod.splits if_splits)

lemma stops_unique:
  assumes "unique_keys stp_id ss"
  shows "unique_keys stp_id (sort_key f (stops_of i ss))"
proof -
  have "mset (map stp_id (sort_key f (stops_of i ss))) = mset (map stp_id (stops_of i ss))"
    by simp
  then show ?thesis
    using mset_eq_imp_distinct_iff distinct_map_filter[OF assms] unfolding stops_of_def by blast
qed

text \<open>
   What is recommended can be selected: the stops of a recommendation are all the stops of the
  delivery, each once and numbered from 1, so that as long as the stops of the delivery stay the same
  the checks of \<open>selectRoute\<close> accept exactly this list.
\<close>

theorem recommendation_is_selectable:
  assumes "unique_keys stp_id (deliveryStops w)"
    and "recommendRoute osrm i p actor now w = (Inr rc, w1)"
  defines "ids \<equiv> map rec_deliveryStopId (rcm_recommendedSequence rc)"
  defines "stops \<equiv> sort_key stp_sequence (stops_of i (deliveryStops w))"
  shows "stops_belong stops ids = Inr () \<and> validateCompleteStopSet stops ids None = Inr () \<and>
    map rec_sequence (rcm_recommendedSequence rc) = [1..<Suc (length ids)] \<and> hd ids = stp_id (hd stops)"
proof -
  obtain g1 where "route_request_guard i actor now w = g1" by blast
  with assms(2) obtain d stops' w' where g0: "route_request_guard i actor now w = (Inr (d, stops'), w')"
    by (cases g1; cases "fst g1") (auto simp: recommendRoute_def)
  have st: "stops' = stops"
    unfolding stops_def using verify_access_stops[OF route_guard_stops(1)[OF g0]] .
  have g: "stops \<noteq> []"
    and rc: "rcm_recommendedSequence rc =
      recommended_stops stops (sol_sequenceMap (opt_solution (optimizeRoute osrm (map stop_waypoint stops) p True)))"
    using assms(2) unfolding recommendRoute_def g0 st by (auto simp: Let_def split: if_splits)
  let ?sol = "opt_solution (optimizeRoute osrm (map stop_waypoint stops) p True)"
  let ?ws = "sol_orderedWaypoints ?sol"
  note o = optimizeRoute_orders[of osrm "map stop_waypoint stops" p]
  have seq: "sol_sequenceMap ?sol = sequence_map ?ws" using o by blast
  have ids: "ids = map wp_id ?ws"
    unfolding ids_def rc seq recommended_stops_def map_map comp_def
    using sequence_map_snd[of ?ws] by (simp add: case_prod_beta' comp_def)
  have nums: "map rec_sequence (rcm_recommendedSequence rc) = [1..<Suc (length ?ws)]"
    unfolding rc seq recommended_stops_def map_map comp_def
    using sequence_map_fst[of ?ws] by (simp add: case_prod_beta' comp_def del: upt_Suc)
  have "mset ids = mset (map wp_id (map stop_waypoint stops))"
    unfolding ids using o by (metis mset_map)
  then have m: "mset ids = mset (map stp_id stops)"
    by (simp add: stop_waypoint_def comp_def)
  have "distinct (map stp_id stops)"
    unfolding stops_def by (rule stops_unique[OF assms(1)])
  then have d: "distinct ids"
    using mset_eq_imp_distinct_iff[OF m] by blast
  have e: "set ids = set (map stp_id stops)"
    using mset_eq_setD[OF m] .
  have hd: "hd ids = stp_id (hd stops)"
  proof -
    have "hd ?ws = stop_waypoint (hd stops)" "?ws \<noteq> []"
      using o g by (auto simp: hd_map)
    then show ?thesis by (simp add: ids hd_map stop_waypoint_def)
  qed
  have "stops_belong stops ids = Inr ()" "validateCompleteStopSet stops ids None = Inr ()"
    unfolding stops_belong_iff validate_ids_iff using d e g by simp_all
  with nums hd show ?thesis by (simp add: ids)
qed

definition demo_route_actor :: route_actor where
  "demo_route_actor = \<lparr>ra_userId = ''own1'', ra_role = ''OWNER'', ra_driverId = None\<rparr>"

definition demo_osrm :: osrm_service where
  "demo_osrm = \<lparr>osrm_table = (\<lambda>_. None), osrm_route = (\<lambda>_. None)\<rparr>"

lemma demo_guard:
  "\<exists>w1. route_request_guard ''dlv1'' demo_route_actor 0 (sample_world ASSIGNED S_PENDING S_PENDING) =
     (Inr (sample_delivery ASSIGNED, [sample_stop ''stp1'' 1 S_PENDING, sample_stop ''stp2'' 2 S_PENDING]), w1)"
  by (simp add: route_request_guard_def verifyDeliveryAccess_def enforceRouteRateLimit_def incrRateLimit_def
      incr_value_def send_command_def live_def store_def demo_route_actor_def sample_defs terminal_delivery_def
      stops_of_def Let_def)

theorem recommendation_is_selectable_witness:
  "\<exists>rc w1. recommendRoute demo_osrm ''dlv1'' None demo_route_actor 0 (sample_world ASSIGNED S_PENDING S_PENDING) = (Inr rc, w1) \<and>
     hd (map rec_deliveryStopId (rcm_recommendedSequence rc)) = ''stp1''"
proof -
  let ?w = "sample_world ASSIGNED S_PENDING S_PENDING"
  obtain rc w1 where rc: "recommendRoute demo_osrm ''dlv1'' None demo_route_actor 0 ?w = (Inr rc, w1)"
    using demo_guard by (auto simp: recommendRoute_def Let_def)
  have keys: "unique_keys stp_id (deliveryStops ?w)" by (simp add: sample_defs)
  have "hd (sort_key stp_sequence (stops_of ''dlv1'' (deliveryStops ?w))) = sample_stop ''stp1'' 1 S_PENDING"
    by (simp add: sample_defs stops_of_def)
  with recommendation_is_selectable[OF keys rc] rc show ?thesis
    by (auto simp: sample_stop_def)
qed

section \<open>Reading back what was written\<close>

lemma views_of_rows:
  fixes w :: world
  assumes "\<forall>rs \<in> set rows. find_row stp_id (rst_deliveryStopId rs) (deliveryStops w) \<noteq> None"
  defines "views \<equiv> concat (map (\<lambda>rs. case find_row stp_id (rst_deliveryStopId rs) (deliveryStops w) of
                                      None \<Rightarrow> [] | Some s \<Rightarrow> [stop_view (rst_sequence rs) s]) rows)"
  shows "map rsv_deliveryStopId views = map rst_deliveryStopId rows \<and> map rsv_sequence views = map rst_sequence rows"
  using assms(1) unfolding views_def
  by (induction rows) (auto simp: stop_view_def dest: find_row_SomeD)

lemma current_route_after:
  assumes "routes w' = rs @ [r]" "rte_deliveryId r = i" "rte_version r = next_version i rs"
    and "routeStops w' = old @ new" "\<forall>x \<in> set old. rst_routeId x \<noteq> rte_id r" "\<forall>x \<in> set new. rst_routeId x = rte_id r"
    and "verifyDeliveryAccess i actor w' = Inr (d', stops')"
    and "\<forall>x \<in> set new. find_row stp_id (rst_deliveryStopId x) (deliveryStops w') \<noteq> None"
  shows "\<exists>views. getCurrentRoute i actor w' = Inr (LatestRoute r views) \<and>
    map rsv_deliveryStopId views = map rst_deliveryStopId (sort_key rst_sequence new) \<and>
    map rsv_sequence views = map rst_sequence (sort_key rst_sequence new)"
proof -
  obtain more where latest: "latest_first i w' = r # more"
    using latest_first_new[OF assms(1-3)] by (cases "latest_first i w'") auto
  have "filter (\<lambda>x. rst_routeId x = rte_id r) (old @ new) = new"
    using assms(5,6) by (simp add: filter_empty_conv)
  then show ?thesis
    using views_of_rows[of "sort_key rst_sequence new" w'] assms(8)
    by (simp add: getCurrentRoute_def assms(4,7) latest Let_def)
qed

lemma selected_sorted:
  "map rst_deliveryStopId (sort_key rst_sequence (selected_stops routeId ids)) = ids \<and>
   map rst_sequence (sort_key rst_sequence (selected_stops routeId ids)) = map (\<lambda>n. int n + 1) [0..<length ids]"
proof -
  have seqs: "map rst_sequence (selected_stops routeId ids) = map (\<lambda>n. int n + 1) [0..<length ids]"
    by (rule nth_equalityI) (simp_all add: selected_stops_def nth_enumerate_eq)
  have "sorted (map (\<lambda>n. int n + 1) [0..<length ids])"
    by (auto simp: sorted_iff_nth_mono)
  then have s: "sort_key rst_sequence (selected_stops routeId ids) = selected_stops routeId ids"
    by (intro sort_key_id_if_sorted) (simp only: seqs)
  have "map rst_deliveryStopId (selected_stops routeId ids) = ids"
    by (rule nth_equalityI) (simp_all add: selected_stops_def nth_enumerate_eq)
  with s seqs show ?thesis by simp
qed

text \<open>A keyed transaction that answers without a stored response has committed.\<close>

lemma run_keyed_fresh:
  assumes "run_keyed key tx after w = (Inr body, w')" and "stored_response key w = None"
  shows "\<exists>w1. tx w = Inr (body, w1) \<and> w' = after body w1"
  using assms by (auto simp: run_keyed_def split: sum.splits if_splits)

lemma broadcast_route_frame [simp]:
  "deliveries (broadcastRouteUpdated i body actor w) = deliveries w"
  "deliveryStops (broadcastRouteUpdated i body actor w) = deliveryStops w"
  "routes (broadcastRouteUpdated i body actor w) = routes w"
  "routeStops (broadcastRouteUpdated i body actor w) = routeStops w"
  "idempotencyRecords (broadcastRouteUpdated i body actor w) = idempotencyRecords w"
  by (simp_all add: broadcastRouteUpdated_def Let_def)

lemma stored_response_redis [simp]: "stored_response key (w\<lparr>redisState := rd\<rparr>) = stored_response key w"
  by (cases key) (simp_all add: stored_response_def)

lemma find_in_stops_of:
  assumes "unique_keys stp_id ss" and "j \<in> set (map stp_id (sort_key f (stops_of i ss)))"
  shows "find_row stp_id j ss \<noteq> None"
  using assms(2) by (auto simp: find_row_None_iff stops_of_def)

text \<open>
   A selected route is the route that is read back: after a selection that was not a replay, the
  current route is a new version, one above the highest so far, with the chosen source and exactly the
  chosen stops in the chosen order, numbered from 1.
\<close>

theorem selected_route_reads_back:
  assumes "unique_keys stp_id (deliveryStops w)"
    and "selectRoute i dto actor endpoint routeId now w = (Inr body, w')"
    and "stored_response (request_key (sr_idempotencyKey dto) (ra_userId actor) endpoint) w = None"
    and "\<forall>x \<in> set (routeStops w). rst_routeId x \<noteq> routeId"
  shows "\<exists>r views. getCurrentRoute i actor w' = Inr (LatestRoute r views) \<and> rte_id r = routeId \<and>
    rte_version r = next_version i (routes w) \<and> rte_source r = sr_source dto \<and>
    map rsv_deliveryStopId views = sr_recommendedSequence dto \<and>
    map rsv_sequence views = map (\<lambda>n. int n + 1) [0..<length (sr_recommendedSequence dto)]"
proof -
  let ?key = "request_key (sr_idempotencyKey dto) (ra_userId actor) endpoint"
  obtain g where "route_request_guard i actor now w = g" by blast
  with assms(2) obtain d stops w0 where g: "route_request_guard i actor now w = (Inr (d, stops), w0)"
    by (cases g; cases "fst g") (auto simp: selectRoute_def)
  note access = route_guard_stops(1)[OF g]
  obtain rd where w0: "w0 = w\<lparr>redisState := rd\<rparr>" using route_guard_stops(2)[OF g] by blast
  have none: "stored_response ?key w0 = None" by (simp add: w0 assms(3))
  have val: "validateCompleteStopSet stops (sr_recommendedSequence dto) None = Inr ()"
    and run: "run_keyed ?key (selectRoute_tx i dto ?key routeId now) (\<lambda>result. broadcastRouteUpdated i result actor) w0 = (Inr body, w')"
    using assms(2) none unfolding selectRoute_def g by (auto simp: Let_def split: sum.splits)
  obtain w2 where w2: "selectRoute_tx i dto ?key routeId now w0 = Inr (body, w2)"
    and w': "w' = broadcastRouteUpdated i body actor w2"
    using run_keyed_fresh[OF run none] by blast
  then obtain w1 where w1: "claim_key ?key now w0 = Inr w1"
    and wr: "write_route ?key 201 ''selectedAt'' (new_route routeId i (sr_source dto) (sr_totalDistanceMeters dto)
        (sr_estimatedDurationSeconds dto) now (routes w1)) (sr_estimatedDurationSeconds dto)
        (selected_stops routeId (sr_recommendedSequence dto)) w1 = Inr (body, w2)"
    by (auto simp: selectRoute_tx_def Let_def split: sum.splits)
  let ?r = "new_route routeId i (sr_source dto) (sr_totalDistanceMeters dto) (sr_estimatedDurationSeconds dto) now (routes w)"
  note fr = claim_key_frame[OF w1] and ok = write_route_ok[OF refl wr]
  have tables: "deliveries w' = update_row dlv_id i (mode_row (sr_source dto)) (deliveries w)"
      "routes w' = routes w @ [?r]" "deliveryStops w' = deliveryStops w"
      "routeStops w' = routeStops w @ selected_stops routeId (sr_recommendedSequence dto)"
    using fr ok by (simp_all add: w' w0)
  obtain d' stops' where access': "verifyDeliveryAccess i actor w' = Inr (d', stops')"
    using verify_access_frame[OF access tables(1)] by blast
  have r: "rte_deliveryId ?r = i" "rte_version ?r = next_version i (routes w)" "rte_id ?r = routeId" "rte_source ?r = sr_source dto"
    by (simp_all add: new_route_def)
  have ids: "\<forall>x \<in> set (selected_stops routeId (sr_recommendedSequence dto)). rst_routeId x = rte_id ?r \<and>
      rst_deliveryStopId x \<in> set (sr_recommendedSequence dto)"
    unfolding r(3) by (auto simp: selected_stops_def in_set_enumerate_eq)
  have known: "\<forall>x \<in> set (selected_stops routeId (sr_recommendedSequence dto)).
      find_row stp_id (rst_deliveryStopId x) (deliveryStops w') \<noteq> None"
    using ids val find_in_stops_of[OF assms(1)] verify_access_stops[OF access]
    unfolding tables(3) validate_ids_iff by blast
  from current_route_after[OF tables(2) r(1,2) tables(4) _ _ access' known] assms(4) ids r selected_sorted
  show ?thesis by simp blast
qed

definition demo_select :: "uuid option \<Rightarrow> select_route_dto" where
  "demo_select key = \<lparr>sr_source = SRC_RECOMMENDED_2OPT, sr_recommendedSequence = [''stp2'', ''stp1''],
     sr_totalDistanceMeters = 0, sr_estimatedDurationSeconds = 0, sr_idempotencyKey = key\<rparr>"

lemma write_route_succeeds:
  assumes "distinct (map rst_sequence stops)" "distinct (map rst_deliveryStopId stops)"
  shows "\<exists>result w'. write_route key status field (new_route routeId i source 0 0 now (routes w)) 0 stops w = Inr (result, w')"
proof -
  have "next_version i (routes w) \<notin> set (route_versions i (routes w))"
    using next_version_greater[of "next_version i (routes w)" i "routes w"] by auto
  with assms show ?thesis
    by (simp add: write_route_def create_route_def create_route_stops_def new_route_def Let_def)
qed

lemma demo_tx: "\<exists>body w'. selectRoute_tx ''dlv1'' (demo_select key) None ''rt1'' 0 w = Inr (body, w')"
  using write_route_succeeds[of "selected_stops ''rt1'' [''stp2'', ''stp1'']"]
  by (simp add: selectRoute_tx_def claim_key_def demo_select_def selected_stops_def Let_def)

lemma demo_select_commits:
  "\<exists>body w'. selectRoute ''dlv1'' (demo_select None) demo_route_actor selectEndpoint ''rt1'' 0
     (sample_world ASSIGNED S_PENDING S_PENDING) = (Inr body, w')"
proof -
  let ?stops = "[sample_stop ''stp1'' 1 S_PENDING, sample_stop ''stp2'' 2 S_PENDING]"
  obtain w1 where g: "route_request_guard ''dlv1'' demo_route_actor 0 (sample_world ASSIGNED S_PENDING S_PENDING) =
      (Inr (sample_delivery ASSIGNED, ?stops), w1)"
    using demo_guard by blast
  obtain body w2 where tx: "selectRoute_tx ''dlv1'' (demo_select None) None ''rt1'' 0 w1 = Inr (body, w2)"
    using demo_tx by blast
  have b: "stops_belong ?stops [''stp2'', ''stp1''] = Inr ()"
    by (simp add: stops_belong_def sample_stop_def)
  have v: "validateCompleteStopSet ?stops [''stp2'', ''stp1''] None = Inr ()"
    unfolding validate_ids_iff by (auto simp: sample_stop_def)
  have s: "sr_recommendedSequence (demo_select None) = [''stp2'', ''stp1'']" "sr_idempotencyKey (demo_select None) = None"
    by (simp_all add: demo_select_def)
  show ?thesis
    unfolding selectRoute_def g by (simp add: s b v tx run_keyed_def request_key_def stored_response_def)
qed

theorem selected_route_reads_back_witness:
  "\<exists>w' r views. getCurrentRoute ''dlv1'' demo_route_actor w' = Inr (LatestRoute r views) \<and> rte_version r = 1 \<and>
     map rsv_deliveryStopId views = [''stp2'', ''stp1'']"
proof -
  let ?w = "sample_world ASSIGNED S_PENDING S_PENDING"
  obtain body w' where s: "selectRoute ''dlv1'' (demo_select None) demo_route_actor selectEndpoint ''rt1'' 0 ?w = (Inr body, w')"
    using demo_select_commits by blast
  have h: "unique_keys stp_id (deliveryStops ?w)" "\<forall>x \<in> set (routeStops ?w). rst_routeId x \<noteq> ''rt1''"
      "stored_response (request_key (sr_idempotencyKey (demo_select None)) (ra_userId demo_route_actor) selectEndpoint) ?w = None"
      "next_version ''dlv1'' (routes ?w) = 1"
    by (simp_all add: sample_defs stored_response_def request_key_def demo_select_def next_version_def route_versions_def)
  have "sr_recommendedSequence (demo_select None) = [''stp2'', ''stp1'']"
    by (simp add: demo_select_def)
  with selected_route_reads_back[OF h(1) s h(3,2)] h(4) show ?thesis by metis
qed

text \<open>
  C13.  Manual reordering always succeeds on a complete, contiguous order: although the database
  enforces unique sequence numbers per delivery after every single update, the two passes never run
  into it.  Afterwards every stop of the delivery has the submitted number, every other stop is
  untouched, and the current route lists the stops in the submitted order.
\<close>

theorem reorder_succeeds_and_reads_back:
  assumes "unique_keys stp_id (deliveryStops w)" and "\<forall>s \<in> set (stops_of i (deliveryStops w)). 1 \<le> stp_sequence s"
    and g: "route_request_guard i actor now w = (Inr (d, stops), w0)"
    and key: "stored_response (request_key (mr_idempotencyKey dto) (ra_userId actor) endpoint) w = None"
    and val: "validateCompleteStopSet stops (map si_deliveryStopId (mr_stopSequence dto))
      (Some (map si_sequence (mr_stopSequence dto))) = Inr ()"
    and "\<forall>x \<in> set (routeStops w). rst_routeId x \<noteq> routeId"
  shows "\<exists>body w' r views. reorderStops i dto actor endpoint routeId now w = (Inr body, w') \<and>
    deliveryStops w' = renumbered_stops (item_pairs (mr_stopSequence dto)) (deliveryStops w) \<and>
    getCurrentRoute i actor w' = Inr (LatestRoute r views) \<and> rte_version r = next_version i (routes w) \<and>
    map rsv_deliveryStopId views = map si_deliveryStopId (sort_key si_sequence (mr_stopSequence dto))"
proof -
  let ?items = "mr_stopSequence dto"
  let ?ids = "map si_deliveryStopId ?items"
  let ?key = "request_key (mr_idempotencyKey dto) (ra_userId actor) endpoint"
  let ?ss = "renumbered_stops (item_pairs ?items) (deliveryStops w)"
  note access = route_guard_stops(1)[OF g]
  note stops = verify_access_stops[OF access]
  obtain rd where w0: "w0 = w\<lparr>redisState := rd\<rparr>" using route_guard_stops(2)[OF g] by blast
  have none: "stored_response ?key w0 = None" by (simp add: w0 key)
  have ids: "distinct ?ids" "set ?ids = set (map stp_id stops)" and seqs: "contiguous (map si_sequence ?items)"
    using val unfolding validate_seqs_iff validate_ids_iff by blast+
  have mine: "set ?ids = stp_id ` set (stops_of i (deliveryStops w))"
    unfolding ids(2) stops by simp
  have ren: "renumber ?items (deliveryStops w) = Inr ?ss"
    using renumber_ok[OF assms(1) ids(1) mine contiguousD[OF seqs] assms(2)] .
  obtain w1 where w1: "claim_key ?key now w0 = Inr w1"
    using none by (cases ?key) (auto simp: claim_key_def claim_idempotency_def stored_response_def)
  note fr = claim_key_frame[OF w1]
  let ?w1 = "w1\<lparr>deliveryStops := ?ss\<rparr>"
  let ?new = "reordered_stops routeId ?items"
  have new: "map rst_sequence ?new = map si_sequence ?items" "map rst_deliveryStopId ?new = ?ids"
    by (simp_all add: reordered_stops_def)
  obtain body w2 where wr: "write_route ?key 200 ''updatedAt'' (new_route routeId i SRC_MANUAL 0 0 now (routes ?w1)) 0 ?new ?w1 = Inr (body, w2)"
    using write_route_succeeds[of ?new] ids(1) contiguousD(1)[OF seqs] unfolding new by blast
  have tx: "reorderStops_tx i dto ?key routeId now w0 = Inr (body, w2)"
    using w1 wr ren fr by (simp add: reorderStops_tx_def w0)
  let ?w' = "broadcastRouteUpdated i body actor w2"
  let ?r = "new_route routeId i SRC_MANUAL 0 0 now (routes w)"
  have belong: "stops_belong stops ?ids = Inr ()"
    unfolding stops_belong_iff ids(2) by simp
  have committed: "reorderStops i dto actor endpoint routeId now w = (Inr body, ?w')"
    unfolding reorderStops_def g using none belong val tx by (simp add: run_keyed_def Let_def)
  note ok = write_route_ok[OF refl wr]
  have tables: "deliveries ?w' = update_row dlv_id i (mode_row SRC_MANUAL) (deliveries w)"
      "routes ?w' = routes w @ [?r]" "deliveryStops ?w' = ?ss" "routeStops ?w' = routeStops w @ ?new"
    using fr ok by (simp_all add: w0)
  obtain d' stops' where access': "verifyDeliveryAccess i actor ?w' = Inr (d', stops')"
    using verify_access_frame[OF access tables(1)] by blast
  have r: "rte_deliveryId ?r = i" "rte_version ?r = next_version i (routes w)" "rte_id ?r = routeId"
    by (simp_all add: new_route_def)
  have mem: "\<forall>x \<in> set ?new. rst_routeId x = rte_id ?r \<and> rst_deliveryStopId x \<in> set ?ids"
    unfolding r(3) by (auto simp: reordered_stops_def)
  have known: "\<forall>x \<in> set ?new. find_row stp_id (rst_deliveryStopId x) (deliveryStops ?w') \<noteq> None"
    using mem find_in_stops_of[OF assms(1)] ids(2) unfolding tables(3) find_renumbered stops by fastforce
  have sorted: "map rst_deliveryStopId (sort_key rst_sequence ?new) = map si_deliveryStopId (sort_key si_sequence ?items)"
    by (simp add: reordered_stops_def sort_key_map comp_def)
  from current_route_after[OF tables(2) r(1,2) tables(4) _ _ access' known] assms(6) mem r obtain views where
    "getCurrentRoute i actor ?w' = Inr (LatestRoute ?r views)"
    "map rsv_deliveryStopId views = map rst_deliveryStopId (sort_key rst_sequence ?new)" by auto
  with committed tables(3) r(2) sorted show ?thesis by auto
qed

definition demo_reorder :: manual_reorder_dto where
  "demo_reorder = \<lparr>mr_stopSequence = [\<lparr>si_deliveryStopId = ''stp1'', si_sequence = 2\<rparr>,
       \<lparr>si_deliveryStopId = ''stp2'', si_sequence = 1\<rparr>], mr_idempotencyKey = Some ''key2''\<rparr>"

theorem reorder_succeeds_and_reads_back_witness:
  "\<exists>body w' r views. reorderStops ''dlv1'' demo_reorder demo_route_actor reorderEndpoint ''rt1'' 0
      (sample_world ASSIGNED S_PENDING S_PENDING) = (Inr body, w') \<and>
     map stp_sequence (deliveryStops w') = [2, 1] \<and>
     getCurrentRoute ''dlv1'' demo_route_actor w' = Inr (LatestRoute r views) \<and>
     map rsv_deliveryStopId views = [''stp2'', ''stp1'']"
proof -
  let ?w = "sample_world ASSIGNED S_PENDING S_PENDING"
  let ?stops = "[sample_stop ''stp1'' 1 S_PENDING, sample_stop ''stp2'' 2 S_PENDING]"
  obtain w1 where g: "route_request_guard ''dlv1'' demo_route_actor 0 ?w = (Inr (sample_delivery ASSIGNED, ?stops), w1)"
    using demo_guard by blast
  have h: "unique_keys stp_id (deliveryStops ?w)" "\<forall>s \<in> set (stops_of ''dlv1'' (deliveryStops ?w)). 1 \<le> stp_sequence s"
      "stored_response (request_key (mr_idempotencyKey demo_reorder) (ra_userId demo_route_actor) reorderEndpoint) ?w = None"
      "\<forall>x \<in> set (routeStops ?w). rst_routeId x \<noteq> ''rt1''"
    by (simp_all add: sample_defs stops_of_def stored_response_def request_key_def demo_reorder_def)
  have v: "validateCompleteStopSet ?stops (map si_deliveryStopId (mr_stopSequence demo_reorder))
      (Some (map si_sequence (mr_stopSequence demo_reorder))) = Inr ()"
    unfolding validate_seqs_iff validate_ids_iff
    by (auto simp: sample_stop_def demo_reorder_def contiguous_def)
  have s: "sort_key si_sequence (mr_stopSequence demo_reorder) = rev (mr_stopSequence demo_reorder)"
    by (simp add: demo_reorder_def)
  have n: "map stp_sequence (renumbered_stops (item_pairs (mr_stopSequence demo_reorder)) (deliveryStops ?w)) = [2, 1]"
    by (simp add: renumbered_stops_def item_pairs_def demo_reorder_def sample_defs)
  have i: "map si_deliveryStopId (rev (mr_stopSequence demo_reorder)) = [''stp2'', ''stp1'']"
    by (simp add: demo_reorder_def)
  from reorder_succeeds_and_reads_back[OF h(1,2) g h(3) v h(4)] n show ?thesis
    unfolding s i by metis
qed

section \<open>Two requests with one key\<close>

text \<open>
  C14.  Of two selections with one idempotency key that both found no stored answer, the one whose
  transaction runs second writes no route: it answers with the body of the first, marked as a replay,
  whatever its own content was.  The same holds of two reorderings.
\<close>

theorem keyed_requests_run_once:
  assumes "tx = selectRoute_tx i dto (Some k) routeId now \<and> tx' = (\<lambda>key. selectRoute_tx i' dto' key routeId' now') \<or>
      tx = reorderStops_tx i mdto (Some k) routeId now \<and> tx' = (\<lambda>key. reorderStops_tx i' mdto' key routeId' now')"
    and "tx w = Inr (body, w1)" and "idempotencyRecords v = idempotencyRecords w1"
  shows "run_keyed (Some k) (tx' (Some k)) after v = (Inr (with_idempotent body), v)"
proof -
  obtain r where r: "find_row idm_key k (idempotencyRecords v) = Some r" "idm_responseBody r = body"
    using assms selecting.recorded[where i = i and dto = dto and routeId = routeId and now = now and k = k and w = w]
      reordering.recorded[where i = i and dto = mdto and routeId = routeId and now = now and k = k and w = w]
    by fastforce
  then show ?thesis
    using assms(1) selecting.recorded_replays[OF r(1)] reordering.recorded_replays[OF r(1)] by auto
qed

theorem keyed_requests_run_once_witness:
  "\<exists>w1 body. selectRoute_tx ''dlv1'' (demo_select (Some ''k'')) (Some (''k'', ''own1'', selectEndpoint)) ''rt1'' 0
      (sample_world ASSIGNED S_PENDING S_PENDING) = Inr (body, w1) \<and>
    run_keyed (Some (''k'', ''own1'', selectEndpoint))
      (selectRoute_tx ''dlv1'' (demo_select (Some ''k'')) (Some (''k'', ''own1'', selectEndpoint)) ''rt2'' 3) (\<lambda>_ w. w) w1 =
      (Inr (with_idempotent body), w1)"
proof -
  let ?k = "(''k'', ''own1'', selectEndpoint)"
  let ?w = "sample_world ASSIGNED S_PENDING S_PENDING"
  obtain w0 where w0: "claim_key (Some ?k) 0 ?w = Inr w0"
    by (simp add: claim_key_def claim_idempotency_def sample_defs)
  have "\<exists>body w1. selectRoute_tx ''dlv1'' (demo_select (Some ''k'')) (Some ?k) ''rt1'' 0 ?w = Inr (body, w1)"
    using write_route_succeeds[of "selected_stops ''rt1'' [''stp2'', ''stp1'']"] w0
    by (simp add: selectRoute_tx_def demo_select_def selected_stops_def Let_def)
  then obtain body w1 where tx: "selectRoute_tx ''dlv1'' (demo_select (Some ''k'')) (Some ?k) ''rt1'' 0 ?w = Inr (body, w1)"
    by blast
  from keyed_requests_run_once[OF disjI1[OF conjI[OF refl refl]] tx refl] tx show ?thesis by blast
qed

end
