(* ===== verification/RedisProps.thy ===== *)
theory RedisProps
  imports RouteProps
begin

text \<open>
  Properties of the Redis wrapper under every pattern of command failures: a revocation is never
  reported as absent while it lasts, the set of uncertain keys stays bounded, rate limits count and
  sequence numbers only grow.
\<close>

section \<open>Revocation\<close>

datatype revocation_call = SetRevocation string timestamp | AskRevoked string timestamp

fun call_key :: "revocation_call \<Rightarrow> string" where
  "call_key (SetRevocation k t) = k"
| "call_key (AskRevoked k t) = k"

fun call_time :: "revocation_call \<Rightarrow> timestamp" where
  "call_time (SetRevocation k t) = t"
| "call_time (AskRevoked k t) = t"

text \<open>All callers of \<open>setRevocation\<close> pass 900 seconds.\<close>

fun run_call :: "redis \<Rightarrow> revocation_call \<Rightarrow> redis" where
  "run_call st (SetRevocation k t) = setRevocation k 900 t st"
| "run_call st (AskRevoked k t) = snd (isRevoked k t st)"

lemma send_command_frame:
  "send_command st = (ok, st') \<Longrightarrow>
   rd_connected st' = rd_connected st \<and> rd_data st' = rd_data st \<and> rd_uncertain st' = rd_uncertain st"
  by (auto simp: send_command_def split: list.splits)

lemma js_map_set_other: "(k, e) \<in> set m \<Longrightarrow> k \<noteq> j \<Longrightarrow> (k, e) \<in> set (js_map_set j v m)"
  by (induction j v m rule: js_map_set.induct) auto

lemma js_map_set_this: "(k, v) \<in> set (js_map_set k v m)"
  by (induction k v m rule: js_map_set.induct) auto

lemma js_map_set_length:
  "length (js_map_set k v m) = (if js_map_has k m then length m else Suc (length m))"
  by (induction k v m rule: js_map_set.induct) (auto simp: js_map_has_def)

lemma prune_frame [simp]:
  "rd_connected (pruneUncertainRevocationKeys t st) = rd_connected st"
  "rd_data (pruneUncertainRevocationKeys t st) = rd_data st"
  by (simp_all add: pruneUncertainRevocationKeys_def)

lemma prune_keeps: "(k, e) \<in> set (rd_uncertain st) \<Longrightarrow> t < e \<Longrightarrow>
   (k, e) \<in> set (rd_uncertain (pruneUncertainRevocationKeys t st))"
  by (simp add: pruneUncertainRevocationKeys_def)

lemma prune_length: "length (rd_uncertain (pruneUncertainRevocationKeys t st)) \<le> length (rd_uncertain st)"
  by (simp add: pruneUncertainRevocationKeys_def)

lemma mark_frame [simp]:
  "rd_connected (markRevocationUncertain k t st) = rd_connected st"
  "rd_data (markRevocationUncertain k t st) = rd_data st"
  by (simp_all add: markRevocationUncertain_def Let_def)

lemma mark_length:
  assumes "length (rd_uncertain st) < maxUncertainRevocationKeys"
  shows "length (rd_uncertain (markRevocationUncertain k t st)) \<le> Suc (length (rd_uncertain st))"
  using assms prune_length[of t st]
  by (auto simp: markRevocationUncertain_def Let_def js_map_set_length)

lemma mark_keeps:
  assumes "length (rd_uncertain st) < maxUncertainRevocationKeys"
    and "(k, e) \<in> set (rd_uncertain st)" and "t < e" and "k \<noteq> j"
  shows "(k, e) \<in> set (rd_uncertain (markRevocationUncertain j t st))"
proof -
  have "\<not> maxUncertainRevocationKeys \<le> length (rd_uncertain (pruneUncertainRevocationKeys t st))"
    using assms(1) prune_length[of t st] by linarith
  then show ?thesis
    using js_map_set_other[OF prune_keeps[OF assms(2,3)] assms(4)]
    by (simp add: markRevocationUncertain_def Let_def)
qed

lemma mark_this: "(k, t + uncertainRevocationTtlMs) \<in> set (rd_uncertain (markRevocationUncertain k t st))"
  by (simp add: markRevocationUncertain_def Let_def js_map_set_this)

text \<open>A key is secured until \<open>d\<close> when it is stored or uncertain until then.\<close>

definition secured :: "string \<Rightarrow> timestamp \<Rightarrow> redis \<Rightarrow> bool" where
  "secured k d st \<longleftrightarrow>
     (\<exists>e \<ge> d. (k, e) \<in> set (rd_uncertain st)) \<or> (\<exists>v. \<exists>e \<ge> d. rd_data st k = Some (v, Some e))"

lemma secured_cong:
  "secured k d st \<Longrightarrow> rd_data st' = rd_data st \<Longrightarrow> rd_uncertain st' = rd_uncertain st \<Longrightarrow> secured k d st'"
  by (simp add: secured_def)

lemma secured_prune: "secured k d st \<Longrightarrow> t < d \<Longrightarrow> secured k d (pruneUncertainRevocationKeys t st)"
  using prune_keeps unfolding secured_def by (metis order.strict_trans2 prune_frame(2))

lemma secured_mark:
  assumes "secured k d st" and "t < d" and "length (rd_uncertain st) < maxUncertainRevocationKeys"
    and "d \<le> t + uncertainRevocationTtlMs"
  shows "secured k d (markRevocationUncertain j t st)"
proof (cases "j = k")
  case True
  then show ?thesis using mark_this assms(4) unfolding secured_def by blast
next
  case False
  then show ?thesis
    using assms(1,2) mark_keeps[OF assms(3), of k _ t j] unfolding secured_def
    by (metis order.strict_trans2 mark_frame(2))
qed

lemma secured_set:
  assumes "secured k d st \<or> j = k" and "t < d" and "d \<le> t + uncertainRevocationTtlMs"
    and "length (rd_uncertain st) < maxUncertainRevocationKeys"
  shows "secured k d (setRevocation j 900 t st)"
proof -
  let ?p = "pruneUncertainRevocationKeys t st"
  have len: "length (rd_uncertain ?p) < maxUncertainRevocationKeys"
    using assms(4) prune_length[of t st] by linarith
  have marked: "secured k d (markRevocationUncertain j t st')"
    if "rd_data st' = rd_data ?p" "rd_uncertain st' = rd_uncertain ?p" for st'
  proof (cases "j = k")
    case True
    then show ?thesis using mark_this assms(3) unfolding secured_def by blast
  next
    case False
    then have "secured k d st'"
      using assms(1,2) secured_prune[of k d st t] that by (auto intro: secured_cong)
    then show ?thesis
      using secured_mark[OF _ assms(2) _ assms(3)] len that(2) by simp
  qed
  obtain ok st2 where sc: "send_command ?p = (ok, st2)" by fastforce
  note fr = send_command_frame[OF sc]
  show ?thesis
  proof (cases "rd_connected ?p \<and> ok")
    case False
    then show ?thesis
      using marked[of ?p] marked[of st2] fr sc by (auto simp: setRevocation_def Let_def)
  next
    case True
    then have r: "setRevocation j 900 t st =
        (store j (RStr ''revoked'') (Some (t + 900 * 1000)) st2)\<lparr>rd_uncertain := js_map_delete j (rd_uncertain st2)\<rparr>"
      using sc by (simp add: setRevocation_def Let_def)
    show ?thesis
    proof (cases "j = k")
      case True
      then show ?thesis
        unfolding secured_def r using assms(3) by (auto simp: store_def uncertainRevocationTtlMs_def)
    next
      case False
      then have "secured k d ?p"
        using assms(1,2) secured_prune by blast
      then show ?thesis
        using False fr by (auto simp: r secured_def store_def js_map_delete_def)
    qed
  qed
qed

lemma set_length:
  assumes "length (rd_uncertain st) < maxUncertainRevocationKeys"
  shows "length (rd_uncertain (setRevocation j ttl t st)) \<le> Suc (length (rd_uncertain st))"
proof -
  let ?p = "pruneUncertainRevocationKeys t st"
  obtain ok st2 where sc: "send_command ?p = (ok, st2)" by fastforce
  note fr = send_command_frame[OF sc]
  have m: "length (rd_uncertain (markRevocationUncertain j t st')) \<le> Suc (length (rd_uncertain st))"
    if "rd_uncertain st' = rd_uncertain ?p" for st'
  proof -
    have "length (rd_uncertain st') \<le> length (rd_uncertain st)"
      using prune_length[of t st] that by simp
    then show ?thesis
      using mark_length[of st' j t] assms by linarith
  qed
  have d: "length (js_map_delete j (rd_uncertain ?p)) \<le> Suc (length (rd_uncertain st))"
    using prune_length[of t st] length_filter_le[of "\<lambda>(i, w). i \<noteq> j" "rd_uncertain ?p"]
    unfolding js_map_delete_def by linarith
  show ?thesis
    using m[of ?p] m[of st2] d fr sc
    by (auto simp: setRevocation_def Let_def store_def)
qed

lemma ask_cases:
  obtains (asked) "rd_data (snd (isRevoked k t st)) = rd_data st"
    "rd_uncertain (snd (isRevoked k t st)) = rd_uncertain (pruneUncertainRevocationKeys t st)"
  | (marked) st2 where "snd (isRevoked k t st) = markRevocationUncertain k t st2"
    "rd_data st2 = rd_data st" "rd_uncertain st2 = rd_uncertain (pruneUncertainRevocationKeys t st)"
proof (cases "js_map_has k (rd_uncertain (pruneUncertainRevocationKeys t st)) \<or> \<not> rd_connected st")
  case True
  then show ?thesis by (intro asked) (auto simp: isRevoked_def Let_def)
next
  case False
  obtain ok st2 where sc: "send_command (pruneUncertainRevocationKeys t st) = (ok, st2)" by fastforce
  note fr = send_command_frame[OF sc]
  show ?thesis
  proof (cases ok)
    case True
    then show ?thesis using False sc fr by (intro asked) (auto simp: isRevoked_def Let_def)
  next
    case not_ok: False
    then show ?thesis using False sc fr by (intro marked[of st2]) (auto simp: isRevoked_def Let_def)
  qed
qed

lemma secured_ask:
  assumes "secured k d st" and "t < d" and "d \<le> t + uncertainRevocationTtlMs"
    and "length (rd_uncertain st) < maxUncertainRevocationKeys"
  shows "secured k d (snd (isRevoked j t st))"
  using secured_prune[OF assms(1,2)]
proof (cases rule: ask_cases[of j t st])
  case asked
  with secured_prune[OF assms(1,2)] show ?thesis by (auto intro: secured_cong)
next
  case (marked st2)
  then have "secured k d st2" "length (rd_uncertain st2) < maxUncertainRevocationKeys"
    using secured_prune[OF assms(1,2)] assms(4) prune_length[of t st] by (auto intro: secured_cong)
  then show ?thesis
    using secured_mark[OF _ assms(2) _ assms(3)] marked(1) by simp
qed

lemma ask_length:
  assumes "length (rd_uncertain st) < maxUncertainRevocationKeys"
  shows "length (rd_uncertain (snd (isRevoked j t st))) \<le> Suc (length (rd_uncertain st))"
proof (cases rule: ask_cases[of j t st])
  case asked
  then show ?thesis using prune_length[of t st] by simp
next
  case (marked st2)
  then show ?thesis
    using mark_length[of st2 j t] prune_length[of t st] assms by simp
qed

lemma secured_answer:
  assumes "secured k d st" and "t < d"
  shows "fst (isRevoked k t st) \<noteq> Some False"
proof -
  let ?p = "pruneUncertainRevocationKeys t st"
  obtain ok st2 where sc: "send_command ?p = (ok, st2)" by fastforce
  have p: "secured k d ?p" using secured_prune[OF assms] .
  show ?thesis
  proof (cases "js_map_has k (rd_uncertain ?p)")
    case True
    then show ?thesis by (simp add: isRevoked_def Let_def)
  next
    case False
    then obtain v e where "d \<le> e" "rd_data ?p k = Some (v, Some e)"
      using p by (auto simp: secured_def js_map_has_def image_iff)
    then have "live st2 t k = Some v"
      using send_command_frame[OF sc] assms(2) by (simp add: live_def)
    then show ?thesis
      using sc by (auto simp: isRevoked_def Let_def)
  qed
qed

lemma secured_run:
  assumes "secured k d st" and "\<forall>c \<in> set calls. call_time c < d \<and> d \<le> call_time c + uncertainRevocationTtlMs"
    and "length (rd_uncertain st) + length calls \<le> maxUncertainRevocationKeys"
  shows "secured k d (foldl run_call st calls)"
  using assms
proof (induction calls arbitrary: st)
  case (Cons c calls)
  have "secured k d (run_call st c) \<and> length (rd_uncertain (run_call st c)) \<le> Suc (length (rd_uncertain st))"
    using Cons.prems by (cases c) (auto intro: secured_set secured_ask set_length ask_length)
  then show ?case
    using Cons.IH[of "run_call st c"] Cons.prems by simp
qed simp

text \<open>
  C15.  Revocation fails secure: for the 15 minutes after a key was revoked, whichever commands to
  Redis fail and whatever other keys are revoked or asked about meanwhile, a question about the key is
  never answered "not revoked", as long as fewer than 10000 keys can have become uncertain.
\<close>

theorem revocation_fails_secure:
  assumes "\<forall>c \<in> set calls. t0 \<le> call_time c \<and> call_time c \<le> t" and "t0 \<le> t" and "t < t0 + 900 * 1000"
    and "Suc (length (rd_uncertain st) + length calls) \<le> maxUncertainRevocationKeys"
  shows "fst (isRevoked k t (foldl run_call (setRevocation k 900 t0 st) calls)) \<noteq> Some False"
proof -
  have ttl: "uncertainRevocationTtlMs = 900 * 1000" by (simp add: uncertainRevocationTtlMs_def)
  have len: "length (rd_uncertain st) < maxUncertainRevocationKeys"
    using assms(4) by linarith
  have "secured k (t0 + 900 * 1000) (setRevocation k 900 t0 st)"
    using len by (intro secured_set) (simp_all add: ttl)
  moreover have "\<forall>c \<in> set calls. call_time c < t0 + 900 * 1000 \<and> t0 + 900 * 1000 \<le> call_time c + uncertainRevocationTtlMs"
    using assms(1,3) unfolding ttl by fastforce
  moreover have "length (rd_uncertain (setRevocation k 900 t0 st)) + length calls \<le> maxUncertainRevocationKeys"
    using set_length[OF len, of k 900 t0] assms(4) by linarith
  ultimately have "secured k (t0 + 900 * 1000) (foldl run_call (setRevocation k 900 t0 st) calls)"
    by (rule secured_run)
  then show ?thesis
    using secured_answer assms(3) by blast
qed

theorem revocation_fails_secure_witness:
  "fst (isRevoked ''k'' 9000 (foldl run_call (setRevocation ''k'' 900 0 (sample_redis\<lparr>rd_oracle := [False, True, False]\<rparr>))
     [SetRevocation ''m'' 5, AskRevoked ''m'' 6])) \<noteq> Some False"
  by (rule revocation_fails_secure) (simp_all add: sample_redis_def maxUncertainRevocationKeys_def)

lemma evict_length:
  assumes "m \<noteq> []" and "\<forall>(k, e) \<in> set m. k \<noteq> []"
  shows "length (evict_oldest m) < length m"
proof -
  obtain k e m' where m: "m = (k, e) # m'" using assms(1) by (cases m) auto
  have "length (filter (\<lambda>(j, w). j \<noteq> k) m') \<le> length m'" by simp
  then show ?thesis
    using assms(2) by (simp add: m evict_oldest_def js_map_delete_def less_Suc_eq_le)
qed

lemma evict_le: "length (evict_oldest m) \<le> length m"
  by (auto simp: evict_oldest_def js_map_delete_def intro: le_SucI split: list.split)

definition uncertain_ok :: "redis \<Rightarrow> bool" where
  "uncertain_ok st \<longleftrightarrow> length (rd_uncertain st) \<le> maxUncertainRevocationKeys \<and>
     (\<forall>(k, e) \<in> set (rd_uncertain st). k \<noteq> [])"

lemma js_map_set_keys: "fst ` set (js_map_set k v m) = insert k (fst ` set m)"
  by (induction k v m rule: js_map_set.induct) auto

lemma evict_subset: "set (evict_oldest m) \<subseteq> set m"
  by (auto simp: evict_oldest_def js_map_delete_def split: list.splits if_splits)

lemma uncertain_ok_sub:
  "uncertain_ok st \<Longrightarrow> set (rd_uncertain st') \<subseteq> set (rd_uncertain st) \<Longrightarrow>
   length (rd_uncertain st') \<le> length (rd_uncertain st) \<Longrightarrow> uncertain_ok st'"
  by (auto simp: uncertain_ok_def)

lemma uncertain_ok_prune: "uncertain_ok st \<Longrightarrow> uncertain_ok (pruneUncertainRevocationKeys t st)"
  by (rule uncertain_ok_sub) (auto simp: pruneUncertainRevocationKeys_def)

lemma uncertain_ok_mark:
  assumes "uncertain_ok st" and "k \<noteq> []"
  shows "uncertain_ok (markRevocationUncertain k t st)"
proof -
  let ?m = "rd_uncertain (pruneUncertainRevocationKeys t st)"
  have ok: "length ?m \<le> maxUncertainRevocationKeys" "\<forall>(k, e) \<in> set ?m. k \<noteq> []"
    using uncertain_ok_prune[OF assms(1), of t] by (simp_all add: uncertain_ok_def)
  obtain m' where m': "m' = (if \<not> js_map_has k ?m \<and> maxUncertainRevocationKeys \<le> length ?m then evict_oldest ?m else ?m)"
    by blast
  have sub: "set m' \<subseteq> set ?m"
    using evict_subset by (simp add: m')
  have len: "length m' \<le> maxUncertainRevocationKeys \<and> (js_map_has k m' \<or> length m' < maxUncertainRevocationKeys)"
  proof (cases "\<not> js_map_has k ?m \<and> maxUncertainRevocationKeys \<le> length ?m")
    case True
    then have "?m \<noteq> []" by (auto simp: maxUncertainRevocationKeys_def)
    from evict_length[OF this ok(2)] have "length m' < length ?m"
      unfolding m' if_P[OF True] .
    then have "length m' < maxUncertainRevocationKeys" using ok(1) by (rule less_le_trans)
    then show ?thesis by simp
  next
    case False
    then show ?thesis using ok(1) unfolding m' if_not_P[OF False] by linarith
  qed
  then have "length (js_map_set k (t + uncertainRevocationTtlMs) m') \<le> maxUncertainRevocationKeys"
    unfolding js_map_set_length by (auto simp: Suc_le_eq)
  moreover have "[] \<notin> fst ` set (js_map_set k (t + uncertainRevocationTtlMs) m')"
    using sub ok(2) assms(2) unfolding js_map_set_keys by force
  moreover have "rd_uncertain (markRevocationUncertain k t st) = js_map_set k (t + uncertainRevocationTtlMs) m'"
    by (simp add: markRevocationUncertain_def Let_def m')
  ultimately show ?thesis
    unfolding uncertain_ok_def by force
qed

lemma uncertain_ok_call:
  assumes "uncertain_ok st" and "call_key c \<noteq> []"
  shows "uncertain_ok (run_call st c)"
proof (cases c)
  case (SetRevocation k t)
  let ?p = "pruneUncertainRevocationKeys t st"
  obtain ok st2 where sc: "send_command ?p = (ok, st2)" by fastforce
  note fr = send_command_frame[OF sc] and p = uncertain_ok_prune[OF assms(1), of t]
  have p2: "uncertain_ok st2" using p fr by (simp add: uncertain_ok_def)
  have "uncertain_ok (st'\<lparr>rd_uncertain := js_map_delete k (rd_uncertain st2)\<rparr>)" for st'
    using p2 by (rule uncertain_ok_sub) (auto simp: js_map_delete_def)
  then show ?thesis
    using assms(2) SetRevocation sc uncertain_ok_mark[OF p] uncertain_ok_mark[OF p2]
    by (auto simp: setRevocation_def Let_def)
next
  case (AskRevoked k t)
  let ?p = "pruneUncertainRevocationKeys t st"
  have p: "uncertain_ok ?p" using uncertain_ok_prune[OF assms(1)] .
  show ?thesis
  proof (cases rule: ask_cases[of k t st])
    case asked
    with p show ?thesis by (simp add: AskRevoked uncertain_ok_def)
  next
    case (marked st2)
    have "uncertain_ok st2" using p marked(3) by (simp add: uncertain_ok_def)
    then show ?thesis
      using uncertain_ok_mark[of st2 k t] assms(2) marked(1) by (simp add: AskRevoked)
  qed
qed

text \<open>
   The set of uncertain keys never holds more than 10000 keys, whatever fails for however long.
\<close>

theorem uncertain_keys_bounded:
  assumes "length (rd_uncertain st) \<le> maxUncertainRevocationKeys" and "\<forall>(k, e) \<in> set (rd_uncertain st). k \<noteq> []"
    and "\<forall>c \<in> set calls. call_key c \<noteq> []"
  shows "length (rd_uncertain (foldl run_call st calls)) \<le> maxUncertainRevocationKeys"
proof -
  have "uncertain_ok st" using assms(1,2) by (simp add: uncertain_ok_def)
  then have "uncertain_ok (foldl run_call st calls)"
    using assms(3) by (induction calls arbitrary: st) (auto intro: uncertain_ok_call)
  then show ?thesis by (simp add: uncertain_ok_def)
qed

theorem uncertain_keys_bounded_witness:
  "length (rd_uncertain (foldl run_call (sample_redis\<lparr>rd_connected := False\<rparr>) [SetRevocation ''a'' 1, SetRevocation ''b'' 2]))
     \<le> maxUncertainRevocationKeys"
  by (rule uncertain_keys_bounded) (simp_all add: sample_redis_def)

section \<open>Sequence numbers and rate limits\<close>

text \<open>The sequence numbers that a series of calls at given times lets through.\<close>

fun accepted_sequences :: "string \<Rightarrow> int \<Rightarrow> (int \<times> timestamp) list \<Rightarrow> redis \<Rightarrow> int list" where
  "accepted_sequences k ttl [] st = []"
| "accepted_sequences k ttl ((n, t) # calls) st =
     (case verifyAndSetSequence k n ttl t st of
        (ok, st') \<Rightarrow> (if ok then n # accepted_sequences k ttl calls st' else accepted_sequences k ttl calls st'))"

lemma accepted_above:
  assumes "rd_connected st" "rd_oracle st = []" "rd_data st k = Some (RNum c, Some e)"
    and "d \<le> e" "\<forall>(n, t) \<in> set calls. t < d \<and> d \<le> t + ttl * 1000"
  shows "sorted_wrt (<) (c # accepted_sequences k ttl calls st)"
  using assms
proof (induction calls arbitrary: st c e)
  case (Cons call calls)
  obtain n t where call: "call = (n, t)" by (cases call)
  have lv: "live st t k = Some (RNum c)"
    using Cons.prems call by (auto simp: live_def)
  show ?case
  proof (cases "n \<le> c")
    case True
    then have "verifyAndSetSequence k n ttl t st = (False, st)"
      using Cons.prems(1,2) lv by (simp add: verifyAndSetSequence_def send_command_def)
    then show ?thesis
      using Cons.IH[OF Cons.prems(1-4)] Cons.prems(5) by (simp add: call)
  next
    case False
    let ?st = "store k (RNum n) (Some (t + ttl * 1000)) st"
    have "verifyAndSetSequence k n ttl t st = (True, ?st)"
      using Cons.prems(1,2) lv False by (simp add: verifyAndSetSequence_def send_command_def)
    moreover have "sorted_wrt (<) (n # accepted_sequences k ttl calls ?st)"
      using Cons.prems call by (intro Cons.IH[of _ _ "t + ttl * 1000"]) (auto simp: store_def)
    ultimately show ?thesis
      using False by (auto simp: call)
  qed
qed simp

text \<open>
  Replayed or reordered messages are dropped: as long as Redis answers, the sequence numbers that
  are let through within one lifetime of the key are strictly increasing.
\<close>

theorem accepted_sequences_increase:
  assumes "rd_connected st" "rd_oracle st = []" "live st t k = None"
    and "\<forall>(n, t') \<in> set calls. t \<le> t' \<and> t' < t + ttl * 1000"
  shows "sorted_wrt (<) (accepted_sequences k ttl ((n, t) # calls) st)"
proof -
  let ?st = "store k (RNum n) (Some (t + ttl * 1000)) st"
  have "verifyAndSetSequence k n ttl t st = (True, ?st)"
    using assms(1-3) by (simp add: verifyAndSetSequence_def send_command_def)
  moreover have "sorted_wrt (<) (n # accepted_sequences k ttl calls ?st)"
    by (rule accepted_above[of ?st k n "t + ttl * 1000" "t + ttl * 1000"])
      (use assms in \<open>auto simp: store_def\<close>)
  ultimately show ?thesis by simp
qed

theorem accepted_sequences_increase_witness:
  "sorted_wrt (<) (accepted_sequences ''s'' 60 [(4, 0), (2, 5), (4, 6), (7, 9)] sample_redis)"
  by (rule accepted_sequences_increase) (simp_all add: sample_redis_def live_def)

fun request_counts :: "string \<Rightarrow> int \<Rightarrow> timestamp list \<Rightarrow> redis \<Rightarrow> int list" where
  "request_counts k window [] st = []"
| "request_counts k window (t # ts) st =
     (case incrRateLimit k window t st of (n, st') \<Rightarrow> n # request_counts k window ts st')"

lemma counts_from:
  assumes "rd_connected st" "rd_oracle st = []" "rd_data st k = Some (RNum c, Some e)" "1 \<le> c"
    and "\<forall>t \<in> set ts. t < e"
  shows "request_counts k window ts st = map (\<lambda>i. c + 1 + int i) [0..<length ts]"
  using assms
proof (induction ts arbitrary: st c)
  case (Cons t ts)
  let ?st = "store k (RNum (c + 1)) (Some e) st"
  have "live st t k = Some (RNum c)"
    using Cons.prems by (simp add: live_def)
  then have one: "incrRateLimit k window t st = (c + 1, ?st)"
    using Cons.prems(1-4) by (simp add: incrRateLimit_def send_command_def incr_value_def Let_def)
  have "request_counts k window ts ?st = map (\<lambda>i. (c + 1) + 1 + int i) [0..<length ts]"
    using Cons.prems by (intro Cons.IH) (auto simp: store_def)
  then show ?case
    by (simp add: one upt_conv_Cons map_Suc_upt[symmetric] del: upt_Suc)
qed simp

text \<open>
  Fixed windows count: as long as Redis answers, the requests of one window are counted 1, 2, 3
  and so on, so that a limit of \<open>m\<close> lets exactly the first \<open>m\<close> requests of the window pass.
\<close>

theorem rate_limit_counts:
  assumes "rd_connected st" "rd_oracle st = []" "live st t k = None"
    and "\<forall>t' \<in> set ts. t' < t + window * 1000"
  shows "request_counts k window (t # ts) st = map (\<lambda>i. int i + 1) [0..<Suc (length ts)] \<and>
    length (filter (\<lambda>n. n \<le> int m) (request_counts k window (t # ts) st)) = min m (Suc (length ts))"
proof -
  let ?st = "store k (RNum 1) (Some (t + window * 1000)) (store k (RNum 1) None st)"
  have one: "incrRateLimit k window t st = (1, ?st)"
    using assms(1-3) by (simp add: incrRateLimit_def send_command_def incr_value_def store_def Let_def)
  have "request_counts k window ts ?st = map (\<lambda>i. 1 + 1 + int i) [0..<length ts]"
    using assms by (intro counts_from) (auto simp: store_def)
  then have counts: "request_counts k window (t # ts) st = map (\<lambda>i. int i + 1) [0..<Suc (length ts)]"
    by (simp add: one upt_conv_Cons map_Suc_upt[symmetric] del: upt_Suc)
  have "length (filter (\<lambda>n. n \<le> int m) (map (\<lambda>i. int i + 1) [0..<k])) = min m k" for k
    by (induction k) auto
  with counts show ?thesis by (simp del: upt_Suc request_counts.simps)
qed

theorem rate_limit_counts_witness:
  "request_counts ''r'' 60 [0, 10, 59999] sample_redis = [1, 2, 3]"
proof -
  have h: "rd_connected sample_redis" "rd_oracle sample_redis = []" "live sample_redis 0 ''r'' = None"
      "\<forall>t' \<in> set [10, 59999]. t' < 0 + 60 * (1000 :: int)"
    by (simp_all add: sample_redis_def live_def)
  from rate_limit_counts[OF h] show ?thesis by (simp add: upt_conv_Cons)
qed

text \<open>
  The two commands of a first count are not atomic: when \<open>EXPIRE\<close> fails after \<open>INCR\<close>, the counter is
  left without expiry and stays at every later time, so the window never ends.
\<close>

theorem failed_expire_never_ends:
  "\<forall>t'. live (snd (incrRateLimit k window t (sample_redis\<lparr>rd_oracle := [True, False]\<rparr>))) t' k = Some (RNum 1)"
  by (simp add: incrRateLimit_def send_command_def incr_value_def store_def live_def sample_redis_def Let_def)

end
