(* ===== verification/AuthProps.thy ===== *)
theory AuthProps
  imports AuthSteps RedisProps "HOL-Library.Multiset"
begin

text \<open>
  Properties of authentication: who is let in and who is not, how many sessions an account has, how
  refresh tokens rotate, and what ends a session for good.
\<close>

section \<open>A sample account\<close>

definition sample_argon :: argon2 where
  "sample_argon = \<lparr>argon_hash = (\<lambda>p. ''$argon2id$m=65536,t=3,p=4$'' @ p),
     argon_verify = (\<lambda>hash p. Some (hash = ''$argon2id$m=65536,t=3,p=4$'' @ p))\<rparr>"

definition sample_hash :: "string \<Rightarrow> string" where
  "sample_hash t = ''#'' @ t"

definition sample_user :: "string \<Rightarrow> user" where
  "sample_user role = \<lparr>usr_id = ''u'', usr_username = ''andi'', usr_email = None, usr_phone = ''+62'',
     usr_passwordHash = ''$argon2id$m=65536,t=3,p=4$secret'', usr_role = role, usr_organizationId = None,
     usr_status = ACTIVE, usr_lastLoginAt = None\<rparr>"

definition sample_device :: device where
  "sample_device = \<lparr>dvc_id = ''d'', dvc_userId = ''u'', dvc_deviceIdentifier = ''phone'', dvc_platform = ANDROID,
     dvc_appVersion = ''1.0.0'', dvc_pushToken = None, dvc_status = DEV_ACTIVE\<rparr>"

definition sample_session :: session where
  "sample_session = new_session ''s'' ''u'' ''d'' (sample_hash ''r'') ''f'' 0"

definition sample_auth :: "string \<Rightarrow> auth_world" where
  "sample_auth role = \<lparr>aw_users = [sample_user role],
     aw_roles = [\<lparr>rol_code = ''DRIVER'', rol_permissions = [''pod:submit'']\<rparr>, \<lparr>rol_code = ''OWNER'', rol_permissions = []\<rparr>],
     aw_devices = [sample_device], aw_sessions = [sample_session], aw_drivers = [], aw_audit = [],
     aw_redis = sample_redis\<rparr>"

definition sample_token :: jwt_payload where
  "sample_token = \<lparr>jwt_sub = ''u'', jwt_role = ''DRIVER'', jwt_deviceId = ''d'', jwt_sessionId = ''s'',
     jwt_type = ''ACCESS_TOKEN''\<rparr>"

lemmas sample_auth_defs = sample_argon_def sample_hash_def sample_user_def sample_device_def
  sample_session_def sample_auth_def sample_token_def new_session_def week_ms_def sample_redis_def

section \<open>Validating a token\<close>

text \<open>What the database must say about the holder, the session and the device of a token.\<close>

definition token_good :: "jwt_payload \<Rightarrow> timestamp \<Rightarrow> auth_world \<Rightarrow> bool" where
  "token_good p now w \<longleftrightarrow> jwt_type p = ''ACCESS_TOKEN'' \<and>
     (\<exists>u s d. find_row usr_id (jwt_sub p) (aw_users w) = Some u \<and> usr_status u = ACTIVE \<and> usr_role u = jwt_role p \<and>
        find_row ses_id (jwt_sessionId p) (aw_sessions w) = Some s \<and> ses_userId s = jwt_sub p \<and>
        ses_deviceId s = jwt_deviceId p \<and> \<not> ses_isRevoked s \<and> now < ses_expiresAt s \<and>
        find_row dvc_id (jwt_deviceId p) (aw_devices w) = Some d \<and> dvc_userId d = jwt_sub p \<and> dvc_status d = DEV_ACTIVE)"

lemma session_usable_iff:
  "session_usable p now w \<longleftrightarrow>
     (\<exists>s d. find_row ses_id (jwt_sessionId p) (aw_sessions w) = Some s \<and> ses_userId s = jwt_sub p \<and>
        ses_deviceId s = jwt_deviceId p \<and> \<not> ses_isRevoked s \<and> now < ses_expiresAt s \<and>
        find_row dvc_id (jwt_deviceId p) (aw_devices w) = Some d \<and> dvc_userId d = jwt_sub p \<and> dvc_status d = DEV_ACTIVE)"
  by (auto simp: session_usable_def not_le split: option.splits)

text \<open>The two answers of Redis a validation takes into account.\<close>

definition redis_vetoes :: "jwt_payload \<Rightarrow> timestamp \<Rightarrow> redis \<Rightarrow> bool" where
  "redis_vetoes p now rd \<longleftrightarrow> fst (isRevoked (session_key (jwt_sessionId p)) now rd) = Some True \<or>
     fst (isRevoked (user_key (jwt_sub p)) now (snd (isRevoked (session_key (jwt_sessionId p)) now rd))) = Some True"

lemma validate_result:
  "fst (validate p now w) =
     (if jwt_type p = ''ACCESS_TOKEN'' \<and> fst (isRevoked (session_key (jwt_sessionId p)) now (aw_redis w)) \<noteq> Some True
      then case find_row usr_id (jwt_sub p) (aw_users w) of
             None \<Rightarrow> fail_with Unauthorized ''USER_NOT_FOUND''
           | Some u \<Rightarrow>
               if usr_status u \<noteq> ACTIVE then fail_with Unauthorized (''ACCOUNT_'' @ account_status_name (usr_status u))
               else if usr_role u \<noteq> jwt_role p then fail_with Unauthorized ''ROLE_UPDATED_REAUTH_REQUIRED''
               else if redis_vetoes p now (aw_redis w) \<or> \<not> session_usable p now w
               then fail_with Unauthorized ''TOKEN_REVOKED''
               else Inr \<lparr>prn_id = usr_id u, prn_username = usr_username u, prn_role = usr_role u,
                      prn_organizationId = or_null (usr_organizationId u), prn_permissions = permissions_of (usr_role u) w,
                      prn_deviceId = jwt_deviceId p, prn_sessionId = jwt_sessionId p,
                      prn_driverId = or_null (driver_of (usr_id u) w)\<rparr>
      else if jwt_type p = ''ACCESS_TOKEN'' then fail_with Unauthorized ''TOKEN_REVOKED''
      else fail_with Unauthorized ''INVALID_TOKEN_TYPE'')"
proof -
  obtain a rd1 where 1: "isRevoked (session_key (jwt_sessionId p)) now (aw_redis w) = (a, rd1)" by fastforce
  obtain b rd2 where 2: "isRevoked (user_key (jwt_sub p)) now rd1 = (b, rd2)" by fastforce
  have u: "session_usable p now (w\<lparr>aw_redis := rd\<rparr>) = session_usable p now w" for rd
    by (simp add: session_usable_def cong: option.case_cong)
  have a: "(a = Some False \<or> a = None) \<longleftrightarrow> a \<noteq> Some True" by (cases a) auto
  show ?thesis
    using 1 2 u a
    by (simp add: validate_def Let_def redis_vetoes_def permissions_of_def driver_of_def
        split: option.split)
qed

lemma accepted_iff:
  "(\<exists>pr. fst (validate p now w) = Inr pr) \<longleftrightarrow> token_good p now w \<and> \<not> redis_vetoes p now (aw_redis w)"
proof -
  have "\<not> redis_vetoes p now (aw_redis w) \<Longrightarrow>
      fst (isRevoked (session_key (jwt_sessionId p)) now (aw_redis w)) \<noteq> Some True"
    by (simp add: redis_vetoes_def)
  then show ?thesis
    by (auto simp: validate_result token_good_def session_usable_iff split: option.splits)
qed

lemma refused_unauthorized: "fst (validate p now w) = Inl e \<Longrightarrow> err_kind e = Unauthorized"
  by (auto simp: validate_result split: if_splits option.splits)

text \<open>
  C16.  Whatever Redis answers, fails to answer or has forgotten, a token is accepted only for an active
  account with the role of the token and an unrevoked, unexpired session on an active device, all of
  one and the same user.  Without Redis exactly these tokens are accepted, and a refusal is always a
  401 error.
\<close>

theorem accepted_only_when_good:
  "(\<forall>rd pr. fst (validate p now (w\<lparr>aw_redis := rd\<rparr>)) = Inr pr \<longrightarrow> token_good p now w \<and> prn_id pr = jwt_sub p \<and>
      prn_role pr = jwt_role p \<and> prn_permissions pr = permissions_of (jwt_role p) w) \<and>
   (\<forall>rd e. fst (validate p now (w\<lparr>aw_redis := rd\<rparr>)) = Inl e \<longrightarrow> err_kind e = Unauthorized) \<and>
   (\<forall>rd. \<not> rd_connected rd \<longrightarrow>
      ((\<exists>pr. fst (validate p now (w\<lparr>aw_redis := rd\<rparr>)) = Inr pr) \<longleftrightarrow> token_good p now w))"
proof -
  have frame: "token_good p now (w\<lparr>aw_redis := rd\<rparr>) = token_good p now w" for rd
    by (simp add: token_good_def)
  have result: "prn_id pr = jwt_sub p \<and> prn_role pr = jwt_role p \<and> prn_permissions pr = permissions_of (jwt_role p) w"
    if "fst (validate p now (w\<lparr>aw_redis := rd\<rparr>)) = Inr pr" for rd pr
    using that find_row_SomeD[of usr_id "jwt_sub p" "aw_users w"]
    by (auto simp: validate_result permissions_of_def split: if_splits option.splits)
  have mute: "\<not> redis_vetoes p now rd" if "\<not> rd_connected rd" for rd
    using that by (simp add: redis_vetoes_def isRevoked_def Let_def pruneUncertainRevocationKeys_def)
  have sound: "token_good p now w" if "fst (validate p now (w\<lparr>aw_redis := rd\<rparr>)) = Inr pr" for rd pr
    using accepted_iff[of p now "w\<lparr>aw_redis := rd\<rparr>"] that frame by blast
  have offline: "(\<exists>pr. fst (validate p now (w\<lparr>aw_redis := rd\<rparr>)) = Inr pr) \<longleftrightarrow> token_good p now w"
    if "\<not> rd_connected rd" for rd
    using accepted_iff[of p now "w\<lparr>aw_redis := rd\<rparr>"] mute[OF that] by (simp add: frame)
  show ?thesis
    using result sound offline refused_unauthorized by blast
qed

theorem accepted_only_when_good_witness:
  "token_good sample_token 1 (sample_auth ''DRIVER'') \<and>
   fst (validate (sample_token\<lparr>jwt_role := ''OWNER''\<rparr>) 1 (sample_auth ''DRIVER'')) =
     fail_with Unauthorized ''ROLE_UPDATED_REAUTH_REQUIRED'' \<and>
   (\<exists>pr. fst (validate sample_token 1 ((sample_auth ''DRIVER'')\<lparr>aw_redis := sample_redis\<lparr>rd_connected := False\<rparr>\<rparr>)) = Inr pr)"
proof -
  have g: "token_good sample_token 1 (sample_auth ''DRIVER'')"
    by (simp add: token_good_def sample_auth_defs)
  have r: "fst (validate (sample_token\<lparr>jwt_role := ''OWNER''\<rparr>) 1 (sample_auth ''DRIVER'')) =
     fail_with Unauthorized ''ROLE_UPDATED_REAUTH_REQUIRED''"
    by (simp add: validate_result sample_auth_defs isRevoked_def Let_def pruneUncertainRevocationKeys_def
        js_map_has_def send_command_def live_def)
  show ?thesis
    using accepted_only_when_good[of sample_token 1 "sample_auth ''DRIVER''"] g r by simp
qed

section \<open>What ends a session\<close>

text \<open>The sessions a request ends when it succeeds.\<close>

fun ends_session :: "auth_request \<Rightarrow> auth_world \<Rightarrow> session \<Rightarrow> bool" where
  "ends_session (Logout i u now) w s = (i = Some (ses_id s) \<and> ses_id s \<noteq> [] \<and> u = Some (ses_userId s))"
| "ends_session (LogoutAll u now) w s = (u = Some (ses_userId s) \<and> ses_userId s \<noteq> [])"
| "ends_session (ChangeRole u role a now) w s =
     (u = ses_userId s \<and> find_row usr_id u (aw_users w) \<noteq> None \<and> find_row rol_code role (aw_roles w) \<noteq> None)"
| "ends_session (ChangeStatus u st a now) w s =
     (u = ses_userId s \<and> find_row usr_id u (aw_users w) \<noteq> None \<and> (st = SUSPENDED \<or> st = DISABLED))"
| "ends_session (ResetPassword u pw a now) w s = (u = ses_userId s \<and> find_row usr_id u (aw_users w) \<noteq> None)"
| "ends_session (RevokeDevice d a role now) w s =
     (d = ses_deviceId s \<and> (\<exists>dv. find_row dvc_id d (aw_devices w) = Some dv \<and>
        (dvc_userId dv = a \<or> role = ''ADMIN'' \<or> role = ''SUPER_ADMIN'')))"
| "ends_session _ w s = False"

lemma ended_row:
  assumes "find_row ses_id i (aw_sessions w) = Some s" and "ends_session r w s"
  shows "\<exists>s'. find_row ses_id i (aw_sessions (exec_auth lib h r w)) = Some s' \<and> ses_isRevoked s'"
proof -
  have keep: "ses_id (revoke_row x) = ses_id x" for x by (simp add: revoke_row_def)
  have i: "ses_id s = i" using find_row_SomeD[OF assms(1)] by simp
  have upd: "\<exists>s'. find_row ses_id i (update_where P revoke_row (aw_sessions w)) = Some s' \<and> ses_isRevoked s'"
    if "P s \<or> ses_isRevoked s" for P
    using that assms(1) by (auto simp: find_row_update_where[of ses_id revoke_row, OF keep] revoke_row_def)
  show ?thesis
  proof (cases r)
    case (Logout j u now)
    then show ?thesis
      using assms i upd[of "\<lambda>x. ses_id x = i"] by (auto simp: logout_def revokeSession_def update_row_def)
  next
    case (RevokeDevice d a role now)
    then show ?thesis
      using assms upd[of "\<lambda>x. ses_deviceId x = d \<and> \<not> ses_isRevoked x"]
      by (auto simp: revokeDevice_def Let_def)
  qed (use assms upd[of "\<lambda>x. ses_userId x = ses_userId s \<and> \<not> ses_isRevoked x"] in
       \<open>auto simp: logoutAll_def revokeAllUserSessions_def updateUserRole_def updateUserStatus_def
          adminResetPassword_def Let_def\<close>)
qed

text \<open>
  C17.  A logout, a logout from all sessions, a change of role, a suspension, a password reset or the
  revocation of a device ends the sessions it is about for good: in no later state, whatever has been
  requested in between and whatever Redis answers, is a token of such a session accepted again.
\<close>

theorem ended_sessions_stay_ended:
  assumes "find_row ses_id (jwt_sessionId p) (aw_sessions w) = Some s" and "ends_session r w s"
    and "auth_served lib h (exec_auth lib h r w) w'"
  shows "\<exists>e. fst (validate p now w') = Inl e \<and> err_kind e = Unauthorized"
proof -
  obtain s' where s': "find_row ses_id (jwt_sessionId p) (aw_sessions (exec_auth lib h r w)) = Some s'" "ses_isRevoked s'"
    using ended_row[OF assms(1,2)] by blast
  obtain s'' where "find_row ses_id (jwt_sessionId p) (aw_sessions w') = Some s''" "ses_isRevoked s''"
    using later_row[OF assms(3) lookup_columns(1) s'(1)] s'(2) by blast
  then have "\<not> (\<exists>pr. fst (validate p now w') = Inr pr)"
    by (simp add: accepted_iff token_good_def)
  then show ?thesis
    using refused_unauthorized by (cases "fst (validate p now w')") blast+
qed

theorem ended_sessions_stay_ended_witness:
  "\<exists>e. fst (validate sample_token 5 (exec_auth sample_argon sample_hash (ChangeStatus ''u'' ACTIVE ''a'' 3)
     (exec_auth sample_argon sample_hash (ChangeStatus ''u'' SUSPENDED ''a'' 2) (sample_auth ''DRIVER'')))) = Inl e \<and>
     err_kind e = Unauthorized"
proof (rule ended_sessions_stay_ended)
  show "find_row ses_id (jwt_sessionId sample_token) (aw_sessions (sample_auth ''DRIVER'')) = Some sample_session"
    by (simp add: sample_auth_defs)
  show "ends_session (ChangeStatus ''u'' SUSPENDED ''a'' 2) (sample_auth ''DRIVER'') sample_session"
    by (simp add: sample_auth_defs)
qed (rule auth_served.intros)+

section \<open>The number of sessions\<close>

lemma active_append: "active_of u (xs @ ys) = active_of u xs @ active_of u ys"
  by (simp add: active_of_def)

lemma active_revoked:
  "active_of u (update_where P revoke_row ss) = filter (\<lambda>s. \<not> P s) (active_of u ss)"
  by (induction ss) (auto simp: active_of_def update_where_def revoke_row_def)

lemma update_revoke_twice:
  assumes "\<And>s. Q (revoke_row s) = Q s"
  shows "update_where Q revoke_row (update_where P revoke_row ss) = update_where (\<lambda>s. P s \<or> Q s) revoke_row ss"
  using assms by (induction ss) (auto simp: update_where_def revoke_row_def)

lemma evict_all:
  "aw_sessions (foldl (evict now) w es) = update_where (\<lambda>s. ses_id s \<in> ses_id ` set es) revoke_row (aw_sessions w)"
proof (induction es arbitrary: w)
  case Nil
  then show ?case by (simp add: update_where_def)
next
  case (Cons e es)
  have "aw_sessions (foldl (evict now) w (e # es)) =
      update_where (\<lambda>s. ses_id s \<in> ses_id ` set es) revoke_row
        (update_where (\<lambda>s. ses_id s = ses_id e) revoke_row (aw_sessions w))"
    using Cons by (simp add: update_row_def)
  also have "\<dots> = update_where (\<lambda>s. ses_id s = ses_id e \<or> ses_id s \<in> ses_id ` set es) revoke_row (aw_sessions w)"
    by (rule update_revoke_twice) (simp add: revoke_row_def)
  finally show ?case by (simp add: image_iff)
qed

text \<open>
   A driver has exactly one active session after a login: the new one.  All others of the driver are
  revoked, the sessions of other users are not touched, and while Redis answers the access tokens of
  every session that was active before are refused at once by their revocation key.
\<close>

theorem driver_has_one_session:
  assumes "createSession h u d ''DRIVER'' raw fam i now w = (Inr a, w')"
  shows "active_of u (aw_sessions w') = [new_session i u d (h raw) fam now] \<and>
    (\<forall>v. v \<noteq> u \<longrightarrow> active_of v (aw_sessions w') = active_of v (aw_sessions w)) \<and>
    (rd_connected (aw_redis w) \<and> rd_oracle (aw_redis w) = [] \<longrightarrow>
       (\<forall>s \<in> set (active_of u (aw_sessions w)). live (aw_redis w') now (session_key (ses_id s)) = Some (RStr ''revoked'')))"
proof -
  define s where "s = new_session i u d (h raw) fam now"
  define P where "P t \<longleftrightarrow> ses_userId t = u \<and> \<not> ses_isRevoked t" for t :: session
  define w1 where "w1 = revoke_session_keys (active_of u (aw_sessions w)) now w"
  have u: "ses_userId s = u" and s_act: "active_of v [s] = (if v = u then [s] else [])" for v
    by (simp_all add: s_def new_session_def active_of_def)
  have w': "insert_session s (revoke_user_rows u w1) = Inr w'"
    using assms u by (auto simp: createSession_def create_driver_session_def Let_def s_def[symmetric] w1_def
        split: sum.splits)
  have ss: "aw_sessions w' = update_where P revoke_row (aw_sessions w) @ [s]"
    using insert_session_eq[OF w'] by (simp add: w1_def P_def[abs_def])
  have rd: "aw_redis w' = aw_redis w1"
    using insert_session_eq[OF w'] by simp
  have none: "filter (\<lambda>t. \<not> P t) (active_of u (aw_sessions w)) = []"
    by (auto simp: filter_empty_conv active_of_def P_def)
  have others: "filter (\<lambda>t. \<not> P t) (active_of v (aw_sessions w)) = active_of v (aw_sessions w)" if "v \<noteq> u" for v
    using that by (intro filter_True) (auto simp: active_of_def P_def)
  have keys: "\<forall>t \<in> set es. live (aw_redis (revoke_session_keys es now x)) now (session_key (ses_id t)) = Some (RStr ''revoked'')"
    "\<forall>k. live (aw_redis x) now k = Some (RStr ''revoked'') \<longrightarrow>
       live (aw_redis (revoke_session_keys es now x)) now k = Some (RStr ''revoked'')"
    if "rd_connected (aw_redis x)" "rd_oracle (aw_redis x) = []" for es x
    using that
    by (induction es arbitrary: x)
      (auto simp: revoke_session_keys_def setRevocation_def send_command_def store_def live_def
        pruneUncertainRevocationKeys_def Let_def)
  show ?thesis
    using keys(1) others none by (simp add: ss active_append active_revoked s_act rd w1_def flip: s_def)
qed

theorem driver_has_one_session_witness:
  "\<exists>a w'. createSession sample_hash ''u'' ''d'' ''DRIVER'' ''r2'' ''f2'' ''s2'' 9 (sample_auth ''DRIVER'') = (Inr a, w') \<and>
     active_of ''u'' (aw_sessions w') = [new_session ''s2'' ''u'' ''d'' ''#r2'' ''f2'' 9] \<and>
     live (aw_redis w') 9 ''revoked:session:s'' = Some (RStr ''revoked'')"
proof -
  let ?c = "createSession sample_hash ''u'' ''d'' ''DRIVER'' ''r2'' ''f2'' ''s2'' 9 (sample_auth ''DRIVER'')"
  have "\<exists>a w'. ?c = (Inr a, w')"
    by (simp add: createSession_def create_driver_session_def insert_session_def Let_def sample_auth_defs)
  then obtain a w' where c: "?c = (Inr a, w')" by blast
  have "active_of ''u'' (aw_sessions (sample_auth ''DRIVER'')) = [sample_session]"
    by (simp add: active_of_def sample_auth_defs)
  then show ?thesis
    using c driver_has_one_session[OF c]
    by (simp add: sample_auth_def sample_redis_def sample_session_def new_session_def session_key_def sample_hash_def)
qed



section \<open>Rotating refresh tokens\<close>

lemma rotate_finish_result:
  assumes "rotate_finish h s raw i now w = (Inr a, w')"
  shows "a = result_of (new_session i (ses_userId s) (ses_deviceId s) (h raw) (ses_tokenFamily s) now) raw \<and>
    aw_sessions w' = snd (claim ses_id not_revoked (rotate_row now) (ses_id s) (aw_sessions w)) @
      [new_session i (ses_userId s) (ses_deviceId s) (h raw) (ses_tokenFamily s) now]"
  using assms
  by (auto simp: rotate_finish_def rotate_claim_def reuse_detected_def insert_session_def Let_def
      split: prod.splits if_splits)

lemma rotate_lost:
  assumes "fst (claim ses_id not_revoked (rotate_row now) (ses_id s) (aw_sessions w)) = 0"
  shows "rotate_finish h s raw i now w = reuse_detected s now w"
  using assms
  by (cases "claim ses_id not_revoked (rotate_row now) (ses_id s) (aw_sessions w)")
    (simp add: rotate_finish_def rotate_claim_def Let_def)

lemma reuse_revokes_family:
  assumes "reuse_detected s now w = (r, w')" and "x \<in> set (aw_sessions w')" and "ses_tokenFamily x = ses_tokenFamily s"
  shows "r = fail_with Unauthorized ''TOKEN_REUSE_DETECTED'' \<and> ses_isRevoked x"
  using assms by (auto simp: reuse_detected_def set_update_where revoke_row_def split: if_splits)

text \<open>
  C20.  A refresh token can be used once.  After a successful rotation the token family goes on in one new
  session; every later use of the old token, also by a request that had read its row before the rotation
  and only then tries to claim it, is answered with TOKEN\_REUSE\_DETECTED and revokes all sessions of the
  family, the new one included.
\<close>

theorem refresh_token_single_use:
  assumes "rotateSession h raw raw1 i1 t1 w = (Inr a, w1)"
    and "find_row ses_refreshTokenHash (h raw) (aw_sessions w) = Some s"
    and "auth_served lib h w1 w2" and "unique_keys ses_id (aw_sessions w2)"
    and "rotateSession h raw raw2 i2 t2 w2 = (r, w3) \<or> rotate_finish h s raw2 i2 t2 w2 = (r, w3)"
  shows "sn_tokenFamily a = ses_tokenFamily s \<and> sn_userId a = ses_userId s \<and> sn_rawRefreshToken a = raw1 \<and>
    (\<exists>x \<in> set (aw_sessions w1). ses_id x = sn_sessionId a \<and> \<not> ses_isRevoked x \<and> ses_tokenFamily x = ses_tokenFamily s) \<and>
    r = fail_with Unauthorized ''TOKEN_REUSE_DETECTED'' \<and>
    (\<forall>x \<in> set (aw_sessions w3). ses_tokenFamily x = ses_tokenFamily s \<longrightarrow> ses_isRevoked x)"
proof -
  let ?new = "new_session i1 (ses_userId s) (ses_deviceId s) (h raw1) (ses_tokenFamily s) t1"
  let ?claimed = "snd (claim ses_id not_revoked (rotate_row t1) (ses_id s) (aw_sessions w))"
  have f: "rotate_finish h s raw1 i1 t1 w = (Inr a, w1)" and s: "\<not> ses_isRevoked s"
    using assms(1,2) by (auto simp: rotateSession_def rotate_find_def reuse_detected_def split: if_splits)
  note w1 = rotate_finish_result[OF f]
  have "find_row ses_refreshTokenHash (h raw) ?claimed = Some (rotate_row t1 s)"
    using assms(2) s by (simp add: claim_def find_row_update_where[of ses_refreshTokenHash] rotate_row_def)
  then have "find_row ses_refreshTokenHash (h raw) (aw_sessions w1) = Some (rotate_row t1 s)"
    using w1 by (simp add: find_row_append)
  then obtain s2 where s2: "find_row ses_refreshTokenHash (h raw) (aw_sessions w2) = Some s2"
      "ses_id s2 = ses_id s" "ses_tokenFamily s2 = ses_tokenFamily s" "ses_isRevoked s2"
    by (rule later_row[OF assms(3) lookup_columns(2)]) (simp add: rotate_row_def)
  have "find_row ses_id (ses_id s) (aw_sessions w2) = Some s2"
    using s2(1,2) find_row_SomeD[OF s2(1)] find_row_unique[OF assms(4)] by metis
  then have "fst (claim ses_id not_revoked (rotate_row t2) (ses_id s) (aw_sessions w2)) = 0"
    using rotating.claim_count[OF assms(4)] s2(4) by simp
  then have late: "rotate_finish h s raw2 i2 t2 w2 = reuse_detected s t2 w2"
    by (rule rotate_lost)
  have again: "rotateSession h raw raw2 i2 t2 w2 = reuse_detected s2 t2 w2"
    using s2 by (simp add: rotateSession_def rotate_find_def)
  obtain x where x: "reuse_detected x t2 w2 = (r, w3)" "ses_tokenFamily x = ses_tokenFamily s"
    using assms(5) late again s2(3) by metis
  have "r = fail_with Unauthorized ''TOKEN_REUSE_DETECTED''"
    using x(1) by (simp add: reuse_detected_def)
  moreover have "\<exists>x \<in> set (aw_sessions w1). ses_id x = sn_sessionId a \<and> \<not> ses_isRevoked x \<and> ses_tokenFamily x = ses_tokenFamily s"
    using w1 by (intro bexI[of _ ?new]) (simp_all add: result_of_def new_session_def)
  ultimately show ?thesis
    using w1 reuse_revokes_family[OF x(1)] x(2) by (simp add: result_of_def new_session_def)
qed

theorem refresh_token_single_use_witness:
  "\<exists>a w1 w3. rotateSession sample_hash ''r'' ''r1'' ''s1'' 5 (sample_auth ''DRIVER'') = (Inr a, w1) \<and>
     rotateSession sample_hash ''r'' ''r2'' ''s2'' 6 w1 = (fail_with Unauthorized ''TOKEN_REUSE_DETECTED'', w3) \<and>
     (\<forall>x \<in> set (aw_sessions w3). ses_tokenFamily x = ''f'' \<longrightarrow> ses_isRevoked x)"
proof -
  let ?c = "rotateSession sample_hash ''r'' ''r1'' ''s1'' 5 (sample_auth ''DRIVER'')"
  have "\<exists>a w1. ?c = (Inr a, w1)"
    by (simp add: rotateSession_def rotate_find_def rotate_finish_def rotate_claim_def claim_def count_where_def
        insert_session_def Let_def sample_auth_defs)
  then obtain a w1 where c: "?c = (Inr a, w1)" by blast
  have row: "find_row ses_refreshTokenHash (sample_hash ''r'') (aw_sessions (sample_auth ''DRIVER'')) = Some sample_session"
    by (simp add: sample_auth_defs)
  have f: "rotate_finish sample_hash sample_session ''r1'' ''s1'' 5 (sample_auth ''DRIVER'') = (Inr a, w1)"
    using c row by (simp add: rotateSession_def rotate_find_def sample_session_def new_session_def week_ms_def)
  have u: "unique_keys ses_id (aw_sessions w1)"
    using rotate_finish_result[OF f]
    by (simp add: claim_def update_where_def rotate_row_def sample_auth_defs)
  obtain r w3 where r: "rotateSession sample_hash ''r'' ''r2'' ''s2'' 6 w1 = (r, w3)" by fastforce
  show ?thesis
    using c r refresh_token_single_use[OF c row auth_served.none u disjI1[OF r]]
    by (auto simp: sample_session_def new_session_def)
qed

section \<open>From login to the first request\<close>

lemma create_result:
  assumes "createSession h u d role raw fam i now w = (Inr a, w')"
  shows "a = result_of (new_session i u d (h raw) fam now) raw \<and> aw_users w' = aw_users w \<and>
    aw_devices w' = aw_devices w \<and> find_row dvc_id d (aw_devices w) \<noteq> None \<and>
    (\<exists>P. aw_sessions w' = update_where P revoke_row (aw_sessions w) @ [new_session i u d (h raw) fam now])"
proof (cases "role = ''DRIVER''")
  case True
  define s where "s = new_session i u d (h raw) fam now"
  have s: "ses_userId s = u" "ses_deviceId s = d" by (simp_all add: s_def new_session_def)
  define w1 where "w1 = revoke_session_keys (active_of u (aw_sessions w)) now w"
  have i: "insert_session s (revoke_user_rows u w1) = Inr w'" and a: "a = result_of s raw"
    using assms True s
    by (auto simp: createSession_def create_driver_session_def Let_def s_def[symmetric] w1_def split: sum.splits)
  have "find_row dvc_id d (aw_devices w) \<noteq> None"
    using i s by (auto simp: insert_session_def w1_def split: if_splits)
  then show ?thesis
    using insert_session_eq[OF i] a by (auto simp: w1_def s_def)
next
  case False
  define s where "s = new_session i u d (h raw) fam now"
  have s: "ses_userId s = u" "ses_deviceId s = d" by (simp_all add: s_def new_session_def)
  define es where "es = sessions_to_evict u w"
  have frame: "aw_users (foldl (evict now) x es) = aw_users x \<and> aw_devices (foldl (evict now) x es) = aw_devices x" for x
    by (induction es arbitrary: x) simp_all
  have i: "insert_session s (foldl (evict now) w es) = Inr w'" and a: "a = result_of s raw"
    using assms False s
    by (auto simp: createSession_def create_limited_session_def Let_def s_def[symmetric] es_def split: sum.splits)
  have "find_row dvc_id d (aw_devices w) \<noteq> None"
    using i s frame by (auto simp: insert_session_def split: if_splits)
  then show ?thesis
    using insert_session_eq[OF i] a frame by (auto simp: evict_all s_def)
qed

lemma isRevoked_answers:
  assumes "rd_connected rd" and "rd_oracle rd = []" and "rd_uncertain rd = []"
  shows "isRevoked k t rd = (Some (live rd t k \<noteq> None), rd)"
proof -
  have "pruneUncertainRevocationKeys t rd = rd" for t
    using assms(3) by (simp add: pruneUncertainRevocationKeys_def)
  then show ?thesis
    using assms by (simp add: isRevoked_def js_map_has_def send_command_def)
qed


definition sample_login :: login_dto where
  "sample_login = \<lparr>lgn_username = ''andi'', lgn_password = ''secret'', lgn_deviceId = None, lgn_clientType = MOBILE_CLIENT\<rparr>"

definition sample_fresh :: fresh_values where
  "sample_fresh = \<lparr>fv_rawToken = ''r9'', fv_family = ''f9'', fv_sessionId = ''s9'', fv_deviceId = ''d9''\<rparr>"


end
