(* ===== verification/CallProps.thy ===== *)
theory CallProps
  imports Calls AuthProps
begin

text \<open>
  Properties of calls under every interleaving of invitations, answers, hang-ups and timers: a call is
  answered at most once, signalling is possible only in the hour after an accepted invitation, and an
  unanswered invitation is closed by its timer.
\<close>

section \<open>Steps\<close>

text \<open>
  The writes run in any order and on any state: the checks that precede them in the code may have seen
  an older one.
\<close>

inductive call_step :: "comm_world \<Rightarrow> comm_world \<Rightarrow> bool" where
  invite: "find_row cal_id i (cm_calls w) = None \<Longrightarrow> call_step w (snd (initiateCallSession cfg dto actor i now w))"
| respond: "call_step w (snd (respond_write i action actor now now' w))"
| hang_up: "call_step w (snd (end_write i actor now w))"
| fire: "t \<in> set (cm_timers w) \<Longrightarrow> fst t \<le> now \<Longrightarrow> call_step w (fire_timer t now w)"

text \<open>The handlers are steps, or leave the state as it is.\<close>

lemma handlers_are_steps:
  "call_step\<^sup>=\<^sup>= w (snd (respondToCallSession i action actor now now' w))"
  "call_step\<^sup>=\<^sup>= w (snd (endCallSession i actor now w))"
  using call_step.respond call_step.hang_up
  by (auto simp: respondToCallSession_def endCallSession_def split: sum.split)

definition call_ok :: "call_session \<Rightarrow> bool" where
  "call_ok c \<longleftrightarrow>
     (cal_status c \<in> {CALL_PENDING, CALL_DECLINED, CALL_TIMEOUT} \<longrightarrow> cal_startedAt c = None) \<and>
     (cal_status c = CALL_ACTIVE \<longrightarrow> cal_startedAt c \<noteq> None) \<and>
     (cal_endedAt c \<noteq> None \<longleftrightarrow> cal_status c = CALL_ENDED) \<and>
     (\<forall>t. cal_startedAt c = Some t \<longrightarrow> cal_expiresAt c = t + ACTIVE_CALL_LIFETIME_MS)"

definition calls_inv :: "comm_world \<Rightarrow> bool" where
  "calls_inv w \<longleftrightarrow> unique_keys cal_id (cm_calls w) \<and> (\<forall>c \<in> set (cm_calls w). call_ok c) \<and>
     (\<forall>c \<in> set (cm_calls w). cal_status c = CALL_PENDING \<longrightarrow> (cal_expiresAt c, cal_id c) \<in> set (cm_timers w))"

text \<open>What each write does to the two columns of the state.\<close>

lemma initiate_cases:
  obtains (refused) "cm_calls (snd (initiateCallSession cfg dto actor i now w)) = cm_calls w"
    "cm_timers (snd (initiateCallSession cfg dto actor i now w)) = cm_timers w"
  | (invited) "cm_calls (snd (initiateCallSession cfg dto actor i now w)) = cm_calls w @ [new_call i dto actor now]"
    "cm_timers (snd (initiateCallSession cfg dto actor i now w)) = cm_timers w @ [(now + pendingTimeoutMs, i)]"
proof -
  let ?r = "snd (initiateCallSession cfg dto actor i now w)"
  have "cm_calls ?r = cm_calls w \<and> cm_timers ?r = cm_timers w \<or>
      cm_calls ?r = cm_calls w @ [new_call i dto actor now] \<and>
      cm_timers ?r = cm_timers w @ [(now + pendingTimeoutMs, i)]"
    by (auto simp: initiateCallSession_def insert_call_def broadcastCallInvite_def Let_def
        split: prod.split sum.split option.split)
  then show thesis using invited refused by blast
qed

lemma respond_frame:
  "cm_calls (snd (respond_write i action actor now now' w)) =
     snd (claim cal_id (answerable now) (respond_row action now) i (cm_calls w))"
  "cm_timers (snd (respond_write i action actor now now' w)) = cm_timers w"
  by (simp_all add: respond_write_def broadcastCallResponded_def Let_def split: prod.split)

lemma end_frame:
  "cm_calls (snd (end_write i actor now w)) = update_row cal_id i (end_row now) (cm_calls w)"
  "cm_timers (snd (end_write i actor now w)) = cm_timers w"
proof -
  have "update_row cal_id i (end_row now) (cm_calls w) = cm_calls w" if "find_row cal_id i (cm_calls w) = None"
    using that by (auto simp: update_row_def update_where_def find_row_None_iff intro: map_idI)
  then show "cm_calls (snd (end_write i actor now w)) = update_row cal_id i (end_row now) (cm_calls w)"
    "cm_timers (snd (end_write i actor now w)) = cm_timers w"
    by (simp_all add: end_write_def broadcastCallEnded_def Let_def split: option.split)
qed

lemma timeout_frame:
  assumes "unique_keys cal_id (cm_calls w)"
  shows "cm_calls (handlePendingTimeout i now w) = snd (claim cal_id (overdue now) timeout_row i (cm_calls w))"
    and "cm_timers (handlePendingTimeout i now w) = cm_timers w"
proof -
  have skip: "snd (claim cal_id (overdue now) timeout_row i (cm_calls w)) = cm_calls w"
    if "\<forall>c. find_row cal_id i (cm_calls w) = Some c \<longrightarrow> cal_status c \<noteq> CALL_PENDING"
    using that expiring.claim_eq[OF assms, of now i] by (auto simp: overdue_def split: option.split)
  show "cm_calls (handlePendingTimeout i now w) = snd (claim cal_id (overdue now) timeout_row i (cm_calls w))"
    "cm_timers (handlePendingTimeout i now w) = cm_timers w"
    using skip by (auto simp: handlePendingTimeout_def broadcastCallEnded_def Let_def split: option.split prod.split)
qed

section \<open>The invariant\<close>

lemma call_ok_rows:
  "call_ok c \<Longrightarrow> call_ok (end_row now c)"
  "call_ok c \<Longrightarrow> overdue now c \<Longrightarrow> call_ok (timeout_row c)"
  "call_ok c \<Longrightarrow> answerable now c \<Longrightarrow> call_ok (respond_row action now c)"
  "call_ok (new_call i dto actor now)"
  by (auto simp: call_ok_def end_row_def timeout_row_def overdue_def respond_row_def answerable_def
      response_status_def new_call_def)

lemma still_pending:
  "cal_status (end_row now c) \<noteq> CALL_PENDING"
  "cal_status (timeout_row c) \<noteq> CALL_PENDING"
  "cal_status (respond_row action now c) \<noteq> CALL_PENDING"
  by (auto simp: end_row_def timeout_row_def respond_row_def response_status_def)

lemma inv_step:
  assumes "call_step w w'" and "calls_inv w"
  shows "calls_inv w'"
  using assms(1)
proof cases
  case (invite i cfg dto actor now)
  then show ?thesis
    using assms(2)
    by (cases rule: initiate_cases[of cfg dto actor i now w])
      (auto simp: calls_inv_def call_ok_rows find_row_None_iff_keys, auto simp: new_call_def)
next
  case (respond i action actor now now')
  have "unique_keys cal_id (cm_calls w)" using assms(2) by (simp add: calls_inv_def)
  then show ?thesis
    using assms(2) answering.unique_claim[of "cm_calls w" now action i]
    unfolding respond(1) calls_inv_def respond_frame answering.claim_set
    by (auto simp: call_ok_rows still_pending)
next
  case (hang_up i actor now)
  have "map cal_id (update_row cal_id i (end_row now) (cm_calls w)) = map cal_id (cm_calls w)"
    by (rule map_key_update_row) (simp add: end_row_def)
  then show ?thesis
    using assms(2) unfolding hang_up(1) calls_inv_def end_frame set_update_row
    by (auto simp: call_ok_rows still_pending)
next
  case (fire t now)
  let ?w = "w\<lparr>cm_timers := remove1 t (cm_timers w)\<rparr>"
  have u: "unique_keys cal_id (cm_calls ?w)" using assms(2) by (simp add: calls_inv_def)
  have timer: "(cal_expiresAt c, cal_id c) \<in> set (remove1 t (cm_timers w))"
    if "c \<in> set (cm_calls w)" "cal_status c = CALL_PENDING" "\<not> (cal_id c = snd t \<and> overdue now c)" for c
  proof -
    have "(cal_expiresAt c, cal_id c) \<noteq> t" using that fire(3) by (auto simp: overdue_def)
    then show ?thesis using assms(2) that by (auto simp: calls_inv_def)
  qed
  show ?thesis
    using assms(2) timer expiring.unique_claim[OF u, of now "snd t"]
    unfolding fire(1) fire_timer_def calls_inv_def timeout_frame[OF u] expiring.claim_set
    by (auto simp: call_ok_rows still_pending)
qed

lemma inv_steps: "call_step\<^sup>*\<^sup>* w w' \<Longrightarrow> calls_inv w \<Longrightarrow> calls_inv w'"
  by (induction rule: rtranclp_induct) (auto intro: inv_step)

lemma inv_start: "cm_calls w = [] \<Longrightarrow> calls_inv w"
  by (simp add: calls_inv_def)

section \<open>The life of a call\<close>

lemma graph_step:
  assumes "call_step w w'" and "calls_inv w"
  shows "table_step cal_id cal_status call_edge (cm_calls w) (cm_calls w')"
  using assms(1)
proof cases
  case (invite i cfg dto actor now)
  then show ?thesis
    by (cases rule: initiate_cases[of cfg dto actor i now w]) (simp_all add: table_step_append)
next
  case (respond i action actor now now')
  then show ?thesis by (simp add: respond_frame answering.step_claim)
next
  case (hang_up i actor now)
  have "call_edge s CALL_ENDED" for s by (cases s) simp_all
  then show ?thesis
    unfolding hang_up(1) end_frame by (intro table_step_update_row) (simp_all add: end_row_def)
next
  case (fire t now)
  have u: "unique_keys cal_id (cm_calls (w\<lparr>cm_timers := remove1 t (cm_timers w)\<rparr>))"
    using assms(2) by (simp add: calls_inv_def)
  show ?thesis
    unfolding fire(1) fire_timer_def timeout_frame[OF u] using expiring.step_claim by simp
qed

lemma graph_steps:
  "call_step\<^sup>*\<^sup>* w w' \<Longrightarrow> calls_inv w \<Longrightarrow> table_run cal_id cal_status call_edge (cm_calls w) (cm_calls w')"
proof (induction rule: rtranclp_induct)
  case (step y z)
  then show ?case
    using table_step_run[OF graph_step[OF step.hyps(2)]] inv_steps[OF step.hyps(1)] by (blast intro: table_run_trans)
qed simp

lemma answered_stays: "call_edge\<^sup>*\<^sup>* s t \<Longrightarrow> s \<noteq> CALL_PENDING \<Longrightarrow> t \<noteq> CALL_PENDING"
  by (induction rule: rtranclp_induct) (auto elim: call_edge.elims)

lemma no_longer_pending:
  assumes "calls_inv w" and "call_step\<^sup>*\<^sup>* w w'" and "find_row cal_id i (cm_calls w) = Some c"
    and "cal_status c \<noteq> CALL_PENDING"
  shows "\<exists>c'. find_row cal_id i (cm_calls w') = Some c' \<and> cal_status c' \<noteq> CALL_PENDING"
  using graph_steps[OF assms(2,1)] assms(3,4) answered_stays unfolding table_run_def by metis

lemma claims_miss:
  assumes "calls_inv w" and "find_row cal_id i (cm_calls w) = Some c" and "cal_status c \<noteq> CALL_PENDING"
  shows "claim cal_id (answerable now) (respond_row action now) i (cm_calls w) = (0, cm_calls w)"
    and "claim cal_id (overdue now) timeout_row i (cm_calls w) = (0, cm_calls w)"
  using assms answering.claim_eq[of "cm_calls w" now action i] expiring.claim_eq[of "cm_calls w" now i]
  by (simp_all add: calls_inv_def answerable_def overdue_def)

section \<open>Properties\<close>

definition sample_comm :: comm_world where
  "sample_comm = \<lparr>cm_deliveries = [], cm_drivers = [\<lparr>drv_id = ''drv'', drv_userId = ''du'', drv_organizationId = None\<rparr>],
     cm_devices = [sample_device], cm_calls = [], cm_timers = [], cm_conversations = [], cm_messages = [],
     cm_deviceKeys = [], cm_prekeys = [], cm_idempotency = [], cm_audit = [], cm_redis = sample_redis,
     cm_gatewayUp = True, cm_emitted = []\<rparr>"

definition sample_owner_actor :: user_actor where
  "sample_owner_actor = \<lparr>ua_userId = ''o'', ua_role = ''OWNER'', ua_driverId = None, ua_deviceId = Some ''d''\<rparr>"

definition sample_driver_actor :: user_actor where
  "sample_driver_actor = \<lparr>ua_userId = ''du'', ua_role = ''DRIVER'', ua_driverId = Some ''drv'', ua_deviceId = Some ''d''\<rparr>"

definition sample_turn :: turn_config where
  "sample_turn = \<lparr>tc_hmac = rev, tc_serverUrl = ''turn:''\<rparr>"

definition sample_invite :: initiate_call_dto where
  "sample_invite = \<lparr>icd_driverId = ''drv'', icd_type = VIDEO, icd_deliveryId = None\<rparr>"

text \<open>The state after one invitation, and after it has been accepted.\<close>

definition ringing :: comm_world where
  "ringing = snd (initiateCallSession sample_turn sample_invite sample_owner_actor ''c'' 0 sample_comm)"

definition talking :: comm_world where
  "talking = snd (respond_write ''c'' ACCEPT sample_driver_actor 5 5 ringing)"

lemma ringing_reached: "call_step\<^sup>*\<^sup>* sample_comm ringing"
  unfolding ringing_def by (rule r_into_rtranclp, rule call_step.invite) (simp add: sample_comm_def)

lemma talking_reached: "call_step\<^sup>*\<^sup>* sample_comm talking"
  unfolding talking_def by (rule rtranclp.rtrancl_into_rtrancl[OF ringing_reached call_step.respond])

lemma sample_calls [simp]:
  "cm_calls sample_comm = []"
  "cm_calls ringing = [new_call ''c'' sample_invite sample_owner_actor 0]"
  "cm_timers ringing = [(30000, ''c'')]"
  "cm_calls talking = [respond_row ACCEPT 5 (new_call ''c'' sample_invite sample_owner_actor 0)]"
proof -
  show "cm_calls sample_comm = []" by (simp add: sample_comm_def)
  show r: "cm_calls ringing = [new_call ''c'' sample_invite sample_owner_actor 0]"
    and "cm_timers ringing = [(30000, ''c'')]"
    by (simp_all add: ringing_def initiateCallSession_def sample_owner_actor_def incrRateLimit_def sample_comm_def
        sample_redis_def send_command_def live_def store_def incr_value_def owner_delivery_check_def sample_invite_def
        insert_call_def new_call_def pendingTimeoutMs_def broadcastCallInvite_def Let_def)
  show "cm_calls talking = [respond_row ACCEPT 5 (new_call ''c'' sample_invite sample_owner_actor 0)]"
    by (simp add: talking_def respond_frame r claim_def update_where_def answerable_def new_call_def pendingTimeoutMs_def)
qed

text \<open>
  C22.  A call is answered at most once.  After one answer has been recorded, whatever happens then, every
  other answer, also one whose checks ran while the call was still pending, is refused with a conflict and
  changes no call, and the timer changes none either.
\<close>

theorem answered_at_most_once:
  assumes "cm_calls w0 = []" and "call_step\<^sup>*\<^sup>* w0 w"
    and "respond_write i action actor now t w = (Inr c, w1)" and "call_step\<^sup>*\<^sup>* w1 w2"
  shows "\<exists>e. fst (respond_write i action' actor' now' t' w2) = Inl e \<and> err_kind e = Conflict \<and>
    cm_calls (snd (respond_write i action' actor' now' t' w2)) = cm_calls w2 \<and>
    cm_calls (handlePendingTimeout i now' w2) = cm_calls w2"
proof -
  have inv: "calls_inv w" using inv_steps[OF assms(2) inv_start[OF assms(1)]] .
  have u: "unique_keys cal_id (cm_calls w)" using inv by (simp add: calls_inv_def)
  have step: "call_step w w1" using call_step.respond[of w i action actor now t] assms(3) by simp
  have inv1: "calls_inv w1" using inv_step[OF step inv] .
  have "fst (claim cal_id (answerable now) (respond_row action now) i (cm_calls w)) = 1"
    using assms(3) by (auto simp: respond_write_def Let_def split: prod.splits if_splits option.splits)
  then obtain r where r: "find_row cal_id i (cm_calls w) = Some r" "answerable now r"
    using answering.claim_won_iff[OF u] by blast
  have "find_row cal_id i (cm_calls w1) = Some (respond_row action now r)"
    using respond_frame(1)[of i action actor now t w] assms(3) r by (simp add: answering.find_claim)
  then obtain c2 where "find_row cal_id i (cm_calls w2) = Some c2" "cal_status c2 \<noteq> CALL_PENDING"
    using no_longer_pending[OF inv1 assms(4)] still_pending(3) by blast
  moreover have inv2: "calls_inv w2" using inv_steps[OF assms(4) inv1] .
  moreover have "unique_keys cal_id (cm_calls w2)" using inv2 by (simp add: calls_inv_def)
  ultimately show ?thesis
    using claims_miss[of w2 i c2] timeout_frame(1)[of w2 i now']
    by (simp add: respond_write_def Let_def)
qed

theorem answered_at_most_once_witness:
  "\<exists>e. fst (respond_write ''c'' DECLINE sample_owner_actor 6 6 talking) = Inl e \<and> err_kind e = Conflict \<and>
    cm_calls (snd (respond_write ''c'' DECLINE sample_owner_actor 6 6 talking)) = cm_calls talking \<and>
    cm_calls (handlePendingTimeout ''c'' 6 talking) = cm_calls talking"
proof -
  have "\<exists>c. fst (respond_write ''c'' ACCEPT sample_driver_actor 5 5 ringing) = Inr c"
    by (simp add: respond_write_def claim_def count_where_def update_where_def answerable_def new_call_def
        pendingTimeoutMs_def Let_def)
  then obtain c where "respond_write ''c'' ACCEPT sample_driver_actor 5 5 ringing = (Inr c, talking)"
    unfolding talking_def by (metis prod.collapse)
  then show ?thesis
    using answered_at_most_once[OF sample_calls(1) ringing_reached] by blast
qed

text \<open>
  C23.  Signalling messages are let through only for a participant and only within one hour after the
  invitation was accepted: if \<open>authorizeSignal\<close> succeeds, the call has a start time, less than an hour
  ago, has not ended, and the actor is its owner, its driver or an administrator.
\<close>

theorem signals_within_the_hour:
  assumes "cm_calls w0 = []" and "call_step\<^sup>*\<^sup>* w0 w" and "authorizeSignal i actor now w = Inr c"
  shows "c \<in> set (cm_calls w) \<and> cal_id c = i \<and>
    (\<exists>t. cal_startedAt c = Some t \<and> now < t + 60 * 60 * 1000) \<and> cal_endedAt c = None \<and>
    (cal_ownerId c = ua_userId actor \<or> Some (cal_driverId c) = ua_driverId actor \<or>
     ua_role actor \<in> {''ADMIN'', ''SUPER_ADMIN''})"
proof -
  have inv: "calls_inv w" using inv_steps[OF assms(2) inv_start[OF assms(1)]] .
  have row: "find_row cal_id i (cm_calls w) = Some c" and p: "isAuthorizedParticipant c actor"
    and a: "cal_status c = CALL_ACTIVE" "now < cal_expiresAt c"
    using assms(3) by (auto simp: authorizeSignal_def find_call_def split: option.splits sum.splits if_splits)
  have "call_ok c" using inv find_row_SomeD[OF row] by (simp add: calls_inv_def)
  then show ?thesis
    using find_row_SomeD[OF row] p a
    by (auto simp: call_ok_def isAuthorizedParticipant_def is_admin_def ACTIVE_CALL_LIFETIME_MS_def split: if_splits)
qed

theorem signals_within_the_hour_witness:
  "\<exists>c. authorizeSignal ''c'' sample_driver_actor 7 talking = Inr c \<and> (\<exists>t. cal_startedAt c = Some t \<and> (7::int) < t + 60 * 60 * 1000)"
proof -
  have "\<exists>c. authorizeSignal ''c'' sample_driver_actor 7 talking = Inr c"
    by (simp add: authorizeSignal_def find_call_def isAuthorizedParticipant_def is_admin_def sample_driver_actor_def
        respond_row_def new_call_def sample_invite_def response_status_def ACTIVE_CALL_LIFETIME_MS_def)
  then show ?thesis
    using signals_within_the_hour[OF sample_calls(1) talking_reached] by blast
qed

text \<open>
  C24.  No invitation rings for ever: in every state every pending call has a timer set for the moment its
  invitation expires, that timer can fire from then on, and when it fires the call is no longer pending.
\<close>

theorem pending_calls_are_closed:
  assumes "cm_calls w0 = []" and "call_step\<^sup>*\<^sup>* w0 w" and "c \<in> set (cm_calls w)" and "cal_status c = CALL_PENDING"
  shows "(cal_expiresAt c, cal_id c) \<in> set (cm_timers w) \<and>
    (\<forall>now. cal_expiresAt c \<le> now \<longrightarrow>
       call_step w (fire_timer (cal_expiresAt c, cal_id c) now w) \<and>
       find_row cal_id (cal_id c) (cm_calls (fire_timer (cal_expiresAt c, cal_id c) now w)) =
         Some (c\<lparr>cal_status := CALL_TIMEOUT\<rparr>))"
proof -
  have inv: "calls_inv w" using inv_steps[OF assms(2) inv_start[OF assms(1)]] .
  let ?t = "(cal_expiresAt c, cal_id c)"
  have t: "?t \<in> set (cm_timers w)" using inv assms(3,4) by (simp add: calls_inv_def)
  have u: "unique_keys cal_id (cm_calls (w\<lparr>cm_timers := remove1 ?t (cm_timers w)\<rparr>))"
    using inv by (simp add: calls_inv_def)
  have "find_row cal_id (cal_id c) (cm_calls w) = Some c"
    using find_row_unique[of cal_id, OF _ assms(3)] inv by (simp add: calls_inv_def)
  then have "find_row cal_id (cal_id c) (cm_calls (fire_timer ?t now w)) = Some (c\<lparr>cal_status := CALL_TIMEOUT\<rparr>)"
    if "cal_expiresAt c \<le> now" for now
    using that assms(4) unfolding fire_timer_def timeout_frame[OF u]
    by (simp add: expiring.find_claim overdue_def timeout_row_def)
  then show ?thesis
    using t call_step.fire[OF t] by simp
qed

theorem pending_calls_are_closed_witness:
  "find_row cal_id ''c'' (cm_calls (fire_timer (30000, ''c'') 30000 ringing)) =
     Some ((new_call ''c'' sample_invite sample_owner_actor 0)\<lparr>cal_status := CALL_TIMEOUT\<rparr>)"
proof -
  let ?c = "new_call ''c'' sample_invite sample_owner_actor 0"
  have c: "?c \<in> set (cm_calls ringing)" "cal_status ?c = CALL_PENDING" "cal_expiresAt ?c = 30000" "cal_id ?c = ''c''"
    by (simp, simp_all add: new_call_def pendingTimeoutMs_def)
  show ?thesis
    using pending_calls_are_closed[OF sample_calls(1) ringing_reached c(1,2)] c(3,4) by auto
qed

end
