(* ===== verification/KeyProps.thy ===== *)
theory KeyProps
  imports Keys CallProps
begin

text \<open>
  One-time prekeys are handed out once: in every sequence of uploads, registrations and takings, also
  when concurrent statements have locked rows.
\<close>

section \<open>Rows\<close>

abbreviation prekey_place :: "prekey \<Rightarrow> uuid \<times> int" where
  "prekey_place p \<equiv> (pky_deviceId p, pky_keyId p)"

lemma add_prekey_unique:
  assumes "distinct (map prekey_place ps)" and "distinct (map pky_id ps)" and "fst ip \<notin> pky_id ` set ps"
  shows "distinct (map prekey_place (add_prekey d ps ip))" and "distinct (map pky_id (add_prekey d ps ip))"
    and "pky_id ` set (add_prekey d ps ip) \<subseteq> insert (fst ip) (pky_id ` set ps)"
    and "\<exists>new. add_prekey d ps ip = ps @ new"
  using assms by (auto simp: add_prekey_def)

lemma disjoint_insert_sub: "A \<subseteq> insert x B \<Longrightarrow> x \<notin> C \<Longrightarrow> C \<inter> B = {} \<Longrightarrow> C \<inter> A = {}"
  by blast

lemma add_prekeys_unique:
  assumes "distinct (map prekey_place ps)" and "distinct (map pky_id ps)"
    and "distinct (map fst ips)" and "fst ` set ips \<inter> pky_id ` set ps = {}"
  shows "distinct (map prekey_place (foldl (add_prekey d) ps ips)) \<and> distinct (map pky_id (foldl (add_prekey d) ps ips)) \<and>
    (\<exists>new. foldl (add_prekey d) ps ips = ps @ new)"
  using assms
proof (induction ips arbitrary: ps)
  case (Cons ip ips)
  have ip: "fst ip \<notin> pky_id ` set ps" "fst ip \<notin> fst ` set ips" "fst ` set ips \<inter> pky_id ` set ps = {}"
    using Cons.prems(3,4) by auto
  note a = add_prekey_unique[OF Cons.prems(1,2) ip(1), of d]
  have "fst ` set ips \<inter> pky_id ` set (add_prekey d ps ip) = {}"
    by (rule disjoint_insert_sub[OF a(3) ip(2,3)])
  moreover have "distinct (map fst ips)" using Cons.prems(3) by simp
  ultimately have "distinct (map prekey_place (foldl (add_prekey d) (add_prekey d ps ip) ips)) \<and>
      distinct (map pky_id (foldl (add_prekey d) (add_prekey d ps ip) ips)) \<and>
      (\<exists>new. foldl (add_prekey d) (add_prekey d ps ip) ips = add_prekey d ps ip @ new)"
    using Cons.IH[OF a(1,2)] by blast
  moreover obtain new where "add_prekey d ps ip = ps @ new" using a(4) by blast
  ultimately show ?case by (metis append_assoc foldl_Cons)
qed simp

lemma candidates_hd:
  assumes "candidates d locked ps = p # rest"
  shows "p \<in> set ps" "available d p" "pky_id p \<notin> set locked"
    "\<forall>q \<in> set ps. available d q \<and> pky_id q \<notin> set locked \<longrightarrow> pky_keyId p \<le> pky_keyId q"
proof -
  have s: "set (candidates d locked ps) = {q \<in> set ps. available d q \<and> pky_id q \<notin> set locked}"
    by (simp add: candidates_def)
  have "sorted (map pky_keyId (candidates d locked ps))" by (simp add: candidates_def)
  then show "\<forall>q \<in> set ps. available d q \<and> pky_id q \<notin> set locked \<longrightarrow> pky_keyId p \<le> pky_keyId q"
    using s assms by auto
  show "p \<in> set ps" "available d p" "pky_id p \<notin> set locked"
    using s assms by auto
qed

lemma candidates_none: "candidates d [] ps = [] \<longleftrightarrow> (\<forall>p \<in> set ps. \<not> available d p)"
  unfolding candidates_def set_empty[symmetric] by auto

section \<open>Runs\<close>

definition handed_out :: "prekey_bundle \<Rightarrow> (uuid \<times> int) list" where
  "handed_out b = (case pkb_oneTimePrekey b of None \<Rightarrow> [] | Some (k, pub) \<Rightarrow> [(pkb_deviceId b, k)])"

text \<open>\<open>key_run w outs w'\<close>: a sequence of requests leads from \<open>w\<close> to \<open>w'\<close> and has handed out \<open>outs\<close>.\<close>

inductive key_run :: "comm_world \<Rightarrow> (uuid \<times> int) list \<Rightarrow> comm_world \<Rightarrow> bool" for w where
  start: "key_run w [] w"
| publish: "key_run w outs w1 \<Longrightarrow> key_run w outs (snd (registerDeviceKeys dto a i w1))"
| upload: "key_run w outs w1 \<Longrightarrow> distinct ids \<Longrightarrow> set ids \<inter> pky_id ` set (cm_prekeys w1) = {} \<Longrightarrow>
    key_run w outs (snd (uploadPrekeys dto a ids w1))"
| consume: "key_run w outs w1 \<Longrightarrow> consumePrekeyBundle d locked now w1 = (Inr b, w2) \<Longrightarrow>
    key_run w (outs @ handed_out b) w2"

definition prekeys_ok :: "(uuid \<times> int) list \<Rightarrow> prekey list \<Rightarrow> bool" where
  "prekeys_ok outs ps \<longleftrightarrow> distinct (map prekey_place ps) \<and> distinct (map pky_id ps) \<and> distinct outs \<and>
     (\<forall>x \<in> set outs. \<exists>p \<in> set ps. prekey_place p = x \<and> pky_isConsumed p)"

lemma consume_eq:
  "consumePrekeyBundle d locked now w = (Inr b, w') \<longleftrightarrow>
     (\<exists>k. find_row dky_deviceId d (cm_deviceKeys w) = Some k \<and>
        b = \<lparr>pkb_deviceId = d, pkb_identityKeyPublic = dky_identityKeyPublic k,
             pkb_signedPrekeyPublic = dky_signedPrekeyPublic k, pkb_signedPrekeySig = dky_signedPrekeySig k,
             pkb_oneTimePrekey = map_option (\<lambda>p. (pky_keyId p, pky_publicKey p)) (fst (take_prekey d locked now (cm_prekeys w)))\<rparr> \<and>
        w' = w\<lparr>cm_prekeys := snd (take_prekey d locked now (cm_prekeys w))\<rparr>)"
  by (auto simp: consumePrekeyBundle_def Let_def split: option.splits prod.splits)

lemma run_ok:
  assumes "key_run w outs w'" and "prekeys_ok [] (cm_prekeys w)"
  shows "prekeys_ok outs (cm_prekeys w')"
  using assms(1)
proof induction
  case start
  then show ?case using assms(2) .
next
  case (publish outs w1 dto a i)
  then show ?case
    by (simp add: registerDeviceKeys_def Let_def split: sum.split prod.split)
next
  case (upload outs w1 ids dto a)
  let ?ps = "foldl (add_prekey (upk_deviceId dto)) (cm_prekeys w1) (zip ids (upk_prekeys dto))"
  have "map fst (zip ids (upk_prekeys dto)) = take (min (length ids) (length (upk_prekeys dto))) ids"
    by (rule map_fst_zip_take)
  then have "distinct (map fst (zip ids (upk_prekeys dto)))" "fst ` set (zip ids (upk_prekeys dto)) \<subseteq> set ids"
    using upload.hyps(2) set_zip_leftD by (auto, fastforce)
  then have "distinct (map prekey_place ?ps) \<and> distinct (map pky_id ?ps) \<and> (\<exists>new. ?ps = cm_prekeys w1 @ new)"
    using upload.IH upload.hyps(3) by (intro add_prekeys_unique) (auto simp: prekeys_ok_def)
  then have "prekeys_ok outs ?ps"
    using upload.IH unfolding prekeys_ok_def by (metis UnI1 set_append)
  then show ?case
    using upload.IH by (simp add: uploadPrekeys_def Let_def split: sum.split)
next
  case (consume outs w1 d locked now b w2)
  show ?case
  proof (cases "candidates d locked (cm_prekeys w1)")
    case Nil
    then have "handed_out b = []" "cm_prekeys w2 = cm_prekeys w1"
      using consume.hyps(2) by (auto simp: consume_eq take_prekey_def handed_out_def)
    then show ?thesis using consume.IH by simp
  next
    case (Cons p rest)
    note p = candidates_hd[OF Cons]
    let ?ps = "update_row pky_id (pky_id p) (consume_row now) (cm_prekeys w1)"
    have out: "handed_out b = [(d, pky_keyId p)]" and w2: "cm_prekeys w2 = ?ps"
      using consume.hyps(2) Cons by (auto simp: consume_eq take_prekey_def handed_out_def)
    have keep: "map prekey_place ?ps = map prekey_place (cm_prekeys w1)" "map pky_id ?ps = map pky_id (cm_prekeys w1)"
      by (rule map_key_update_row, simp add: consume_row_def)+
    have d: "prekey_place p = (d, pky_keyId p)" "\<not> pky_isConsumed p"
      using p(2) by (auto simp: available_def)
    have new: "(d, pky_keyId p) \<notin> set outs"
    proof
      assume "(d, pky_keyId p) \<in> set outs"
      then obtain q where "q \<in> set (cm_prekeys w1)" "prekey_place q = (d, pky_keyId p)" "pky_isConsumed q"
        using consume.IH by (auto simp: prekeys_ok_def)
      then have "q = p"
        using consume.IH p(1) d(1) unfolding prekeys_ok_def distinct_map inj_on_def by metis
      then show False using \<open>pky_isConsumed q\<close> d(2) by simp
    qed
    have "\<exists>q \<in> set ?ps. prekey_place q = x \<and> pky_isConsumed q" if x: "x \<in> set (outs @ [(d, pky_keyId p)])" for x
    proof -
      obtain q where q: "q \<in> set (cm_prekeys w1)" "prekey_place q = x" "pky_isConsumed q \<or> q = p"
      proof (cases "x = (d, pky_keyId p)")
        case True
        then show thesis using that[of p] p(1) d(1) by blast
      next
        case False
        then have "x \<in> set outs" using x by simp
        then show thesis using consume.IH that unfolding prekeys_ok_def by blast
      qed
      then show ?thesis
        by (intro bexI[of _ "if pky_id q = pky_id p then consume_row now q else q"])
          (auto simp: set_update_row consume_row_def)
    qed
    then show ?thesis
      using consume.IH new unfolding out w2 prekeys_ok_def keep by simp
  qed
qed

text \<open>
  C25.  A one-time prekey is used once.  Whatever batches are uploaded, repeated or not, and whichever rows
  concurrent requests have locked, no two bundles contain the same prekey of a device; and a bundle
  requested while no row is locked contains the unused prekey with the smallest key id, or none exactly
  when the device has none left.
\<close>

theorem prekeys_used_once:
  assumes "key_run w outs w'" and "distinct (map prekey_place (cm_prekeys w))" and "distinct (map pky_id (cm_prekeys w))"
    and "consumePrekeyBundle d [] now w' = (Inr b, w'')"
  shows "distinct (outs @ handed_out b) \<and>
    (pkb_oneTimePrekey b = None \<longleftrightarrow> (\<forall>p \<in> set (cm_prekeys w'). \<not> available d p)) \<and>
    (\<forall>k pub. pkb_oneTimePrekey b = Some (k, pub) \<longrightarrow>
       (\<exists>p \<in> set (cm_prekeys w'). available d p \<and> pky_keyId p = k \<and> pky_publicKey p = pub) \<and>
       (\<forall>p \<in> set (cm_prekeys w'). available d p \<longrightarrow> k \<le> pky_keyId p))"
proof -
  have "prekeys_ok (outs @ handed_out b) (cm_prekeys w'')"
    using run_ok[OF key_run.consume[OF assms(1,4)]] assms(2,3) by (simp add: prekeys_ok_def)
  then have "distinct (outs @ handed_out b)" by (simp add: prekeys_ok_def)
  moreover have "pkb_oneTimePrekey b = map_option (\<lambda>p. (pky_keyId p, pky_publicKey p)) (fst (take_prekey d [] now (cm_prekeys w')))"
    using assms(4) by (auto simp: consume_eq)
  ultimately show ?thesis
    using candidates_hd[of d "[]" "cm_prekeys w'"] candidates_none[of d "cm_prekeys w'"]
    by (cases "candidates d [] (cm_prekeys w')") (auto simp: take_prekey_def)
qed

definition key_sample :: comm_world where
  "key_sample = sample_comm\<lparr>cm_deviceKeys := [\<lparr>dky_id = ''k'', dky_deviceId = ''d'', dky_identityKeyPublic = ''i'',
     dky_signedPrekeyPublic = ''p'', dky_signedPrekeySig = ''g''\<rparr>]\<rparr>"

definition key_batch :: upload_prekeys_dto where
  "key_batch = \<lparr>upk_deviceId = ''d'', upk_prekeys = [\<lparr>pki_keyId = 7, pki_publicKey = ''a''\<rparr>, \<lparr>pki_keyId = 3, pki_publicKey = ''b''\<rparr>]\<rparr>"

theorem prekeys_used_once_witness:
  "\<exists>b w''. consumePrekeyBundle ''d'' [] 1 (snd (uploadPrekeys key_batch ''u'' [''x'', ''y''] key_sample)) = (Inr b, w'') \<and>
     pkb_oneTimePrekey b = Some (3, ''b'')"
proof -
  let ?w = "snd (uploadPrekeys key_batch ''u'' [''x'', ''y''] key_sample)"
  have ps: "cm_prekeys ?w =
     [\<lparr>pky_id = ''x'', pky_deviceId = ''d'', pky_keyId = 7, pky_publicKey = ''a'', pky_isConsumed = False, pky_consumedAt = None\<rparr>,
      \<lparr>pky_id = ''y'', pky_deviceId = ''d'', pky_keyId = 3, pky_publicKey = ''b'', pky_isConsumed = False, pky_consumedAt = None\<rparr>]"
    and ks: "cm_deviceKeys ?w = cm_deviceKeys key_sample"
    by (simp_all add: uploadPrekeys_def own_device_def key_batch_def key_sample_def sample_comm_def sample_device_def
        fits_int4_def add_prekey_def comm_audit_def Let_def)
  have run: "key_run key_sample [] ?w"
    by (rule key_run.upload[OF key_run.start]) (simp_all add: key_sample_def sample_comm_def)
  have "\<exists>b w''. consumePrekeyBundle ''d'' [] 1 ?w = (Inr b, w'')"
    by (simp add: consume_eq ks) (simp add: key_sample_def)
  then obtain b w'' where b: "consumePrekeyBundle ''d'' [] 1 ?w = (Inr b, w'')" by blast
  have "distinct (map prekey_place (cm_prekeys key_sample))" "distinct (map pky_id (cm_prekeys key_sample))"
    by (simp_all add: key_sample_def sample_comm_def)
  note c = prekeys_used_once[OF run this b]
  obtain k pub where kp: "pkb_oneTimePrekey b = Some (k, pub)"
    using c by (cases "pkb_oneTimePrekey b") (auto simp: ps available_def)
  then have "k \<le> 3" "(k, pub) \<in> {(7, ''a''), (3, ''b'')}"
    using c by (auto simp: ps available_def)
  then show ?thesis using b kp by auto
qed

end
