(* ===== verification/ChatProps.thy ===== *)
theory ChatProps
  imports Chat KeyProps
begin

text \<open>
  Properties of conversations: replayed messages, pages of messages and who can read and write.
\<close>

section \<open>Idempotency\<close>

lemma message_roundtrip: "message_of_json (message_json m) = m"
proof -
  have t: "json_time (Some (jtime x)) = x" for x
    by (cases x) (simp_all add: json_time_def jtime_def)
  show ?thesis
    by (simp add: message_of_json_def message_json_def json_string_def json_int_def t)
qed

lemma send_write_frame:
  "cm_messages (snd (send_write c dto actor ep i now w)) = cm_messages w @ [new_message c dto actor i now]"
  by (simp add: send_write_def Let_def split: option.split)

lemma send_check_frame:
  "send_check c dto actor ep now w = (r, w') \<Longrightarrow> \<exists>rd. w' = w\<lparr>cm_redis := rd\<rparr>"
  by (auto simp: send_check_def Let_def split: sum.splits prod.splits if_splits intro: exI[of _ "cm_redis w"])

lemma sendMessage_cases:
  assumes "sendMessage c dto actor ep i now w = (Inr r, w')"
  obtains (replayed) w1 where "send_check c dto actor ep now w = (Inr (Some r), w1)" "w' = w1"
  | (stored) w1 where "send_check c dto actor ep now w = (Inr None, w1)" "(r, w') = send_write c dto actor ep i now w1"
  using assms unfolding sendMessage_def
  by (cases "send_check c dto actor ep now w") (auto split: sum.splits option.splits prod.splits)

lemma send_checked:
  assumes "send_check c dto actor ep now w = (Inr x, w')"
  shows "send_guard c dto actor w = Inr ()"
    and "x = (case request_key (smd_idempotencyKey dto) (ua_userId actor) ep of
                None \<Rightarrow> None
              | Some k \<Rightarrow> map_option (\<lambda>r. \<lparr>mrs_message = message_of_json (idm_responseBody r), mrs_idempotent = True\<rparr>)
                  (find_row idm_key k (cm_idempotency w)))"
  using assms by (auto simp: send_check_def Let_def split: sum.splits prod.splits if_splits option.splits)


definition chat_sample :: comm_world where
  "chat_sample = sample_comm\<lparr>cm_conversations := [\<lparr>cnv_id = ''v'', cnv_ownerId = ''o'', cnv_driverId = ''drv'', cnv_archived = False\<rparr>]\<rparr>"

definition sample_message :: send_message_dto where
  "sample_message = \<lparr>smd_recipientDeviceId = ''d'', smd_protocolVersion = None, smd_ciphertextBlob = ''x'',
     smd_headerJson = JObj [], smd_idempotencyKey = Some ''key''\<rparr>"

lemmas chat_sample_defs = chat_sample_def sample_message_def sample_comm_def sample_owner_actor_def sample_device_def
  sample_redis_def

lemma sample_sends:
  "\<exists>r w1. sendMessage ''v'' sample_message sample_owner_actor ''e'' ''m'' 5 chat_sample = (Inr r, w1) \<and>
     \<not> mrs_idempotent r \<and> (\<exists>r' w2. sendMessage ''v'' sample_message sample_owner_actor ''e'' ''m2'' 6 w1 = (Inr r', w2))"
  by (simp add: sendMessage_def send_check_def send_guard_def verifyConversationAccess_def is_admin_def usable_device_def
      incrRateLimit_def incr_value_def live_def send_command_def store_def request_key_def send_write_def
      chat_sample_defs Let_def)


text \<open>
  The lookup and the insert of the record are separate: of two requests with one key that both looked before
  either wrote, both store a message, and only the first is recorded.
\<close>

lemma concurrent_sends_duplicate:
  assumes "send_check c dto actor ep now w = (Inr None, w1)" and "send_check c dto actor ep now' w1 = (Inr None, w2)"
  shows "cm_messages (snd (send_write c dto actor ep i' now' (snd (send_write c dto actor ep i now w2)))) =
    cm_messages w @ [new_message c dto actor i now, new_message c dto actor i' now']"
  using send_check_frame[OF assms(1)] send_check_frame[OF assms(2)] by (auto simp: send_write_frame)

section \<open>Pages\<close>

lemma take_drop_pages:
  assumes "0 < L" and "length xs \<le> n * L"
  shows "concat (map (\<lambda>k. take L (drop (k * L) xs)) [0..<n]) = xs"
proof -
  have "concat (map (\<lambda>k. take L (drop (k * L) xs)) [0..<m]) = take (m * L) xs" for m
  proof (induction m)
    case (Suc m)
    then show ?case using take_add[of "m * L" L xs] by (simp add: add.commute)
  qed simp
  then show ?thesis using assms(2) by simp
qed

text \<open>
   Pages are complete: an actor may read the messages of a conversation exactly when the actor may send to it,
  that is as its owner, its driver or an administrator; and the pages of any size from the first on, put
  together, are all messages of the conversation, the newest first, each once, while the total counts
  them.
\<close>

theorem pages_cover_conversation:
  assumes "verifyConversationAccess c actor w = Inr cv" and "0 < L" and "length (messages_of c w) \<le> n * L"
  shows "(cnv_ownerId cv = ua_userId actor \<or> Some (cnv_driverId cv) = ua_driverId actor \<or> ua_role actor \<in> {''ADMIN'', ''SUPER_ADMIN''}) \<and>
    (\<exists>pages. map (\<lambda>k. getMessages c (Some L) (Some (k * L)) actor w) [0..<n] = map Inr pages \<and>
       concat (map mpg_messages pages) = newest_first (messages_of c w) \<and>
       list_all (\<lambda>p. mpg_total p = length (messages_of c w) \<and> length (mpg_messages p) \<le> L) pages)"
proof -
  let ?page = "\<lambda>k. \<lparr>mpg_messages = take L (drop (k * L) (newest_first (messages_of c w))), mpg_limit = L,
    mpg_offset = k * L, mpg_total = length (messages_of c w)\<rparr>"
  have g: "map (\<lambda>k. getMessages c (Some L) (Some (k * L)) actor w) [0..<n] = map Inr (map ?page [0..<n])"
    using assms(1,2) by (simp add: getMessages_def Let_def)
  have "concat (map mpg_messages (map ?page [0..<n])) = newest_first (messages_of c w)"
    using take_drop_pages[OF assms(2), of "newest_first (messages_of c w)" n] assms(3)
    by (simp add: o_def newest_first_def)
  then have pages: "\<exists>pages. map (\<lambda>k. getMessages c (Some L) (Some (k * L)) actor w) [0..<n] = map Inr pages \<and>
       concat (map mpg_messages pages) = newest_first (messages_of c w) \<and>
       list_all (\<lambda>p. mpg_total p = length (messages_of c w) \<and> length (mpg_messages p) \<le> L) pages"
    using g by (intro exI[of _ "map ?page [0..<n]"]) (simp add: list_all_iff)
  have "cnv_ownerId cv = ua_userId actor \<or> Some (cnv_driverId cv) = ua_driverId actor \<or> ua_role actor \<in> {''ADMIN'', ''SUPER_ADMIN''}"
    using assms(1) by (auto simp: verifyConversationAccess_def is_admin_def split: option.splits if_splits)
  with pages show ?thesis by blast
qed

theorem pages_cover_conversation_witness:
  "\<exists>pages. map (\<lambda>k. getMessages ''v'' (Some 1) (Some (k * 1)) sample_owner_actor
       (chat_sample\<lparr>cm_messages := [new_message ''v'' sample_message sample_owner_actor ''m'' 5,
          new_message ''v'' sample_message sample_owner_actor ''m2'' 6]\<rparr>)) [0..<2] = map Inr pages \<and>
     map msg_id (concat (map mpg_messages pages)) = [''m2'', ''m'']"
proof -
  let ?w = "chat_sample\<lparr>cm_messages := [new_message ''v'' sample_message sample_owner_actor ''m'' 5,
          new_message ''v'' sample_message sample_owner_actor ''m2'' 6]\<rparr>"
  have a: "\<exists>cv. verifyConversationAccess ''v'' sample_owner_actor ?w = Inr cv"
    by (simp add: verifyConversationAccess_def is_admin_def chat_sample_defs)
  have m: "messages_of ''v'' ?w = [new_message ''v'' sample_message sample_owner_actor ''m'' 5,
          new_message ''v'' sample_message sample_owner_actor ''m2'' 6]"
    by (simp add: messages_of_def new_message_def)
  have "map msg_id (newest_first (messages_of ''v'' ?w)) = [''m2'', ''m'']"
    unfolding m by (simp add: newest_first_def new_message_def)
  moreover have "length (messages_of ''v'' ?w) \<le> 2 * 1" by (simp add: m)
  ultimately show ?thesis
    using a pages_cover_conversation[of "''v''" sample_owner_actor ?w _ 1 2] by fastforce
qed

end
