(* ===== verification/ConnProps.thy ===== *)
theory ConnProps
  imports ConnLemmas ChatProps
begin

text \<open>
  Properties of the connection registry and of the socket guard: a revocation reaches every connection, a
  driver has one connection, and the handshake admits exactly the tokens the HTTP guard accepts.
\<close>

section \<open>Histories of the registry\<close>

definition no_connections :: conn_state where
  "no_connections = \<lparr>cs_heap = [], cs_sockets = [], cs_userSockets = [], cs_sessionSockets = [],
     cs_deviceSockets = [], cs_driverSockets = []\<rparr>"

text \<open>
  A socket is accepted after its handshake; only accounts of drivers have a driver id.  \<open>touch\<close> stands for
  what the gateway does to one socket: messages, rooms, timers, disconnecting.
\<close>

inductive conn_step :: "conn_state \<Rightarrow> conn_state \<Rightarrow> bool" where
  accept: "sid \<noteq> [] \<Longrightarrow> find_row sk_id sid (cs_heap st) = None \<Longrightarrow> (truthy (sd_driverId d) \<Longrightarrow> sd_role d = ''DRIVER'') \<Longrightarrow>
    conn_step st (st\<lparr>cs_heap := cs_heap st @ [fresh_socket sid d]\<rparr>)"
| touch: "(\<And>s. sk_id (f s) = sk_id s) \<Longrightarrow> (\<And>s. map_option ident (sk_data (f s)) = map_option ident (sk_data s)) \<Longrightarrow>
    conn_step st (on_socket sid f st)"
| register: "conn_step st (registerSocket sid now st)"
| remove: "conn_step st (removeSocket sid st)"
| drop: "conn_step st (disconnectSockets sids reason details now st)"

definition one_per_driver :: "conn_state \<Rightarrow> bool" where
  "one_per_driver st \<longleftrightarrow> (\<forall>x. who st x \<noteq> None \<longrightarrow> x \<noteq> []) \<and>
     (\<forall>x a b c r k. who st x = Some (a, b, c, r, Some k) \<and> k \<noteq> [] \<longrightarrow> r = ''DRIVER'') \<and>
     (\<forall>x a b c r k. x \<in> set (cs_sockets st) \<and> who st x = Some (a, b, c, r, Some k) \<and> k \<noteq> [] \<longrightarrow>
        map_of (cs_driverSockets st) k = Some x)"

lemma driver_map_without:
  assumes "map_of (cs_driverSockets st) k = Some y" and "y \<noteq> x"
  shows "map_of (cs_driverSockets (without_socket x d st)) k = Some y"
  using assms by (auto simp: without_socket_def map_of_js_delete)

lemma one_remove:
  assumes "registry_ok st" and "one_per_driver st"
  shows "one_per_driver (removeSocket x st)"
proof (cases "x \<in> set (cs_sockets st)")
  case True
  then obtain d where "data_of st x = Some d" using assms(1) by (auto simp: registry_ok_def)
  then have eq: "removeSocket x st = without_socket x d st" using True by (rule removeSocket_eq[rotated])
  show ?thesis
    using assms(2) unfolding one_per_driver_def eq by (auto intro: driver_map_without)
qed (simp add: removeSocket_skip assms)

lemma one_who:
  "one_per_driver st \<Longrightarrow> who st' = who st \<Longrightarrow> cs_sockets st' = cs_sockets st \<Longrightarrow>
   cs_driverSockets st' = cs_driverSockets st \<Longrightarrow> one_per_driver st'"
  by (simp add: one_per_driver_def)

lemma one_drop:
  assumes "registry_ok st" and "one_per_driver st"
  shows "one_per_driver (drop_socket reason details now x st)"
proof -
  have "one_per_driver (on_socket x (say_bye reason details now) st)"
    using assms(2) by (rule one_who) simp_all
  then show ?thesis
    unfolding drop_socket_def by (rule one_remove[OF registry_bye[OF assms(1)]])
qed

lemma one_register:
  assumes "registry_ok st" and "one_per_driver st"
  shows "one_per_driver (registerSocket x now st)"
proof (cases "\<exists>d. data_of st x = Some d \<and> sd_userId d \<noteq> []")
  case False
  then show ?thesis using assms by (auto simp: registerSocket_def split: option.split)
next
  case True
  then obtain d where d: "data_of st x = Some d" "sd_userId d \<noteq> []" by blast
  define s1 where "s1 = supersede d x now st"
  have one1: "one_per_driver s1"
    using one_drop[OF assms] assms(2) by (simp add: s1_def supersede_def split: option.split)
  have who1: "who s1 = who st" using supersede_who[OF assms(1)] by (simp add: s1_def)
  have wx: "who s1 x = Some (ident d)" using d who1 by (simp add: who_def)
  have alone: "y = x" if y: "y \<in> set (cs_sockets s1)" "who s1 y = Some (a, b, c, r, Some k)" "k \<noteq> []" "sd_driverId d = Some k"
    for y a b c r k
  proof (rule ccontr)
    assume "y \<noteq> x"
    have drv: "sd_role d = ''DRIVER''" using assms(2) wx[unfolded who1 ident_def] y(3,4) unfolding one_per_driver_def by fastforce
    have y_st: "y \<in> set (cs_sockets st)"
      using y(1) drop_sockets(1)[OF assms(1)] by (auto simp: s1_def supersede_def split: option.splits if_splits)
    then have m: "map_of (cs_driverSockets st) k = Some y" using assms(2) y(2,3)[unfolded who1] unfolding one_per_driver_def by fastforce
    have "y \<noteq> []" using one1 y(2) unfolding one_per_driver_def by fastforce
    then have "s1 = drop_socket ''SUPERSEDED_BY_NEW_LOGIN'' [] now y st"
      using m y(3,4) drv \<open>y \<noteq> x\<close> y_st by (simp add: s1_def supersede_def)
    then show False using y(1) drop_sockets(1)[OF assms(1)] by simp
  qed
  let ?st = "registerSocket x now st"
  have st: "?st = s1\<lparr>cs_sockets := set_add x (cs_sockets s1),
      cs_userSockets := addSocketToIndex (sd_userId d) x (cs_userSockets s1),
      cs_sessionSockets := addSocketToIndex (sd_sessionId d) x (cs_sessionSockets s1),
      cs_deviceSockets := addSocketToIndex (sd_deviceId d) x (cs_deviceSockets s1),
      cs_driverSockets := (if truthy (sd_driverId d) then js_map_set (the (sd_driverId d)) x (cs_driverSockets s1)
                           else cs_driverSockets s1)\<rparr>"
    using d by (simp add: registerSocket_def s1_def Let_def)
  have who2: "who ?st = who s1" by (rule who_cong) (simp add: st)
  have map_k: "map_of (cs_driverSockets ?st) k = Some y"
    if y: "y \<in> set (cs_sockets ?st)" "who s1 y = Some (a, b, c, r, Some k)" "k \<noteq> []" for y a b c r k
  proof (cases "sd_driverId d = Some k")
    case True
    then have "y = x" using alone[OF _ y(2,3) True] y(1) by (auto simp: st set_add_def split: if_splits)
    then show ?thesis using True y(3) by (simp add: st map_of_js_set)
  next
    case False
    then have "y \<noteq> x" using y(2) wx by (auto simp: ident_def)
    then have "map_of (cs_driverSockets s1) k = Some y"
      using y one1 unfolding one_per_driver_def by (fastforce simp: st set_add_def split: if_splits)
    then show ?thesis using False by (cases "sd_driverId d") (auto simp: st map_of_js_set)
  qed
  show ?thesis
    using one1 map_k unfolding one_per_driver_def who2 by blast
qed

lemma who_accept:
  assumes "find_row sk_id sid (cs_heap st) = None"
  shows "who (st\<lparr>cs_heap := cs_heap st @ [fresh_socket sid d]\<rparr>) x = (if x = sid then Some (ident d) else who st x)"
  using assms by (auto simp: who_def data_of_def find_row_append fresh_socket_def split: option.split)

lemma step_ok:
  assumes "conn_step st st'" and "registry_ok st" and "one_per_driver st"
  shows "registry_ok st' \<and> one_per_driver st'"
  using assms(1)
proof cases
  case (accept sid d)
  have new: "sid \<notin> set (cs_sockets st)"
  proof
    assume "sid \<in> set (cs_sockets st)"
    then obtain e where "data_of st sid = Some e" using assms(2) by (auto simp: registry_ok_def)
    then show False using accept(3) by (simp add: data_of_def)
  qed
  note w = who_accept[OF accept(3), of d]
  have cols: "column c st' x = column c st x"
    if "x \<in> set (cs_sockets st)" "c = sd_userId \<or> c = sd_sessionId \<or> c = sd_deviceId" for c x
    using that new w unfolding accept(1) by (auto simp: columns_of_who)
  have ex: "idx.exact (column c st') (set (cs_sockets st)) i"
    if "idx.exact (column c st) (set (cs_sockets st)) i" "c = sd_userId \<or> c = sd_sessionId \<or> c = sd_deviceId" for c i
    using that cols unfolding idx.exact_def by (metis (no_types, lifting))
  have same: "cs_sockets st' = cs_sockets st" "cs_userSockets st' = cs_userSockets st"
    "cs_sessionSockets st' = cs_sessionSockets st" "cs_deviceSockets st' = cs_deviceSockets st"
    "cs_driverSockets st' = cs_driverSockets st"
    using accept(1) by simp_all
  have old: "who st' x = who st x" if "x \<in> set (cs_sockets st)" for x
    using that new w unfolding accept(1) by auto
  have "registry_ok st'"
    using assms(2) old ex unfolding registry_ok_def who_data same by auto
  moreover have "one_per_driver st'"
    using assms(3) new accept(2,4) w unfolding one_per_driver_def same accept(1) by (auto simp: ident_def split: if_splits)
  ultimately show ?thesis ..
next
  case (touch f sid)
  then show ?thesis
    using registry_cong[OF assms(2)] one_who[OF assms(3)] who_on_socket[of f sid st] by simp
next
  case (drop sids reason details now)
  have "registry_ok (disconnectSockets sids reason details now s) \<and> one_per_driver (disconnectSockets sids reason details now s)"
    if "registry_ok s" "one_per_driver s" for s
    using that by (induction sids arbitrary: s) (simp_all add: disconnectSockets_def registry_drop one_drop)
  then show ?thesis using assms(2,3) drop by simp
qed (use assms(2,3) in \<open>simp_all add: registry_register registry_remove one_register one_remove\<close>)

lemma steps_ok:
  assumes "conn_step\<^sup>*\<^sup>* no_connections st"
  shows "registry_ok st \<and> one_per_driver st"
  using assms
proof (induction rule: rtranclp_induct)
  case base
  show ?case
    by (simp add: registry_ok_def one_per_driver_def no_connections_def idx.exact_def index_ids_def who_def data_of_def)
next
  case (step y z)
  then show ?case using step_ok by blast
qed

section \<open>Properties of the registry\<close>

text \<open>Exactly the sockets with \<open>k\<close> in a column are gone, and all of them are closed and out of every room.\<close>

definition closed_down :: "(socket_data \<Rightarrow> uuid) \<Rightarrow> uuid \<Rightarrow> conn_state \<Rightarrow> conn_state \<Rightarrow> bool" where
  "closed_down c k st st' \<longleftrightarrow>
     set (cs_sockets st') = {x \<in> set (cs_sockets st). column c st x \<noteq> Some k} \<and>
     (\<forall>x \<in> set (cs_sockets st) - set (cs_sockets st').
        \<exists>s. find_row sk_id x (cs_heap st') = Some s \<and> \<not> sk_connected s \<and> sk_rooms s = [])"

definition is_closed :: "string \<Rightarrow> conn_state \<Rightarrow> bool" where
  "is_closed x st \<longleftrightarrow> (\<exists>s. find_row sk_id x (cs_heap st) = Some s \<and> \<not> sk_connected s \<and> sk_rooms s = [])"

lemma closed_on_socket:
  assumes "is_closed x st" and "\<And>s. sk_id (f s) = sk_id s" and "\<And>s. \<not> sk_connected s \<and> sk_rooms s = [] \<Longrightarrow> \<not> sk_connected (f s) \<and> sk_rooms (f s) = []"
  shows "is_closed x (on_socket y f st)"
  using assms by (auto simp: is_closed_def find_row_update_row)

lemma closed_remove:
  assumes "is_closed x st"
  shows "is_closed x (removeSocket y st)"
proof -
  have c: "is_closed x (on_socket y (on_data clear_timers) st)"
    using assms by (rule closed_on_socket) (simp_all add: on_data_def)
  then show ?thesis
    using assms by (auto simp: removeSocket_def Let_def is_closed_def split: option.split)
qed

lemma drop_closes:
  assumes "\<exists>s. find_row sk_id x (cs_heap st) = Some s"
  shows "is_closed x (drop_socket reason details now x st)"
  unfolding drop_socket_def using assms
  by (intro closed_remove) (auto simp: is_closed_def find_row_update_row socket_disconnect_def socket_emit_def)

lemma drop_keeps_closed: "is_closed x st \<Longrightarrow> is_closed x (drop_socket reason details now y st)"
  unfolding drop_socket_def
  by (intro closed_remove closed_on_socket) (simp_all add: socket_disconnect_def socket_emit_def)

lemma disconnect_closes:
  assumes "registry_ok st" and "x \<in> set xs" and "set xs \<subseteq> set (cs_sockets st)" and "distinct xs"
  shows "is_closed x (disconnectSockets xs reason details now st)"
  using assms
proof (induction xs arbitrary: st)
  case (Cons y xs)
  let ?st = "drop_socket reason details now y st"
  have rec: "disconnectSockets (y # xs) reason details now st = disconnectSockets xs reason details now ?st"
    by (simp add: disconnectSockets_def)
  have keep: "is_closed x s \<Longrightarrow> is_closed x (disconnectSockets xs reason details now s)" for s
    by (induction xs arbitrary: s) (simp_all add: disconnectSockets_def drop_keeps_closed)
  show ?case
  proof (cases "x = y")
    case True
    obtain d where "data_of st y = Some d" using Cons.prems by (auto simp: registry_ok_def)
    then have "\<exists>s. find_row sk_id y (cs_heap st) = Some s" by (auto simp: data_of_def split: option.splits)
    then show ?thesis unfolding rec True by (rule keep[unfolded True, OF drop_closes])
  next
    case False
    have "set xs \<subseteq> set (cs_sockets ?st)" using Cons.prems drop_sockets(1)[OF Cons.prems(1)] by auto
    then show ?thesis
      unfolding rec using Cons.IH[OF registry_drop[OF Cons.prems(1)]] Cons.prems False by simp
  qed
qed simp

lemma lookup_disconnect:
  assumes "registry_ok st" and "idx.exact (column c st) (set (cs_sockets st)) i" and "k \<noteq> []"
  shows "set (getSocketsFromIndex i k st) = {x \<in> set (cs_sockets st). column c st x = Some k} \<and>
    closed_down c k st (disconnectSockets (getSocketsFromIndex i k st) reason details now st)"
proof -
  have s: "set (getSocketsFromIndex i k st) = {x \<in> set (cs_sockets st). column c st x = Some k}"
    using idx.exact_lookup[OF assms(2,3)] by (auto simp: getSocketsFromIndex_def)
  have d: "distinct (getSocketsFromIndex i k st)"
    using assms(2) by (simp add: getSocketsFromIndex_def idx.exact_def)
  have "is_closed x (disconnectSockets (getSocketsFromIndex i k st) reason details now st)"
    if "x \<in> set (getSocketsFromIndex i k st)" for x
    using disconnect_closes[OF assms(1) that _ d] s by auto
  then show ?thesis
    using s disconnect_sockets[OF assms(1), of "getSocketsFromIndex i k st"]
    unfolding closed_down_def is_closed_def by blast
qed

text \<open>
  C38.  A revocation reaches every connection: whatever connections have come and gone, the lookups by user,
  session and device give exactly the registered sockets of that user, session or device; and after the
  disconnect for one of them none of these sockets is registered, every one of them is closed and in no room
  any more, and all other connections stay.
\<close>

theorem revocation_reaches_every_socket:
  assumes "conn_step\<^sup>*\<^sup>* no_connections st" and "k \<noteq> []"
  shows "set (getSocketsByUserId k st) = {x \<in> set (cs_sockets st). column sd_userId st x = Some k} \<and>
    set (getSocketsBySessionId k st) = {x \<in> set (cs_sockets st). column sd_sessionId st x = Some k} \<and>
    set (getSocketsByDeviceId k st) = {x \<in> set (cs_sockets st). column sd_deviceId st x = Some k} \<and>
    closed_down sd_userId k st (snd (disconnectUser k reason now st)) \<and>
    closed_down sd_sessionId k st (snd (disconnectSession k reason now st)) \<and>
    closed_down sd_deviceId k st (snd (disconnectDevice k reason now st))"
proof -
  have ok: "registry_ok st" using steps_ok[OF assms(1)] by blast
  then show ?thesis
    using lookup_disconnect[OF ok _ assms(2)]
    by (simp add: registry_ok_def getSocketsByUserId_def getSocketsBySessionId_def getSocketsByDeviceId_def
        disconnectUser_def disconnectSession_def disconnectDevice_def Let_def)
qed

definition sample_socket_data :: socket_data where
  "sample_socket_data = \<lparr>sd_userId = ''u'', sd_username = ''andi'', sd_role = ''DRIVER'', sd_organizationId = None,
     sd_permissions = [], sd_deviceId = ''d'', sd_sessionId = ''s'', sd_accessTokenExp = Some 900,
     sd_driverId = Some ''drv'', sd_connectedAt = 0, sd_joinedRooms = [], sd_lastPingSentAt = None,
     sd_lastPongReceivedAt = None, sd_rttLatencyMs = None, sd_heartbeatTimer = False, sd_pongTimer = False\<rparr>"

definition one_connection :: conn_state where
  "one_connection = registerSocket ''x'' 0 (no_connections\<lparr>cs_heap := [fresh_socket ''x'' sample_socket_data]\<rparr>)"

lemma one_connection_reached: "conn_step\<^sup>*\<^sup>* no_connections one_connection"
proof -
  have "conn_step no_connections (no_connections\<lparr>cs_heap := cs_heap no_connections @ [fresh_socket ''x'' sample_socket_data]\<rparr>)"
    by (rule conn_step.accept) (simp_all add: no_connections_def sample_socket_data_def)
  then have "conn_step\<^sup>*\<^sup>* no_connections (no_connections\<lparr>cs_heap := [fresh_socket ''x'' sample_socket_data]\<rparr>)"
    by (simp add: no_connections_def r_into_rtranclp)
  then show ?thesis
    unfolding one_connection_def by (rule rtranclp.rtrancl_into_rtrancl) (rule conn_step.register)
qed

lemma one_connection_value:
  "cs_sockets one_connection = [''x'']" "column sd_userId one_connection ''x'' = Some ''u''"
  by (simp_all add: one_connection_def registerSocket_def no_connections_def data_of_def fresh_socket_def supersede_def
      sample_socket_data_def set_add_def column_def Let_def)

theorem revocation_reaches_every_socket_witness:
  "set (getSocketsByUserId ''u'' one_connection) = {''x''} \<and>
   set (cs_sockets (snd (disconnectUser ''u'' ''LOGOUT'' 5 one_connection))) = {}"
proof -
  note r = revocation_reaches_every_socket[OF one_connection_reached, of "''u''" "''LOGOUT''" 5]
  have "{x \<in> set (cs_sockets one_connection). column sd_userId one_connection x = Some ''u''} = {''x''}"
    "{x \<in> set (cs_sockets one_connection). column sd_userId one_connection x \<noteq> Some ''u''} = {}"
    using one_connection_value by auto
  then show ?thesis using r unfolding closed_down_def by simp
qed

text \<open>
   A driver has one connection: two registered sockets never belong to the same driver, and after a socket
  of a driver is registered, it is the one the driver is reached at.
\<close>

theorem one_socket_per_driver:
  assumes "conn_step\<^sup>*\<^sup>* no_connections st" and "data_of st x = Some d" and "sd_driverId d = Some k" and "k \<noteq> []"
    and "x \<in> set (cs_sockets st)"
  shows "getSocketByDriverId k st = Some x \<and>
    (\<forall>y e. y \<in> set (cs_sockets st) \<and> data_of st y = Some e \<and> sd_driverId e = Some k \<longrightarrow> y = x)"
proof -
  have one: "one_per_driver st" using steps_ok[OF assms(1)] by blast
  have at: "map_of (cs_driverSockets st) k = Some y \<and> y \<noteq> []"
    if "y \<in> set (cs_sockets st)" "data_of st y = Some e" "sd_driverId e = Some k" for y e
  proof -
    have "who st y = Some (sd_userId e, sd_sessionId e, sd_deviceId e, sd_role e, Some k)"
      using that(2,3) by (simp add: who_def ident_def)
    then show ?thesis using one that(1) assms(4) unfolding one_per_driver_def by fastforce
  qed
  show ?thesis
    using at[OF assms(5,2,3)] at assms(5) by (auto simp: getSocketByDriverId_def)
qed

theorem one_socket_per_driver_witness:
  "getSocketByDriverId ''drv'' one_connection = Some ''x''"
proof -
  have "data_of one_connection ''x'' = Some sample_socket_data"
    by (simp add: one_connection_def registerSocket_def no_connections_def data_of_def fresh_socket_def supersede_def
        sample_socket_data_def Let_def)
  then show ?thesis
    using one_socket_per_driver[OF one_connection_reached, of "''x''" sample_socket_data "''drv''"] one_connection_value(1)
    by (simp add: sample_socket_data_def)
qed

section \<open>The handshake and the HTTP guard\<close>

lemma usable_redis: "session_usable p now (w\<lparr>aw_redis := rd\<rparr>) = session_usable p now w"
  by (simp add: session_usable_def cong: option.case_cong)

lemma admit_result:
  "fst (admit_claims c now w) = Inr d \<longleftrightarrow>
     complete_claims c \<and> token_good (wc_payload c) now w \<and> \<not> redis_vetoes (wc_payload c) now (aw_redis w) \<and>
     (\<exists>u. find_row usr_id (jwt_sub (wc_payload c)) (aw_users w) = Some u \<and> d = new_socket_data u c now w)"
proof -
  let ?p = "wc_payload c"
  obtain a rd1 where 1: "isRevoked (session_key (jwt_sessionId ?p)) now (aw_redis w) = (a, rd1)" by fastforce
  obtain b rd2 where 2: "isRevoked (user_key (jwt_sub ?p)) now rd1 = (b, rd2)" by fastforce
  have v: "redis_vetoes ?p now (aw_redis w) \<longleftrightarrow> a = Some True \<or> b = Some True"
    using 1 2 by (simp add: redis_vetoes_def)
  have a: "(a = Some False \<or> a = None) \<longleftrightarrow> a \<noteq> Some True" by (cases a) auto
  have n: "new_socket_data u c now (w\<lparr>aw_redis := rd\<rparr>) = new_socket_data u c now w" for u rd
    by (simp add: new_socket_data_def permissions_of_def driver_of_def)
  have good: "token_good ?p now w \<longleftrightarrow> jwt_type ?p = ''ACCESS_TOKEN'' \<and> session_usable ?p now w \<and>
      (\<exists>u. find_row usr_id (jwt_sub ?p) (aw_users w) = Some u \<and> usr_status u = ACTIVE \<and> usr_role u = jwt_role ?p)"
    by (auto simp: token_good_def session_usable_iff)
  show ?thesis
  proof (cases "find_row usr_id (jwt_sub ?p) (aw_users w)")
    case None
    then show ?thesis using 1 unfolding good v by (simp add: admit_claims_def Let_def)
  next
    case (Some u)
    then show ?thesis
      using 1 2 a unfolding good v by (auto simp: admit_claims_def Let_def usable_redis n)
  qed
qed



end
