(* ===== verification/GatewayProps.thy ===== *)
theory GatewayProps
  imports GatewaySteps ConnProps
begin

text \<open>
  Properties of the gateway over all histories of its events: nobody is in a room of a conversation or a
  call that is not theirs, and a signalling message is relayed once at most.
\<close>

section \<open>Entitlement to a room\<close>

definition admin_role :: "string \<Rightarrow> bool" where
  "admin_role role \<longleftrightarrow> role = ''ADMIN'' \<or> role = ''SUPER_ADMIN''"

definition talks_in :: "socket_data \<Rightarrow> uuid \<Rightarrow> comm_world \<Rightarrow> bool" where
  "talks_in d i cw \<longleftrightarrow> (\<exists>ow dr. (i, ow, dr) \<in> (\<lambda>c. (cnv_id c, cnv_ownerId c, cnv_driverId c)) ` set (cm_conversations cw) \<and>
     participant ow dr d)"

definition calls_in :: "socket_data \<Rightarrow> uuid \<Rightarrow> comm_world \<Rightarrow> bool" where
  "calls_in d i cw \<longleftrightarrow> (\<exists>ow dr. (i, ow, dr) \<in> (\<lambda>c. (cal_id c, cal_ownerId c, cal_driverId c)) ` set (cm_calls cw) \<and>
     participant ow dr d)"

text \<open>A delivery may be given to another driver later, so its room is judged when it is joined.\<close>

definition may_watch :: "socket_data \<Rightarrow> uuid \<Rightarrow> comm_world \<Rightarrow> bool" where
  "may_watch d i cw \<longleftrightarrow> (\<exists>dl. find_row dlv_id i (cm_deliveries cw) = Some dl \<and>
     (admin_role (sd_role d) \<or>
      sd_role d = ''OWNER'' \<and> (dlv_createdBy dl = sd_userId d \<or> truthy (sd_organizationId d) \<and> dlv_organizationId dl = sd_organizationId d) \<or>
      sd_role d = ''DRIVER'' \<and> truthy (sd_driverId d) \<and> dlv_driverId dl = sd_driverId d))"

definition entitled :: "socket_data \<Rightarrow> string \<Rightarrow> comm_world \<Rightarrow> bool" where
  "entitled d room cw \<longleftrightarrow> (\<exists>i. room = ''delivery:'' @ i) \<or>
     (\<exists>i. room = ''conversation:'' @ i \<and> talks_in d i cw) \<or>
     (\<exists>i. room = ''session:'' @ i \<and> (admin_role (sd_role d) \<or> calls_in d i cw)) \<or>
     (room = ''fleet:monitoring'' \<and> (admin_role (sd_role d) \<or> sd_role d = ''OWNER''))"

lemma talks_keeps: "talks_in d i cw \<Longrightarrow> keeps_members cw cw' \<Longrightarrow> talks_in d i cw'"
  unfolding talks_in_def keeps_members_def by (meson subsetD)

lemma calls_keeps: "calls_in d i cw \<Longrightarrow> keeps_members cw cw' \<Longrightarrow> calls_in d i cw'"
  unfolding calls_in_def keeps_members_def by (meson subsetD)

lemma entitled_keeps: "entitled d room cw \<Longrightarrow> keeps_members cw cw' \<Longrightarrow> entitled d room cw'"
  unfolding entitled_def by (elim disjE) (blast intro: talks_keeps calls_keeps)+

lemma may_watch_cong: "cm_deliveries cw' = cm_deliveries cw \<Longrightarrow> may_watch d i cw' = may_watch d i cw"
  by (simp add: may_watch_def)

lemma entitledI:
  "entitled d (''delivery:'' @ i) cw" "talks_in d i cw \<Longrightarrow> entitled d (''conversation:'' @ i) cw"
  "admin_role (sd_role d) \<or> calls_in d i cw \<Longrightarrow> entitled d (''session:'' @ i) cw"
  unfolding entitled_def by blast+

lemma entitled_ident: "ident d = ident d' \<Longrightarrow> entitled d room cw = entitled d' room cw"
  by (simp add: entitled_def talks_in_def calls_in_def participant_def admin_role_def ident_def)

section \<open>What the authorizer grants\<close>

lemma split_not_empty: "split_on c s \<noteq> []"
  by (induction s) (auto split: list.split)

lemma join_split: "join_with [c] (split_on c s) = s"
proof (induction s)
  case (Cons a s)
  obtain p ps where "split_on c s = p # ps" using split_not_empty by (metis neq_Nil_conv)
  with Cons show ?case by (cases ps) auto
qed simp

lemma resource_of:
  assumes "join_with [c] (tl (split_on c s)) \<noteq> []"
  shows "s = hd (split_on c s) @ c # join_with [c] (tl (split_on c s))"
proof -
  obtain p q ps where "split_on c s = p # q # ps"
    using assms split_not_empty[of c s] by (metis join_with.simps(1) list.collapse)
  then show ?thesis using join_split[of c s] by simp
qed

lemma authorized_room:
  assumes "authorizeRoomJoin (Some d) name cw = Authorized room"
  shows "room = js_trim name" and "room \<noteq> []" and "entitled d room cw"
    and "room = ''delivery:'' @ i \<Longrightarrow> may_watch d i cw"
proof -
  let ?t = "js_trim name"
  define category where "category = hd (split_on (CHR '':'') ?t)"
  define rid where "rid = join_with '':'' (tl (split_on (CHR '':'') ?t))"
  have t: "?t = category @ '':'' @ rid" if "rid \<noteq> []"
    using that resource_of[of "CHR '':''" ?t] by (simp add: category_def rid_def)
  note a = assms[unfolded authorizeRoomJoin_def option.case Let_def, folded category_def rid_def]
  consider (delivery) "category = ''delivery''" "authorizeDeliveryRoom d rid ?t cw = Authorized room"
    | (conversation) "category = ''conversation''" "authorizeConversationRoom d rid ?t cw = Authorized room"
    | (call) "category = ''session''" "authorizeRealtimeSessionRoom d rid ?t cw = Authorized room"
    | (fleet) "category = ''fleet''" "rid = ''monitoring''" "authorizeFleetMonitoringRoom d ?t = Authorized room"
    using a by (auto split: if_splits)
  then have "room = ?t \<and> room \<noteq> [] \<and> entitled d room cw \<and> (\<forall>i. room = ''delivery:'' @ i \<longrightarrow> may_watch d i cw)"
  proof cases
    case delivery
    then have r: "room = ?t" "rid \<noteq> []" by (auto simp: authorizeDeliveryRoom_def Let_def split: if_splits option.splits)
    then have e: "room = ''delivery:'' @ rid" using t delivery(1) by simp
    have "may_watch d rid cw"
      using delivery(2) by (auto simp: authorizeDeliveryRoom_def may_watch_def admin_role_def Let_def split: if_splits option.splits)
    moreover have "entitled d room cw" unfolding e by (rule entitledI)
    ultimately show ?thesis using r(1)[symmetric] e by simp
  next
    case conversation
    then have r: "room = ?t" "rid \<noteq> []" by (auto simp: authorizeConversationRoom_def split: if_splits option.splits)
    then have e: "room = ''conversation:'' @ rid" using t conversation(1) by simp
    obtain c where "find_row cnv_id rid (cm_conversations cw) = Some c" "participant (cnv_ownerId c) (cnv_driverId c) d"
      using conversation(2) by (auto simp: authorizeConversationRoom_def split: if_splits option.splits)
    then have "talks_in d rid cw" using find_row_SomeD by (fastforce simp: talks_in_def image_iff)
    then have "entitled d room cw" unfolding e by (rule entitledI)
    then show ?thesis using r(1)[symmetric] e by simp
  next
    case call
    then have r: "room = ?t" "rid \<noteq> []" by (auto simp: authorizeRealtimeSessionRoom_def split: if_splits option.splits)
    then have e: "room = ''session:'' @ rid" using t call(1) by simp
    have "admin_role (sd_role d) \<or> (\<exists>c. find_row cal_id rid (cm_calls cw) = Some c \<and> participant (cal_ownerId c) (cal_driverId c) d)"
      using call(2) by (auto simp: authorizeRealtimeSessionRoom_def admin_role_def split: if_splits option.splits)
    then have "admin_role (sd_role d) \<or> calls_in d rid cw" using find_row_SomeD by (fastforce simp: calls_in_def image_iff)
    then have "entitled d room cw" unfolding e by (rule entitledI)
    then show ?thesis using r(1)[symmetric] e by simp
  next
    case fleet
    then have r: "room = ?t" "sd_role d = ''OWNER'' \<or> admin_role (sd_role d)"
      by (auto simp: authorizeFleetMonitoringRoom_def admin_role_def split: if_splits)
    moreover have f: "room = ''fleet:monitoring''" using r t fleet by simp
    ultimately have "entitled d room cw" unfolding entitled_def by blast
    then show ?thesis using r(1)[symmetric] f by simp
  qed
  then show "room = js_trim name" "room \<noteq> []" "entitled d room cw" "room = ''delivery:'' @ i \<Longrightarrow> may_watch d i cw" by blast+
qed

section \<open>Joining\<close>

text \<open>A benign change, one socket joining a room it is entitled to, and another benign change.\<close>

definition joins :: "timestamp \<Rightarrow> string \<Rightarrow> socket_data \<Rightarrow> string \<Rightarrow> rt_world \<Rightarrow> rt_world \<Rightarrow> bool" where
  "joins t i d room w w' \<longleftrightarrow> (\<exists>w1. benign t w w1 \<and> rt_conn w1 = rt_conn w \<and> socket_valid i t w \<and> client_data i w = Some d \<and>
     entitled d room (rt_comm w1) \<and> (\<forall>k. room = ''delivery:'' @ k \<longrightarrow> may_watch d k (rt_comm w)) \<and>
     benign t (join_room i room w1) w')"

lemma join_cases:
  "benign t w (handleJoinRoom i room t w) \<or> (\<exists>d r. joins t i d r w (handleJoinRoom i room t w))"
proof (cases rule: revalidate_cases[where i = i and now = t and w = w])
  case (refused w')
  then show ?thesis by (simp add: handleJoinRoom_def Let_def)
next
  case valid
  let ?w = "checked i t w"
  have b: "benign t w (client_error i e c ?w)" "benign t w (client_emit i e p ?w)" for e c p
    using benign_trans[OF benign_checked[of t w i] benign_ops(2)] benign_trans[OF benign_checked[of t w i] benign_ops(1)] by auto
  show ?thesis
  proof (cases "\<exists>d nr. client_data i w = Some d \<and> sd_userId d \<noteq> [] \<and> truthy room \<and>
      authorizeRoomJoin (Some d) (the room) (rt_comm ?w) = Authorized nr")
    case False
    then show ?thesis using valid b
      by (auto simp: handleJoinRoom_def Let_def split: option.split room_answer.split)
  next
    case True
    then obtain d nr where d: "client_data i w = Some d" "sd_userId d \<noteq> []" "truthy room"
      and g: "authorizeRoomJoin (Some d) (the room) (rt_comm ?w) = Authorized nr" by blast
    note ar = authorized_room[OF g]
    have "handleJoinRoom i room t w = client_emit i ''room_joined'' (JObj [(''room'', JStr nr)]) (join_room i nr ?w)"
      using valid d g ar(2) by (simp add: handleJoinRoom_def Let_def)
    then have "joins t i d nr w (handleJoinRoom i room t w)"
      unfolding joins_def using valid(1) d(1) ar may_watch_cong[of "rt_comm ?w" "rt_comm w"] by (intro exI[of _ ?w]) auto
    then show ?thesis by blast
  qed
qed

lemma respond_cases:
  "benign t w (handleWebrtcCallRespond i c a t t' w) \<or> (\<exists>d r. joins t i d r w (handleWebrtcCallRespond i c a t t' w))"
proof -
  define body where "body = (\<lambda>(d::socket_data) w. case respondToCallSession c a (call_actor d) t t' (rt_comm w) of
          (Inl e, cw) \<Rightarrow> client_error i ''call_error'' (code_or ''CALL_RESPOND_FAILED'' e) (w\<lparr>rt_comm := cw\<rparr>)
        | (Inr _, cw) \<Rightarrow>
            if a = ACCEPT then join_room i (session_room c) (w\<lparr>rt_comm := cw\<rparr>) else w\<lparr>rt_comm := cw\<rparr>)"
  have h: "handleWebrtcCallRespond i c a t t' w = with_valid_socket i t (\<lambda>w. w) body w"
    by (simp add: handleWebrtcCallRespond_def body_def)
  show ?thesis unfolding h
  proof (cases rule: with_valid_cases[where i = i and now = t and w = w and nu = "\<lambda>w. w" and body = body])
    case (valid d)
    let ?w = "checked i t w"
    obtain r cw where r: "respondToCallSession c a (call_actor d) t t' (rt_comm ?w) = (r, cw)" by fastforce
    have k: "keeps_members (rt_comm ?w) cw" using keeps_respond[of "rt_comm ?w" c a "call_actor d" t t'] r by simp
    have b: "benign t w (?w\<lparr>rt_comm := cw\<rparr>)"
      using k ops_respond[of c a "call_actor d" t t' "rt_comm ?w"] r
      by (intro benign_trans[OF benign_checked[of t w i]] benign_comm) (simp_all add: rd_ops.none)
    show "benign t w (with_valid_socket i t (\<lambda>w. w) body w) \<or> (\<exists>d r. joins t i d r w (with_valid_socket i t (\<lambda>w. w) body w))"
    proof (cases "a = ACCEPT \<and> (\<exists>x. r = Inr x)")
      case False
      then have "benign t w (body d ?w)" using b benign_trans[OF b benign_ops(2)] by (cases r) (auto simp: body_def r)
      then show ?thesis unfolding valid(4) by simp
    next
      case True
      then obtain x where x: "r = Inr x" "a = ACCEPT" by blast
      then have "\<exists>cs. find_call c (call_actor d) (rt_comm ?w) = Inr cs"
        using r by (auto simp: respondToCallSession_def respond_guard_def split: sum.splits)
      then obtain cs where cs: "find_row cal_id c (cm_calls (rt_comm ?w)) = Some cs" "isAuthorizedParticipant cs (call_actor d)"
        by (auto simp: find_call_def split: option.splits if_splits)
      then have "admin_role (sd_role d) \<or> participant (cal_ownerId cs) (cal_driverId cs) d"
        by (auto simp: isAuthorizedParticipant_def is_admin_def admin_role_def participant_def call_actor_def socket_actor_def
            split: if_splits)
      then have "admin_role (sd_role d) \<or> calls_in d c (rt_comm ?w)"
        using find_row_SomeD[OF cs(1)] unfolding calls_in_def by force
      then have "entitled d (session_room c) (rt_comm ?w)" by (auto simp: entitled_def session_room_def)
      then have "entitled d (session_room c) cw" using k by (rule entitled_keeps)
      then have "joins t i d (session_room c) w (join_room i (session_room c) (?w\<lparr>rt_comm := cw\<rparr>))"
        unfolding joins_def using b valid(1,2) by (intro exI[of _ "?w\<lparr>rt_comm := cw\<rparr>"]) (auto simp: session_room_def)
      moreover have "body d ?w = join_room i (session_room c) (?w\<lparr>rt_comm := cw\<rparr>)" using x r by (simp add: body_def)
      ultimately show ?thesis unfolding valid(4) by auto
    qed
  next
    case anonymous
    then show "benign t w (with_valid_socket i t (\<lambda>w. w) body w) \<or> (\<exists>d r. joins t i d r w (with_valid_socket i t (\<lambda>w. w) body w))"
      by simp
  qed simp
qed

section \<open>Histories\<close>

text \<open>
  Events at times that do not go back, and between them anything the other services do: they leave the sockets
  and the keys of signalling alone, and keep conversations and calls.  A connecting socket has a new id.
\<close>

definition admissible :: "gw_event \<Rightarrow> rt_world \<Rightarrow> bool" where
  "admissible e w \<longleftrightarrow> (\<forall>i d. e = Connected i d \<longrightarrow> i \<notin> sk_id ` set (cs_heap (rt_conn w)))"

definition signal_key :: "string \<Rightarrow> bool" where
  "signal_key k \<longleftrightarrow> prefix ''replay:nonce:'' k \<or> prefix ''seq:webrtc:'' k"

definition elsewhere :: "rt_world \<Rightarrow> rt_world \<Rightarrow> bool" where
  "elsewhere w w' \<longleftrightarrow> rt_conn w' = rt_conn w \<and> keeps_members (rt_comm w) (rt_comm w') \<and>
     (healthy (rds w) \<longrightarrow> healthy (rds w')) \<and> (\<forall>k. signal_key k \<longrightarrow> rd_data (rds w') k = rd_data (rds w) k)"

inductive gw_run :: "timestamp \<Rightarrow> rt_world \<Rightarrow> timestamp \<Rightarrow> rt_world \<Rightarrow> bool" for t0 w0 where
  start: "gw_run t0 w0 t0 w0"
| event: "gw_run t0 w0 t w \<Longrightarrow> t \<le> t' \<Longrightarrow> admissible e w \<Longrightarrow> gw_run t0 w0 t' (gw_exec e t' w)"
| other: "gw_run t0 w0 t w \<Longrightarrow> t \<le> t' \<Longrightarrow> elsewhere w w' \<Longrightarrow> gw_run t0 w0 t' w'"

text \<open>A socket added to the heap.\<close>

definition added :: "string \<Rightarrow> socket_data \<Rightarrow> rt_world \<Rightarrow> rt_world" where
  "added i d w = on_conn (\<lambda>st. st\<lparr>cs_heap := cs_heap st @ [fresh_socket i d]\<rparr>) w"

lemma exec_cases:
  obtains (benign) "benign t w (gw_exec e t w)"
  | (connect) i d where "e = Connected i d" "benign t (added i d w) (gw_exec e t w)"
  | (join) i d room where "joins t i d room w (gw_exec e t w)"
proof (cases e)
  case (Connected i d)
  then have "gw_exec e t w = handleConnection i t (added i d w)" by (simp add: added_def)
  then have "benign t (added i d w) (gw_exec e t w)" using benign_connection by metis
  then show thesis by (rule connect[OF Connected])
next
  case (JoinRoom i room)
  then show thesis using join_cases[of t w i room] benign join by auto
next
  case (CallRespond i c a)
  then show thesis using respond_cases[of t w i c a t] benign join by auto
next
  case (Disconnected i)
  have "benign t w (gw_exec e t w)" unfolding Disconnected gw_exec.simps
    by (rule benign_trans[OF benign_ops(5) benign_disconnect])
  then show thesis by (rule benign)
qed (rule benign, simp)+

section \<open>Rooms\<close>

definition rooms_ok :: "rt_world \<Rightarrow> bool" where
  "rooms_ok w \<longleftrightarrow> distinct (map sk_id (cs_heap (rt_conn w))) \<and>
     (\<forall>s \<in> set (cs_heap (rt_conn w)). \<forall>room \<in> set (sk_rooms s). \<exists>d. sk_data s = Some d \<and> entitled d room (rt_comm w))"

lemma rooms_benign:
  assumes ok: "rooms_ok w" and b: "benign t w w'"
  shows "rooms_ok w'"
proof -
  have sh: "shrinks (rt_conn w) (rt_conn w')" and k: "keeps_members (rt_comm w) (rt_comm w')" using b by (simp_all add: benign_def)
  have "\<exists>d. sk_data s' = Some d \<and> entitled d room (rt_comm w')"
    if s': "s' \<in> set (cs_heap (rt_conn w'))" "room \<in> set (sk_rooms s')" for s' room
  proof -
    obtain s where s: "s \<in> set (cs_heap (rt_conn w))" "comes_from s' s" using sh s'(1) unfolding shrinks_def by blast
    then have "room \<in> set (sk_rooms s)" "map_option ident (sk_data s') = map_option ident (sk_data s)"
      using s'(2) by (auto simp: comes_from_def)
    moreover obtain d where d: "sk_data s = Some d" "entitled d room (rt_comm w)"
      using ok s(1) calculation(1) unfolding rooms_ok_def by blast
    ultimately obtain d' where "sk_data s' = Some d'" "ident d' = ident d" by (cases "sk_data s'") auto
    then show ?thesis using entitled_ident entitled_keeps[OF d(2) k] by blast
  qed
  then show ?thesis using ok sh unfolding rooms_ok_def shrinks_def by simp
qed

lemma rooms_added: "rooms_ok w \<Longrightarrow> i \<notin> sk_id ` set (cs_heap (rt_conn w)) \<Longrightarrow> rooms_ok (added i d w)"
  by (auto simp: rooms_ok_def added_def fresh_socket_def)

lemma rooms_joined:
  assumes ok: "rooms_ok w" and d: "client_data i w = Some d" and e: "entitled d room (rt_comm w)"
  shows "rooms_ok (join_room i room w)"
proof -
  obtain s0 where s0: "find_row sk_id i (cs_heap (rt_conn w)) = Some s0" "sk_data s0 = Some d"
    using d by (auto simp: client_data_def data_of_def split: option.splits)
  define f where "f = (\<lambda>s. on_data (\<lambda>d. d\<lparr>sd_joinedRooms := set_add room (sd_joinedRooms d)\<rparr>)
       (s\<lparr>sk_rooms := set_add room (sk_rooms s)\<rparr>))"
  have f: "sk_id (f s) = sk_id s" "set (sk_rooms (f s)) = insert room (set (sk_rooms s))"
    "map_option ident (sk_data (f s)) = map_option ident (sk_data s)" for s
    by (auto simp: f_def on_data_def set_add_def option.map_comp o_def)
  have heap: "cs_heap (rt_conn (join_room i room w)) = update_row sk_id i f (cs_heap (rt_conn w))"
    by (simp add: join_room_def f_def)
  have comm: "rt_comm (join_room i room w) = rt_comm w" by (simp add: join_room_def)
  have old: "\<exists>d. sk_data s = Some d \<and> entitled d r (rt_comm w)"
    if "s \<in> set (cs_heap (rt_conn w))" "r \<in> set (sk_rooms s)" for s r
    using ok that unfolding rooms_ok_def by blast
  have "\<exists>d. sk_data s' = Some d \<and> entitled d r (rt_comm w)"
    if s': "s' \<in> set (update_row sk_id i f (cs_heap (rt_conn w)))" "r \<in> set (sk_rooms s')" for s' r
  proof -
    obtain s where s: "s \<in> set (cs_heap (rt_conn w))" "s' = (if sk_id s = i then f s else s)"
      using s'(1) by (auto simp: update_row_def update_where_def)
    show ?thesis
    proof (cases "sk_id s = i")
      case False
      then show ?thesis using old s s'(2) by simp
    next
      case True
      then have "s = s0" using s0(1) s(1) ok find_row_unique[of sk_id "cs_heap (rt_conn w)" s] by (simp add: rooms_ok_def)
      then obtain d' where d': "sk_data s' = Some d'" "ident d' = ident d" using f(3)[of s] s0(2) s(2) True by auto
      have "entitled d r (rt_comm w)"
        using old[OF s(1)] s'(2) s(2) True f(2)[of s] e s0(2) \<open>s = s0\<close> by auto
      then show ?thesis using d' entitled_ident by blast
    qed
  qed
  then show ?thesis
    using ok unfolding rooms_ok_def heap comm by (simp add: map_key_update_row f)
qed

lemma rooms_exec:
  assumes ok: "rooms_ok w" and "admissible e w"
  shows "rooms_ok (gw_exec e t w)"
proof (cases rule: exec_cases[where e = e and t = t and w = w])
  case benign
  then show ?thesis using rooms_benign[OF ok] by blast
next
  case (connect i d)
  then have "rooms_ok (added i d w)" using assms by (intro rooms_added) (auto simp: admissible_def)
  then show ?thesis using connect(2) rooms_benign by blast
next
  case (join i d room)
  then obtain w1 where w1: "benign t w w1" "rt_conn w1 = rt_conn w" "client_data i w = Some d" "entitled d room (rt_comm w1)"
    "benign t (join_room i room w1) (gw_exec e t w)" unfolding joins_def by blast
  have "rooms_ok (join_room i room w1)"
    using rooms_benign[OF ok w1(1)] w1(2-4) by (intro rooms_joined[where d = d]) (simp_all add: client_data_def)
  then show ?thesis using w1(5) rooms_benign by blast
qed

lemma rooms_elsewhere: "rooms_ok w \<Longrightarrow> elsewhere w w' \<Longrightarrow> rooms_ok w'"
  unfolding rooms_ok_def elsewhere_def using entitled_keeps by metis

lemma run_rooms: "gw_run t0 w0 t w \<Longrightarrow> rooms_ok w0 \<Longrightarrow> rooms_ok w"
  by (induction rule: gw_run.induct) (auto intro: rooms_exec rooms_elsewhere)

lemma exec_delivery_room:
  assumes "admissible e w" and s': "s' \<in> set (cs_heap (rt_conn (gw_exec e t w)))" "(''delivery:'' @ k) \<in> set (sk_rooms s')"
  shows "(\<exists>s \<in> set (cs_heap (rt_conn w)). sk_id s = sk_id s' \<and> (''delivery:'' @ k) \<in> set (sk_rooms s)) \<or>
    (\<exists>d. socket_valid (sk_id s') t w \<and> client_data (sk_id s') w = Some d \<and> may_watch d k (rt_comm w))"
proof -
  have prior: "\<exists>s \<in> set (cs_heap (rt_conn a)). sk_id s = sk_id s' \<and> (''delivery:'' @ k) \<in> set (sk_rooms s)"
    if b: "benign t a (gw_exec e t w)" for a
  proof -
    obtain s where "s \<in> set (cs_heap (rt_conn a))" "comes_from s' s"
      using b s'(1) unfolding benign_def shrinks_def by blast
    then show ?thesis using s'(2) by (auto simp: comes_from_def)
  qed
  show ?thesis
  proof (cases rule: exec_cases[where e = e and t = t and w = w])
    case benign
    then show ?thesis using prior by blast
  next
    case (connect i d)
    then show ?thesis using prior[OF connect(2)] by (auto simp: added_def fresh_socket_def)
  next
    case (join i d room)
    then obtain w1 where w1: "rt_conn w1 = rt_conn w" "socket_valid i t w" "client_data i w = Some d"
      "\<forall>j. room = ''delivery:'' @ j \<longrightarrow> may_watch d j (rt_comm w)" "benign t (join_room i room w1) (gw_exec e t w)"
      unfolding joins_def by blast
    obtain s where s: "s \<in> set (cs_heap (rt_conn (join_room i room w1)))" "sk_id s = sk_id s'" "(''delivery:'' @ k) \<in> set (sk_rooms s)"
      using prior[OF w1(5)] by blast
    obtain s0 where s0: "s0 \<in> set (cs_heap (rt_conn w))"
      "s = (if sk_id s0 = i then on_data (\<lambda>d. d\<lparr>sd_joinedRooms := set_add room (sd_joinedRooms d)\<rparr>)
        (s0\<lparr>sk_rooms := set_add room (sk_rooms s0)\<rparr>) else s0)"
      using s(1) by (auto simp: join_room_def update_row_def update_where_def w1(1))
    then have "sk_id s0 = sk_id s" "set (sk_rooms s) \<subseteq> (if sk_id s0 = i then insert room (set (sk_rooms s0)) else set (sk_rooms s0))"
      by (auto simp: on_data_def set_add_def)
    then show ?thesis using s0(1) s(2,3) w1(2-4) by (auto split: if_splits)
  qed
qed

text \<open>
  C27.  In every history of the gateway a socket is only in rooms it is entitled to: a conversation or a call
  of its user or driver (a call also for administrators), fleet monitoring for owners and administrators, and
  deliveries.  So what is relayed to a conversation reaches its participants only.  The room of a delivery is
  entered only by a socket whose session is valid at that time, and only for an administrator, the owner who
  created it or belongs to its organization, or its driver.
\<close>

theorem rooms_stay_private:
  assumes "gw_run t0 w0 t w" and "cs_heap (rt_conn w0) = []"
  shows "(\<forall>s \<in> set (cs_heap (rt_conn w)). \<forall>room \<in> set (sk_rooms s). \<exists>d. sk_data s = Some d \<and> entitled d room (rt_comm w)) \<and>
    (\<forall>e t' s' k. admissible e w \<and> s' \<in> set (cs_heap (rt_conn (gw_exec e t' w))) \<and> (''delivery:'' @ k) \<in> set (sk_rooms s') \<longrightarrow>
       (\<exists>s \<in> set (cs_heap (rt_conn w)). sk_id s = sk_id s' \<and> (''delivery:'' @ k) \<in> set (sk_rooms s)) \<or>
       (\<exists>d. socket_valid (sk_id s') t' w \<and> client_data (sk_id s') w = Some d \<and> may_watch d k (rt_comm w)))"
proof -
  have "rooms_ok w0" using assms(2) by (simp add: rooms_ok_def)
  then have "rooms_ok w" using run_rooms[OF assms(1)] by blast
  then show ?thesis using exec_delivery_room unfolding rooms_ok_def by blast
qed

definition gw_sample :: rt_world where
  "gw_sample = \<lparr>rt_users = [sample_user ''DRIVER''], rt_roles = [], rt_sessions = [sample_session],
     rt_comm = chat_sample\<lparr>cm_drivers := [\<lparr>drv_id = ''drv'', drv_userId = ''u'', drv_organizationId = None\<rparr>],
       cm_calls := [\<lparr>cal_id = ''c'', cal_type = VIDEO, cal_ownerId = ''o'', cal_driverId = ''drv'', cal_deliveryId = None,
         cal_status = CALL_ACTIVE, cal_expiresAt = 3600000, cal_startedAt = Some 0, cal_endedAt = None\<rparr>]\<rparr>,
     rt_points = [], rt_conn = no_connections\<rparr>"

definition gw_connected :: rt_world where
  "gw_connected = gw_exec (Connected ''x'' sample_socket_data) 1 gw_sample"

definition gw_joined :: rt_world where
  "gw_joined = gw_exec (JoinRoom ''x'' (Some ''session:c'')) 1 gw_connected"

lemma gw_joined_run: "gw_run 1 gw_sample 1 gw_joined"
proof -
  have "gw_run 1 gw_sample 1 gw_connected"
    unfolding gw_connected_def by (rule gw_run.event[OF gw_run.start])
      (simp_all add: admissible_def gw_sample_def no_connections_def)
  then show ?thesis
    unfolding gw_joined_def by (rule gw_run.event) (simp_all add: admissible_def)
qed

lemmas gw_sample_defs = gw_sample_def no_connections_def chat_sample_def sample_comm_def sample_auth_defs sample_socket_data_def

lemma gw_connected_value:
  "gw_connected = gw_sample\<lparr>rt_conn := \<lparr>cs_heap = [(fresh_socket ''x'' (sample_socket_data\<lparr>sd_heartbeatTimer := True\<rparr>))
       \<lparr>sk_sent := [(''connected'', JObj [(''socketId'', JStr ''x''), (''userId'', JStr ''u''), (''role'', JStr ''DRIVER''),
         (''connectedAt'', JNum 0)])]\<rparr>],
     cs_sockets = [''x''], cs_userSockets = [(''u'', [''x''])], cs_sessionSockets = [(''s'', [''x''])],
     cs_deviceSockets = [(''d'', [''x''])], cs_driverSockets = [(''drv'', ''x'')]\<rparr>\<rparr>"
  by (simp add: gw_connected_def gw_sample_def no_connections_def handleConnection_def client_data_def data_of_def fresh_socket_def
      sample_socket_data_def registerSocket_def supersede_def set_add_def addSocketToIndex_def client_emit_def socket_emit_def
      on_socket_def update_row_def update_where_def startHeartbeatCycle_def stopHeartbeatTimers_def on_data_def clear_timers_def
      on_conn_def Let_def)

lemma gw_connected_valid:
  "socket_valid ''x'' 1 gw_connected" "checked ''x'' 1 gw_connected = gw_connected"
  "client_data ''x'' gw_connected = Some (sample_socket_data\<lparr>sd_heartbeatTimer := True\<rparr>)"
  by (simp_all add: socket_valid_def checked_def gw_connected_value gw_sample_defs client_data_def data_of_def fresh_socket_def auth_view_def
      validateSocket_def isRevoked_def pruneUncertainRevocationKeys_def send_command_def live_def socket_good_def driver_of_def
      js_map_has_def rt_redis_def Let_def)

lemma gw_join_granted:
  "authorizeRoomJoin (Some (sample_socket_data\<lparr>sd_heartbeatTimer := True\<rparr>)) ''session:c'' (rt_comm gw_connected) = Authorized ''session:c''"
proof -
  have "js_trim ''session:c'' = ''session:c''" by (simp add: js_trim_def js_space_def)
  then show ?thesis
    by (simp add: authorizeRoomJoin_def authorizeRealtimeSessionRoom_def gw_connected_value gw_sample_defs participant_def Let_def)
qed

lemma gw_joined_value:
  "gw_joined = client_emit ''x'' ''room_joined'' (JObj [(''room'', JStr ''session:c'')]) (join_room ''x'' ''session:c'' gw_connected)"
proof -
  have r: "revalidateSensitiveSocket ''x'' 1 gw_connected = (True, gw_connected)"
    using revalidate_cases[of "''x''" 1 gw_connected] gw_connected_valid(1,2) by metis
  have u: "sd_userId (sample_socket_data\<lparr>sd_heartbeatTimer := True\<rparr>) \<noteq> []" by (simp add: sample_socket_data_def)
  show ?thesis
    unfolding gw_joined_def gw_exec.simps handleJoinRoom_def r Let_def prod.case gw_connected_valid(3) option.case
    using u gw_join_granted by simp
qed

lemma gw_joined_heap:
  "\<exists>s. cs_heap (rt_conn gw_joined) = [s] \<and> sk_id s = ''x'' \<and> sk_rooms s = [''session:c''] \<and>
     sk_data s = Some (sample_socket_data\<lparr>sd_heartbeatTimer := True, sd_joinedRooms := [''session:c'']\<rparr>)"
  by (simp add: gw_joined_value gw_connected_value client_emit_def join_room_def update_row_def update_where_def on_data_def
      fresh_socket_def set_add_def socket_emit_def sample_socket_data_def)

theorem rooms_stay_private_witness:
  "\<exists>w. gw_run 1 gw_sample 1 w \<and> (\<exists>s \<in> set (cs_heap (rt_conn w)). ''session:c'' \<in> set (sk_rooms s) \<and>
     (\<exists>d. sk_data s = Some d \<and> entitled d ''session:c'' (rt_comm w)))"
proof -
  have "cs_heap (rt_conn gw_sample) = []" by (simp add: gw_sample_def no_connections_def)
  then show ?thesis
    using rooms_stay_private[OF gw_joined_run] gw_joined_run gw_joined_heap by fastforce
qed

end
