(* ===== verification/SignalProps.thy ===== *)
theory SignalProps
  imports GatewayProps
begin

text \<open>
  Signalling messages of calls: who can have one relayed, and that the same message is not relayed again,
  whatever happens in between.
\<close>

section \<open>Keys that are held\<close>

text \<open>From time \<open>t0\<close> on, the nonce is taken for a minute and the sequence stands at \<open>n\<close> or above for an hour.\<close>

definition held :: "timestamp \<Rightarrow> string \<Rightarrow> string \<Rightarrow> int \<Rightarrow> timestamp \<Rightarrow> redis \<Rightarrow> bool" where
  "held t0 nk sk n t rd \<longleftrightarrow> healthy rd \<and> t0 \<le> t \<and>
     (t < t0 + 60000 \<longrightarrow> (\<exists>v e. rd_data rd nk = Some (v, Some e) \<and> t0 + 60000 \<le> e)) \<and>
     (t < t0 + 3600000 \<longrightarrow> (\<exists>m e. rd_data rd sk = Some (RNum m, Some e) \<and> n \<le> m \<and> t0 + 3600000 \<le> e))"

lemma held_later: "held t0 nk sk n t rd \<Longrightarrow> t \<le> t' \<Longrightarrow> held t0 nk sk n t' rd"
  by (simp add: held_def)

lemma held_cong:
  "held t0 nk sk n t rd \<Longrightarrow> healthy rd' \<Longrightarrow> rd_data rd' nk = rd_data rd nk \<Longrightarrow> rd_data rd' sk = rd_data rd sk \<Longrightarrow>
   held t0 nk sk n t rd'"
  by (simp add: held_def)

lemma revoked_frame: "healthy rd \<Longrightarrow> healthy (snd (isRevoked k t rd)) \<and> rd_data (snd (isRevoked k t rd)) = rd_data rd"
  by (simp add: isRevoked_def healthy_def send_command_def pruneUncertainRevocationKeys_def Let_def)

lemma keys_apart [simp]:
  "nonce_key dto \<noteq> seq_key dto' u" "seq_key dto' u \<noteq> nonce_key dto" "nonce_key dto \<noteq> latest_key d" "seq_key dto u \<noteq> latest_key d"
  "prefix ''throttle:'' k \<Longrightarrow> nonce_key dto \<noteq> k" "prefix ''throttle:'' k \<Longrightarrow> seq_key dto u \<noteq> k"
  by (auto simp: nonce_key_def seq_key_def latest_key_def prefix_def)

lemma held_ops:
  assumes "rd_ops t rd rd'" and "held t0 (nonce_key dto) (seq_key dto u) n t rd"
  shows "held t0 (nonce_key dto) (seq_key dto u) n t rd'"
  using assms(1)
proof (induction rule: rd_ops.induct)
  case none
  then show ?case using assms(2) .
next
  case (revoked rd' k)
  then show ?case using revoked_frame[of rd' k t] by (auto simp: held_def intro: held_cong)
next
  case (count rd' k m)
  then show ?case using healthy_incr[of rd' k m t] by (intro held_cong[OF count.IH]) (auto simp: held_def)
next
  case (claim rd' dto' v)
  let ?k = "nonce_key dto'"
  have h: "healthy rd'" using claim.IH by (simp add: held_def)
  have eq: "snd (setNxEx ?k v 60 t rd') = (if live rd' t ?k = None then store ?k (RStr v) (Some (t + 60000)) rd' else rd')"
    using h by (simp add: setNxEx_def send_command_def healthy_def)
  have live: "live rd' t (nonce_key dto) \<noteq> None" if "t < t0 + 60000"
    using claim.IH that by (auto simp: held_def live_def)
  show ?case
  proof (cases "?k = nonce_key dto \<and> t < t0 + 60000")
    case True
    then show ?thesis using live[OF conjunct2[OF True]] claim.IH eq by auto
  next
    case False
    then show ?thesis using claim.IH unfolding eq by (auto simp: held_def)
  qed
next
  case (advance rd' dto' u' s)
  let ?k = "seq_key dto' u'"
  have h: "healthy rd'" using advance.IH by (simp add: held_def)
  define rd2 where "rd2 = store ?k (RNum s) (Some (t + 3600000)) rd'"
  have eq: "snd (verifyAndSetSequence ?k s 3600 t rd') =
      (case live rd' t ?k of Some (RNum c) \<Rightarrow> if s \<le> c then rd' else rd2 | _ \<Rightarrow> rd2)"
    using h by (auto simp: verifyAndSetSequence_def send_command_def healthy_def rd2_def split: option.split rvalue.split)
  show ?case
  proof (cases "?k = seq_key dto u \<and> t < t0 + 3600000")
    case True
    then obtain m e where m: "rd_data rd' ?k = Some (RNum m, Some e)" "n \<le> m" "t0 + 3600000 \<le> e"
      using advance.IH by (auto simp: held_def)
    then have "live rd' t ?k = Some (RNum m)" using True by (simp add: live_def)
    then have "snd (verifyAndSetSequence ?k s 3600 t rd') = (if s \<le> m then rd' else rd2)" by (simp add: eq)
    moreover have "held t0 (nonce_key dto) (seq_key dto u) n t rd2" if "m < s"
      using advance.IH True that m(2) by (auto simp: held_def rd2_def)
    ultimately show ?thesis using advance.IH by simp
  next
    case False
    then have "held t0 (nonce_key dto) (seq_key dto u) n t rd2" using advance.IH by (auto simp: held_def rd2_def)
    then show ?thesis using advance.IH unfolding eq by (auto split: option.split rvalue.split)
  qed
next
  case (read rd' k)
  then show ?case by (simp add: held_def healthy_get)
next
  case (put rd' d v m)
  then show ?case by (intro held_cong[OF put.IH]) (auto simp: held_def healthy_set)
qed

lemma held_exec:
  assumes "held t0 (nonce_key dto) (seq_key dto u) n t (rds w)"
  shows "held t0 (nonce_key dto) (seq_key dto u) n t (rds (gw_exec e t w))"
proof (cases rule: exec_cases[where e = e and t = t and w = w])
  case benign
  then show ?thesis using held_ops assms unfolding benign_def by blast
next
  case (connect i d)
  then show ?thesis using held_ops assms unfolding benign_def added_def on_conn_simps by blast
next
  case (join i d room)
  then obtain w1 where "benign t w w1" "benign t (join_room i room w1) (gw_exec e t w)" unfolding joins_def by blast
  moreover have "rds (join_room i room w1) = rds w1" by (simp add: join_room_def)
  ultimately show ?thesis using held_ops assms unfolding benign_def by metis
qed

lemma held_run:
  assumes "gw_run t w t1 w'" and "held t0 (nonce_key dto) (seq_key dto u) n t (rds w)"
  shows "held t0 (nonce_key dto) (seq_key dto u) n t1 (rds w')"
  using assms
proof (induction rule: gw_run.induct)
  case (event t1 w1 t2 e)
  then show ?case using held_exec held_later by blast
next
  case (other t1 w1 t2 w2)
  then have "held t0 (nonce_key dto) (seq_key dto u) n t2 (rds w1)" using held_later by blast
  moreover have "signal_key (nonce_key dto)" "signal_key (seq_key dto u)"
    by (simp_all add: signal_key_def nonce_key_def seq_key_def)
  ultimately show ?case using other.hyps(3) held_cong by (auto simp: elsewhere_def held_def)
qed

section \<open>Relaying\<close>

fun signal_of :: "gw_event \<Rightarrow> (string \<times> signal_dto) option" where
  "signal_of (SignalOffer i dto) = Some (i, dto)"
| "signal_of (SignalAnswer i dto) = Some (i, dto)"
| "signal_of (SignalCandidate i dto) = Some (i, dto)"
| "signal_of _ = None"

definition relays :: "gw_event \<Rightarrow> timestamp \<Rightarrow> rt_world \<Rightarrow> bool" where
  "relays e t w \<longleftrightarrow> cm_emitted (rt_comm (gw_exec e t w)) \<noteq> cm_emitted (rt_comm w)"

text \<open>A limit sends nothing to a room.\<close>

definition quiet_limit :: "(string \<Rightarrow> signal_dto \<Rightarrow> timestamp \<Rightarrow> rt_world \<Rightarrow> bool \<times> rt_world) \<Rightarrow> bool" where
  "quiet_limit limit \<longleftrightarrow> (\<forall>i dto t w. cm_emitted (rt_comm (snd (limit i dto t w))) = cm_emitted (rt_comm w) \<and>
     cm_gatewayUp (rt_comm (snd (limit i dto t w))) = cm_gatewayUp (rt_comm w))"

lemma quiet_limits [simp]: "quiet_limit no_limit" "quiet_limit candidate_limit"
  by (simp_all add: quiet_limit_def no_limit_def candidate_limit_def client_error_def client_emit_def rt_redis_def Let_def split_beta)

lemma replay_frame:
  "cm_emitted (rt_comm (snd (validateWebrtcAntiReplay i dto u t w))) = cm_emitted (rt_comm w)"
  "cm_gatewayUp (rt_comm (snd (validateWebrtcAntiReplay i dto u t w))) = cm_gatewayUp (rt_comm w)"
  by (simp_all add: validateWebrtcAntiReplay_def client_error_def client_emit_def rt_redis_def Let_def split_beta)

lemma signal_cases:
  assumes "quiet_limit limit"
  obtains (silent) "cm_emitted (rt_comm (handleSignal fn limit ev i dto t w)) = cm_emitted (rt_comm w)"
  | (sent) d w1 p where "socket_valid i t w" "client_data i w = Some d"
      "assertWebrtcSignalAccess i d (sg_sessionId dto) t (checked i t w) = Inr ()"
      "validateWebrtcAntiReplay i dto (sd_userId d) t (checked i t w) = (True, w1)"
      "rds (handleSignal fn limit ev i dto t w) = rds (snd (limit i dto t w1))"
      "cm_emitted (rt_comm (handleSignal fn limit ev i dto t w)) = cm_emitted (rt_comm w) @
         (if cm_gatewayUp (rt_comm w) then [\<lparr>em_room = session_room (sg_sessionId dto), em_event = ev, em_payload = p,
            em_actor = \<lparr>ea_userId = sd_userId d, ea_role = sd_role d, ea_driverId = sd_driverId d\<rparr>\<rparr>] else [])"
proof -
  define body where "body = (\<lambda>(d::socket_data) w. case assertWebrtcSignalAccess i d (sg_sessionId dto) t w of
          Inl e \<Rightarrow> client_error i ''call_error'' ''SIGNALING_FAILED'' w
        | Inr _ \<Rightarrow>
            let (isClean, w1) = validateWebrtcAntiReplay i dto (sd_userId d) t w in
            if \<not> isClean then w1
            else
              let (allowed, w2) = limit i dto t w1 in
              if \<not> allowed then w2
              else room_emit (session_room (sg_sessionId dto)) ev
                     (JObj [(''sessionId'', JStr (sg_sessionId dto)), (fn, sg_body dto),
                            (''seq'', JNum (of_int (sg_seq dto))), (''nonce'', JStr (sg_nonce dto))]) d w2)"
  have h: "handleSignal fn limit ev i dto t w = with_valid_socket i t (\<lambda>w. w) body w"
    by (simp add: handleSignal_def body_def)
  have up: "cm_gatewayUp (rt_comm (checked i t w)) = cm_gatewayUp (rt_comm w)" by (simp add: checked_def rt_redis_def)
  show thesis
  proof (cases rule: with_valid_cases[where i = i and now = t and w = w and nu = "\<lambda>w. w" and body = body])
    case (refused w')
    then show thesis by (intro silent) (simp add: h)
  next
    case anonymous
    then show thesis by (intro silent) (simp add: h)
  next
    case (valid d)
    let ?w = "checked i t w"
    obtain b w1 where 1: "validateWebrtcAntiReplay i dto (sd_userId d) t ?w = (b, w1)" by fastforce
    obtain a w2 where 2: "limit i dto t w1 = (a, w2)" by fastforce
    have q: "cm_emitted (rt_comm w1) = cm_emitted (rt_comm w)" "cm_emitted (rt_comm w2) = cm_emitted (rt_comm w)"
      "cm_gatewayUp (rt_comm w2) = cm_gatewayUp (rt_comm w)"
      using replay_frame[of i dto "sd_userId d" t ?w] 1 2 assms up unfolding quiet_limit_def
      by (metis checked_frame(4) snd_conv)+
    have "body d ?w = (case assertWebrtcSignalAccess i d (sg_sessionId dto) t ?w of
          Inl e \<Rightarrow> client_error i ''call_error'' ''SIGNALING_FAILED'' ?w
        | Inr _ \<Rightarrow> if \<not> b then w1 else if \<not> a then w2
            else room_emit (session_room (sg_sessionId dto)) ev
                   (JObj [(''sessionId'', JStr (sg_sessionId dto)), (fn, sg_body dto),
                          (''seq'', JNum (of_int (sg_seq dto))), (''nonce'', JStr (sg_nonce dto))]) d w2)"
      unfolding body_def 1 Let_def prod.case 2 by (rule refl)
    then have eq: "handleSignal fn limit ev i dto t w = \<dots>" using h valid(4) by simp
    show thesis
    proof (cases "(\<exists>x. assertWebrtcSignalAccess i d (sg_sessionId dto) t ?w = Inr x) \<and> b \<and> a")
      case False
      then show thesis using q by (intro silent) (auto simp: eq client_error_def client_emit_def split: sum.split)
    next
      case True
      then show thesis using q valid 1 2
        by (intro sent[of d w1]) (auto simp: eq room_emit_def comm_emit_def)
    qed
  qed
qed

lemma healthy_claim:
  "healthy rd \<Longrightarrow> setNxEx k v n t rd =
     (if live rd t k = None then (True, store k (RStr v) (Some (t + n * 1000)) rd) else (False, rd))"
  by (simp add: setNxEx_def send_command_def healthy_def)

lemma healthy_advance:
  "healthy rd \<Longrightarrow> verifyAndSetSequence k s n t rd =
     (if \<exists>c. live rd t k = Some (RNum c) \<and> s \<le> c then (False, rd)
      else (True, store k (RNum s) (Some (t + n * 1000)) rd))"
  by (auto simp: verifyAndSetSequence_def send_command_def healthy_def split: option.split rvalue.split)

lemma healthy_ops: "rd_ops t rd rd' \<Longrightarrow> healthy rd \<Longrightarrow> healthy rd'"
  by (induction rule: rd_ops.induct)
    (simp_all add: revoked_frame healthy_incr healthy_claim healthy_advance healthy_get healthy_set)

lemma healthy_checked: "healthy (rds w) \<Longrightarrow> healthy (rds (checked i t w))"
  using benign_checked[of t w i] healthy_ops unfolding benign_def by blast

lemma live_store [simp]: "live (store k v e rd) t j = (if j = k then (case e of None \<Rightarrow> Some v | Some x \<Rightarrow> if t < x then Some v else None) else live rd t j)"
  by (simp add: live_def split: option.split)

lemma replay_clean:
  assumes h: "healthy (rds w)" and v: "validateWebrtcAntiReplay i dto u t w = (True, w1)"
  shows "\<bar>t - sg_timestamp dto\<bar> \<le> 30000" and "live (rds w) t (nonce_key dto) = None"
    and "live (rds w) t (seq_key dto u) = Some (RNum c) \<Longrightarrow> c < sg_seq dto"
    and "held t (nonce_key dto) (seq_key dto u) (sg_seq dto) t (rds w1)"
proof -
  let ?rd1 = "store (nonce_key dto) (RStr ''1'') (Some (t + 60000)) (rds w)"
  let ?rd2 = "store (seq_key dto u) (RNum (sg_seq dto)) (Some (t + 3600000)) ?rd1"
  have skew: "\<bar>t - sg_timestamp dto\<bar> \<le> 30000"
    using v by (simp add: validateWebrtcAntiReplay_def split: if_splits)
  have free: "live (rds w) t (nonce_key dto) = None"
    using v skew by (simp add: validateWebrtcAntiReplay_def healthy_claim[OF h] split: if_splits)
  have h1: "healthy ?rd1" using h by simp
  have seq: "\<not> (\<exists>c. live (rds w) t (seq_key dto u) = Some (RNum c) \<and> sg_seq dto \<le> c)" "w1 = rt_redis ?rd2 (rt_redis ?rd1 w)"
    using v skew free by (auto simp: validateWebrtcAntiReplay_def healthy_claim[OF h] healthy_advance[OF h1] Let_def split: if_splits)
  then show "\<bar>t - sg_timestamp dto\<bar> \<le> 30000" "live (rds w) t (nonce_key dto) = None"
    "live (rds w) t (seq_key dto u) = Some (RNum c) \<Longrightarrow> c < sg_seq dto"
    "held t (nonce_key dto) (seq_key dto u) (sg_seq dto) t (rds w1)"
    using skew free h by (auto simp: held_def not_le)
qed

text \<open>A message is refused while its nonce is taken, afterwards while its number is not new, and later for its time.\<close>

lemma held_refuses:
  assumes h: "held t0 (nonce_key dto) (seq_key dto u) (sg_seq dto) t (rds w)" and skew: "\<bar>t0 - sg_timestamp dto\<bar> \<le> 30000"
  shows "validateWebrtcAntiReplay i dto u t w \<noteq> (True, w1)"
proof
  assume v: "validateWebrtcAntiReplay i dto u t w = (True, w1)"
  have hl: "healthy (rds w)" using h by (simp add: held_def)
  note c = replay_clean[OF hl v]
  have "t \<le> t0 + 60000" using c(1) skew by linarith
  moreover have "\<not> t < t0 + 60000" using h c(2) by (auto simp: held_def live_def)
  ultimately have "t < t0 + 3600000" by simp
  then obtain m e where "rd_data (rds w) (seq_key dto u) = Some (RNum m, Some e)" "sg_seq dto \<le> m" "t0 + 3600000 \<le> e"
    using h by (auto simp: held_def)
  then have "live (rds w) t (seq_key dto u) = Some (RNum m)" using \<open>t < t0 + 3600000\<close> by (simp add: live_def)
  then show False using c(3) \<open>sg_seq dto \<le> m\<close> by force
qed

lemma signal_event:
  assumes "signal_of e = Some (i, dto)" and "relays e t w"
  obtains d w1 limit ev fn p where "quiet_limit limit" "gw_exec e t w = handleSignal fn limit ev i dto t w"
    "\<And>x. benign t x (snd (limit i dto t x))"
    "socket_valid i t w" "client_data i w = Some d" "assertWebrtcSignalAccess i d (sg_sessionId dto) t (checked i t w) = Inr ()"
    "validateWebrtcAntiReplay i dto (sd_userId d) t (checked i t w) = (True, w1)"
    "rds (gw_exec e t w) = rds (snd (limit i dto t w1))"
    "cm_emitted (rt_comm (gw_exec e t w)) = cm_emitted (rt_comm w) @
       [\<lparr>em_room = session_room (sg_sessionId dto), em_event = ev, em_payload = p,
         em_actor = \<lparr>ea_userId = sd_userId d, ea_role = sd_role d, ea_driverId = sd_driverId d\<rparr>\<rparr>]"
proof -
  have "\<exists>fn limit ev. gw_exec e t w = handleSignal fn limit ev i dto t w \<and> limit \<in> {no_limit, candidate_limit}"
    using assms(1) by (cases e) (auto simp: handleWebrtcSignalOffer_def handleWebrtcSignalAnswer_def
        handleWebrtcSignalIceCandidate_def)
  then obtain fn limit ev where l: "gw_exec e t w = handleSignal fn limit ev i dto t w" "limit \<in> {no_limit, candidate_limit}"
    by blast
  then have x: "gw_exec e t w = handleSignal fn limit ev i dto t w" "quiet_limit limit" "\<And>x. benign t x (snd (limit i dto t x))"
    using benign_limit by (auto simp: no_limit_def)
  from x(2) show thesis
  proof (cases rule: signal_cases[where limit = limit and fn = fn and ev = ev and i = i and dto = dto and t = t and w = w])
    case silent
    then show thesis using assms(2) x(1) by (simp add: relays_def)
  next
    case (sent d w1 p)
    then have "cm_gatewayUp (rt_comm w)" using assms(2) x(1) by (auto simp: relays_def split: if_splits)
    then show thesis using that[OF x(2,1,3) sent(1-4)] sent(5,6) by (simp add: x(1))
  qed
qed

text \<open>
  C28.  A signalling message is relayed only for a socket with a valid session that is in the room of the call,
  whose user or driver takes part in the call (or is an administrator), while the call is active and not
  expired, and within 30 seconds of the time of the message.  It is relayed once: whatever happens in between,
  no socket of the same user has a message with the same call, nonce, number and time relayed again, as long
  as Redis answers.
\<close>

theorem signals_relayed_once:
  assumes redis: "healthy (rds w)" and s: "signal_of e = Some (i, dto)" and r: "relays e t w"
  shows "(\<exists>d c sk ev p. socket_valid i t w \<and> client_data i w = Some d \<and> find_socket i w = Some sk \<and>
       session_room (sg_sessionId dto) \<in> set (sk_rooms sk) \<and>
       find_row cal_id (sg_sessionId dto) (cm_calls (rt_comm w)) = Some c \<and> cal_status c = CALL_ACTIVE \<and> t < cal_expiresAt c \<and>
       isAuthorizedParticipant c (socket_actor d) \<and> \<bar>t - sg_timestamp dto\<bar> \<le> 30000 \<and>
       cm_emitted (rt_comm (gw_exec e t w)) = cm_emitted (rt_comm w) @
         [\<lparr>em_room = session_room (sg_sessionId dto), em_event = ev, em_payload = p,
           em_actor = \<lparr>ea_userId = sd_userId d, ea_role = sd_role d, ea_driverId = sd_driverId d\<rparr>\<rparr>]) \<and>
    (\<forall>t1 w1 t2 e2 i2 body. gw_run t (gw_exec e t w) t1 w1 \<and> t1 \<le> t2 \<and> signal_of e2 = Some (i2, dto\<lparr>sg_body := body\<rparr>) \<and>
       map_option sd_userId (client_data i2 w1) = map_option sd_userId (client_data i w) \<longrightarrow> \<not> relays e2 t2 w1)"
proof -
  obtain limit fn ev d w1 p where "quiet_limit limit" "gw_exec e t w = handleSignal fn limit ev i dto t w"
    and lim: "\<And>x. benign t x (snd (limit i dto t x))"
    and x: "socket_valid i t w" "client_data i w = Some d"
      "assertWebrtcSignalAccess i d (sg_sessionId dto) t (checked i t w) = Inr ()"
      "validateWebrtcAntiReplay i dto (sd_userId d) t (checked i t w) = (True, w1)"
      "rds (gw_exec e t w) = rds (snd (limit i dto t w1))"
      "cm_emitted (rt_comm (gw_exec e t w)) = cm_emitted (rt_comm w) @
         [\<lparr>em_room = session_room (sg_sessionId dto), em_event = ev, em_payload = p,
           em_actor = \<lparr>ea_userId = sd_userId d, ea_role = sd_role d, ea_driverId = sd_driverId d\<rparr>\<rparr>]"
    by (rule signal_event[OF s r]) (rule that)
  note clean = replay_clean[OF healthy_checked[OF redis] x(4)]
  have "held t (nonce_key dto) (seq_key dto (sd_userId d)) (sg_seq dto) t (rds (gw_exec e t w))"
    using held_ops[OF _ clean(4)] lim[of w1] unfolding x(5) benign_def by blast
  note held = held_run[OF _ this]
  have "\<not> relays e2 t2 w2"
    if run: "gw_run t (gw_exec e t w) t1 w2" "t1 \<le> t2" "signal_of e2 = Some (i2, dto\<lparr>sg_body := body\<rparr>)"
      "map_option sd_userId (client_data i2 w2) = map_option sd_userId (client_data i w)" for t1 w2 t2 e2 i2 body
  proof
    assume "relays e2 t2 w2"
    then obtain d2 w3 where y: "client_data i2 w2 = Some d2"
      "validateWebrtcAntiReplay i2 (dto\<lparr>sg_body := body\<rparr>) (sd_userId d2) t2 (checked i2 t2 w2) = (True, w3)"
      by (rule signal_event[OF run(3)])
    then have u: "sd_userId d2 = sd_userId d" using run(4) x(2) by simp
    have "held t (nonce_key dto) (seq_key dto (sd_userId d)) (sg_seq dto) t2 (rds w2)"
      using held[OF run(1)] held_later run(2) by blast
    then have "held t (nonce_key dto) (seq_key dto (sd_userId d)) (sg_seq dto) t2 (rds (checked i2 t2 w2))"
      using held_ops benign_checked[of t2 w2 i2] unfolding benign_def by blast
    then show False
      using held_refuses[of t "dto\<lparr>sg_body := body\<rparr>" "sd_userId d" t2 "checked i2 t2 w2" i2 w3] clean(1) y(2) u
      by (simp add: nonce_key_def seq_key_def)
  qed
  moreover obtain sk where sk: "find_socket i (checked i t w) = Some sk" "session_room (sg_sessionId dto) \<in> set (sk_rooms sk)"
    "\<exists>c. authorizeSignal (sg_sessionId dto) (socket_actor d) t (rt_comm (checked i t w)) = Inr c"
    using x(3) by (auto simp: assertWebrtcSignalAccess_def split: option.splits if_splits sum.splits)
  then obtain c where "find_row cal_id (sg_sessionId dto) (cm_calls (rt_comm w)) = Some c" "cal_status c = CALL_ACTIVE"
    "t < cal_expiresAt c" "isAuthorizedParticipant c (socket_actor d)"
    by (auto simp: authorizeSignal_def find_call_def split: sum.splits option.splits if_splits)
  moreover have "find_socket i w = Some sk" using sk(1) by (simp add: find_socket_def)
  ultimately show ?thesis using x(1,2,6) sk(2) clean(1) by blast
qed

definition sample_offer :: signal_dto where
  "sample_offer = \<lparr>sg_sessionId = ''c'', sg_nonce = ''n'', sg_seq = 1, sg_timestamp = 0, sg_body = JStr ''sdp''\<rparr>"

lemma gw_joined_frame: "rt_users gw_joined = rt_users gw_sample" "rt_sessions gw_joined = rt_sessions gw_sample"
  "rt_comm gw_joined = rt_comm gw_sample" "rt_roles gw_joined = rt_roles gw_sample"
  by (simp_all add: gw_joined_value gw_connected_value client_emit_def join_room_def on_conn_def)

lemma gw_joined_data: "client_data ''x'' gw_joined = Some (sample_socket_data\<lparr>sd_heartbeatTimer := True, sd_joinedRooms := [''session:c'']\<rparr>)"
  using gw_joined_heap by (auto simp: client_data_def data_of_def)

lemma gw_joined_valid: "socket_valid ''x'' 1 gw_joined" "checked ''x'' 1 gw_joined = gw_joined"
  unfolding socket_valid_def checked_def gw_joined_data
  by (simp_all add: gw_joined_frame gw_sample_defs auth_view_def
      validateSocket_def isRevoked_def pruneUncertainRevocationKeys_def send_command_def live_def socket_good_def driver_of_def
      js_map_has_def rt_redis_def Let_def)
lemma gw_offer:
  "relays (SignalOffer ''x'' sample_offer) 1 gw_joined"
  "rt_conn (gw_exec (SignalOffer ''x'' sample_offer) 1 gw_joined) = rt_conn gw_joined"
proof -
  let ?d = "sample_socket_data\<lparr>sd_heartbeatTimer := True, sd_joinedRooms := [''session:c'']\<rparr>"
  have r: "revalidateSensitiveSocket ''x'' 1 gw_joined = (True, gw_joined)"
    using revalidate_cases[of "''x''" 1 gw_joined] gw_joined_valid by metis
  have h: "healthy (rds gw_joined)" by (simp add: gw_joined_frame gw_sample_defs healthy_def)
  obtain s where s: "cs_heap (rt_conn gw_joined) = [s]" "sk_id s = ''x''" "sk_rooms s = [''session:c'']" using gw_joined_heap by blast
  have a: "assertWebrtcSignalAccess ''x'' ?d ''c'' 1 gw_joined = Inr ()"
    using s by (simp add: assertWebrtcSignalAccess_def find_socket_def session_room_def authorizeSignal_def find_call_def
        gw_joined_frame gw_sample_defs isAuthorizedParticipant_def is_admin_def socket_actor_def)
  have free: "live (rds gw_joined) 1 k = None" for k by (simp add: gw_joined_frame gw_sample_defs live_def)
  have v: "\<exists>rd. validateWebrtcAntiReplay ''x'' sample_offer ''u'' 1 gw_joined = (True, rt_redis rd gw_joined)"
    using h free[of "nonce_key sample_offer"] free[of "seq_key sample_offer ''u''"]
    by (simp add: validateWebrtcAntiReplay_def healthy_claim healthy_advance sample_offer_def rt_redis_def Let_def)
      (rule exI, rule refl)
  then obtain rd where v: "validateWebrtcAntiReplay ''x'' sample_offer ''u'' 1 gw_joined = (True, rt_redis rd gw_joined)" ..
  have u: "sd_userId ?d = ''u''" "sg_sessionId sample_offer = ''c''" by (simp_all add: sample_socket_data_def sample_offer_def)
  have e: "gw_exec (SignalOffer ''x'' sample_offer) 1 gw_joined =
      room_emit (session_room ''c'') ''webrtc.signal.offer''
        (JObj [(''sessionId'', JStr ''c''), (''sdp'', sg_body sample_offer), (''seq'', JNum (of_int (sg_seq sample_offer))),
               (''nonce'', JStr (sg_nonce sample_offer))]) ?d (rt_redis rd gw_joined)"
    using a v u r gw_joined_data
    by (simp add: handleWebrtcSignalOffer_def handleSignal_def with_valid_socket_def no_limit_def)
  show "relays (SignalOffer ''x'' sample_offer) 1 gw_joined"
    "rt_conn (gw_exec (SignalOffer ''x'' sample_offer) 1 gw_joined) = rt_conn gw_joined"
    unfolding relays_def e
    by (simp_all add: room_emit_def comm_emit_def rt_redis_def gw_joined_frame gw_sample_defs)
qed

theorem signals_relayed_once_witness:
  "relays (SignalOffer ''x'' sample_offer) 1 gw_joined \<and>
   \<not> relays (SignalOffer ''x'' sample_offer) 2 (gw_exec (SignalOffer ''x'' sample_offer) 1 gw_joined)"
proof -
  have h: "healthy (rds gw_joined)" by (simp add: gw_joined_frame gw_sample_defs healthy_def)
  have "sample_offer\<lparr>sg_body := JStr ''sdp''\<rparr> = sample_offer" by (simp add: sample_offer_def)
  then have s2: "signal_of (SignalOffer ''x'' sample_offer) = Some (''x'', sample_offer\<lparr>sg_body := JStr ''sdp''\<rparr>)" by simp
  have "client_data ''x'' (gw_exec (SignalOffer ''x'' sample_offer) 1 gw_joined) = client_data ''x'' gw_joined"
    by (rule client_data_conn) (rule gw_offer(2))
  then show ?thesis
    using conjunct2[OF signals_relayed_once[OF h _ gw_offer(1), of "''x''" sample_offer]] gw_run.start s2 gw_offer(1)
    by (metis one_le_numeral signal_of.simps(1))
qed

end
