(* ===== verification/TrackProps.thy ===== *)
theory TrackProps
  imports TrackLemmas ChatProps
begin

text \<open>
  Properties of telemetry: the cached latest location is the newest accepted point, which points are accepted
  and what is stored, and what a batch reports.
\<close>

section \<open>Histories\<close>

text \<open>
  Points and batches at times that do not go back, and between them anything that leaves the points and the
  keys of the latest locations alone.  Redis commands do not fail.
\<close>

inductive tracked :: "track_world \<Rightarrow> timestamp \<Rightarrow> track_world \<Rightarrow> bool" for w0 where
  start: "tracked w0 t w0"
| point: "tracked w0 t w \<Longrightarrow> t \<le> t' \<Longrightarrow> tracked w0 t' (snd (processTelemetry dto d role t' ep skip i t' w))"
| batch: "tracked w0 t w \<Longrightarrow> t \<le> t' \<Longrightarrow> tracked w0 t' (snd (processBatch ps d role t' ids t' w))"
| other: "tracked w0 t w \<Longrightarrow> t \<le> t' \<Longrightarrow> stays w w' \<Longrightarrow> tracked w0 t' w'"

definition points_of :: "uuid \<Rightarrow> track_world \<Rightarrow> location_point set" where
  "points_of d w = {p \<in> set (tk_points w). lpt_driverId p = d}"

text \<open>The cached location is the point \<open>p\<close>.\<close>

definition caches :: "cached_location \<Rightarrow> location_point \<Rightarrow> bool" where
  "caches c p \<longleftrightarrow> cl_driverId c = lpt_driverId p \<and> cl_recordedAt c = Some (lpt_recordedAt p) \<and>
     cl_receivedAt c = lpt_receivedAt p \<and> cl_deliveryId c = lpt_deliveryId p \<and>
     decimal 10 7 (cl_latitude c) = Some (lpt_latitude p) \<and> decimal 10 7 (cl_longitude c) = Some (lpt_longitude p)"

definition newest_of :: "location_point \<Rightarrow> uuid \<Rightarrow> track_world \<Rightarrow> bool" where
  "newest_of p d w \<longleftrightarrow> p \<in> points_of d w \<and> (\<forall>q \<in> points_of d w. lpt_recordedAt q \<le> lpt_recordedAt p)"

definition entry_ok :: "uuid \<Rightarrow> track_world \<Rightarrow> (rvalue \<times> timestamp option) option \<Rightarrow> bool" where
  "entry_ok d w entry \<longleftrightarrow>
     (case entry of
        None \<Rightarrow> points_of d w = {}
      | Some (v, e) \<Rightarrow>
          \<exists>c p. v = RJson (cached_json c) \<and> e = Some (lpt_receivedAt p + 86400000) \<and> caches c p \<and> newest_of p d w)"

lemma entry_ok_cong: "points_of d w' = points_of d w \<Longrightarrow> entry_ok d w' x = entry_ok d w x"
  by (simp add: entry_ok_def newest_of_def split: option.split)

definition cache_ok :: "timestamp \<Rightarrow> track_world \<Rightarrow> bool" where
  "cache_ok t w \<longleftrightarrow> healthy (tk_redis w) \<and>
     (\<forall>p \<in> set (tk_points w). lpt_receivedAt p \<le> t \<and> lpt_receivedAt p - 3600000 \<le> lpt_recordedAt p \<and>
        lpt_recordedAt p \<le> lpt_receivedAt p + 300000) \<and>
     (\<forall>d. entry_ok d w (rd_data (tk_redis w) (latest_key d)))"

lemma cache_ok_stays:
  assumes "cache_ok t w" and "t \<le> t'" and "stays w w'"
  shows "cache_ok t' w'"
proof -
  have "points_of d w' = points_of d w" for d using assms(3) by (simp add: points_of_def stays_def)
  then show ?thesis using assms entry_ok_cong[of _ w' w] by (fastforce simp: cache_ok_def stays_def)
qed

lemma cache_ok_stored:
  assumes ok: "cache_ok t w" and t: "t \<le> now" and s: "stored dto d now p w w'"
  shows "cache_ok now w'"
proof -
  obtain st i where np: "new_point dto d now st i = Some p" and pl: "plausible dto now"
    and pts: "tk_points w' = tk_points w @ [p]" and h: "healthy (tk_redis w')"
    using s by (auto simp: stored_def)
  note sh = new_point_shape[OF np]
  have win: "now - 3600000 \<le> lpt_recordedAt p" "lpt_recordedAt p \<le> now + 300000"
    using pl sh by (auto simp: plausible_def)
  have points: "points_of d' w' = points_of d' w \<union> (if d' = d then {p} else {})" for d'
    using sh by (auto simp: points_of_def pts)
  define C where "C = RJson (cached_json (location_payload dto d now))"
  have cp: "caches (location_payload dto d now) p"
    using sh by (simp add: caches_def location_payload_def)
  have data: "rd_data (tk_redis w') (latest_key d') =
      (if d' = d \<and> \<not> not_newer (Some (lpt_recordedAt p)) (cached_time (parse_cached (live (tk_redis w) now (latest_key d))))
       then Some (C, Some (now + 86400000)) else rd_data (tk_redis w) (latest_key d'))" for d'
    using s sh by (simp add: stored_def C_def)
  have inv: "entry_ok d' w' (rd_data (tk_redis w') (latest_key d'))" for d'
  proof -
    have before: "entry_ok d' w (rd_data (tk_redis w) (latest_key d'))"
      using ok by (simp add: cache_ok_def)
    show ?thesis
    proof (cases "d' = d")
      case False
      with before data[of d'] points[of d'] show ?thesis by (simp add: entry_ok_cong[of d' w' w])
    next
      case True
      show ?thesis
      proof (cases "rd_data (tk_redis w) (latest_key d)")
        case None
        then have "newest_of p d w'" using before True points[of d] by (simp add: newest_of_def entry_ok_def)
        moreover have "rd_data (tk_redis w') (latest_key d) = Some (C, Some (now + 86400000))"
          using data[of d] None by (simp add: live_def parse_cached_def cached_time_def not_newer_def)
        ultimately show ?thesis using True cp sh unfolding entry_ok_def C_def by auto
      next
        case (Some ve)
        with before True obtain c q where ve: "ve = (RJson (cached_json c), Some (lpt_receivedAt q + 86400000))"
          and q: "caches c q" "newest_of q d w" by (cases ve) (auto simp: entry_ok_def)
        have qt: "lpt_receivedAt q \<le> now" "lpt_recordedAt q \<le> lpt_receivedAt q + 300000"
          using ok q(2) t by (auto simp: cache_ok_def newest_of_def points_of_def)
        have ct: "cl_recordedAt c = Some (lpt_recordedAt q)" using q(1) by (simp add: caches_def)
        show ?thesis
        proof (cases "lpt_recordedAt p \<le> lpt_recordedAt q")
          case old: True
          then have "now < lpt_receivedAt q + 86400000" using win qt by simp
          then have "rd_data (tk_redis w') (latest_key d) = Some ve"
            using data[of d] Some ve old ct by (simp add: live_def parse_cached_def not_newer_def)
          moreover have "newest_of q d w'" using q(2) old points[of d] by (auto simp: newest_of_def)
          ultimately show ?thesis using True ve q(1) unfolding entry_ok_def by auto
        next
          case new: False
          then have "\<not> not_newer (Some (lpt_recordedAt p)) (cached_time (parse_cached (live (tk_redis w) now (latest_key d))))"
            using Some ve ct by (simp add: live_def parse_cached_def not_newer_def cached_time_def[of None])
          then have "rd_data (tk_redis w') (latest_key d) = Some (C, Some (now + 86400000))" using data[of d] by simp
          moreover have "newest_of p d w'" using q(2) new points[of d] by (auto simp: newest_of_def)
          ultimately show ?thesis using True cp sh unfolding entry_ok_def C_def by auto
        qed
      qed
    qed
  qed
  have "\<forall>r \<in> set (tk_points w'). lpt_receivedAt r \<le> now \<and> lpt_receivedAt r - 3600000 \<le> lpt_recordedAt r \<and>
      lpt_recordedAt r \<le> lpt_receivedAt r + 300000"
    using ok t win sh by (fastforce simp: cache_ok_def pts)
  with h inv show ?thesis by (simp add: cache_ok_def)
qed

lemma cache_ok_telemetry:
  assumes "cache_ok t w" and "t \<le> now"
  shows "cache_ok now (snd (processTelemetry dto d role now ep skip i now w))"
proof -
  have h: "healthy (tk_redis w)" using assms by (simp add: cache_ok_def)
  obtain r w' where e: "processTelemetry dto d role now ep skip i now w = (r, w')" by fastforce
  from telemetry_changes[OF h e] show ?thesis
    using cache_ok_stays[OF assms] cache_ok_stored[OF assms] e by auto
qed

lemma cache_ok_loop:
  "cache_ok t w \<Longrightarrow> t \<le> now \<Longrightarrow> cache_ok now (snd (batch_loop k ps d role now ids now w))"
proof (induction ps arbitrary: k t w)
  case Nil
  have "stays w w" using Nil.prems by (simp add: stays_def cache_ok_def)
  with Nil show ?case using cache_ok_stays by simp
next
  case (Cons dto ps)
  obtain r w1 where e: "processTelemetry dto d role now ''/v1/me/location/batch'' True (ids k) now w = (r, w1)" by fastforce
  have "cache_ok now w1"
    using cache_ok_telemetry[OF Cons.prems, of dto d role "''/v1/me/location/batch''" True "ids k"] e by simp
  then have "cache_ok now (snd (batch_loop (Suc k) ps d role now ids now w1))" by (rule Cons.IH) simp
  then show ?case using e by (cases r) (simp_all add: Let_def split_beta split: prod.split)
qed

lemma cache_ok_batch:
  assumes "cache_ok t w" and "t \<le> now"
  shows "cache_ok now (snd (processBatch ps d role now ids now w))"
proof -
  obtain n rd where n: "incrRateLimit (batch_throttle_key d) 60 now (tk_redis w) = (n, rd)" by fastforce
  have "stays w (with_redis rd w)"
    using healthy_incr[of "tk_redis w" "batch_throttle_key d" 60 now] n assms(1) by (simp add: stays_def cache_ok_def)
  then have 1: "cache_ok now (with_redis rd w)" using cache_ok_stays[OF assms] by simp
  have "stays w w" using assms by (simp add: stays_def cache_ok_def)
  then have "cache_ok now w" using cache_ok_stays[OF assms] by simp
  with 1 show ?thesis
    using cache_ok_loop[OF 1 order_refl, of 0 ps d "''DRIVER''" ids] n
    by (simp add: processBatch_def Let_def split_beta)
qed

lemma tracked_ok: "tracked w0 t w \<Longrightarrow> (\<And>t. cache_ok t w0) \<Longrightarrow> cache_ok t w"
  by (induction rule: tracked.induct) (auto intro: cache_ok_telemetry cache_ok_batch cache_ok_stays)

text \<open>Nothing recorded yet.\<close>

definition no_locations :: "track_world \<Rightarrow> bool" where
  "no_locations w \<longleftrightarrow> tk_points w = [] \<and> healthy (tk_redis w) \<and> (\<forall>d. rd_data (tk_redis w) (latest_key d) = None)"

lemma no_locations_ok: "no_locations w \<Longrightarrow> cache_ok t w"
  by (simp add: no_locations_def cache_ok_def points_of_def entry_ok_def)


section \<open>The newest location\<close>

text \<open>
  C29.  The cached latest location of a driver is always a stored point of that driver, and none of the stored
  points was recorded later, in whatever order they arrived.  It is there for every driver with a point of the
  last 22 hours and 55 minutes: the expiry of the cache, 24 hours, outlasts the window in which recording
  times are accepted.
\<close>

theorem latest_location_is_newest:
  assumes "no_locations w0" and "tracked w0 t w" and "d \<noteq> []"
  shows "(\<forall>j. fst (getLatestLocation d t (tk_redis w)) = Some j \<longrightarrow>
            (\<exists>c p. j = cached_json c \<and> caches c p \<and> newest_of p d w)) \<and>
         (\<forall>p \<in> points_of d w. t < lpt_receivedAt p + 82500000 \<longrightarrow> fst (getLatestLocation d t (tk_redis w)) \<noteq> None)"
proof -
  have ok: "cache_ok t w" using tracked_ok[OF assms(2)] no_locations_ok[OF assms(1)] by simp
  then have e: "entry_ok d w (rd_data (tk_redis w) (latest_key d))" and h: "healthy (tk_redis w)"
    by (simp_all add: cache_ok_def)
  have g: "fst (getLatestLocation d t (tk_redis w)) = parse_cached (live (tk_redis w) t (latest_key d))"
    using assms(3) h by (simp add: getLatestLocation_def healthy_get)
  show ?thesis
  proof (cases "rd_data (tk_redis w) (latest_key d)")
    case None
    with e g show ?thesis by (simp add: entry_ok_def live_def parse_cached_def)
  next
    case (Some ve)
    with e obtain c p where ve: "ve = (RJson (cached_json c), Some (lpt_receivedAt p + 86400000))"
      and p: "caches c p" "newest_of p d w" by (cases ve) (auto simp: entry_ok_def)
    have l: "parse_cached (live (tk_redis w) t (latest_key d)) =
        (if t < lpt_receivedAt p + 86400000 then Some (cached_json c) else None)"
      using Some ve by (simp add: live_def parse_cached_def)
    have "t < lpt_receivedAt p + 86400000" if q: "q \<in> points_of d w" "t < lpt_receivedAt q + 82500000" for q
    proof -
      have "p \<in> set (tk_points w)" "q \<in> set (tk_points w)" "lpt_recordedAt q \<le> lpt_recordedAt p"
        using p(2) q(1) by (auto simp: newest_of_def points_of_def)
      then have "lpt_receivedAt q - 3600000 \<le> lpt_recordedAt q" "lpt_recordedAt p \<le> lpt_receivedAt p + 300000"
        "lpt_recordedAt q \<le> lpt_recordedAt p"
        using ok by (auto simp: cache_ok_def)
      with q(2) show ?thesis by linarith
    qed
    then show ?thesis unfolding g l using p by auto
  qed
qed

definition sample_track :: track_world where
  "sample_track =
     \<lparr>tk_users = [sample_user ''DRIVER''],
      tk_comm = chat_sample\<lparr>cm_drivers := [\<lparr>drv_id = ''drv'', drv_userId = ''u'', drv_organizationId = None\<rparr>],
        cm_redis := sample_redis\<rparr>, tk_points = []\<rparr>"

definition sample_location :: "rat \<Rightarrow> timestamp \<Rightarrow> location_dto" where
  "sample_location lat t =
     \<lparr>loc_latitude = lat, loc_longitude = 2, loc_accuracyM = 5, loc_recordedAt = Some t, loc_speedMps = None,
      loc_headingDeg = Some 0, loc_deliveryId = None, loc_idempotencyKey = None\<rparr>"

lemmas sample_track_defs = sample_track_def sample_location_def sample_redis_def processTelemetry_def telemetry_check_def
  telemetry_guard_def telemetry_key_def request_key_def ingest_def tk_redis_def with_redis_def validateSinglePoint_def
  validateCoordinateBounds_def validateAccuracyThreshold_def validateClockSkew_def redis_get_def send_command_def live_def
  parse_cached_def implied_speed_def insert_point_def new_point_def decimal_def decimal_opt_def rejected_def

lemma floor_half: "\<lfloor>numeral n / 2 :: rat\<rfloor> = numeral n div 2"
  using floor_divide_of_int_eq[of "numeral n" 2, where 'a = rat] by simp

lemma sample_points:
  "tk_points (snd (processTelemetry (sample_location 1 t) ''drv'' ''DRIVER'' t ''/v1/me/location'' True ''p'' t sample_track)) =
     [\<lparr>lpt_id = ''p'', lpt_driverId = ''drv'', lpt_deliveryId = None, lpt_latitude = 1, lpt_longitude = 2, lpt_accuracyM = 5,
       lpt_speedMps = None, lpt_headingDeg = Some 0, lpt_recordedAt = t, lpt_receivedAt = t, lpt_status = ''VALID''\<rparr>]"
  by (simp add: sample_track_defs Let_def floor_half)

theorem latest_location_is_newest_witness:
  "\<exists>w. tracked sample_track 5 w \<and> points_of ''drv'' w \<noteq> {} \<and> fst (getLatestLocation ''drv'' 5 (tk_redis w)) \<noteq> None"
proof -
  let ?w = "snd (processTelemetry (sample_location 1 5) ''drv'' ''DRIVER'' 5 ''/v1/me/location'' True ''p'' 5 sample_track)"
  have n: "no_locations sample_track"
    by (simp add: no_locations_def sample_track_def tk_redis_def healthy_def sample_redis_def)
  have t: "tracked sample_track 5 ?w" using tracked.point[OF tracked.start order_refl] .
  have "\<exists>p \<in> points_of ''drv'' ?w. lpt_receivedAt p = 5" using sample_points[of 5] by (simp add: points_of_def)
  then show ?thesis using latest_location_is_newest[OF n t, of "''drv''"] t by fastforce
qed

section \<open>Which points are accepted\<close>

text \<open>Who may submit what, and what the table can hold.\<close>

definition may_submit :: "location_dto \<Rightarrow> uuid \<Rightarrow> string \<Rightarrow> track_world \<Rightarrow> bool" where
  "may_submit dto d role w \<longleftrightarrow> role = ''DRIVER'' \<and> d \<noteq> [] \<and>
     (truthy (loc_deliveryId dto) \<longrightarrow>
       (\<exists>dl. find_row dlv_id (the (loc_deliveryId dto)) (cm_deliveries (tk_comm w)) = Some dl \<and> dlv_driverId dl = Some d))"

definition answered_before :: "location_dto \<Rightarrow> uuid \<Rightarrow> string \<Rightarrow> track_world \<Rightarrow> bool" where
  "answered_before dto d ep w \<longleftrightarrow>
     (\<exists>k r. telemetry_key dto d ep w = Some k \<and> find_row idm_key k (cm_idempotency (tk_comm w)) = Some r)"

definition storable :: "location_dto \<Rightarrow> uuid \<Rightarrow> track_world \<Rightarrow> bool" where
  "storable dto d w \<longleftrightarrow> find_row drv_id d (cm_drivers (tk_comm w)) \<noteq> None \<and> new_point dto d 0 [] [] \<noteq> None"

definition within_limit :: "uuid \<Rightarrow> bool \<Rightarrow> timestamp \<Rightarrow> track_world \<Rightarrow> bool" where
  "within_limit d skip now w \<longleftrightarrow> skip \<or> fst (incrRateLimit (location_throttle_key d) 1 now (tk_redis w)) \<le> 1"

definition location_rooms :: "location_dto \<Rightarrow> string list" where
  "location_rooms dto =
     ''fleet:monitoring'' # (if truthy (loc_deliveryId dto) then [''delivery:'' @ the (loc_deliveryId dto)] else [])"

lemma guard_iff: "telemetry_guard dto d role w = Inr () \<longleftrightarrow> may_submit dto d role w"
  by (auto simp: telemetry_guard_def may_submit_def split: option.splits)

lemma check_iff: "telemetry_check dto d role ep i now w = Inr None \<longleftrightarrow> may_submit dto d role w \<and> \<not> answered_before dto d ep w"
proof (cases "telemetry_guard dto d role w")
  case (Inr u)
  then show ?thesis using guard_iff[of dto d role w]
    by (auto simp: telemetry_check_def answered_before_def split: option.splits)
next
  case (Inl e)
  then show ?thesis using guard_iff[of dto d role w] by (simp add: telemetry_check_def)
qed

lemma replay_idempotent: "telemetry_check dto d role ep i now w = Inr (Some x) \<Longrightarrow> tr_idempotent x"
  by (auto simp: telemetry_check_def replayed_telemetry_def split: sum.splits option.splits)

lemma decimal_bounds:
  assumes "decimal p s x = Some v" and "\<bar>x\<bar> \<le> of_int b"
  shows "\<bar>v\<bar> \<le> of_int b"
proof -
  define n where "n = \<lfloor>\<bar>x\<bar> * 10 ^ s + 1 / 2\<rfloor>"
  have v: "v = sgn x * of_int n / 10 ^ s"
    using assms(1) by (simp add: decimal_def Let_def n_def split: if_splits)
  have "n \<le> \<lfloor>of_int (b * 10 ^ s) + 1 / 2 :: rat\<rfloor>"
    unfolding n_def using assms(2) by (intro floor_mono add_right_mono) (simp add: mult_right_mono)
  also have "\<dots> = b * 10 ^ s"
    by (rule floor_unique) simp_all
  finally have "(of_int n :: rat) \<le> of_int b * 10 ^ s"
    using of_int_le_iff[of n "b * 10 ^ s", where 'a = rat] by simp
  moreover have n: "0 \<le> n" unfolding n_def by simp
  then have "\<bar>v\<bar> \<le> of_int n / 10 ^ s"
    unfolding v by (simp add: abs_mult abs_divide abs_sgn_eq)
  ultimately show ?thesis
    by (meson order_trans pos_divide_le_eq zero_less_numeral zero_less_power)
qed

definition acceptable ::
  "location_dto \<Rightarrow> uuid \<Rightarrow> string \<Rightarrow> string \<Rightarrow> bool \<Rightarrow> timestamp \<Rightarrow> timestamp \<Rightarrow> track_world \<Rightarrow> bool" where
  "acceptable dto d role ep skip rcv now w \<longleftrightarrow> may_submit dto d role w \<and> \<not> answered_before dto d ep w \<and>
     within_limit d skip now w \<and> plausible dto rcv \<and> storable dto d w"

definition in_bounds :: "location_point \<Rightarrow> bool" where
  "in_bounds p \<longleftrightarrow> \<bar>lpt_latitude p\<bar> \<le> 90 \<and> \<bar>lpt_longitude p\<bar> \<le> 180 \<and> lpt_status p \<in> {''VALID'', ''ANOMALY_VELOCITY''} \<and>
     lpt_receivedAt p - 3600000 \<le> lpt_recordedAt p \<and> lpt_recordedAt p \<le> lpt_receivedAt p + 300000"

lemma point_in_bounds:
  assumes "new_point dto d rcv s i = Some p" and "plausible dto rcv" and "s \<in> {''VALID'', ''ANOMALY_VELOCITY''}"
  shows "in_bounds p"
proof -
  note sh = new_point_shape[OF assms(1)]
  have "\<bar>loc_latitude dto\<bar> \<le> of_int 90" "\<bar>loc_longitude dto\<bar> \<le> of_int 180"
    using assms(2) by (auto simp: plausible_def abs_le_iff)
  then have "\<bar>lpt_latitude p\<bar> \<le> of_int 90" "\<bar>lpt_longitude p\<bar> \<le> of_int 180"
    using decimal_bounds sh by blast+
  then show ?thesis using sh assms by (auto simp: in_bounds_def plausible_def)
qed

lemma save_record_emitted [simp]:
  "cm_emitted (tk_comm (save_record dto d ep r now w)) = cm_emitted (tk_comm w)"
  "cm_gatewayUp (tk_comm (save_record dto d ep r now w)) = cm_gatewayUp (tk_comm w)"
  by (simp_all add: save_record_def split: option.split)

lemma broadcast_rooms:
  "\<exists>es. cm_emitted (tk_comm (broadcast_location dto d rcv w)) = cm_emitted (tk_comm w) @ es \<and>
     map em_room es = (if cm_gatewayUp (tk_comm w) then location_rooms dto else [])"
  by (simp add: broadcast_location_def comm_emit_def location_rooms_def Let_def)

text \<open>
  C31.  A point is accepted exactly when the caller is a driver, the delivery it names is that driver's, the
  request was not answered before, the rate limit is kept, the point is plausible and fits the table.  Then
  exactly one point is stored, within the bounds, and only a point without a velocity anomaly is broadcast,
  to the fleet and to the room of the delivery.  Otherwise nothing is stored and nothing is broadcast.
\<close>

theorem telemetry_accepted_exactly_when:
  assumes run: "processTelemetry dto d role rcv ep skip i now w = (r, w')"
  shows "if acceptable dto d role ep skip rcv now w
    then \<exists>p es. r = Inr \<lparr>tr_locationId = i, tr_validationStatus = lpt_status p, tr_receivedAt = rcv, tr_idempotent = False\<rparr> \<and>
           tk_points w' = tk_points w @ [p] \<and> lpt_id p = i \<and> lpt_driverId p = d \<and> lpt_deliveryId p = or_null (loc_deliveryId dto) \<and>
           in_bounds p \<and> cm_emitted (tk_comm w') = cm_emitted (tk_comm w) @ es \<and>
           map em_room es = (if lpt_status p = ''VALID'' \<and> cm_gatewayUp (tk_comm w) then location_rooms dto else [])
    else tk_points w' = tk_points w \<and> cm_emitted (tk_comm w') = cm_emitted (tk_comm w) \<and>
         cm_idempotency (tk_comm w') = cm_idempotency (tk_comm w) \<and>
         (\<forall>x. r = Inr x \<longrightarrow> tr_idempotent x \<and> answered_before dto d ep w)"
proof (cases "telemetry_check dto d role ep i now w = Inr None")
  case False
  then have na: "\<not> acceptable dto d role ep skip rcv now w"
    using check_iff by (simp add: acceptable_def)
  from False run have "w' = w \<and> (\<forall>x. r = Inr x \<longrightarrow> tr_idempotent x \<and> answered_before dto d ep w)"
    by (auto simp: processTelemetry_def telemetry_check_def replayed_telemetry_def answered_before_def
        split: sum.splits option.splits)
  with na show ?thesis by simp
next
  case True
  then have ok: "may_submit dto d role w" "\<not> answered_before dto d ep w" using check_iff by blast+
  from True run have i: "ingest dto d rcv ep skip i now w = (r, w')" by (simp add: processTelemetry_def)
  obtain n rd1 where l: "(if skip then (0, tk_redis w) else incrRateLimit (location_throttle_key d) 1 now (tk_redis w)) = (n, rd1)"
    by fastforce
  obtain v rd2 where v: "validateSinglePoint dto d rcv now rd1 = (v, rd2)" by fastforce
  have n: "n \<le> 1 \<longleftrightarrow> within_limit d skip now w" using l by (auto simp: within_limit_def split: if_splits)
  have pl: "lv_valid v \<longleftrightarrow> plausible dto rcv" using lv_valid_iff[of dto d rcv now rd1] v by simp
  have st: "lv_valid v \<Longrightarrow> lv_status v \<in> {''VALID'', ''ANOMALY_VELOCITY''}" using lv_status_valid[of dto d rcv now rd1] v by simp
  have ins: "insert_point dto d rcv (lv_status v) i (with_redis rd2 w) \<noteq> None \<longleftrightarrow> storable dto d w"
    using new_point_exists[of dto d rcv "lv_status v" i d 0 "[]" "[]"]
    by (auto simp: insert_point_def storable_def simp del: not_None_eq)
  note eq = i[unfolded ingest_eq[OF l v]]
  show ?thesis
  proof (cases "acceptable dto d role ep skip rcv now w")
    case na: False
    then have "w' = with_redis rd1 w \<or> w' = with_redis rd2 w" "\<exists>e. r = Inl e"
      using eq ok n pl ins by (auto simp: acceptable_def split: if_splits option.splits)
    with na show ?thesis by auto
  next
    case a: True
    then have c: "\<not> 1 < n" "lv_valid v" "storable dto d w" using n pl by (auto simp: acceptable_def)
    then obtain p where p: "new_point dto d rcv (lv_status v) i = Some p"
      and w3: "insert_point dto d rcv (lv_status v) i (with_redis rd2 w) = Some ((with_redis rd2 w)\<lparr>tk_points := tk_points w @ [p]\<rparr>)"
      using ins by (auto simp: insert_point_def split: if_splits)
    define x where "x = \<lparr>tr_locationId = i, tr_validationStatus = lv_status v, tr_receivedAt = rcv, tr_idempotent = False\<rparr>"
    define w4 where "w4 = save_record dto d ep x now ((with_redis rd2 w)\<lparr>tk_points := tk_points w @ [p]\<rparr>)"
    define w5 where "w5 = with_redis (snd (setLatestLocation d (location_payload dto d rcv) now (tk_redis w4))) w4"
    have rw: "r = Inr x" "w' = (if lv_status v = ''VALID'' then broadcast_location dto d rcv w5 else w5)"
      using eq[unfolded w3 option.case Let_def, folded x_def, folded w4_def, folded w5_def] c by auto
    have w5: "tk_points w5 = tk_points w @ [p]" "cm_emitted (tk_comm w5) = cm_emitted (tk_comm w)"
      "cm_gatewayUp (tk_comm w5) = cm_gatewayUp (tk_comm w)"
      by (simp_all add: w5_def w4_def)
    have "\<exists>es. cm_emitted (tk_comm w') = cm_emitted (tk_comm w) @ es \<and>
        map em_room es = (if lv_status v = ''VALID'' \<and> cm_gatewayUp (tk_comm w) then location_rooms dto else [])"
      using broadcast_rooms[of dto d rcv w5] rw(2) w5 by auto
    moreover have "in_bounds p" using point_in_bounds[OF p] pl c st by simp
    moreover have "tk_points w' = tk_points w @ [p]" using rw(2) w5 by simp
    ultimately show ?thesis using a rw(1) new_point_shape[OF p] by (auto simp: x_def)
  qed
qed

theorem telemetry_accepted_exactly_when_witness:
  "(\<exists>x w'. processTelemetry (sample_location 1 5) ''drv'' ''DRIVER'' 5 ''/v1/me/location'' True ''p'' 5 sample_track = (Inr x, w') \<and>
     \<not> tr_idempotent x \<and> length (tk_points w') = 1) \<and>
   (\<exists>e w'. processTelemetry (sample_location 91 5) ''drv'' ''DRIVER'' 5 ''/v1/me/location'' True ''p'' 5 sample_track = (Inl e, w') \<and>
     tk_points w' = [])"
proof -
  obtain r w' where 1: "processTelemetry (sample_location 1 5) ''drv'' ''DRIVER'' 5 ''/v1/me/location'' True ''p'' 5 sample_track = (r, w')"
    by fastforce
  have a1: "acceptable (sample_location 1 5) ''drv'' ''DRIVER'' ''/v1/me/location'' True 5 5 sample_track"
    by (simp add: acceptable_def may_submit_def answered_before_def within_limit_def plausible_def storable_def
        sample_track_defs Let_def floor_half)
  obtain r2 w2 where 2: "processTelemetry (sample_location 91 5) ''drv'' ''DRIVER'' 5 ''/v1/me/location'' True ''p'' 5 sample_track = (r2, w2)"
    by fastforce
  have a2: "\<not> acceptable (sample_location 91 5) ''drv'' ''DRIVER'' ''/v1/me/location'' True 5 5 sample_track"
    "\<not> answered_before (sample_location 91 5) ''drv'' ''/v1/me/location'' sample_track"
    by (simp_all add: acceptable_def plausible_def answered_before_def sample_track_defs)
  have e: "tk_points sample_track = []" by (simp add: sample_track_def)
  show ?thesis
    using telemetry_accepted_exactly_when[OF 1] a1 telemetry_accepted_exactly_when[OF 2] a2 1 2 e
    by (cases r2) auto
qed

section \<open>Batches\<close>

text \<open>
  The hint of a batch looks up the position of a point in the list of accepted results, which is shorter when
  points were rejected: here the rejected point is announced as the latest accepted one.
\<close>

lemma rejected_point_announced:
  "fst (processBatch [sample_location 91 7, sample_location 1 5] ''drv'' ''DRIVER'' 5 (\<lambda>_. ''p'') 5 sample_track) =
     Inr \<lparr>br_accepted = 1, br_rejected = 1,
          br_errors = [\<lparr>be_index = 0, be_code = ''INVALID_COORDINATES'', be_recordedAt = Some 7\<rparr>],
          br_latestBroadcast = Some (91, 2, Some 7)\<rparr>"
  by (simp add: processBatch_def incrRateLimit_def batch_throttle_key_def sample_track_defs Let_def floor_half
      store_def incr_value_def chat_sample_def sample_comm_def rejection_code_def latest_broadcast_def time_or_0_def)

end
