(* ===== verification/Images.thy ===== *)
theory Images
  imports Prelude "HOL-Library.Word"
begin

text \<open>
  Image normalisation: \<open>image-normalizer.service.ts\<close>, with its limiter of concurrent executions.  The
  library \<open>sharp\<close> is a parameter: reading the metadata of an image and running a pipeline on it.  The
  pipelines themselves are the code's, as data.
\<close>

type_synonym buffer = "8 word list"

section \<open>The limiter\<close>

text \<open>
  \<open>currentActive\<close> and \<open>queue\<close>.  A queued \<open>resume\<close> closure is the number of its request together with the
  time at which its timer fires.
\<close>

record limiter =
  lim_active :: nat
  lim_queue :: "(nat \<times> timestamp) list"

definition maxConcurrency :: nat where
  "maxConcurrency = 2"

datatype slot = Granted | Queued

definition acquireConcurrencySlot :: "nat \<Rightarrow> timestamp \<Rightarrow> limiter \<Rightarrow> slot \<times> limiter" where
  "acquireConcurrencySlot r now l =
     (if lim_active l < maxConcurrency then (Granted, l\<lparr>lim_active := lim_active l + 1\<rparr>)
      else (Queued, l\<lparr>lim_queue := lim_queue l @ [(r, now + 10000)]\<rparr>))"

text \<open>The request whose \<open>resume\<close> is called, if any, takes the slot over.\<close>

definition releaseConcurrencySlot :: "limiter \<Rightarrow> nat option \<times> limiter" where
  "releaseConcurrencySlot l =
     (case lim_queue l of
        (r, _) # rest \<Rightarrow> (Some r, l\<lparr>lim_queue := rest\<rparr>)
      | [] \<Rightarrow> (None, l\<lparr>lim_active := lim_active l - 1\<rparr>))"

text \<open>The timer of a request fires: \<open>None\<close> if it no longer waits (its timer is cleared then).\<close>

definition timeout_slot :: "nat \<Rightarrow> timestamp \<Rightarrow> limiter \<Rightarrow> (api_error + unit) option \<times> limiter" where
  "timeout_slot r now l =
     (case List.find (\<lambda>q. fst q = r) (lim_queue l) of
        None \<Rightarrow> (None, l)
      | Some q \<Rightarrow>
          if snd q \<le> now
          then (Some (fail_with Unprocessable ''IMAGE_PROCESSING_TIMEOUT''), l\<lparr>lim_queue := remove1 q (lim_queue l)\<rparr>)
          else (None, l))"

section \<open>The image library\<close>

record image_metadata =
  imd_format :: string
  imd_width :: "nat option"
  imd_height :: "nat option"
  imd_orientation :: "nat option"
  imd_exif :: bool
  imd_iptc :: bool
  imd_xmp :: bool

datatype encoder = Jpeg nat bool | Png nat nat

record pipeline =
  ppl_limitInputPixels :: nat
  ppl_rotate :: bool
  ppl_width :: nat
  ppl_height :: nat
  ppl_withoutEnlargement :: bool
  ppl_encoder :: encoder

text \<open>\<open>None\<close>: the call throws.\<close>

record sharp =
  shp_metadata :: "buffer \<Rightarrow> image_metadata option"
  shp_toBuffer :: "pipeline \<Rightarrow> buffer \<Rightarrow> buffer option"

section \<open>Normalisation\<close>

definition MAX_DECODED_PIXELS :: nat where "MAX_DECODED_PIXELS = 25000000"
definition MAX_PHOTO_DIMENSION :: nat where "MAX_PHOTO_DIMENSION = 1600"
definition JPEG_QUALITY :: nat where "JPEG_QUALITY = 80"

record normalized_result =
  nrm_buffer :: buffer
  nrm_mimeType :: string
  nrm_extension :: string
  nrm_width :: "nat option"
  nrm_height :: "nat option"
  nrm_isNormalized :: bool
  nrm_sizeBytes :: nat

definition or_zero :: "nat option \<Rightarrow> nat" where
  "or_zero x = (case x of None \<Rightarrow> 0 | Some n \<Rightarrow> n)"

definition photo_pipeline :: pipeline where
  "photo_pipeline =
     \<lparr>ppl_limitInputPixels = MAX_DECODED_PIXELS, ppl_rotate = True, ppl_width = MAX_PHOTO_DIMENSION,
      ppl_height = MAX_PHOTO_DIMENSION, ppl_withoutEnlargement = True, ppl_encoder = Jpeg JPEG_QUALITY True\<rparr>"

definition signature_pipeline :: pipeline where
  "signature_pipeline =
     \<lparr>ppl_limitInputPixels = MAX_DECODED_PIXELS, ppl_rotate = False, ppl_width = 800, ppl_height = 600,
      ppl_withoutEnlargement = True, ppl_encoder = Png 9 7\<rparr>"

text \<open>Running a pipeline and reading the dimensions of its output; both calls may throw.\<close>

definition run_pipeline :: "sharp \<Rightarrow> pipeline \<Rightarrow> string \<Rightarrow> string \<Rightarrow> buffer \<Rightarrow> api_error + normalized_result" where
  "run_pipeline sharp p mime ext inputBuffer =
     (case shp_toBuffer sharp p inputBuffer of
        None \<Rightarrow> fail_with Internal []
      | Some normalizedBuffer \<Rightarrow>
          (case shp_metadata sharp normalizedBuffer of
             None \<Rightarrow> fail_with Internal []
           | Some out \<Rightarrow>
               Inr \<lparr>nrm_buffer = normalizedBuffer, nrm_mimeType = mime, nrm_extension = ext,
                    nrm_width = imd_width out, nrm_height = imd_height out, nrm_isNormalized = True,
                    nrm_sizeBytes = length normalizedBuffer\<rparr>))"

text \<open>A photo that already complies and is kept as it is.\<close>

definition compliant_photo :: "image_metadata \<Rightarrow> string \<Rightarrow> bool" where
  "compliant_photo m declaredMime =
     (let isJpeg = (imd_format m = ''jpeg'' \<or> declaredMime = ''image/jpeg'');
          withinDimensions = (or_zero (imd_width m) \<le> MAX_PHOTO_DIMENSION \<and> or_zero (imd_height m) \<le> MAX_PHOTO_DIMENSION);
          needsOrientation = (1 < or_zero (imd_orientation m));
          hasUnwantedMetadata = (imd_exif m \<or> imd_iptc m \<or> imd_xmp m)
      in isJpeg \<and> withinDimensions \<and> \<not> needsOrientation \<and> \<not> hasUnwantedMetadata)"

text \<open>\<open>normalizePodPhoto\<close> while it holds its slot.\<close>

definition normalize_photo :: "sharp \<Rightarrow> buffer \<Rightarrow> string \<Rightarrow> api_error + normalized_result" where
  "normalize_photo sharp inputBuffer declaredMime =
     (case shp_metadata sharp inputBuffer of
        None \<Rightarrow> fail_with Unprocessable ''INVALID_IMAGE_DATA''
      | Some m \<Rightarrow>
          if or_zero (imd_width m) = 0 \<or> or_zero (imd_height m) = 0
          then fail_with Unprocessable ''INVALID_IMAGE_DIMENSIONS''
          else if MAX_DECODED_PIXELS < or_zero (imd_width m) * or_zero (imd_height m)
          then fail_with Unprocessable ''PIXEL_LIMIT_EXCEEDED''
          else if compliant_photo m declaredMime
          then Inr \<lparr>nrm_buffer = inputBuffer, nrm_mimeType = ''image/jpeg'', nrm_extension = ''.jpg'',
                    nrm_width = imd_width m, nrm_height = imd_height m, nrm_isNormalized = False,
                    nrm_sizeBytes = length inputBuffer\<rparr>
          else run_pipeline sharp photo_pipeline ''image/jpeg'' ''.jpg'' inputBuffer)"

definition normalize_signature :: "sharp \<Rightarrow> buffer \<Rightarrow> api_error + normalized_result" where
  "normalize_signature sharp inputBuffer =
     (case shp_metadata sharp inputBuffer of
        None \<Rightarrow> fail_with Unprocessable ''INVALID_SIGNATURE_DATA''
      | Some m \<Rightarrow>
          if MAX_DECODED_PIXELS < or_zero (imd_width m) * or_zero (imd_height m)
          then fail_with Unprocessable ''PIXEL_LIMIT_EXCEEDED''
          else run_pipeline sharp signature_pipeline ''image/png'' ''.png'' inputBuffer)"

text \<open>
  The whole calls: \<open>slot\<close> is what waiting for a slot came to, the slot or the error of the timer.  The
  slot is released on every way out, which is the event \<open>Finish\<close> of the executions below.
\<close>

datatype image_job = Photo_job buffer string | Signature_job buffer

definition normalizePodPhoto ::
  "sharp \<Rightarrow> api_error + unit \<Rightarrow> buffer \<Rightarrow> string \<Rightarrow> api_error + normalized_result" where
  "normalizePodPhoto sharp slot inputBuffer declaredMime =
     (case slot of Inl e \<Rightarrow> Inl e | Inr _ \<Rightarrow> normalize_photo sharp inputBuffer declaredMime)"

definition normalizeSignature :: "sharp \<Rightarrow> api_error + unit \<Rightarrow> buffer \<Rightarrow> api_error + normalized_result" where
  "normalizeSignature sharp slot inputBuffer =
     (case slot of Inl e \<Rightarrow> Inl e | Inr _ \<Rightarrow> normalize_signature sharp inputBuffer)"

section \<open>Executions\<close>

text \<open>
  The normaliser at work: the limiter and the jobs that arrived, that hold a slot, and that are done with
  their results.
\<close>

record image_world =
  imw_limiter :: limiter
  imw_arrived :: "(nat \<times> image_job) list"
  imw_running :: "nat list"
  imw_started :: "nat list"
  imw_done :: "(nat \<times> (api_error + normalized_result)) list"

definition run_job :: "sharp \<Rightarrow> api_error + unit \<Rightarrow> image_job \<Rightarrow> api_error + normalized_result" where
  "run_job sharp slot job =
     (case job of
        Photo_job b mime \<Rightarrow> normalizePodPhoto sharp slot b mime
      | Signature_job b \<Rightarrow> normalizeSignature sharp slot b)"

datatype image_event = Arrive nat image_job timestamp | Finish nat | Timer nat timestamp

definition start_job :: "nat \<Rightarrow> image_world \<Rightarrow> image_world" where
  "start_job r w = w\<lparr>imw_running := imw_running w @ [r], imw_started := imw_started w @ [r]\<rparr>"

definition finish_job :: "sharp \<Rightarrow> api_error + unit \<Rightarrow> nat \<Rightarrow> image_world \<Rightarrow> image_world" where
  "finish_job sharp slot r w =
     (case map_of (imw_arrived w) r of
        None \<Rightarrow> w
      | Some job \<Rightarrow> w\<lparr>imw_done := imw_done w @ [(r, run_job sharp slot job)]\<rparr>)"

text \<open>An arrival has a number of its own; only a job that holds a slot finishes.\<close>

fun image_exec :: "sharp \<Rightarrow> image_event \<Rightarrow> image_world \<Rightarrow> image_world" where
  "image_exec sharp (Arrive r job now) w =
     (if r \<in> fst ` set (imw_arrived w) then w
      else
        let w1 = w\<lparr>imw_arrived := imw_arrived w @ [(r, job)]\<rparr> in
        case acquireConcurrencySlot r now (imw_limiter w) of
          (Granted, l) \<Rightarrow> start_job r (w1\<lparr>imw_limiter := l\<rparr>)
        | (Queued, l) \<Rightarrow> w1\<lparr>imw_limiter := l\<rparr>)"
| "image_exec sharp (Finish r) w =
     (if r \<notin> set (imw_running w) then w
      else
        let w1 = (finish_job sharp (Inr ()) r w)\<lparr>imw_running := remove1 r (imw_running w)\<rparr> in
        case releaseConcurrencySlot (imw_limiter w) of
          (Some next_job, l) \<Rightarrow> start_job next_job (w1\<lparr>imw_limiter := l\<rparr>)
        | (None, l) \<Rightarrow> w1\<lparr>imw_limiter := l\<rparr>)"
| "image_exec sharp (Timer r now) w =
     (case timeout_slot r now (imw_limiter w) of
        (None, l) \<Rightarrow> w
      | (Some slot, l) \<Rightarrow> (finish_job sharp slot r w)\<lparr>imw_limiter := l\<rparr>)"

definition image_run :: "sharp \<Rightarrow> image_event list \<Rightarrow> image_world \<Rightarrow> image_world" where
  "image_run sharp es w = fold (image_exec sharp) es w"

definition idle :: image_world where
  "idle = \<lparr>imw_limiter = \<lparr>lim_active = 0, lim_queue = []\<rparr>, imw_arrived = [], imw_running = [], imw_started = [],
     imw_done = []\<rparr>"

end
