(* ===== verification/Files.thy ===== *)
theory Files
  imports Images Auth Pod
begin

text \<open>
  Uploaded files: \<open>file-storage.service.ts\<close>, \<open>local-private-storage.adapter.ts\<close> and the file endpoints of
  \<open>pod.controller.ts\<close>.  The disk is a map from normalised absolute paths to contents.  SHA-256, the image
  library, the ids, the clock and the outcome of each disk and database operation are arguments.
\<close>

section \<open>Text\<close>

text \<open>A number as text.\<close>

fun show_nat :: "nat \<Rightarrow> string" where
  "show_nat n = (if n < 10 then [char_of (48 + n)] else show_nat (n div 10) @ [char_of (48 + n mod 10)])"

declare show_nat.simps [simp del]

definition show_int :: "int \<Rightarrow> string" where
  "show_int i = (if i < 0 then ''-'' @ show_nat (nat (- i)) else show_nat (nat i))"

definition pad2 :: "string \<Rightarrow> string" where
  "pad2 s = replicate (2 - length s) (CHR ''0'') @ s"

text \<open>\<open>getUTCFullYear\<close> and \<open>getUTCMonth\<close> (from 1) of a time in milliseconds.\<close>

definition utc_year_month :: "timestamp \<Rightarrow> int \<times> int" where
  "utc_year_month t =
     (let z = t div 86400000 + 719468;
          era = z div 146097;
          doe = z mod 146097;
          yoe = (doe - doe div 1460 + doe div 36524 - doe div 146096) div 365;
          doy = doe - (365 * yoe + yoe div 4 - yoe div 100);
          mp = (5 * doy + 2) div 153;
          month = (if mp < 10 then mp + 3 else mp - 9)
      in (yoe + era * 400 + (if month \<le> 2 then 1 else 0), month))"

section \<open>Paths\<close>

type_synonym path = "string list"
type_synonym disk = "path \<Rightarrow> buffer option"

definition path_step :: "path \<Rightarrow> string \<Rightarrow> path" where
  "path_step p seg = (if seg = [] \<or> seg = ''.'' then p else if seg = ''..'' then butlast p else p @ [seg])"

definition path_join :: "path \<Rightarrow> string list \<Rightarrow> path" where
  "path_join base parts = foldl path_step base (concat (map (split_on (CHR ''/'')) parts))"

text \<open>\<open>path.extname\<close>: from the last dot of the last component, unless the name starts with it.\<close>

definition extname :: "string \<Rightarrow> string" where
  "extname name =
     (let parts = filter (\<lambda>s. s \<noteq> []) (split_on (CHR ''/'') name);
          b = (if parts = [] then [] else last parts);
          post = rev (takeWhile (\<lambda>c. c \<noteq> CHR ''.'') (rev b));
          pre = take (length b - length post - 1) b
      in if length post = length b \<or> pre = [] \<or> b = ''..'' then [] else ''.'' @ post)"

section \<open>The storage adapter\<close>

text \<open>Where the server runs; \<open>storage/private/pod\<close> under it.\<close>

definition baseStorageDir :: "path \<Rightarrow> path" where
  "baseStorageDir cwd = path_join cwd [''storage'', ''private'', ''pod'']"

definition getExtensionFromMime :: "string \<Rightarrow> string" where
  "getExtensionFromMime mime =
     (if lower mime = ''image/jpeg'' \<or> lower mime = ''image/jpg'' then ''.jpg''
      else if lower mime = ''image/png'' then ''.png''
      else if lower mime = ''image/webp'' then ''.webp''
      else [])"

record saved_file =
  svf_objectKey :: string
  svf_sizeBytes :: nat
  svf_checksumSha256 :: string

text \<open>How a write ends: complete, or with an error and what is then in the file (\<open>None\<close>: it was not touched).\<close>

datatype write_outcome = Written | Write_failed "buffer option"

definition stored_name :: "string \<Rightarrow> string \<Rightarrow> uuid \<Rightarrow> string" where
  "stored_name originalFilename mimeType fileUuid =
     (let ext = getExtensionFromMime mimeType; e2 = extname originalFilename
      in fileUuid @ (if ext \<noteq> [] then ext else if e2 \<noteq> [] then e2 else ''.bin''))"

definition year_of :: "timestamp \<Rightarrow> string" where
  "year_of now = show_int (fst (utc_year_month now))"

definition month_of :: "timestamp \<Rightarrow> string" where
  "month_of now = pad2 (show_int (snd (utc_year_month now)))"

definition object_key :: "string \<Rightarrow> timestamp \<Rightarrow> string" where
  "object_key filename now = ''pod/'' @ year_of now @ ''/'' @ month_of now @ ''/'' @ filename"

definition saveFile ::
  "path \<Rightarrow> (buffer \<Rightarrow> string) \<Rightarrow> buffer \<Rightarrow> string \<Rightarrow> string \<Rightarrow> uuid \<Rightarrow> timestamp \<Rightarrow> write_outcome \<Rightarrow> disk \<Rightarrow>
   (saved_file, disk) outcome" where
  "saveFile cwd sha buffer originalFilename mimeType fileUuid now outcome d =
     (let filename = stored_name originalFilename mimeType fileUuid;
          targetDir = path_join (baseStorageDir cwd) [year_of now, month_of now];
          fullPath = path_join targetDir [filename]
      in case outcome of
           Write_failed None \<Rightarrow> (fail_with Internal [], d)
         | Write_failed (Some part) \<Rightarrow> (fail_with Internal [], d(fullPath \<mapsto> part))
         | Written \<Rightarrow>
             (Inr \<lparr>svf_objectKey = object_key filename now, svf_sizeBytes = length buffer,
                   svf_checksumSha256 = sha buffer\<rparr>, d(fullPath \<mapsto> buffer)))"

definition key_path :: "path \<Rightarrow> string \<Rightarrow> path" where
  "key_path cwd objectKey = path_join (baseStorageDir cwd) [''..'', objectKey]"

definition getFileBuffer :: "path \<Rightarrow> string \<Rightarrow> disk \<Rightarrow> api_error + buffer" where
  "getFileBuffer cwd objectKey d =
     (case d (key_path cwd objectKey) of None \<Rightarrow> fail_with NotFound ''FILE_NOT_FOUND'' | Some b \<Rightarrow> Inr b)"

text \<open>\<open>unlink_ok\<close>: whether the operating system removes the file.\<close>

definition deleteFile :: "path \<Rightarrow> string \<Rightarrow> bool \<Rightarrow> disk \<Rightarrow> (bool, disk) outcome" where
  "deleteFile cwd objectKey unlink_ok d =
     (case d (key_path cwd objectKey) of
        None \<Rightarrow> (Inr False, d)
      | Some _ \<Rightarrow> if unlink_ok then (Inr True, d(key_path cwd objectKey := None)) else (fail_with Internal [], d))"

section \<open>Validation\<close>

definition validateMagicBytesAndType :: "buffer \<Rightarrow> string \<Rightarrow> api_error + unit" where
  "validateMagicBytesAndType buffer mimeType =
     (if length buffer = 0 then fail_with BadRequest ''EMPTY_FILE_BUFFER''
      else
        let mime = lower mimeType in
        if mime = ''image/jpeg'' \<or> mime = ''image/jpg'' then
          if length buffer < 3 \<or> buffer ! 0 \<noteq> 0xff \<or> buffer ! 1 \<noteq> 0xd8 \<or> buffer ! 2 \<noteq> 0xff
          then fail_with Unprocessable ''INVALID_FILE_MAGIC_BYTES'' else Inr ()
        else if mime = ''image/png'' then
          if length buffer < 4 \<or> buffer ! 0 \<noteq> 0x89 \<or> buffer ! 1 \<noteq> 0x50 \<or> buffer ! 2 \<noteq> 0x4e \<or> buffer ! 3 \<noteq> 0x47
          then fail_with Unprocessable ''INVALID_FILE_MAGIC_BYTES'' else Inr ()
        else if mime = ''image/webp'' then
          if length buffer < 4 \<or> buffer ! 0 \<noteq> 0x52 \<or> buffer ! 1 \<noteq> 0x49 \<or> buffer ! 2 \<noteq> 0x46 \<or> buffer ! 3 \<noteq> 0x46
          then fail_with Unprocessable ''INVALID_FILE_MAGIC_BYTES'' else Inr ()
        else fail_with Unprocessable ''UNSUPPORTED_MEDIA_TYPE'')"

datatype file_category = Photo | Signature

definition max_size :: "file_category \<Rightarrow> nat" where
  "max_size c = (case c of Signature \<Rightarrow> 500 * 1024 | Photo \<Rightarrow> 5 * 1024 * 1024)"

section \<open>File records\<close>

record file_record =
  fil_id :: uuid
  fil_objectKey :: string
  fil_mediaType :: string
  fil_sizeBytes :: nat
  fil_checksumSha256 :: string
  fil_uploadedBy :: uuid

record file_world =
  fw_core :: world
  fw_files :: "file_record list"
  fw_disk :: disk

text \<open>What surrounds one upload.\<close>

record file_env =
  fe_now :: timestamp
  fe_fileUuid :: uuid
  fe_recordId :: uuid
  fe_slot :: "api_error + unit"
  fe_write :: write_outcome
  fe_database :: bool
  fe_unlink :: bool

text \<open>The INSERT fails without the database, on a duplicate key and on an overflow of a column.\<close>

definition create_record :: "saved_file \<Rightarrow> string \<Rightarrow> uuid \<Rightarrow> file_env \<Rightarrow> file_record list \<Rightarrow> file_record option" where
  "create_record saved mime uploaderUserId env fs =
     (if \<not> fe_database env \<or> find_row fil_id (fe_recordId env) fs \<noteq> None \<or>
         find_row fil_objectKey (svf_objectKey saved) fs \<noteq> None \<or> 255 < length (svf_objectKey saved) \<or>
         100 < length mime \<or> 2 ^ 31 \<le> svf_sizeBytes saved
      then None
      else Some \<lparr>fil_id = fe_recordId env, fil_objectKey = svf_objectKey saved, fil_mediaType = mime,
             fil_sizeBytes = svf_sizeBytes saved, fil_checksumSha256 = svf_checksumSha256 saved,
             fil_uploadedBy = uploaderUserId\<rparr>)"

definition normalize_upload :: "sharp \<Rightarrow> file_category \<Rightarrow> file_env \<Rightarrow> buffer \<Rightarrow> string \<Rightarrow> api_error + normalized_result" where
  "normalize_upload sharp category env fileBuffer mimeType =
     (case category of
        Signature \<Rightarrow> normalizeSignature sharp (fe_slot env) fileBuffer
      | Photo \<Rightarrow> normalizePodPhoto sharp (fe_slot env) fileBuffer mimeType)"

text \<open>Steps 4 and 5: the file, then its record, with the compensating deletion.\<close>

definition store_file ::
  "path \<Rightarrow> (buffer \<Rightarrow> string) \<Rightarrow> normalized_result \<Rightarrow> string \<Rightarrow> uuid \<Rightarrow> file_env \<Rightarrow> file_world \<Rightarrow>
   (file_record, file_world) outcome" where
  "store_file cwd sha n originalName uploaderUserId env w =
     (case saveFile cwd sha (nrm_buffer n) originalName (nrm_mimeType n) (fe_fileUuid env) (fe_now env) (fe_write env)
             (fw_disk w) of
        (Inl e, d) \<Rightarrow> (Inl e, w\<lparr>fw_disk := d\<rparr>)
      | (Inr saved, d) \<Rightarrow>
          (case create_record saved (nrm_mimeType n) uploaderUserId env (fw_files w) of
             Some r \<Rightarrow> (Inr r, w\<lparr>fw_disk := d, fw_files := fw_files w @ [r]\<rparr>)
           | None \<Rightarrow>
               (fail_with Internal [],
                w\<lparr>fw_disk := snd (deleteFile cwd (svf_objectKey saved) (fe_unlink env) d)\<rparr>)))"

definition saveFileRecord ::
  "path \<Rightarrow> (buffer \<Rightarrow> string) \<Rightarrow> sharp \<Rightarrow> buffer \<Rightarrow> string \<Rightarrow> string \<Rightarrow> uuid \<Rightarrow> file_category \<Rightarrow> file_env \<Rightarrow> file_world \<Rightarrow>
   (file_record, file_world) outcome" where
  "saveFileRecord cwd sha sharp fileBuffer originalName mimeType uploaderUserId category env w =
     (case validateMagicBytesAndType fileBuffer mimeType of
        Inl e \<Rightarrow> (Inl e, w)
      | Inr _ \<Rightarrow>
          if max_size category < length fileBuffer then (fail_with Unprocessable ''FILE_SIZE_EXCEEDED'', w)
          else case normalize_upload sharp category env fileBuffer mimeType of
                 Inl e \<Rightarrow> (Inl e, w)
               | Inr n \<Rightarrow> store_file cwd sha n originalName uploaderUserId env w)"

section \<open>Downloads\<close>

definition delivery_of_proof :: "proof_of_delivery \<Rightarrow> world \<Rightarrow> delivery option" where
  "delivery_of_proof p w =
     (case find_row stp_id (pod_deliveryStopId p) (deliveryStops w) of
        None \<Rightarrow> None
      | Some s \<Rightarrow> find_row dlv_id (stp_deliveryId s) (deliveries w))"

definition proof_deliveries :: "(proof_of_delivery \<Rightarrow> uuid option) \<Rightarrow> uuid \<Rightarrow> world \<Rightarrow> delivery list" where
  "proof_deliveries file_of fileId w =
     List.map_filter (\<lambda>p. delivery_of_proof p w) (filter (\<lambda>p. file_of p = Some fileId) (proofs w))"

definition may_download :: "file_record \<Rightarrow> uuid \<Rightarrow> string \<Rightarrow> world \<Rightarrow> bool" where
  "may_download r actorUserId actorRole w =
     (let isUploader = (fil_uploadedBy r = actorUserId);
          driverId = (if actorRole = ''DRIVER'' then map_option drv_id (find_row drv_userId actorUserId (drivers w)) else None);
          photos = proof_deliveries pod_photoFileId (fil_id r) w;
          signatures = proof_deliveries pod_signatureFileId (fil_id r) w;
          of_driver = (\<lambda>d. driverId \<noteq> None \<and> dlv_driverId d = driverId);
          photoAccess = list_ex of_driver photos;
          sigAccess = list_ex of_driver signatures;
          ownerAccess = (list_ex (\<lambda>d. dlv_createdBy d = actorUserId) photos \<or>
                         list_ex (\<lambda>d. dlv_createdBy d = actorUserId) signatures)
      in \<not> (actorRole = ''DRIVER'' \<and> \<not> isUploader \<and> \<not> photoAccess \<and> \<not> sigAccess \<or>
             actorRole = ''OWNER'' \<and> \<not> isUploader \<and> \<not> ownerAccess))"

record file_result =
  fre_buffer :: buffer
  fre_mediaType :: string
  fre_filename :: string

definition getAuthorizedFileBuffer :: "path \<Rightarrow> uuid \<Rightarrow> uuid \<Rightarrow> string \<Rightarrow> file_world \<Rightarrow> api_error + file_result" where
  "getAuthorizedFileBuffer cwd fileId actorUserId actorRole w =
     (case find_row fil_id fileId (fw_files w) of
        None \<Rightarrow> fail_with NotFound ''FILE_NOT_FOUND''
      | Some r \<Rightarrow>
          if \<not> may_download r actorUserId actorRole (fw_core w) then fail_with Forbidden ''RESOURCE_FORBIDDEN''
          else case getFileBuffer cwd (fil_objectKey r) (fw_disk w) of
                 Inl e \<Rightarrow> Inl e
               | Inr b \<Rightarrow>
                   let name = last (split_on (CHR ''/'') (fil_objectKey r)) in
                   Inr \<lparr>fre_buffer = b, fre_mediaType = fil_mediaType r,
                        fre_filename = (if name = [] then ''pod.jpg'' else name)\<rparr>)"

section \<open>The endpoints\<close>

record upload =
  upl_buffer :: "buffer option"
  upl_fieldname :: string
  upl_originalname :: "string option"
  upl_mimetype :: "string option"
  upl_category :: "string option"

definition uploadFile ::
  "path \<Rightarrow> (buffer \<Rightarrow> string) \<Rightarrow> sharp \<Rightarrow> principal \<Rightarrow> upload \<Rightarrow> file_env \<Rightarrow> file_world \<Rightarrow> (file_record, file_world) outcome" where
  "uploadFile cwd sha sharp user u env w =
     (case roles_guard (Some [''DRIVER'', ''ADMIN'', ''SUPER_ADMIN'', ''OWNER'']) (Some user) of
        Inl e \<Rightarrow> (Inl e, w)
      | Inr _ \<Rightarrow>
          (case upl_buffer u of
             None \<Rightarrow> (fail_with BadRequest ''FILE_REQUIRED'', w)
           | Some b \<Rightarrow>
               saveFileRecord cwd sha sharp b
                 (if truthy (upl_originalname u) then the (upl_originalname u) else ''upload.jpg'')
                 (if truthy (upl_mimetype u) then the (upl_mimetype u) else ''image/jpeg'')
                 (prn_id user)
                 (if upl_category u = Some ''signature'' \<or> upl_fieldname u = ''signature'' then Signature else Photo)
                 env w))"

definition downloadFile :: "path \<Rightarrow> principal \<Rightarrow> uuid \<Rightarrow> file_world \<Rightarrow> api_error + file_result" where
  "downloadFile cwd user fileId w =
     (case roles_guard (Some [''ADMIN'', ''SUPER_ADMIN'', ''OWNER'', ''DRIVER'']) (Some user) of
        Inl e \<Rightarrow> Inl e
      | Inr _ \<Rightarrow> getAuthorizedFileBuffer cwd fileId (prn_id user) (prn_role user) w)"

end
