(* ===== verification/ImageProps.thy ===== *)
theory ImageProps
  imports Images "HOL-Library.Multiset" "HOL-Library.Sublist"
begin

text \<open>
  Properties of image normalisation: how the limiter shares its two slots, and what an accepted image looks
  like.
\<close>

section \<open>The limiter\<close>

abbreviation waiting :: "image_world \<Rightarrow> nat list" where
  "waiting w \<equiv> map fst (lim_queue (imw_limiter w))"

abbreviation arrived :: "image_world \<Rightarrow> nat list" where
  "arrived w \<equiv> map fst (imw_arrived w)"

text \<open>
  Every job is in exactly one place, the counter counts the slots in use, a job waits only while both
  slots are in use, and jobs start in the order of their arrival.
\<close>

definition slots_ok :: "image_world \<Rightarrow> bool" where
  "slots_ok w \<longleftrightarrow> distinct (arrived w) \<and>
     mset (arrived w) = mset (imw_running w) + mset (waiting w) + mset (map fst (imw_done w)) \<and>
     lim_active (imw_limiter w) = length (imw_running w) \<and> length (imw_running w) \<le> maxConcurrency \<and>
     (waiting w \<noteq> [] \<longrightarrow> length (imw_running w) = maxConcurrency) \<and>
     subseq (imw_started w @ waiting w) (arrived w)"

lemma slots_ok_idle: "slots_ok idle"
  by (simp add: slots_ok_def idle_def)

lemma finish_job_frame [simp]:
  "imw_limiter (finish_job sharp s r w) = imw_limiter w" "imw_arrived (finish_job sharp s r w) = imw_arrived w"
  "imw_running (finish_job sharp s r w) = imw_running w" "imw_started (finish_job sharp s r w) = imw_started w"
  by (simp_all add: finish_job_def split: option.split)

lemma finish_job_done:
  "r \<in> set (arrived w) \<Longrightarrow> map fst (imw_done (finish_job sharp s r w)) = map fst (imw_done w) @ [r]"
  by (auto simp: finish_job_def map_of_eq_None_iff split: option.split)

lemma slots_ok_member:
  assumes "slots_ok w" and "r \<in> set (imw_running w) \<union> set (waiting w)"
  shows "r \<in> set (arrived w)"
proof -
  have "set_mset (mset (arrived w)) = set_mset (mset (imw_running w) + mset (waiting w) + mset (map fst (imw_done w)))"
    using assms(1) by (simp add: slots_ok_def)
  with assms(2) show ?thesis by auto
qed

lemma subseq_snoc: "subseq (a @ b) ys \<Longrightarrow> subseq (a @ b @ [r]) (ys @ [r])"
  by (metis append_assoc subseq_append)

lemma subseq_map_remove1: "subseq (map f (remove1 x xs)) (map f xs)"
  by (induction xs) auto

lemma find_SomeD: "List.find P xs = Some q \<Longrightarrow> q \<in> set xs \<and> P q"
  by (induction xs) (auto split: if_splits)

lemma arrive_ok: "slots_ok w \<Longrightarrow> slots_ok (image_exec sharp (Arrive r job now) w)"
  by (auto simp: slots_ok_def acquireConcurrencySlot_def start_job_def Let_def maxConcurrency_def subseq_snoc
      split: prod.split)

lemma finish_ok:
  assumes "slots_ok w"
  shows "slots_ok (image_exec sharp (Finish r) w)"
proof (cases "r \<in> set (imw_running w)")
  case True
  have d: "map fst (imw_done (finish_job sharp s r w)) = map fst (imw_done w) @ [r]" for s
    using finish_job_done slots_ok_member[OF assms] True by blast
  obtain m where m: "mset (imw_running w) = add_mset r m"
    using True by (metis insert_DiffM set_mset_mset)
  have len: "length (remove1 r (imw_running w)) = length (imw_running w) - 1" "0 < length (imw_running w)"
    using True by (auto simp: length_remove1)
  show ?thesis
  proof (cases "lim_queue (imw_limiter w)")
    case Nil
    with True assms d m len show ?thesis
      by (auto simp: slots_ok_def releaseConcurrencySlot_def Let_def)
  next
    case (Cons q rest)
    then obtain n t where q: "lim_queue (imw_limiter w) = (n, t) # rest" by (cases q) auto
    with True assms d m len show ?thesis
      by (auto simp: slots_ok_def releaseConcurrencySlot_def start_job_def Let_def maxConcurrency_def)
  qed
next
  case False
  with assms show ?thesis by simp
qed

lemma timer_ok:
  assumes "slots_ok w"
  shows "slots_ok (image_exec sharp (Timer r now) w)"
proof (cases "timeout_slot r now (imw_limiter w)")
  case (Pair v l)
  show ?thesis
  proof (cases v)
    case None
    with Pair assms show ?thesis by simp
  next
    case (Some s)
    then obtain q where "List.find (\<lambda>q. fst q = r) (lim_queue (imw_limiter w)) = Some q"
      and l: "l = (imw_limiter w)\<lparr>lim_queue := remove1 q (lim_queue (imw_limiter w))\<rparr>"
      using Pair by (auto simp: timeout_slot_def split: option.splits if_splits)
    then have q: "q \<in> set (lim_queue (imw_limiter w))" "fst q = r" by (auto dest: find_SomeD)
    then have wt: "r \<in> set (waiting w)" by force
    have d: "map fst (imw_done (finish_job sharp s r w)) = map fst (imw_done w) @ [r]"
      using finish_job_done slots_ok_member[OF assms] wt by blast
    have m: "mset (waiting w) = add_mset r (mset (map fst (remove1 q (lim_queue (imw_limiter w)))))"
      using q by (metis image_mset_add_mset insert_DiffM mset_map mset_remove1 set_mset_mset)
    have "subseq (imw_started w @ map fst (remove1 q (lim_queue (imw_limiter w)))) (imw_started w @ waiting w)"
      by (intro list_emb_append_mono subseq_map_remove1) simp
    then have sub: "subseq (imw_started w @ map fst (remove1 q (lim_queue (imw_limiter w)))) (arrived w)"
      using assms subseq_order.trans unfolding slots_ok_def by blast
    have ne: "waiting w \<noteq> []" using wt by (metis empty_iff list.set(1))
    have ex: "image_exec sharp (Timer r now) w = (finish_job sharp s r w)\<lparr>imw_limiter := l\<rparr>"
      using Pair Some by simp
    show ?thesis
      using assms sub m ne d unfolding ex slots_ok_def l by simp
  qed
qed

lemma image_exec_ok: "slots_ok w \<Longrightarrow> slots_ok (image_exec sharp e w)"
  by (cases e) (blast intro: arrive_ok finish_ok timer_ok)+

lemma image_run_ok: "slots_ok w \<Longrightarrow> slots_ok (image_run sharp es w)"
  by (induction es arbitrary: w) (auto simp: image_run_def image_exec_ok simp del: image_exec.simps)

lemma distinct_disjoint:
  assumes "distinct xs" and "mset xs = mset a + mset b + mset c"
  shows "distinct (a @ b @ c)"
  using assms by (metis append_assoc mset_append mset_eq_imp_distinct_iff)

text \<open>
  C34. Whatever arrives, finishes, fails and times out in whatever order: at most two images are processed at
  a time; an image waits only while two are processed; images are started in the order of their arrival; and
  every image that arrived is either being processed, waiting, or answered exactly once, so that nothing
  waits and no slot stays taken when nothing is processed.
\<close>

theorem slots_shared_fairly:
  "length (imw_running (image_run sharp es idle)) \<le> 2 \<and>
   (waiting (image_run sharp es idle) \<noteq> [] \<longrightarrow> length (imw_running (image_run sharp es idle)) = 2) \<and>
   subseq (imw_started (image_run sharp es idle)) (arrived (image_run sharp es idle)) \<and>
   distinct (imw_running (image_run sharp es idle) @ waiting (image_run sharp es idle) @
     map fst (imw_done (image_run sharp es idle))) \<and>
   set (arrived (image_run sharp es idle)) = set (imw_running (image_run sharp es idle)) \<union>
     set (waiting (image_run sharp es idle)) \<union> fst ` set (imw_done (image_run sharp es idle)) \<and>
   (imw_running (image_run sharp es idle) = [] \<longrightarrow>
     imw_limiter (image_run sharp es idle) = \<lparr>lim_active = 0, lim_queue = []\<rparr>)"
proof -
  define w where "w = image_run sharp es idle"
  have ok: "slots_ok w" unfolding w_def by (rule image_run_ok[OF slots_ok_idle])
  have "set_mset (mset (arrived w)) = set_mset (mset (imw_running w) + mset (waiting w) + mset (map fst (imw_done w)))"
    using ok by (simp add: slots_ok_def)
  then have "set (arrived w) = set (imw_running w) \<union> set (waiting w) \<union> fst ` set (imw_done w)" by simp
  moreover have "subseq (imw_started w) (arrived w)"
    using ok subseq_order.trans[OF list_emb_append2[OF subseq_order.refl]] unfolding slots_ok_def
    by (metis append_Nil2 list_emb_append_mono list_emb_Nil subseq_order.dual_order.trans subseq_order.refl)
  moreover have "distinct (imw_running w @ waiting w @ map fst (imw_done w))"
    using ok distinct_disjoint unfolding slots_ok_def by blast
  ultimately show ?thesis
    using ok unfolding w_def[symmetric] by (auto simp: slots_ok_def maxConcurrency_def)
qed

text \<open>Three photos at once, of which the first finishes; the library reads no image.\<close>

definition blind :: sharp where
  "blind = \<lparr>shp_metadata = (\<lambda>_. None), shp_toBuffer = (\<lambda>_ _. None)\<rparr>"

definition sample_images :: "image_event list" where
  "sample_images = [Arrive 1 (Signature_job []) 0, Arrive 2 (Signature_job []) 1, Arrive 3 (Signature_job []) 2]"

lemmas image_sample_defs = sample_images_def image_run_def idle_def acquireConcurrencySlot_def maxConcurrency_def
  start_job_def releaseConcurrencySlot_def finish_job_def

theorem slots_shared_fairly_witness:
  "imw_running (image_run blind sample_images idle) = [1, 2] \<and> waiting (image_run blind sample_images idle) = [3] \<and>
   length (imw_running (image_run blind sample_images idle)) = 2 \<and>
   imw_started (image_run blind (sample_images @ [Finish 1]) idle) = [1, 2, 3] \<and>
   subseq [1, 2, 3] (arrived (image_run blind (sample_images @ [Finish 1]) idle))"
proof -
  have s: "imw_started (image_run blind (sample_images @ [Finish 1]) idle) = [1, 2, 3]"
    by (simp add: image_sample_defs)
  have w: "waiting (image_run blind sample_images idle) = [3]" "imw_running (image_run blind sample_images idle) = [1, 2]"
    by (simp_all add: image_sample_defs)
  have "length (imw_running (image_run blind sample_images idle)) = 2"
    using slots_shared_fairly[of blind sample_images] w by simp
  with s w show ?thesis
    using slots_shared_fairly[of blind "sample_images @ [Finish 1]"] by metis
qed

section \<open>Accepted images\<close>

text \<open>
  What is assumed of the image library, from its documentation: what it writes has the format of the
  encoder, fits the box of the pipeline, and has neither an orientation tag nor metadata; and what starts
  with the signature of JPEG is read as JPEG.
\<close>

definition encoder_format :: "encoder \<Rightarrow> string" where
  "encoder_format e = (case e of Jpeg _ _ \<Rightarrow> ''jpeg'' | Png _ _ \<Rightarrow> ''png'')"

definition plain :: "image_metadata \<Rightarrow> bool" where
  "plain m \<longleftrightarrow> or_zero (imd_orientation m) \<le> 1 \<and> \<not> imd_exif m \<and> \<not> imd_iptc m \<and> \<not> imd_xmp m"

definition honest_sharp :: "sharp \<Rightarrow> bool" where
  "honest_sharp sharp \<longleftrightarrow>
     (\<forall>p b out. shp_toBuffer sharp p b = Some out \<longrightarrow>
        (\<exists>m. shp_metadata sharp out = Some m \<and> imd_format m = encoder_format (ppl_encoder p) \<and>
           or_zero (imd_width m) \<le> ppl_width p \<and> or_zero (imd_height m) \<le> ppl_height p \<and> plain m)) \<and>
     (\<forall>b m. shp_metadata sharp b = Some m \<and> take 3 b = [0xff, 0xd8, 0xff] \<longrightarrow> imd_format m = ''jpeg'')"

text \<open>The canonical form of an image.\<close>

definition canonical :: "sharp \<Rightarrow> string \<Rightarrow> nat \<Rightarrow> nat \<Rightarrow> buffer \<Rightarrow> bool" where
  "canonical sharp format wd ht b \<longleftrightarrow>
     (\<exists>m. shp_metadata sharp b = Some m \<and> imd_format m = format \<and> or_zero (imd_width m) \<le> wd \<and>
        or_zero (imd_height m) \<le> ht \<and> plain m)"

lemma run_pipeline_canonical:
  assumes "honest_sharp sharp" and "run_pipeline sharp p mime ext b = Inr r"
  shows "canonical sharp (encoder_format (ppl_encoder p)) (ppl_width p) (ppl_height p) (nrm_buffer r) \<and>
    nrm_mimeType r = mime \<and> nrm_extension r = ext \<and> nrm_sizeBytes r = length (nrm_buffer r)"
proof -
  have out: "shp_toBuffer sharp p b = Some (nrm_buffer r)"
    and "nrm_mimeType r = mime \<and> nrm_extension r = ext \<and> nrm_sizeBytes r = length (nrm_buffer r)"
    using assms(2) by (auto simp: run_pipeline_def split: option.splits)
  moreover have "canonical sharp (encoder_format (ppl_encoder p)) (ppl_width p) (ppl_height p) (nrm_buffer r)"
    using assms(1) out unfolding honest_sharp_def canonical_def by blast
  ultimately show ?thesis by blast
qed

lemma normalize_photo_canonical:
  assumes "honest_sharp sharp" and "normalize_photo sharp b mime = Inr r"
    and "mime = ''image/jpeg'' \<Longrightarrow> take 3 b = [0xff, 0xd8, 0xff]"
  shows "canonical sharp ''jpeg'' 1600 1600 (nrm_buffer r) \<and> nrm_mimeType r = ''image/jpeg'' \<and>
    nrm_extension r = ''.jpg'' \<and> nrm_sizeBytes r = length (nrm_buffer r)"
proof -
  obtain m where m: "shp_metadata sharp b = Some m"
    using assms(2) by (auto simp: normalize_photo_def split: option.splits)
  show ?thesis
  proof (cases "compliant_photo m mime")
    case True
    then have f: "imd_format m = ''jpeg''"
      using assms(1,3) m by (auto simp: compliant_photo_def Let_def honest_sharp_def)
    with True m assms(2) show ?thesis
      by (auto simp: normalize_photo_def canonical_def compliant_photo_def Let_def plain_def MAX_PHOTO_DIMENSION_def
          split: if_splits)
  next
    case False
    with m assms(2) have "run_pipeline sharp photo_pipeline ''image/jpeg'' ''.jpg'' b = Inr r"
      by (auto simp: normalize_photo_def split: if_splits)
    from run_pipeline_canonical[OF assms(1) this] show ?thesis
      by (simp add: photo_pipeline_def encoder_format_def MAX_PHOTO_DIMENSION_def)
  qed
qed

lemma normalize_signature_canonical:
  assumes "honest_sharp sharp" and "normalize_signature sharp b = Inr r"
  shows "canonical sharp ''png'' 800 600 (nrm_buffer r) \<and> nrm_mimeType r = ''image/png'' \<and>
    nrm_extension r = ''.png'' \<and> nrm_sizeBytes r = length (nrm_buffer r)"
proof -
  have "run_pipeline sharp signature_pipeline ''image/png'' ''.png'' b = Inr r"
    using assms(2) by (auto simp: normalize_signature_def split: option.splits if_splits)
  from run_pipeline_canonical[OF assms(1) this] show ?thesis
    by (simp add: signature_pipeline_def encoder_format_def)
qed

end
