(* ===== verification/Emergencies.thy ===== *)
theory Emergencies
  imports Tracking
begin

text \<open>
  Emergency calls of drivers: \<open>emergencies.service.ts\<close>, its request bodies and its controller.  Triggering
  and updating read the tables first and write in a later transaction, so each is split into the check and
  the write.  The \<open>driver\<close> row is extended here by its columns of operation, which the fleet view reads too.
\<close>

section \<open>Rows\<close>

datatype emergency_status = TRIGGERED | ACKNOWLEDGED | EMERGENCY_RESOLVED | FALSE_ALARM

fun emergency_status_name :: "emergency_status \<Rightarrow> string" where
  "emergency_status_name TRIGGERED = ''TRIGGERED''"
| "emergency_status_name ACKNOWLEDGED = ''ACKNOWLEDGED''"
| "emergency_status_name EMERGENCY_RESOLVED = ''RESOLVED''"
| "emergency_status_name FALSE_ALARM = ''FALSE_ALARM''"

datatype operational_status = OFFLINE | AVAILABLE | ON_DELIVERY | IN_EMERGENCY

record driver_profile = driver +
  drp_employeeCode :: string
  drp_displayName :: string
  drp_phone :: string
  drp_activeVehicleId :: "uuid option"
  drp_operationalStatus :: operational_status

record emergency =
  emg_id :: uuid
  emg_driverId :: uuid
  emg_deliveryId :: "uuid option"
  emg_latitude :: rat
  emg_longitude :: rat
  emg_emergencyType :: string
  emg_note :: "string option"
  emg_status :: emergency_status
  emg_triggeredAt :: timestamp
  emg_resolvedAt :: "timestamp option"
  emg_resolvedBy :: "uuid option"

record sos_world =
  sos_deliveries :: "delivery list"
  sos_drivers :: "driver_profile list"
  sos_emergencies :: "emergency list"
  sos_audit :: "audit_log list"
  sos_gatewayUp :: bool
  sos_emitted :: "emission list"

definition set_operational :: "operational_status \<Rightarrow> driver_profile \<Rightarrow> driver_profile" where
  "set_operational st d = d\<lparr>drp_operationalStatus := st\<rparr>"

text \<open>\<open>status: { in: ['TRIGGERED', 'ACKNOWLEDGED'] }\<close>, and the two final values.\<close>

definition active_status :: "emergency_status \<Rightarrow> bool" where
  "active_status st \<longleftrightarrow> st = TRIGGERED \<or> st = ACKNOWLEDGED"

definition terminal_emergency :: "emergency_status \<Rightarrow> bool" where
  "terminal_emergency st \<longleftrightarrow> st = EMERGENCY_RESOLVED \<or> st = FALSE_ALARM"

section \<open>Triggering\<close>

record trigger_dto =
  trg_latitude :: rat
  trg_longitude :: rat
  trg_emergencyType :: string
  trg_note :: "string option"
  trg_deliveryId :: "uuid option"

definition valid_trigger :: "trigger_dto \<Rightarrow> bool" where
  "valid_trigger dto \<longleftrightarrow> trg_emergencyType dto \<noteq> []"

definition find_active :: "uuid \<Rightarrow> emergency list \<Rightarrow> emergency option" where
  "find_active driverId es = List.find (\<lambda>e. emg_driverId e = driverId \<and> active_status (emg_status e)) es"

definition triggerEmergency_guard :: "uuid \<Rightarrow> sos_world \<Rightarrow> api_error + driver_profile" where
  "triggerEmergency_guard driverId w =
     (case find_row drv_id driverId (sos_drivers w) of
        None \<Rightarrow> fail_with NotFound ''DRIVER_NOT_FOUND''
      | Some driver \<Rightarrow>
          if find_active driverId (sos_emergencies w) \<noteq> None then fail_with Conflict ''ACTIVE_EMERGENCY_EXISTS''
          else Inr driver)"

text \<open>
  The row.  The insert fails when a coordinate overflows its column, when the type is longer than 50
  characters, when the delivery or the driver does not exist, and when the id is taken.
\<close>

definition known_delivery :: "uuid option \<Rightarrow> sos_world \<Rightarrow> bool" where
  "known_delivery deliveryId w =
     (case deliveryId of None \<Rightarrow> True | Some d \<Rightarrow> find_row dlv_id d (sos_deliveries w) \<noteq> None)"

definition new_emergency :: "uuid \<Rightarrow> trigger_dto \<Rightarrow> uuid \<Rightarrow> timestamp \<Rightarrow> sos_world \<Rightarrow> emergency option" where
  "new_emergency driverId dto newId now w =
     (case (decimal 10 7 (trg_latitude dto), decimal 10 7 (trg_longitude dto)) of
        (Some lat, Some lng) \<Rightarrow>
          if length (trg_emergencyType dto) \<le> 50 \<and> known_delivery (or_null (trg_deliveryId dto)) w \<and>
             find_row drv_id driverId (sos_drivers w) \<noteq> None \<and> find_row emg_id newId (sos_emergencies w) = None
          then Some \<lparr>emg_id = newId, emg_driverId = driverId, emg_deliveryId = or_null (trg_deliveryId dto),
                 emg_latitude = lat, emg_longitude = lng, emg_emergencyType = trg_emergencyType dto,
                 emg_note = or_null (trg_note dto), emg_status = TRIGGERED, emg_triggeredAt = now,
                 emg_resolvedAt = None, emg_resolvedBy = None\<rparr>
          else None
      | _ \<Rightarrow> None)"

definition sos_alert :: "driver_profile \<Rightarrow> uuid \<Rightarrow> uuid \<Rightarrow> trigger_dto \<Rightarrow> uuid \<Rightarrow> emission" where
  "sos_alert driver driverId actorUserId dto newId =
     \<lparr>em_room = ''fleet:monitoring'', em_event = ''emergency.triggered'',
      em_payload = JObj [(''emergencyId'', JStr newId), (''driverId'', JStr driverId),
        (''driverName'', JStr (drp_displayName driver)), (''latitude'', JNum (trg_latitude dto)),
        (''longitude'', JNum (trg_longitude dto)), (''emergencyType'', JStr (trg_emergencyType dto))],
      em_actor = \<lparr>ea_userId = actorUserId, ea_role = ''DRIVER'', ea_driverId = Some driverId\<rparr>\<rparr>"

definition triggerEmergency_write ::
  "driver_profile \<Rightarrow> uuid \<Rightarrow> uuid \<Rightarrow> trigger_dto \<Rightarrow> uuid \<Rightarrow> timestamp \<Rightarrow> sos_world \<Rightarrow> (emergency, sos_world) outcome" where
  "triggerEmergency_write driver driverId actorUserId dto newId now w =
     (case new_emergency driverId dto newId now w of
        None \<Rightarrow> (fail_with Internal [], w)
      | Some e \<Rightarrow>
          (Inr e, w\<lparr>sos_emergencies := sos_emergencies w @ [e],
                    sos_drivers := update_row drv_id driverId (set_operational IN_EMERGENCY) (sos_drivers w),
                    sos_audit := sos_audit w @ [success_audit actorUserId ''EMERGENCY_TRIGGERED'' ''EMERGENCY'' newId JNull],
                    sos_emitted := (if sos_gatewayUp w
                      then sos_emitted w @ [sos_alert driver driverId actorUserId dto newId] else sos_emitted w)\<rparr>))"

definition triggerEmergency ::
  "uuid \<Rightarrow> uuid \<Rightarrow> trigger_dto \<Rightarrow> uuid \<Rightarrow> timestamp \<Rightarrow> sos_world \<Rightarrow> (emergency, sos_world) outcome" where
  "triggerEmergency driverId actorUserId dto newId now w =
     (case triggerEmergency_guard driverId w of
        Inl e \<Rightarrow> (Inl e, w)
      | Inr driver \<Rightarrow> triggerEmergency_write driver driverId actorUserId dto newId now w)"

section \<open>Reading\<close>

definition getActiveEmergency :: "uuid \<Rightarrow> sos_world \<Rightarrow> api_error + emergency" where
  "getActiveEmergency driverId w =
     (case find_active driverId (sos_emergencies w) of
        None \<Rightarrow> fail_with NotFound ''NO_ACTIVE_EMERGENCY''
      | Some e \<Rightarrow> Inr e)"

text \<open>An emergency with the selected columns of its driver and its delivery.\<close>

record emergency_view =
  emv_row :: emergency
  emv_driver :: "(uuid \<times> string \<times> string) option"
  emv_employeeCode :: "string option"
  emv_delivery :: "(uuid \<times> string) option"

definition view_emergency :: "bool \<Rightarrow> sos_world \<Rightarrow> emergency \<Rightarrow> emergency_view" where
  "view_emergency withCode w e =
     (let d = find_row drv_id (emg_driverId e) (sos_drivers w) in
      \<lparr>emv_row = e,
       emv_driver = map_option (\<lambda>d. (drv_id d, drp_displayName d, drp_phone d)) d,
       emv_employeeCode = (if withCode then map_option drp_employeeCode d else None),
       emv_delivery = (case emg_deliveryId e of None \<Rightarrow> None
          | Some i \<Rightarrow> map_option (\<lambda>v. (dlv_id v, dlv_code v)) (find_row dlv_id i (sos_deliveries w)))\<rparr>)"

text \<open>The latest first; the actor is not looked at.\<close>

definition listEmergencies :: "sos_world \<Rightarrow> emergency_view list" where
  "listEmergencies w = map (view_emergency True w) (sort_key (\<lambda>e. - emg_triggeredAt e) (sos_emergencies w))"

definition getEmergencyById :: "uuid \<Rightarrow> sos_world \<Rightarrow> api_error + emergency_view" where
  "getEmergencyById i w =
     (case find_row emg_id i (sos_emergencies w) of
        None \<Rightarrow> fail_with NotFound ''EMERGENCY_NOT_FOUND''
      | Some e \<Rightarrow> Inr (view_emergency False w e))"

section \<open>Updating\<close>

definition valid_update :: "emergency_status \<Rightarrow> bool" where
  "valid_update st \<longleftrightarrow> st \<in> {ACKNOWLEDGED, EMERGENCY_RESOLVED, FALSE_ALARM}"

definition updateEmergencyStatus_guard :: "uuid \<Rightarrow> sos_world \<Rightarrow> api_error + emergency" where
  "updateEmergencyStatus_guard i w =
     (case find_row emg_id i (sos_emergencies w) of
        None \<Rightarrow> fail_with NotFound ''EMERGENCY_NOT_FOUND''
      | Some e \<Rightarrow>
          if terminal_emergency (emg_status e) then fail_with Conflict ''EMERGENCY_ALREADY_TERMINAL'' else Inr e)"

definition emergency_row :: "emergency_status \<Rightarrow> uuid \<Rightarrow> timestamp \<Rightarrow> emergency \<Rightarrow> emergency" where
  "emergency_row st actorUserId now e =
     (if terminal_emergency st
      then e\<lparr>emg_status := st, emg_resolvedAt := Some now, emg_resolvedBy := Some actorUserId\<rparr>
      else e\<lparr>emg_status := st\<rparr>)"

definition next_operational :: "uuid \<Rightarrow> delivery list \<Rightarrow> operational_status" where
  "next_operational driverId ds =
     (if \<exists>d \<in> set ds. dlv_driverId d = Some driverId \<and> dlv_status d \<in> {ACCEPTED, EN_ROUTE}
      then ON_DELIVERY else AVAILABLE)"

text \<open>The update of a row that is no longer there throws and rolls the transaction back.\<close>

definition updateEmergencyStatus_write ::
  "emergency \<Rightarrow> uuid \<Rightarrow> emergency_status \<Rightarrow> uuid \<Rightarrow> timestamp \<Rightarrow> sos_world \<Rightarrow> (emergency, sos_world) outcome" where
  "updateEmergencyStatus_write emergency i st actorUserId now w =
     (case find_row emg_id i (sos_emergencies w) of
        None \<Rightarrow> (fail_with Internal [], w)
      | Some e \<Rightarrow>
          let w1 = w\<lparr>sos_emergencies := update_row emg_id i (emergency_row st actorUserId now) (sos_emergencies w)\<rparr>;
              w2 = (if terminal_emergency st
                    then w1\<lparr>sos_drivers := update_row drv_id (emg_driverId emergency)
                              (set_operational (next_operational (emg_driverId emergency) (sos_deliveries w1)))
                              (sos_drivers w1)\<rparr>
                    else w1)
          in (Inr (emergency_row st actorUserId now e),
              w2\<lparr>sos_audit := sos_audit w2 @
                [success_audit actorUserId (''EMERGENCY_'' @ emergency_status_name st) ''EMERGENCY'' i JNull]\<rparr>))"

definition updateEmergencyStatus ::
  "uuid \<Rightarrow> emergency_status \<Rightarrow> uuid \<Rightarrow> timestamp \<Rightarrow> sos_world \<Rightarrow> (emergency, sos_world) outcome" where
  "updateEmergencyStatus i st actorUserId now w =
     (case updateEmergencyStatus_guard i w of
        Inl e \<Rightarrow> (Inl e, w)
      | Inr emergency \<Rightarrow> updateEmergencyStatus_write emergency i st actorUserId now w)"

section \<open>The endpoints\<close>

definition profile_required :: "uuid option \<Rightarrow> api_error + uuid" where
  "profile_required driverId =
     (if truthy driverId then Inr (the driverId) else fail_with Forbidden ''DRIVER_PROFILE_REQUIRED'')"

definition post_my_emergency ::
  "principal \<Rightarrow> trigger_dto \<Rightarrow> uuid \<Rightarrow> timestamp \<Rightarrow> sos_world \<Rightarrow> (emergency, sos_world) outcome" where
  "post_my_emergency user dto newId now w =
     (case roles_guard (Some [''DRIVER'']) (Some user) of
        Inl e \<Rightarrow> (Inl e, w)
      | Inr _ \<Rightarrow>
          if \<not> valid_trigger dto then (fail_with BadRequest [], w)
          else case profile_required (prn_driverId user) of
                 Inl e \<Rightarrow> (Inl e, w)
               | Inr driverId \<Rightarrow> triggerEmergency driverId (prn_id user) dto newId now w)"

definition get_my_active_emergency :: "principal \<Rightarrow> sos_world \<Rightarrow> api_error + emergency" where
  "get_my_active_emergency user w =
     (case roles_guard (Some [''DRIVER'']) (Some user) of
        Inl e \<Rightarrow> Inl e
      | Inr _ \<Rightarrow>
          (case profile_required (prn_driverId user) of
             Inl e \<Rightarrow> Inl e
           | Inr driverId \<Rightarrow> getActiveEmergency driverId w))"

definition operator_roles :: "string list" where
  "operator_roles = [''ADMIN'', ''SUPER_ADMIN'', ''OWNER'']"

definition patch_emergency_status ::
  "principal \<Rightarrow> uuid \<Rightarrow> emergency_status \<Rightarrow> timestamp \<Rightarrow> sos_world \<Rightarrow> (emergency, sos_world) outcome" where
  "patch_emergency_status user i st now w =
     (case roles_guard (Some operator_roles) (Some user) of
        Inl e \<Rightarrow> (Inl e, w)
      | Inr _ \<Rightarrow>
          if \<not> valid_update st then (fail_with BadRequest [], w)
          else updateEmergencyStatus i st (prn_id user) now w)"

definition get_emergencies :: "principal \<Rightarrow> sos_world \<Rightarrow> api_error + emergency_view list" where
  "get_emergencies user w =
     (case roles_guard (Some operator_roles) (Some user) of Inl e \<Rightarrow> Inl e | Inr _ \<Rightarrow> Inr (listEmergencies w))"

definition get_emergency :: "principal \<Rightarrow> uuid \<Rightarrow> sos_world \<Rightarrow> api_error + emergency_view" where
  "get_emergency user i w =
     (case roles_guard (Some operator_roles) (Some user) of Inl e \<Rightarrow> Inl e | Inr _ \<Rightarrow> getEmergencyById i w)"

end
