(* ===== verification/EmergencyProps.thy ===== *)
theory EmergencyProps
  imports Emergencies ChatProps
begin

text \<open>
  Properties of emergency calls.  Requests that run one after the other keep at most one open emergency per
  driver, show it in the driver's operational status, and leave a closed one alone; requests that overlap
  break all three.
\<close>

section \<open>Sequences of requests\<close>

text \<open>Other services change deliveries between the requests, in any way.\<close>

datatype sos_request =
    Post_emergency principal trigger_dto uuid timestamp
  | Patch_status principal uuid emergency_status timestamp
  | Deliveries_become "delivery list"

fun sos_exec :: "sos_request \<Rightarrow> sos_world \<Rightarrow> sos_world" where
  "sos_exec (Post_emergency user dto newId now) w = snd (post_my_emergency user dto newId now w)"
| "sos_exec (Patch_status user i st now) w = snd (patch_emergency_status user i st now w)"
| "sos_exec (Deliveries_become ds) w = w\<lparr>sos_deliveries := ds\<rparr>"

definition sos_run :: "sos_request list \<Rightarrow> sos_world \<Rightarrow> sos_world" where
  "sos_run rs w = fold sos_exec rs w"

definition active_sos :: "uuid \<Rightarrow> emergency list \<Rightarrow> emergency list" where
  "active_sos d es = filter (\<lambda>e. emg_driverId e = d \<and> active_status (emg_status e)) es"

lemma terminal_not_active: "terminal_emergency st \<longleftrightarrow> \<not> active_status st"
  by (cases st) (simp_all add: terminal_emergency_def active_status_def)

lemma find_active_eq: "find_active d es = (case active_sos d es of [] \<Rightarrow> None | e # _ \<Rightarrow> Some e)"
  by (induction es) (auto simp: find_active_def active_sos_def)

text \<open>The two kinds of change that requests make.\<close>

inductive sos_step :: "sos_world \<Rightarrow> sos_world \<Rightarrow> bool" where
  raise: "\<lbrakk>find_row drv_id (emg_driverId e) (sos_drivers w) \<noteq> None; emg_status e = TRIGGERED;
     active_sos (emg_driverId e) (sos_emergencies w) = []; find_row emg_id (emg_id e) (sos_emergencies w) = None;
     sos_emergencies w' = sos_emergencies w @ [e];
     sos_drivers w' = update_row drv_id (emg_driverId e) (set_operational IN_EMERGENCY) (sos_drivers w)\<rbrakk>
   \<Longrightarrow> sos_step w w'"
| acknowledge: "\<lbrakk>find_row emg_id i (sos_emergencies w) = Some e; active_status (emg_status e);
     sos_emergencies w' = update_row emg_id i (emergency_row ACKNOWLEDGED u t) (sos_emergencies w);
     sos_drivers w' = sos_drivers w\<rbrakk>
   \<Longrightarrow> sos_step w w'"
| close: "\<lbrakk>find_row emg_id i (sos_emergencies w) = Some e; active_status (emg_status e); terminal_emergency st;
     sos_emergencies w' = update_row emg_id i (emergency_row st u t) (sos_emergencies w);
     sos_drivers w' = update_row drv_id (emg_driverId e)
       (set_operational (next_operational (emg_driverId e) ds)) (sos_drivers w)\<rbrakk>
   \<Longrightarrow> sos_step w w'"
| other: "\<lbrakk>sos_emergencies w' = sos_emergencies w; sos_drivers w' = sos_drivers w\<rbrakk> \<Longrightarrow> sos_step w w'"

lemma new_emergency_SomeD:
  assumes "new_emergency d dto n t w = Some e"
  shows "emg_id e = n \<and> emg_driverId e = d \<and> emg_status e = TRIGGERED \<and>
    find_row drv_id d (sos_drivers w) \<noteq> None \<and> find_row emg_id n (sos_emergencies w) = None"
  using assms by (auto simp: new_emergency_def split: option.splits if_splits)

lemma trigger_step: "sos_step w (snd (triggerEmergency d u dto n t w))"
proof (cases "triggerEmergency_guard d w")
  case (Inl e)
  then show ?thesis by (simp add: triggerEmergency_def other)
next
  case (Inr driver)
  then have a: "active_sos d (sos_emergencies w) = []"
    by (auto simp: triggerEmergency_guard_def find_active_eq split: option.splits list.splits if_splits)
  show ?thesis
  proof (cases "new_emergency d dto n t w")
    case None
    with Inr show ?thesis by (simp add: triggerEmergency_def triggerEmergency_write_def other)
  next
    case (Some e)
    from new_emergency_SomeD[OF Some] a Some Inr show ?thesis
      by (intro raise[where e = e]) (simp_all add: triggerEmergency_def triggerEmergency_write_def)
  qed
qed

lemma update_step:
  assumes "valid_update st"
  shows "sos_step w (snd (updateEmergencyStatus i st u t w))"
proof (cases "updateEmergencyStatus_guard i w")
  case (Inl e)
  then show ?thesis by (simp add: updateEmergencyStatus_def other)
next
  case (Inr e)
  then have e: "find_row emg_id i (sos_emergencies w) = Some e" "active_status (emg_status e)"
    by (auto simp: updateEmergencyStatus_guard_def terminal_not_active split: option.splits if_splits)
  show ?thesis
  proof (cases "terminal_emergency st")
    case True
    with Inr e show ?thesis
      by (intro close[where e = e and i = i and st = st and u = u and t = t and ds = "sos_deliveries w"])
         (simp_all add: updateEmergencyStatus_def updateEmergencyStatus_write_def Let_def)
  next
    case False
    with assms have "st = ACKNOWLEDGED" by (auto simp: valid_update_def terminal_emergency_def)
    with False Inr e show ?thesis
      by (intro acknowledge[where e = e and i = i and u = u and t = t])
         (simp_all add: updateEmergencyStatus_def updateEmergencyStatus_write_def Let_def)
  qed
qed

lemma exec_step: "sos_step w (sos_exec r w)"
proof (cases r)
  case (Post_emergency user dto n t)
  then show ?thesis
    by (auto simp: post_my_emergency_def other trigger_step split: sum.split)
next
  case (Patch_status user i st t)
  then show ?thesis
    by (auto simp: patch_emergency_status_def other update_step split: sum.split)
next
  case (Deliveries_become ds)
  then show ?thesis by (simp add: other)
qed

lemma run_steps: "sos_step\<^sup>*\<^sup>* w (sos_run rs w)"
  by (induction rs arbitrary: w)
     (auto simp: sos_run_def intro: exec_step converse_rtranclp_into_rtranclp)

lemma run_append: "sos_run (rs @ ss) w = sos_run ss (sos_run rs w)"
  by (simp add: sos_run_def)

section \<open>The invariant\<close>

definition shown :: "uuid \<Rightarrow> driver_profile list \<Rightarrow> bool" where
  "shown d ps \<longleftrightarrow> (\<exists>p. find_row drv_id d ps = Some p \<and> drp_operationalStatus p = IN_EMERGENCY)"

definition sos_ok :: "sos_world \<Rightarrow> bool" where
  "sos_ok w \<longleftrightarrow> unique_keys emg_id (sos_emergencies w) \<and>
     (\<forall>d. length (active_sos d (sos_emergencies w)) = (if shown d (sos_drivers w) then 1 else 0))"

lemma set_operational_frame [simp]:
  "drv_id (set_operational st p) = drv_id p" "drp_operationalStatus (set_operational st p) = st"
  by (simp_all add: set_operational_def)

lemma shown_update:
  "shown d (update_row drv_id k (set_operational st) ps) =
     (if d = k then st = IN_EMERGENCY \<and> find_row drv_id k ps \<noteq> None else shown d ps)"
  by (auto simp: shown_def find_row_update_row)

lemma emergency_row_frame [simp]:
  "emg_id (emergency_row st u t e) = emg_id e" "emg_driverId (emergency_row st u t e) = emg_driverId e"
  "emg_status (emergency_row st u t e) = st"
  by (simp_all add: emergency_row_def)

lemma active_unaffected: "i \<notin> emg_id ` set es \<Longrightarrow> update_row emg_id i f es = es"
  by (auto simp: update_row_def update_where_def intro!: map_idI)

text \<open>How the number of open emergencies changes with one row.\<close>

lemma active_sos_update:
  assumes "unique_keys emg_id es" and "find_row emg_id i es = Some e" and "active_status (emg_status e)"
  shows "length (active_sos d (update_row emg_id i (emergency_row st u t) es)) =
    length (active_sos d es) - (if d = emg_driverId e \<and> \<not> active_status st then 1 else 0)"
  using assms
proof (induction es)
  case Nil
  then show ?case by simp
next
  case (Cons a es)
  show ?case
  proof (cases "emg_id a = i")
    case True
    with Cons.prems have "i \<notin> emg_id ` set es" "a = e" by auto
    with True Cons.prems active_unaffected[of i es] show ?thesis
      by (auto simp: active_sos_def update_row_def update_where_def)
  next
    case False
    have "emg_driverId e = d \<Longrightarrow> 0 < length (active_sos d es)"
      using False Cons.prems find_row_SomeD[of emg_id i es e] by (auto simp: active_sos_def filter_empty_conv)
    with False Cons show ?thesis
      by (auto simp: active_sos_def update_row_def update_where_def Suc_diff_le)
  qed
qed

lemma next_operational_not_emergency [simp]: "next_operational d ds \<noteq> IN_EMERGENCY"
  by (simp add: next_operational_def)

lemma sos_ok_shown: "sos_ok w \<Longrightarrow> shown d (sos_drivers w) \<longleftrightarrow> active_sos d (sos_emergencies w) \<noteq> []"
  by (metis sos_ok_def list.size(3) length_0_conv zero_neq_one)

lemma sos_step_ok: "sos_step w w' \<Longrightarrow> sos_ok w \<Longrightarrow> sos_ok w'"
proof (induction rule: sos_step.induct)
  case (raise e w w')
  have a: "active_sos d (sos_emergencies w') = active_sos d (sos_emergencies w) @ (if d = emg_driverId e then [e] else [])"
    for d using raise.hyps by (simp add: active_sos_def active_status_def)
  have "\<not> shown (emg_driverId e) (sos_drivers w)"
    using raise.hyps raise.prems by (simp add: sos_ok_shown)
  then show ?case
    using raise.hyps raise.prems unfolding sos_ok_def a
    by (auto simp: shown_update find_row_None_iff_keys)
next
  case (acknowledge i w e w' u t)
  then show ?case
    by (auto simp: sos_ok_def active_sos_update map_key_update_row active_status_def)
next
  case (close i w e st w' u t ds)
  have a: "\<not> active_status st" using close.hyps by (simp add: terminal_not_active)
  have one: "shown (emg_driverId e) (sos_drivers w)"
    using close.prems close.hyps(2) find_row_SomeD[OF close.hyps(1)]
    by (auto simp: sos_ok_shown active_sos_def filter_empty_conv)
  with a close show ?case
    by (auto simp: sos_ok_def active_sos_update map_key_update_row shown_update)
next
  case (other w' w)
  then show ?case by (simp add: sos_ok_def)
qed

lemma sos_steps_ok: "sos_step\<^sup>*\<^sup>* w w' \<Longrightarrow> sos_ok w \<Longrightarrow> sos_ok w'"
  by (induction rule: rtranclp_induct) (auto intro: sos_step_ok)

lemma sos_step_closed:
  "sos_step w w' \<Longrightarrow> find_row emg_id i (sos_emergencies w) = Some e \<Longrightarrow> terminal_emergency (emg_status e) \<Longrightarrow>
   find_row emg_id i (sos_emergencies w') = Some e"
  by (induction rule: sos_step.induct)
     (auto simp: find_row_append find_row_update_row terminal_not_active)

lemma sos_steps_closed:
  "sos_step\<^sup>*\<^sup>* w w' \<Longrightarrow> find_row emg_id i (sos_emergencies w) = Some e \<Longrightarrow> terminal_emergency (emg_status e) \<Longrightarrow>
   find_row emg_id i (sos_emergencies w') = Some e"
  by (induction rule: rtranclp_induct) (auto intro: sos_step_closed)

section \<open>Properties\<close>

definition no_sos :: "sos_world \<Rightarrow> bool" where
  "no_sos w \<longleftrightarrow> sos_emergencies w = [] \<and> (\<forall>d \<in> set (sos_drivers w). drp_operationalStatus d \<noteq> IN_EMERGENCY)"

lemma no_sos_ok: "no_sos w \<Longrightarrow> sos_ok w"
  by (auto simp: no_sos_def sos_ok_def active_sos_def shown_def dest: find_row_SomeD)

lemma sos_run_ok: "no_sos w \<Longrightarrow> sos_ok (sos_run rs w)"
  using sos_steps_ok[OF run_steps] no_sos_ok by blast

text \<open>
  C32. When the requests run one after the other, a driver has at most one open emergency; the driver's
  operational status is EMERGENCY exactly as long as one is open, which is then the one the driver's own
  endpoint returns; and an emergency once closed never changes again.
\<close>

theorem one_open_emergency:
  assumes "no_sos w"
  shows "length (active_sos d (sos_emergencies (sos_run rs w))) \<le> 1 \<and>
    (shown d (sos_drivers (sos_run rs w)) \<longleftrightarrow> (\<exists>e. getActiveEmergency d (sos_run rs w) = Inr e)) \<and>
    (\<forall>e. find_row emg_id i (sos_emergencies (sos_run rs w)) = Some e \<and> terminal_emergency (emg_status e) \<longrightarrow>
       find_row emg_id i (sos_emergencies (sos_run (rs @ later) w)) = Some e)"
proof -
  have ok: "sos_ok (sos_run rs w)" by (rule sos_run_ok[OF assms])
  then have "length (active_sos d (sos_emergencies (sos_run rs w))) \<le> 1" by (simp add: sos_ok_def)
  moreover have "shown d (sos_drivers (sos_run rs w)) \<longleftrightarrow> (\<exists>e. getActiveEmergency d (sos_run rs w) = Inr e)"
    by (simp add: sos_ok_shown[OF ok] getActiveEmergency_def find_active_eq split: list.split)
  ultimately show ?thesis
    using sos_steps_closed[OF run_steps] by (auto simp: run_append)
qed

text \<open>A driver, an operator and two requests on an empty table.\<close>

definition sample_driver :: driver_profile where
  "sample_driver = \<lparr>drv_id = ''drv'', drv_userId = ''du'', drv_organizationId = None, drp_employeeCode = ''E1'',
     drp_displayName = ''Budi'', drp_phone = ''08'', drp_activeVehicleId = None, drp_operationalStatus = AVAILABLE\<rparr>"

definition sample_sos :: sos_world where
  "sample_sos = \<lparr>sos_deliveries = [], sos_drivers = [sample_driver], sos_emergencies = [], sos_audit = [],
     sos_gatewayUp = True, sos_emitted = []\<rparr>"

definition sample_principal :: "uuid \<Rightarrow> string \<Rightarrow> uuid option \<Rightarrow> principal" where
  "sample_principal userId role driverId =
     \<lparr>prn_id = userId, prn_username = userId, prn_role = role, prn_organizationId = None, prn_permissions = [],
      prn_deviceId = ''dev'', prn_sessionId = ''ses'', prn_driverId = driverId\<rparr>"

definition sample_trigger :: trigger_dto where
  "sample_trigger = \<lparr>trg_latitude = 0, trg_longitude = 0, trg_emergencyType = ''ACCIDENT'', trg_note = None,
     trg_deliveryId = None\<rparr>"

definition driver_user :: principal where
  "driver_user = sample_principal ''du'' ''DRIVER'' (Some ''drv'')"

definition operator_user :: principal where
  "operator_user = sample_principal ''ou'' ''ADMIN'' None"

lemmas sos_sample_defs = sample_driver_def sample_sos_def sample_principal_def sample_trigger_def driver_user_def
  operator_user_def sos_run_def post_my_emergency_def roles_guard_def valid_trigger_def profile_required_def
  triggerEmergency_def triggerEmergency_guard_def triggerEmergency_write_def new_emergency_def decimal_def
  known_delivery_def find_active_def set_operational_def sos_alert_def success_audit_def
  patch_emergency_status_def operator_roles_def valid_update_def updateEmergencyStatus_def
  updateEmergencyStatus_guard_def updateEmergencyStatus_write_def terminal_emergency_def active_status_def
  emergency_row_def next_operational_def update_row_def update_where_def

lemma floor_1_2 [simp]: "\<lfloor>1 / 2 :: rat\<rfloor> = 0"
  by (simp add: floor_eq_iff)

theorem one_open_emergency_witness:
  "length (active_sos ''drv'' (sos_emergencies
     (sos_run [Post_emergency driver_user sample_trigger ''e1'' 1, Post_emergency driver_user sample_trigger ''e2'' 2]
        sample_sos))) = 1 \<and>
   length (active_sos ''drv'' (sos_emergencies
     (sos_run [Post_emergency driver_user sample_trigger ''e1'' 1] sample_sos))) \<le> 1"
proof -
  have "no_sos sample_sos" by (simp add: no_sos_def sample_sos_def sample_driver_def)
  from one_open_emergency[OF this] show ?thesis
    by (auto simp: sos_sample_defs active_sos_def)
qed

text \<open>What an emergency call must be like to be stored.\<close>

definition acceptable_sos :: "principal \<Rightarrow> trigger_dto \<Rightarrow> uuid \<Rightarrow> sos_world \<Rightarrow> bool" where
  "acceptable_sos user dto newId w \<longleftrightarrow>
     prn_role user = ''DRIVER'' \<and> trg_emergencyType dto \<noteq> [] \<and> length (trg_emergencyType dto) \<le> 50 \<and>
     decimal 10 7 (trg_latitude dto) \<noteq> None \<and> decimal 10 7 (trg_longitude dto) \<noteq> None \<and>
     known_delivery (or_null (trg_deliveryId dto)) w \<and> newId \<notin> emg_id ` set (sos_emergencies w) \<and>
     (\<exists>d. prn_driverId user = Some d \<and> d \<noteq> [] \<and> d \<in> drv_id ` set (sos_drivers w) \<and>
          active_sos d (sos_emergencies w) = [])"

definition stored_sos :: "principal \<Rightarrow> trigger_dto \<Rightarrow> uuid \<Rightarrow> timestamp \<Rightarrow> emergency" where
  "stored_sos user dto newId now =
     \<lparr>emg_id = newId, emg_driverId = the (prn_driverId user), emg_deliveryId = or_null (trg_deliveryId dto),
      emg_latitude = the (decimal 10 7 (trg_latitude dto)), emg_longitude = the (decimal 10 7 (trg_longitude dto)),
      emg_emergencyType = trg_emergencyType dto, emg_note = or_null (trg_note dto), emg_status = TRIGGERED,
      emg_triggeredAt = now, emg_resolvedAt = None, emg_resolvedBy = None\<rparr>"

lemma post_guarded:
  "post_my_emergency user dto n t w =
    (if prn_role user \<noteq> ''DRIVER'' then (fail_with Forbidden ''INSUFFICIENT_ROLE'', w)
     else if trg_emergencyType dto = [] then (fail_with BadRequest [], w)
     else if \<not> truthy (prn_driverId user) then (fail_with Forbidden ''DRIVER_PROFILE_REQUIRED'', w)
     else triggerEmergency (the (prn_driverId user)) (prn_id user) dto n t w)"
  by (auto simp: post_my_emergency_def roles_guard_def valid_trigger_def profile_required_def)

lemma trigger_accepted:
  assumes "acceptable_sos user dto n w" and "prn_driverId user = Some d" and "find_row drv_id d (sos_drivers w) = Some p"
  shows "new_emergency d dto n t w = Some (stored_sos user dto n t)"
    and "triggerEmergency_guard d w = Inr p"
  using assms
  by (auto simp: acceptable_sos_def new_emergency_def stored_sos_def find_row_None_iff_keys triggerEmergency_guard_def
      find_active_eq)

lemma trigger_refused:
  assumes "fst (triggerEmergency d u dto n t w) = Inr e"
  shows "\<exists>p. triggerEmergency_guard d w = Inr p \<and> new_emergency d dto n t w = Some e"
  using assms
  by (auto simp: triggerEmergency_def triggerEmergency_write_def split: sum.splits option.splits)

text \<open>
  A driver's emergency call is accepted exactly when it names a type that fits the column, the
  coordinates fit, the delivery exists, and the driver has no open emergency.  Then exactly one emergency
  and one audit row are stored, the driver is shown as in an emergency, and the monitoring room is told if
  the gateway is up.  Otherwise nothing at all is changed and nobody is told.
\<close>

theorem emergency_raised_exactly_when:
  "(if acceptable_sos user dto n w
    then fst (post_my_emergency user dto n t w) = Inr (stored_sos user dto n t) \<and>
      sos_emergencies (snd (post_my_emergency user dto n t w)) = sos_emergencies w @ [stored_sos user dto n t] \<and>
      shown (the (prn_driverId user)) (sos_drivers (snd (post_my_emergency user dto n t w))) \<and>
      length (sos_audit (snd (post_my_emergency user dto n t w))) = Suc (length (sos_audit w)) \<and>
      map em_room (sos_emitted (snd (post_my_emergency user dto n t w))) =
        map em_room (sos_emitted w) @ (if sos_gatewayUp w then [''fleet:monitoring''] else [])
    else (\<exists>e. fst (post_my_emergency user dto n t w) = Inl e) \<and> snd (post_my_emergency user dto n t w) = w)"
proof (cases "acceptable_sos user dto n w")
  case True
  then obtain d p where d: "prn_driverId user = Some d" "d \<noteq> []" "find_row drv_id d (sos_drivers w) = Some p"
    by (metis acceptable_sos_def find_row_None_iff_keys option.exhaust)
  moreover have "post_my_emergency user dto n t w = triggerEmergency d (prn_id user) dto n t w"
    using True d by (simp add: post_guarded acceptable_sos_def)
  ultimately show ?thesis
    using True trigger_accepted[OF True d(1,3)]
    by (simp add: triggerEmergency_def triggerEmergency_write_def shown_update sos_alert_def)
next
  case False
  have no: "fst (post_my_emergency user dto n t w) \<noteq> Inr e" for e
  proof
    assume r: "fst (post_my_emergency user dto n t w) = Inr e"
    then have g: "prn_role user = ''DRIVER''" "trg_emergencyType dto \<noteq> []" "truthy (prn_driverId user)"
      "fst (triggerEmergency (the (prn_driverId user)) (prn_id user) dto n t w) = Inr e"
      by (auto simp: post_guarded split: if_splits)
    with trigger_refused[OF g(4)] have "acceptable_sos user dto n w"
      by (auto simp: acceptable_sos_def truthy_iff triggerEmergency_guard_def new_emergency_def find_active_eq
          find_row_None_iff_keys split: option.splits if_splits list.splits)
    with False show False by simp
  qed
  then obtain e where e: "fst (post_my_emergency user dto n t w) = Inl e"
    by (cases "fst (post_my_emergency user dto n t w)") auto
  then have "snd (post_my_emergency user dto n t w) = w"
    by (auto simp: post_guarded triggerEmergency_def triggerEmergency_write_def split: if_splits sum.splits option.splits)
  with False e show ?thesis by simp
qed

lemma sos_ok_guard: "triggerEmergency_guard d w = Inr p \<Longrightarrow> active_sos d (sos_emergencies w) = []"
  by (auto simp: triggerEmergency_guard_def find_active_eq split: option.splits list.splits if_splits)

lemma new_emergency_twice:
  assumes "new_emergency d dto n t w = Some e" and "n \<noteq> m" and "new_emergency d dto' m t' w = Some e'"
  shows "new_emergency d dto' m t' (snd (triggerEmergency_write p d u dto n t w)) = Some e'"
  using assms
  by (auto simp: triggerEmergency_write_def new_emergency_def known_delivery_def find_row_append find_row_update_row
      split: option.splits if_splits)

text \<open>
  C33. Requests that overlap break this.  Two calls of one driver whose checks both precede the first
  write are both stored; when an operator resolves the first, the driver is no longer shown as in an
  emergency although the second is open; and an acknowledgement of the first that was checked before opens
  the resolved emergency again.
\<close>

theorem overlapping_emergencies:
  assumes "triggerEmergency_guard d w = Inr p" and "n1 \<noteq> n2"
    and "new_emergency d dto1 n1 t1 w = Some e1" and "new_emergency d dto2 n2 t2 w = Some e2"
    and "w1 = snd (triggerEmergency_write p d u dto1 n1 t1 w)" and "w2 = snd (triggerEmergency_write p d u dto2 n2 t2 w1)"
    and "w3 = snd (updateEmergencyStatus n1 EMERGENCY_RESOLVED op t3 w2)"
    and "w4 = snd (updateEmergencyStatus_write e1 n1 ACKNOWLEDGED op' t4 w3)"
  shows "updateEmergencyStatus_guard n1 w2 = Inr e1 \<and>
    active_sos d (sos_emergencies w2) = [e1, e2] \<and> active_sos d (sos_emergencies w3) = [e2] \<and>
    \<not> shown d (sos_drivers w3) \<and>
    find_row emg_id n1 (sos_emergencies w4) =
      Some (e1\<lparr>emg_status := ACKNOWLEDGED, emg_resolvedAt := Some t3, emg_resolvedBy := Some op\<rparr>)"
proof -
  note e1 = new_emergency_SomeD[OF assms(3)] and e2 = new_emergency_SomeD[OF assms(4)]
  have none: "active_sos d (sos_emergencies w) = []" by (rule sos_ok_guard[OF assms(1)])
  have w1: "sos_emergencies w1 = sos_emergencies w @ [e1]"
    using assms(3,5) by (simp add: triggerEmergency_write_def)
  have w2: "sos_emergencies w2 = sos_emergencies w @ [e1, e2]"
    using assms(5,6) w1 new_emergency_twice[OF assms(3,2,4), of p u] by (simp add: triggerEmergency_write_def)
  have f: "find_row emg_id n1 (sos_emergencies w2) = Some e1"
    using e1 w2 by (simp add: find_row_append)
  then have g: "updateEmergencyStatus_guard n1 w2 = Inr e1"
    using e1 by (simp add: updateEmergencyStatus_guard_def terminal_emergency_def)
  have old: "update_row emg_id n1 h (sos_emergencies w) = sos_emergencies w" for h
    using e1 by (intro active_unaffected) (simp add: find_row_None_iff_keys)
  have r: "emergency_row EMERGENCY_RESOLVED op t3 e1 =
      e1\<lparr>emg_status := EMERGENCY_RESOLVED, emg_resolvedAt := Some t3, emg_resolvedBy := Some op\<rparr>"
    by (simp add: emergency_row_def terminal_emergency_def)
  have w3: "sos_emergencies w3 = sos_emergencies w @ [emergency_row EMERGENCY_RESOLVED op t3 e1, e2]"
    using assms(7) g f w2 e1 e2 assms(2) old
    by (auto simp: updateEmergencyStatus_def updateEmergencyStatus_write_def Let_def terminal_emergency_def
        update_row_def update_where_def)
  have d3: "\<not> shown d (sos_drivers w3)"
    using assms(7) g f e1
    by (simp add: updateEmergencyStatus_def updateEmergencyStatus_write_def Let_def terminal_emergency_def shown_update)
  have "find_row emg_id n1 (sos_emergencies w3) = Some (emergency_row EMERGENCY_RESOLVED op t3 e1)"
    using e1 w3 by (simp add: find_row_append)
  then have "find_row emg_id n1 (sos_emergencies w4) =
      Some (e1\<lparr>emg_status := ACKNOWLEDGED, emg_resolvedAt := Some t3, emg_resolvedBy := Some op\<rparr>)"
    using assms(8) r
    by (simp add: updateEmergencyStatus_write_def Let_def terminal_emergency_def find_row_update_row emergency_row_def)
  with g w2 w3 d3 none e1 e2 show ?thesis
    by (simp add: active_sos_def active_status_def)
qed

lemma two_then_one:
  "g \<and> A v2 = [x, y] \<and> A v3 = [y] \<and> \<not> S v3 \<and> q \<Longrightarrow>
   \<exists>w2 w3. length (A w2) = 2 \<and> \<not> S w3 \<and> length (A w3) = 1"
  by (intro exI[of _ v2] exI[of _ v3]) simp

theorem overlapping_emergencies_witness:
  "\<exists>(w2 :: sos_world) (w3 :: sos_world). length (active_sos ''drv'' (sos_emergencies w2)) = 2 \<and> \<not> shown ''drv'' (sos_drivers w3) \<and>
     length (active_sos ''drv'' (sos_emergencies w3)) = 1"
proof -
  have g: "triggerEmergency_guard ''drv'' sample_sos = Inr sample_driver"
    by (simp add: sos_sample_defs)
  have n: "new_emergency ''drv'' sample_trigger k t sample_sos = Some (stored_sos driver_user sample_trigger k t)" for k t
    by (simp add: sos_sample_defs stored_sos_def)
  have "''e1'' \<noteq> ''e2''" by simp
  note r = overlapping_emergencies[OF g this n n refl refl refl refl]
  show ?thesis
    by (rule two_then_one[where A = "\<lambda>w :: sos_world. active_sos ''drv'' (sos_emergencies w)"
          and S = "\<lambda>w :: sos_world. shown ''drv'' (sos_drivers w)"]) (rule r)
qed

end
