(* ===== verification/FileProps.thy ===== *)
theory FileProps
  imports Files ImageProps EmergencyProps
begin

text \<open>
  Properties of uploaded files: what is stored is in canonical form and described by its record, a failed
  upload leaves nothing behind, and a download returns what was stored to those entitled to it.
\<close>

section \<open>Paths\<close>

definition clean :: "string \<Rightarrow> bool" where
  "clean s \<longleftrightarrow> s \<noteq> [] \<and> s \<noteq> ''.'' \<and> s \<noteq> ''..'' \<and> CHR ''/'' \<notin> set s"

lemma split_on_clean: "c \<notin> set s \<Longrightarrow> split_on c s = [s]"
  by (induction s) auto

lemma split_on_append: "c \<notin> set a \<Longrightarrow> split_on c (a @ c # b) = a # split_on c b"
  by (induction a) auto

lemma path_step_clean: "clean s \<Longrightarrow> path_step p s = p @ [s]"
  by (simp add: path_step_def clean_def)

lemma path_join_clean: "list_all clean ss \<Longrightarrow> path_join p ss = p @ ss"
  by (induction ss arbitrary: p) (simp_all add: path_join_def split_on_clean path_step_clean clean_def)

text \<open>Text of digits and a sign: neither a dot nor a slash.\<close>

definition undotted :: "char \<Rightarrow> bool" where
  "undotted c \<longleftrightarrow> (of_char c :: nat) \<notin> {46, 47}"

lemma undotted_clean: "list_all undotted s \<Longrightarrow> s \<noteq> [] \<Longrightarrow> clean s"
  by (auto simp: clean_def list_all_iff undotted_def)

lemma undotted_digit: "k < 10 \<Longrightarrow> undotted (char_of (48 + k :: nat))"
  by (simp add: undotted_def)

lemma show_nat_text: "list_all undotted (show_nat n) \<and> show_nat n \<noteq> []"
proof (induction n rule: show_nat.induct)
  case (1 n)
  show ?case
  proof (cases "n < 10")
    case True
    then show ?thesis by (simp add: show_nat.simps[of n] undotted_digit)
  next
    case False
    then show ?thesis using 1[OF False] by (simp add: show_nat.simps[of n] undotted_digit)
  qed
qed

lemma undotted_sign [simp]: "undotted (CHR ''-'')" "undotted (CHR ''0'')"
  by (simp_all add: undotted_def)

lemma show_int_text: "list_all undotted (show_int i) \<and> show_int i \<noteq> []"
  using show_nat_text by (simp add: show_int_def)

lemma year_month_clean: "clean (year_of now)" "clean (month_of now)"
proof -
  show "clean (year_of now)"
    unfolding year_of_def using show_int_text undotted_clean by blast
  have "list_all undotted (month_of now) \<and> month_of now \<noteq> []"
    using show_int_text[of "snd (utc_year_month now)"] by (auto simp: month_of_def pad2_def list_all_iff)
  then show "clean (month_of now)" using undotted_clean by blast
qed

text \<open>Where a file with a given name lies, for the writer and for the reader of its key.\<close>

definition stored_path :: "path \<Rightarrow> string \<Rightarrow> timestamp \<Rightarrow> path" where
  "stored_path cwd filename now =
     cwd @ [''storage'', ''private'', ''pod'', year_of now, month_of now, filename]"

lemma base_eq: "baseStorageDir cwd = cwd @ [''storage'', ''private'', ''pod'']"
  unfolding baseStorageDir_def by (rule path_join_clean) (simp add: clean_def)

lemma written_path:
  "clean f \<Longrightarrow> path_join (path_join (baseStorageDir cwd) [year_of now, month_of now]) [f] = stored_path cwd f now"
  by (simp add: path_join_clean base_eq stored_path_def year_month_clean)

lemma split_object_key:
  assumes "clean f"
  shows "split_on (CHR ''/'') (object_key f now) = [''pod'', year_of now, month_of now, f]"
proof -
  have c: "CHR ''/'' \<notin> set ''pod''" "CHR ''/'' \<notin> set (year_of now)" "CHR ''/'' \<notin> set (month_of now)" "CHR ''/'' \<notin> set f"
    using year_month_clean[of now] assms by (auto simp: clean_def)
  have "object_key f now = ''pod'' @ CHR ''/'' # year_of now @ CHR ''/'' # month_of now @ CHR ''/'' # f"
    by (simp add: object_key_def)
  then show ?thesis using c by (simp only: split_on_append split_on_clean not_False_eq_True)
qed

lemma key_path_stored:
  assumes "clean f"
  shows "key_path cwd (object_key f now) = stored_path cwd f now"
proof -
  have p: "clean ''pod''" by (simp add: clean_def)
  then show ?thesis
    using year_month_clean[of now] assms split_object_key[OF assms]
    by (simp add: key_path_def path_join_def base_eq path_step_clean stored_path_def path_step_def[of _ "''..''"]
        butlast_append)
qed

section \<open>What one upload does\<close>

definition canonical_file :: "sharp \<Rightarrow> string \<Rightarrow> buffer \<Rightarrow> bool" where
  "canonical_file sharp mime b \<longleftrightarrow>
     mime = ''image/jpeg'' \<and> canonical sharp ''jpeg'' 1600 1600 b \<or>
     mime = ''image/png'' \<and> canonical sharp ''png'' 800 600 b"

lemma validated_jpeg:
  assumes "validateMagicBytesAndType b ''image/jpeg'' = Inr v"
  shows "take 3 b = [0xff, 0xd8, 0xff]"
proof -
  have l: "lower ''image/jpeg'' = ''image/jpeg''" by (simp add: lower_def lower_char_def)
  have "\<not> length b < 3" "b ! 0 = 0xff" "b ! 1 = 0xd8" "b ! 2 = 0xff"
    using assms by (auto simp: validateMagicBytesAndType_def l Let_def split: if_splits)
  moreover from this(1) obtain x y z rest where "b = x # y # z # rest"
    by (cases b; cases "tl b"; cases "tl (tl b)") auto
  ultimately show ?thesis by simp
qed

lemma normalized_file:
  assumes "honest_sharp sharp" and "validateMagicBytesAndType b mime = Inr v" and "normalize_upload sharp c env b mime = Inr n"
  shows "canonical_file sharp (nrm_mimeType n) (nrm_buffer n)"
proof (cases c)
  case Photo
  then have "normalize_photo sharp b mime = Inr n"
    using assms(3) by (auto simp: normalize_upload_def normalizePodPhoto_def split: sum.splits)
  from normalize_photo_canonical[OF assms(1) this] assms(2) validated_jpeg show ?thesis
    by (auto simp: canonical_file_def)
next
  case Signature
  then have "normalize_signature sharp b = Inr n"
    using assms(3) by (auto simp: normalize_upload_def normalizeSignature_def split: sum.splits)
  from normalize_signature_canonical[OF assms(1) this] show ?thesis by (auto simp: canonical_file_def)
qed

definition image_ext :: "string \<Rightarrow> string" where
  "image_ext mime = (if mime = ''image/png'' then ''.png'' else ''.jpg'')"

text \<open>The path of an upload whose normalised type is \<open>mime\<close>.\<close>

definition upload_path :: "path \<Rightarrow> string \<Rightarrow> file_env \<Rightarrow> path" where
  "upload_path cwd mime env = stored_path cwd (fe_fileUuid env @ image_ext mime) (fe_now env)"

definition described :: "(buffer \<Rightarrow> string) \<Rightarrow> buffer \<Rightarrow> string \<Rightarrow> uuid \<Rightarrow> file_env \<Rightarrow> file_record" where
  "described sha b mime u env =
     \<lparr>fil_id = fe_recordId env, fil_objectKey = object_key (fe_fileUuid env @ image_ext mime) (fe_now env),
      fil_mediaType = mime, fil_sizeBytes = length b, fil_checksumSha256 = sha b, fil_uploadedBy = u\<rparr>"

lemma clean_name: "CHR ''/'' \<notin> set u \<Longrightarrow> clean (u @ image_ext mime)"
  by (cases u) (auto simp: clean_def image_ext_def)

lemma stored_image_name:
  "mime = ''image/jpeg'' \<or> mime = ''image/png'' \<Longrightarrow> stored_name orig mime u = u @ image_ext mime"
  by (auto simp: stored_name_def getExtensionFromMime_def image_ext_def lower_def lower_char_def)

lemma store_file_eq:
  assumes "nrm_mimeType n = ''image/jpeg'' \<or> nrm_mimeType n = ''image/png''" and "CHR ''/'' \<notin> set (fe_fileUuid env)"
  shows "store_file cwd sha n orig u env w =
    (let p = upload_path cwd (nrm_mimeType n) env; b = nrm_buffer n; d = fw_disk w in
     case fe_write env of
       Write_failed None \<Rightarrow> (fail_with Internal [], w)
     | Write_failed (Some part) \<Rightarrow> (fail_with Internal [], w\<lparr>fw_disk := d(p \<mapsto> part)\<rparr>)
     | Written \<Rightarrow>
         if create_record \<lparr>svf_objectKey = object_key (fe_fileUuid env @ image_ext (nrm_mimeType n)) (fe_now env),
              svf_sizeBytes = length b, svf_checksumSha256 = sha b\<rparr> (nrm_mimeType n) u env (fw_files w) = None
         then (fail_with Internal [], w\<lparr>fw_disk := if fe_unlink env then d(p := None) else d(p \<mapsto> b)\<rparr>)
         else (Inr (described sha b (nrm_mimeType n) u env),
               w\<lparr>fw_disk := d(p \<mapsto> b), fw_files := fw_files w @ [described sha b (nrm_mimeType n) u env]\<rparr>))"
proof -
  note c = clean_name[OF assms(2)]
  show ?thesis
    by (simp add: store_file_def saveFile_def stored_image_name[OF assms(1)] written_path[OF c] key_path_stored[OF c]
        upload_path_def deleteFile_def create_record_def described_def Let_def
        split: write_outcome.split option.split)
qed

lemma normalize_mime:
  "normalize_upload sharp c env b mime = Inr n \<Longrightarrow> nrm_mimeType n = ''image/jpeg'' \<or> nrm_mimeType n = ''image/png''"
  by (auto simp: normalize_upload_def normalizePodPhoto_def normalizeSignature_def normalize_photo_def normalize_signature_def
      run_pipeline_def split: file_category.splits sum.splits option.splits if_splits)

lemma save_success:
  assumes "saveFileRecord cwd sha sharp b0 orig mime u c env w = (Inr r, w')" and "CHR ''/'' \<notin> set (fe_fileUuid env)"
  obtains n where "validateMagicBytesAndType b0 mime = Inr ()" and "normalize_upload sharp c env b0 mime = Inr n"
    and "r = described sha (nrm_buffer n) (nrm_mimeType n) u env"
    and "w' = w\<lparr>fw_disk := (fw_disk w)(upload_path cwd (nrm_mimeType n) env \<mapsto> nrm_buffer n),
      fw_files := fw_files w @ [r]\<rparr>"
    and "find_row fil_id (fil_id r) (fw_files w) = None" and "find_row fil_objectKey (fil_objectKey r) (fw_files w) = None"
proof -
  obtain v n where n: "validateMagicBytesAndType b0 mime = Inr v" "normalize_upload sharp c env b0 mime = Inr n"
    "store_file cwd sha n orig u env w = (Inr r, w')"
    using assms(1) by (auto simp: saveFileRecord_def split: sum.splits if_splits)
  note eq = n(3)[unfolded store_file_eq[OF normalize_mime[OF n(2)] assms(2)]]
  have wr: "fe_write env = Written"
    using eq by (simp add: Let_def split: write_outcome.splits option.splits)
  have cr: "create_record \<lparr>svf_objectKey = object_key (fe_fileUuid env @ image_ext (nrm_mimeType n)) (fe_now env),
      svf_sizeBytes = length (nrm_buffer n), svf_checksumSha256 = sha (nrm_buffer n)\<rparr> (nrm_mimeType n) u env
      (fw_files w) \<noteq> None" (is "?c \<noteq> None")
  proof
    assume "?c = None"
    with eq wr show False by (simp add: Let_def)
  qed
  have r: "r = described sha (nrm_buffer n) (nrm_mimeType n) u env"
    and w': "w' = w\<lparr>fw_disk := (fw_disk w)(upload_path cwd (nrm_mimeType n) env \<mapsto> nrm_buffer n),
      fw_files := fw_files w @ [r]\<rparr>"
    using eq wr cr by (auto simp: Let_def)
  have "find_row fil_id (fil_id r) (fw_files w) = None" "find_row fil_objectKey (fil_objectKey r) (fw_files w) = None"
    using cr r by (auto simp: create_record_def described_def split: if_splits)
  with n(1,2) r w' show thesis by (intro that[of n]) simp_all
qed

lemma save_failure:
  assumes "saveFileRecord cwd sha sharp b0 orig mime u c env w = (Inl e, w')" and "CHR ''/'' \<notin> set (fe_fileUuid env)"
  shows "fw_files w' = fw_files w \<and> fw_core w' = fw_core w \<and>
    (\<exists>m. \<forall>p. p \<noteq> upload_path cwd m env \<longrightarrow> fw_disk w' p = fw_disk w p) \<and>
    (fe_write env = Written \<and> fe_unlink env \<and> (\<forall>m. fw_disk w (upload_path cwd m env) = None) \<longrightarrow> w' = w)"
proof (cases "w' = w")
  case False
  then obtain n where n: "normalize_upload sharp c env b0 mime = Inr n" "store_file cwd sha n orig u env w = (Inl e, w')"
    using assms(1) by (auto simp: saveFileRecord_def split: sum.splits if_splits)
  note eq = n(2)[unfolded store_file_eq[OF normalize_mime[OF n(1)] assms(2)]]
  let ?p = "upload_path cwd (nrm_mimeType n) env"
  have "\<exists>v. w' = w\<lparr>fw_disk := (fw_disk w)(?p := v)\<rparr> \<and> (fe_write env = Written \<and> fe_unlink env \<longrightarrow> v = None)"
  proof (cases "fe_write env")
    case Written
    with eq show ?thesis by (cases "fe_unlink env") (auto simp: Let_def split: if_split_asm)
  next
    case (Write_failed x)
    with eq False show ?thesis by (cases x) (auto simp: Let_def)
  qed
  then obtain v where v: "w' = w\<lparr>fw_disk := (fw_disk w)(?p := v)\<rparr>" "fe_write env = Written \<and> fe_unlink env \<longrightarrow> v = None"
    by blast
  have "w' = w" if "fe_write env = Written" "fe_unlink env" "fw_disk w ?p = None"
    using v that by (simp add: fun_upd_idem)
  with v show ?thesis by auto
qed simp

section \<open>Failed uploads\<close>

text \<open>The request as the endpoint passes it on.\<close>

lemma upload_as_save:
  assumes "uploadFile cwd sha sharp user u env w = (res, w')" and "w' \<noteq> w \<or> (\<exists>r. res = Inr r)"
  shows "\<exists>b orig mime c. saveFileRecord cwd sha sharp b orig mime (prn_id user) c env w = (res, w')"
  using assms unfolding uploadFile_def by (auto split: sum.splits option.splits)

lemma failed_upload:
  assumes "uploadFile cwd sha sharp user u env w = (Inl e, w')" and "CHR ''/'' \<notin> set (fe_fileUuid env)"
  shows "fw_files w' = fw_files w \<and> fw_core w' = fw_core w \<and>
    (\<exists>m. \<forall>p. p \<noteq> upload_path cwd m env \<longrightarrow> fw_disk w' p = fw_disk w p) \<and>
    (fe_write env = Written \<and> fe_unlink env \<and> (\<forall>m. fw_disk w (upload_path cwd m env) = None) \<longrightarrow> w' = w)"
proof (cases "w' = w")
  case False
  with upload_as_save[OF assms(1)] show ?thesis using save_failure[OF _ assms(2)] by blast
qed simp


section \<open>Sequences of uploads\<close>

text \<open>Between the uploads other services change the tables of the core in any way.\<close>

datatype file_request = Upload principal upload file_env | Core_becomes world

fun file_exec :: "path \<Rightarrow> (buffer \<Rightarrow> string) \<Rightarrow> sharp \<Rightarrow> file_request \<Rightarrow> file_world \<Rightarrow> file_world" where
  "file_exec cwd sha sharp (Upload user u env) w = snd (uploadFile cwd sha sharp user u env w)"
| "file_exec cwd sha sharp (Core_becomes core) w = w\<lparr>fw_core := core\<rparr>"

definition file_run :: "path \<Rightarrow> (buffer \<Rightarrow> string) \<Rightarrow> sharp \<Rightarrow> file_request list \<Rightarrow> file_world \<Rightarrow> file_world" where
  "file_run cwd sha sharp rs w = fold (file_exec cwd sha sharp) rs w"

text \<open>The random names of the uploads: all different, and without a slash.\<close>

fun upload_name :: "file_request \<Rightarrow> string list" where
  "upload_name (Upload user u env) = [fe_fileUuid env]"
| "upload_name (Core_becomes core) = []"

definition fresh_names :: "file_request list \<Rightarrow> bool" where
  "fresh_names rs \<longleftrightarrow> distinct (concat (map upload_name rs)) \<and>
     list_all (\<lambda>n. CHR ''/'' \<notin> set n) (concat (map upload_name rs))"

lemma image_ext_inj: "u @ image_ext m = u' @ image_ext m' \<Longrightarrow> u = u'"
  by (auto simp: image_ext_def split: if_splits)

lemma upload_path_other:
  "u \<noteq> fe_fileUuid env \<Longrightarrow> stored_path cwd (u @ image_ext m) t \<noteq> upload_path cwd m' env"
  using image_ext_inj by (auto simp: upload_path_def stored_path_def)

text \<open>What one request leaves behind: nothing new, or one more described file.\<close>

lemma upload_cases:
  assumes "uploadFile cwd sha sharp user u env w = (res, w')" and "CHR ''/'' \<notin> set (fe_fileUuid env)"
  shows "(\<exists>m. fw_files w' = fw_files w \<and> (\<forall>p. p \<noteq> upload_path cwd m env \<longrightarrow> fw_disk w' p = fw_disk w p)) \<or>
    (\<exists>b0 mime c n. validateMagicBytesAndType b0 mime = Inr () \<and> normalize_upload sharp c env b0 mime = Inr n \<and>
       find_row fil_id (fe_recordId env) (fw_files w) = None \<and>
       w' = w\<lparr>fw_disk := (fw_disk w)(upload_path cwd (nrm_mimeType n) env \<mapsto> nrm_buffer n),
         fw_files := fw_files w @ [described sha (nrm_buffer n) (nrm_mimeType n) (prn_id user) env]\<rparr>)"
proof (cases res)
  case (Inl e)
  with failed_upload[OF _ assms(2), of cwd sha sharp user u w e w'] assms(1) show ?thesis by blast
next
  case (Inr r)
  with upload_as_save[OF assms(1)] obtain b orig mime c
    where s: "saveFileRecord cwd sha sharp b orig mime (prn_id user) c env w = (Inr r, w')" by auto
  from save_success[OF s assms(2)] show ?thesis by (metis described_def file_record.select_convs(1))
qed

definition well_stored :: "path \<Rightarrow> (buffer \<Rightarrow> string) \<Rightarrow> sharp \<Rightarrow> string list \<Rightarrow> disk \<Rightarrow> file_record \<Rightarrow> bool" where
  "well_stored cwd sha sharp pending d r \<longleftrightarrow>
     (\<exists>name t b. name \<notin> set pending \<and> CHR ''/'' \<notin> set name \<and>
        fil_objectKey r = object_key (name @ image_ext (fil_mediaType r)) t \<and>
        d (stored_path cwd (name @ image_ext (fil_mediaType r)) t) = Some b \<and>
        fil_sizeBytes r = length b \<and> fil_checksumSha256 r = sha b \<and> canonical_file sharp (fil_mediaType r) b)"

lemma well_stored_keep:
  assumes "well_stored cwd sha sharp (fe_fileUuid env # ns) d r"
    and "\<forall>p. p \<noteq> upload_path cwd m env \<longrightarrow> d' p = d p"
  shows "well_stored cwd sha sharp ns d' r"
proof -
  from assms(1) obtain name t b where n: "name \<noteq> fe_fileUuid env" "name \<notin> set ns" "CHR ''/'' \<notin> set name"
    "fil_objectKey r = object_key (name @ image_ext (fil_mediaType r)) t"
    "d (stored_path cwd (name @ image_ext (fil_mediaType r)) t) = Some b"
    "fil_sizeBytes r = length b" "fil_checksumSha256 r = sha b" "canonical_file sharp (fil_mediaType r) b"
    unfolding well_stored_def by auto
  with assms(2) upload_path_other[OF n(1)] have "d' (stored_path cwd (name @ image_ext (fil_mediaType r)) t) = Some b"
    by metis
  with n show ?thesis unfolding well_stored_def by blast
qed

lemma well_stored_new:
  assumes "canonical_file sharp m b" and "CHR ''/'' \<notin> set (fe_fileUuid env)" and "fe_fileUuid env \<notin> set ns"
  shows "well_stored cwd sha sharp ns (d(upload_path cwd m env \<mapsto> b)) (described sha b m u env)"
  unfolding well_stored_def
  by (intro exI[of _ "fe_fileUuid env"] exI[of _ "fe_now env"] exI[of _ b])
     (use assms in \<open>simp add: described_def upload_path_def\<close>)

definition file_inv :: "path \<Rightarrow> (buffer \<Rightarrow> string) \<Rightarrow> sharp \<Rightarrow> string list \<Rightarrow> file_world \<Rightarrow> bool" where
  "file_inv cwd sha sharp pending w \<longleftrightarrow> (\<forall>r \<in> set (fw_files w). well_stored cwd sha sharp pending (fw_disk w) r)"

lemma file_inv_exec:
  assumes "file_inv cwd sha sharp (upload_name q @ ns) w" and "honest_sharp sharp"
    and "list_all (\<lambda>n. CHR ''/'' \<notin> set n) (upload_name q)" and "distinct (upload_name q @ ns)"
  shows "file_inv cwd sha sharp ns (file_exec cwd sha sharp q w)"
proof (cases q)
  case (Core_becomes core)
  with assms(1) show ?thesis by (simp add: file_inv_def)
next
  case (Upload user u env)
  obtain res w' where up: "uploadFile cwd sha sharp user u env w = (res, w')" by fastforce
  have name: "CHR ''/'' \<notin> set (fe_fileUuid env)" "fe_fileUuid env \<notin> set ns" using assms(3,4) Upload by auto
  have inv: "\<forall>r \<in> set (fw_files w). well_stored cwd sha sharp (fe_fileUuid env # ns) (fw_disk w) r"
    using assms(1) Upload by (simp add: file_inv_def)
  have "\<forall>r \<in> set (fw_files w'). well_stored cwd sha sharp ns (fw_disk w') r"
    using upload_cases[OF up name(1)]
  proof (elim disjE exE conjE)
    fix m assume "fw_files w' = fw_files w" "\<forall>p. p \<noteq> upload_path cwd m env \<longrightarrow> fw_disk w' p = fw_disk w p"
    with inv show ?thesis using well_stored_keep by metis
  next
    fix b0 mime c n
    assume v: "validateMagicBytesAndType b0 mime = Inr ()" "normalize_upload sharp c env b0 mime = Inr n"
      and w': "w' = w\<lparr>fw_disk := (fw_disk w)(upload_path cwd (nrm_mimeType n) env \<mapsto> nrm_buffer n),
         fw_files := fw_files w @ [described sha (nrm_buffer n) (nrm_mimeType n) (prn_id user) env]\<rparr>"
    have "\<forall>p. p \<noteq> upload_path cwd (nrm_mimeType n) env \<longrightarrow> fw_disk w' p = fw_disk w p" by (simp add: w')
    with inv have "\<forall>r \<in> set (fw_files w). well_stored cwd sha sharp ns (fw_disk w') r"
      using well_stored_keep by metis
    then show ?thesis
      using well_stored_new[OF normalized_file[OF assms(2) v] name] by (simp add: w')
  qed
  then show ?thesis using Upload up by (simp add: file_inv_def)
qed

lemma file_inv_run:
  "file_inv cwd sha sharp (concat (map upload_name rs)) w \<Longrightarrow> honest_sharp sharp \<Longrightarrow> fresh_names rs \<Longrightarrow>
   file_inv cwd sha sharp [] (file_run cwd sha sharp rs w)"
proof (induction rs arbitrary: w)
  case Nil
  then show ?case by (simp add: file_run_def)
next
  case (Cons q rs)
  then have "file_inv cwd sha sharp (concat (map upload_name rs)) (file_exec cwd sha sharp q w)"
    by (intro file_inv_exec) (auto simp: fresh_names_def)
  moreover have "fresh_names rs" using Cons.prems(3) by (auto simp: fresh_names_def)
  ultimately show ?case using Cons.IH Cons.prems(2) by (simp add: file_run_def)
qed

text \<open>
  C36. Every file that has a record is on the disk where the record says, is a JPEG of at most 1600 by
  1600 pixels or a PNG of at most 800 by 600 without orientation tag and metadata, and has the media type,
  size and checksum that the record gives, after any sequence of uploads, accepted or failed.
\<close>

theorem stored_files_described:
  assumes "honest_sharp sharp" and "fresh_names rs" and "fw_files w = []"
    and "r \<in> set (fw_files (file_run cwd sha sharp rs w))"
  shows "\<exists>b. getFileBuffer cwd (fil_objectKey r) (fw_disk (file_run cwd sha sharp rs w)) = Inr b \<and>
    canonical_file sharp (fil_mediaType r) b \<and> fil_sizeBytes r = length b \<and> fil_checksumSha256 r = sha b"
proof -
  have "file_inv cwd sha sharp [] (file_run cwd sha sharp rs w)"
    using assms(1-3) by (intro file_inv_run) (auto simp: file_inv_def)
  with assms(4) obtain name t b where f: "CHR ''/'' \<notin> set name"
    "fil_objectKey r = object_key (name @ image_ext (fil_mediaType r)) t"
    "fw_disk (file_run cwd sha sharp rs w) (stored_path cwd (name @ image_ext (fil_mediaType r)) t) = Some b"
    "fil_sizeBytes r = length b" "fil_checksumSha256 r = sha b" "canonical_file sharp (fil_mediaType r) b"
    by (auto simp: file_inv_def well_stored_def)
  then show ?thesis by (simp add: getFileBuffer_def key_path_stored[OF clean_name[OF f(1)]])
qed

section \<open>Reading back\<close>

lemma exec_keeps_file:
  assumes "find_row fil_id i (fw_files w) = Some r" and "fw_disk w (stored_path cwd (name @ image_ext m) t) = Some b"
    and "name \<notin> set (upload_name q)" and "list_all (\<lambda>n. CHR ''/'' \<notin> set n) (upload_name q)"
  shows "find_row fil_id i (fw_files (file_exec cwd sha sharp q w)) = Some r \<and>
    fw_disk (file_exec cwd sha sharp q w) (stored_path cwd (name @ image_ext m) t) = Some b"
proof (cases q)
  case (Core_becomes core)
  with assms show ?thesis by simp
next
  case (Upload user u env)
  obtain res w' where up: "uploadFile cwd sha sharp user u env w = (res, w')" by fastforce
  have name: "CHR ''/'' \<notin> set (fe_fileUuid env)" "name \<noteq> fe_fileUuid env" using assms(3,4) Upload by auto
  from upload_cases[OF up name(1)] have "find_row fil_id i (fw_files w') = Some r \<and>
      (\<exists>m. \<forall>p. p \<noteq> upload_path cwd m env \<longrightarrow> fw_disk w' p = fw_disk w p)"
  proof (elim disjE exE conjE)
    fix m assume "fw_files w' = fw_files w" "\<forall>p. p \<noteq> upload_path cwd m env \<longrightarrow> fw_disk w' p = fw_disk w p"
    with assms(1) show ?thesis by auto
  next
    fix b0 mime c n
    assume "w' = w\<lparr>fw_disk := (fw_disk w)(upload_path cwd (nrm_mimeType n) env \<mapsto> nrm_buffer n),
         fw_files := fw_files w @ [described sha (nrm_buffer n) (nrm_mimeType n) (prn_id user) env]\<rparr>"
    with assms(1) show ?thesis by (auto simp: find_row_append)
  qed
  then show ?thesis using assms(2) upload_path_other[OF name(2)] Upload up by (metis file_exec.simps(1) snd_conv)
qed

lemma run_keeps_file:
  "find_row fil_id i (fw_files w) = Some r \<Longrightarrow> fw_disk w (stored_path cwd (name @ image_ext m) t) = Some b \<Longrightarrow>
   name \<notin> set (concat (map upload_name rs)) \<Longrightarrow> list_all (\<lambda>n. CHR ''/'' \<notin> set n) (concat (map upload_name rs)) \<Longrightarrow>
   find_row fil_id i (fw_files (file_run cwd sha sharp rs w)) = Some r \<and>
   fw_disk (file_run cwd sha sharp rs w) (stored_path cwd (name @ image_ext m) t) = Some b"
proof (induction rs arbitrary: w)
  case Nil
  then show ?case by (simp add: file_run_def)
next
  case (Cons q rs)
  with exec_keeps_file[of i w r cwd name m t b q sha sharp] show ?case by (simp add: file_run_def)
qed

text \<open>The proof of a stop whose delivery is the driver's own.\<close>

definition evidence_of :: "uuid \<Rightarrow> uuid \<Rightarrow> world \<Rightarrow> bool" where
  "evidence_of fileId userId w \<longleftrightarrow>
     (\<exists>p \<in> set (proofs w). \<exists>v \<in> set (drivers w). \<exists>d.
        (pod_photoFileId p = Some fileId \<or> pod_signatureFileId p = Some fileId) \<and> delivery_of_proof p w = Some d \<and>
        drv_userId v = userId \<and> dlv_driverId d = Some (drv_id v))"

lemma proof_deliveries_iff:
  "d \<in> set (proof_deliveries f i w) \<longleftrightarrow> (\<exists>p \<in> set (proofs w). f p = Some i \<and> delivery_of_proof p w = Some d)"
  by (force simp: proof_deliveries_def List.map_filter_def)

lemma driver_download:
  assumes "may_download r u ''DRIVER'' w" and "u \<noteq> fil_uploadedBy r"
  shows "evidence_of (fil_id r) u w"
proof -
  obtain v d where v: "find_row drv_userId u (drivers w) = Some v" "dlv_driverId d = Some (drv_id v)"
    "d \<in> set (proof_deliveries pod_photoFileId (fil_id r) w) \<union> set (proof_deliveries pod_signatureFileId (fil_id r) w)"
    using assms by (auto simp: may_download_def Let_def list_ex_iff)
  with find_row_SomeD[OF v(1)] show ?thesis
    unfolding evidence_of_def proof_deliveries_iff Un_iff by blast
qed

text \<open>
  C37. After an upload is accepted, and whatever else is uploaded afterwards, a download of its file
  returns the normalised image to everyone entitled to it and refuses everyone else; the uploader is
  entitled, and another driver only if the file is evidence of a stop of a delivery of that driver.
\<close>

theorem uploads_read_back:
  assumes "uploadFile cwd sha sharp user u env w = (Inr r, w1)" and "fresh_names (Upload user u env # later)"
    and "w2 = file_run cwd sha sharp later w1"
    and "prn_role v \<in> {''DRIVER'', ''OWNER'', ''ADMIN'', ''SUPER_ADMIN''}"
  shows "(\<exists>b0 mime c n. normalize_upload sharp c env b0 mime = Inr n \<and> upl_buffer u = Some b0 \<and>
      downloadFile cwd v (fil_id r) w2 =
        (if may_download r (prn_id v) (prn_role v) (fw_core w2)
         then Inr \<lparr>fre_buffer = nrm_buffer n, fre_mediaType = nrm_mimeType n,
                fre_filename = fe_fileUuid env @ image_ext (nrm_mimeType n)\<rparr>
         else fail_with Forbidden ''RESOURCE_FORBIDDEN'')) \<and>
    (prn_id v = prn_id user \<longrightarrow> may_download r (prn_id v) (prn_role v) (fw_core w2)) \<and>
    (prn_role v = ''DRIVER'' \<and> prn_id v \<noteq> prn_id user \<and> may_download r (prn_id v) (prn_role v) (fw_core w2) \<longrightarrow>
      evidence_of (fil_id r) (prn_id v) (fw_core w2))"
proof -
  have name: "CHR ''/'' \<notin> set (fe_fileUuid env)" "fe_fileUuid env \<notin> set (concat (map upload_name later))"
    "list_all (\<lambda>n. CHR ''/'' \<notin> set n) (concat (map upload_name later))"
    using assms(2) by (auto simp: fresh_names_def)
  obtain b0 orig mime c where b0: "upl_buffer u = Some b0"
    and s: "saveFileRecord cwd sha sharp b0 orig mime (prn_id user) c env w = (Inr r, w1)"
    using assms(1) by (auto simp: uploadFile_def split: sum.splits option.splits)
  from save_success[OF s name(1)] obtain n where n: "normalize_upload sharp c env b0 mime = Inr n"
    "r = described sha (nrm_buffer n) (nrm_mimeType n) (prn_id user) env"
    "w1 = w\<lparr>fw_disk := (fw_disk w)(upload_path cwd (nrm_mimeType n) env \<mapsto> nrm_buffer n), fw_files := fw_files w @ [r]\<rparr>"
    "find_row fil_id (fil_id r) (fw_files w) = None" by metis
  let ?f = "fe_fileUuid env @ image_ext (nrm_mimeType n)"
  have "find_row fil_id (fil_id r) (fw_files w1) = Some r" using n(3,4) by (simp add: find_row_append)
  moreover have "fw_disk w1 (stored_path cwd ?f (fe_now env)) = Some (nrm_buffer n)"
    using n(3) by (simp add: upload_path_def)
  ultimately have k: "find_row fil_id (fil_id r) (fw_files w2) = Some r"
      "fw_disk w2 (stored_path cwd ?f (fe_now env)) = Some (nrm_buffer n)"
    using run_keeps_file[OF _ _ name(2,3)] unfolding assms(3) by blast+
  have c: "clean ?f" by (rule clean_name[OF name(1)])
  then have ne: "?f \<noteq> []" unfolding clean_def by blast
  have r: "fil_objectKey r = object_key ?f (fe_now env)" "fil_mediaType r = nrm_mimeType n" "fil_uploadedBy r = prn_id user"
    using n(2) by (simp_all add: described_def)
  have "roles_guard (Some [''ADMIN'', ''SUPER_ADMIN'', ''OWNER'', ''DRIVER'']) (Some v) = Inr ()"
    using assms(4) by (auto simp: roles_guard_def)
  then have "downloadFile cwd v (fil_id r) w2 =
      (if may_download r (prn_id v) (prn_role v) (fw_core w2)
       then Inr \<lparr>fre_buffer = nrm_buffer n, fre_mediaType = nrm_mimeType n, fre_filename = ?f\<rparr>
       else fail_with Forbidden ''RESOURCE_FORBIDDEN'')"
    using k ne by (simp add: downloadFile_def getAuthorizedFileBuffer_def getFileBuffer_def r key_path_stored[OF c]
        split_object_key[OF c] del: append_is_Nil_conv)
  moreover have "prn_id v = prn_id user \<Longrightarrow> may_download r (prn_id v) (prn_role v) (fw_core w2)"
    using r by (simp add: may_download_def Let_def)
  moreover have "prn_role v = ''DRIVER'' \<Longrightarrow> prn_id v \<noteq> prn_id user \<Longrightarrow>
      may_download r (prn_id v) (prn_role v) (fw_core w2) \<Longrightarrow> evidence_of (fil_id r) (prn_id v) (fw_core w2)"
    using driver_download[of r "prn_id v" "fw_core w2"] r(3) by simp
  ultimately show ?thesis using n(1) b0 by blast
qed

section \<open>Witnesses\<close>

text \<open>A library that reads everything as an image of one pixel.\<close>

definition sample_sharp :: sharp where
  "sample_sharp =
     \<lparr>shp_metadata = (\<lambda>b. Some \<lparr>imd_format = (if take 3 b = [0xff, 0xd8, 0xff] then ''jpeg'' else ''png''),
        imd_width = Some 1, imd_height = Some 1, imd_orientation = None, imd_exif = False, imd_iptc = False,
        imd_xmp = False\<rparr>),
      shp_toBuffer = (\<lambda>p b. if 0 < ppl_width p \<and> 0 < ppl_height p
        then Some (case ppl_encoder p of Jpeg _ _ \<Rightarrow> [0xff, 0xd8, 0xff] | Png _ _ \<Rightarrow> [0x89, 0x50, 0x4e, 0x47]) else None)\<rparr>"

lemma honest_sample: "honest_sharp sample_sharp"
  by (auto simp: honest_sharp_def sample_sharp_def encoder_format_def or_zero_def plain_def split: encoder.split if_splits)

definition sample_files :: file_world where
  "sample_files = \<lparr>fw_core = empty_world, fw_files = [], fw_disk = (\<lambda>_. None)\<rparr>"

definition sample_env :: "bool \<Rightarrow> file_env" where
  "sample_env database = \<lparr>fe_now = 0, fe_fileUuid = ''a'', fe_recordId = ''f1'', fe_slot = Inr (), fe_write = Written,
     fe_database = database, fe_unlink = True\<rparr>"

definition sample_upload :: upload where
  "sample_upload = \<lparr>upl_buffer = Some [0xff, 0xd8, 0xff, 0], upl_fieldname = ''file'', upl_originalname = None,
     upl_mimetype = Some ''image/jpeg'', upl_category = None\<rparr>"

lemma sample_env_simps:
  "fe_now (sample_env db) = 0" "fe_fileUuid (sample_env db) = ''a''" "fe_recordId (sample_env db) = ''f1''"
  "fe_slot (sample_env db) = Inr ()" "fe_write (sample_env db) = Written" "fe_database (sample_env db) = db"
  "fe_unlink (sample_env db)"
  by (simp_all add: sample_env_def)

lemmas file_sample_defs = sample_files_def sample_env_simps sample_upload_def driver_user_def sample_principal_def

lemma epoch_month: "utc_year_month 0 = (1970, 1)"
  by code_simp

lemma length_show_nat: "length (show_nat n) = (if n < 10 then 1 else Suc (length (show_nat (n div 10))))"
  by (subst show_nat.simps) simp

lemma length_show_1970: "length (show_nat 1970) = 4" "length (show_nat (Suc 0)) = 1"
  by (simp_all add: length_show_nat[of 1970] length_show_nat[of 197] length_show_nat[of 19] length_show_nat[of "Suc 0"]
      length_show_nat[of 1])

lemma sample_upload_result:
  "uploadFile [] (\<lambda>_. ''h'') sample_sharp driver_user sample_upload (sample_env db) sample_files =
     (if db then (Inr (described (\<lambda>_. ''h'') [0xff, 0xd8, 0xff, 0] ''image/jpeg'' ''du'' (sample_env db)),
        sample_files\<lparr>fw_disk := [upload_path [] ''image/jpeg'' (sample_env db) \<mapsto> [0xff, 0xd8, 0xff, 0]],
          fw_files := [described (\<lambda>_. ''h'') [0xff, 0xd8, 0xff, 0] ''image/jpeg'' ''du'' (sample_env db)]\<rparr>)
      else (fail_with Internal [], sample_files))"
proof -
  have l: "lower ''image/jpeg'' = ''image/jpeg''" by (simp add: lower_def lower_char_def)
  have v: "validateMagicBytesAndType [0xff, 0xd8, 0xff, 0] ''image/jpeg'' = Inr ()"
    by (simp add: validateMagicBytesAndType_def l Let_def)
  define n where "n = \<lparr>nrm_buffer = [0xff, 0xd8, 0xff, 0 :: 8 word], nrm_mimeType = ''image/jpeg'', nrm_extension = ''.jpg'',
    nrm_width = Some (1 :: nat), nrm_height = Some (1 :: nat), nrm_isNormalized = False, nrm_sizeBytes = 4\<rparr>"
  have n: "normalize_upload sample_sharp Photo (sample_env db) [0xff, 0xd8, 0xff, 0] ''image/jpeg'' = Inr n"
    by (simp add: normalize_upload_def normalizePodPhoto_def normalize_photo_def sample_env_def sample_sharp_def or_zero_def
        compliant_photo_def MAX_DECODED_PIXELS_def MAX_PHOTO_DIMENSION_def n_def)
  have k: "length (object_key (''a'' @ image_ext ''image/jpeg'') 0) \<le> 255"
    by (simp add: object_key_def image_ext_def year_of_def month_of_def epoch_month show_int_def pad2_def
        length_show_1970)
  have m: "nrm_mimeType n = ''image/jpeg'' \<or> nrm_mimeType n = ''image/png''" "CHR ''/'' \<notin> set (fe_fileUuid (sample_env db))"
    by (simp_all add: n_def sample_env_def)
  have d: "(\<lambda>_. None)(p := None) = (\<lambda>_. None)" for p :: path by (rule fun_upd_idem) simp
  have st: "store_file [] (\<lambda>_. ''h'') n orig ''du'' (sample_env db) sample_files =
     (if db then (Inr (described (\<lambda>_. ''h'') [0xff, 0xd8, 0xff, 0] ''image/jpeg'' ''du'' (sample_env db)),
        sample_files\<lparr>fw_disk := [upload_path [] ''image/jpeg'' (sample_env db) \<mapsto> [0xff, 0xd8, 0xff, 0]],
          fw_files := [described (\<lambda>_. ''h'') [0xff, 0xd8, 0xff, 0] ''image/jpeg'' ''du'' (sample_env db)]\<rparr>)
      else (fail_with Internal [], sample_files))" for orig
    using k unfolding store_file_eq[OF m] by (simp add: file_sample_defs create_record_def n_def Let_def d)
  have "uploadFile [] (\<lambda>_. ''h'') sample_sharp driver_user sample_upload (sample_env db) sample_files =
      store_file [] (\<lambda>_. ''h'') n ''upload.jpg'' ''du'' (sample_env db) sample_files"
    by (simp add: uploadFile_def saveFileRecord_def v n max_size_def roles_guard_def sample_upload_def driver_user_def
        sample_principal_def)
  then show ?thesis using st by simp
qed


definition one_upload :: "file_request list" where
  "one_upload = [Upload driver_user sample_upload (sample_env True)]"

lemma fresh_one: "fresh_names one_upload"
  by (simp add: fresh_names_def one_upload_def sample_env_def)

lemma sample_run:
  "fw_files (file_run [] (\<lambda>_. ''h'') sample_sharp one_upload sample_files) =
     [described (\<lambda>_. ''h'') [0xff, 0xd8, 0xff, 0] ''image/jpeg'' ''du'' (sample_env True)]"
  by (simp add: file_run_def one_upload_def sample_upload_result)

theorem stored_files_described_witness:
  "\<exists>b. getFileBuffer [] (fil_objectKey (described (\<lambda>_. ''h'') [0xff, 0xd8, 0xff, 0] ''image/jpeg'' ''du'' (sample_env True)))
     (fw_disk (file_run [] (\<lambda>_. ''h'') sample_sharp one_upload sample_files)) = Inr b \<and>
     canonical_file sample_sharp ''image/jpeg'' b \<and> length b = 4"
proof -
  have "fw_files sample_files = []" by (simp add: sample_files_def)
  from stored_files_described[OF honest_sample fresh_one this, of "described (\<lambda>_. ''h'') [0xff, 0xd8, 0xff, 0] ''image/jpeg'' ''du''
      (sample_env True)" "[]" "\<lambda>_. ''h''"] sample_run
  show ?thesis by (auto simp: described_def)
qed

theorem uploads_read_back_witness:
  "\<exists>n. downloadFile [] driver_user ''f1'' (snd (uploadFile [] (\<lambda>_. ''h'') sample_sharp driver_user sample_upload
      (sample_env True) sample_files)) = Inr n"
proof -
  have u: "uploadFile [] (\<lambda>_. ''h'') sample_sharp driver_user sample_upload (sample_env True) sample_files =
      (Inr (described (\<lambda>_. ''h'') [0xff, 0xd8, 0xff, 0] ''image/jpeg'' ''du'' (sample_env True)),
       sample_files\<lparr>fw_disk := [upload_path [] ''image/jpeg'' (sample_env True) \<mapsto> [0xff, 0xd8, 0xff, 0]],
          fw_files := [described (\<lambda>_. ''h'') [0xff, 0xd8, 0xff, 0] ''image/jpeg'' ''du'' (sample_env True)]\<rparr>)"
    by (simp add: sample_upload_result)
  have r: "prn_role driver_user \<in> {''DRIVER'', ''OWNER'', ''ADMIN'', ''SUPER_ADMIN''}"
    by (simp add: driver_user_def sample_principal_def)
  have e: "file_run [] (\<lambda>_. ''h'') sample_sharp [] x = x" for x by (simp add: file_run_def)
  have i: "fil_id (described (\<lambda>_. ''h'') [0xff, 0xd8, 0xff, 0] ''image/jpeg'' ''du'' (sample_env True)) = ''f1''"
    by (simp add: described_def sample_env_def)
  from uploads_read_back[OF u fresh_one[unfolded one_upload_def] refl r] show ?thesis
    unfolding e i u snd_conv by (metis (no_types, lifting))
qed

end
