(* ===== verification/Notifications.thy ===== *)
theory Notifications
  imports Chat
begin

text \<open>
  Push notifications: \<open>notification.service.ts\<close>, the FCM provider and the controller.  The answer of the FCM
  server is a parameter.  Sending stores the notification, asks the server, and then updates the tables;
  \<open>send_create\<close> is the part up to the request, \<open>send_finish\<close> the part from its answer on.
\<close>

section \<open>State\<close>

datatype notification_status = NTF_QUEUED | NTF_SENT | NTF_FAILED | NTF_READ

record notification =
  ntf_id :: uuid
  ntf_userId :: uuid
  ntf_type :: string
  ntf_title :: string
  ntf_body :: string
  ntf_payloadJson :: json
  ntf_status :: notification_status
  ntf_createdAt :: timestamp

record note_world =
  nw_auth :: auth_world
  nw_notifications :: "notification list"

section \<open>The provider\<close>

text \<open>
  The answer: \<open>fetch\<close> throws, the status is not ok, or the body (\<open>None\<close>: \<open>response.json()\<close> throws).  A token
  of the result is \<open>None\<close> where the code reads past the end of the token list.
\<close>

datatype fcm_response = Fetch_throws | Not_ok | Body "json option"

record push_result =
  psr_sentCount :: json
  psr_failedCount :: json
  psr_invalidTokens :: "string option list"

definition all_sent :: "string list \<Rightarrow> push_result" where
  "all_sent tokens = \<lparr>psr_sentCount = JNum (of_nat (length tokens)), psr_failedCount = JNum 0, psr_invalidTokens = []\<rparr>"

definition rejected_token :: "json \<Rightarrow> bool" where
  "rejected_token res \<longleftrightarrow>
     jget ''error'' res = Some (JStr ''NotRegistered'') \<or> jget ''error'' res = Some (JStr ''InvalidRegistration'')"

definition token_at :: "string list \<Rightarrow> nat \<Rightarrow> string option" where
  "token_at tokens i = (if i < length tokens then Some (tokens ! i) else None)"

text \<open>The loop over the results; \<open>None\<close>: an entry is \<open>null\<close>, and reading its \<open>error\<close> throws.\<close>

definition invalid_tokens :: "string list \<Rightarrow> json list \<Rightarrow> string option list option" where
  "invalid_tokens tokens results =
     (if JNull \<in> set results then None
      else Some (map (\<lambda>(res, i). token_at tokens i)
             (filter (\<lambda>(res, i). rejected_token res) (zip results [0..<length results]))))"

definition or_count :: "json option \<Rightarrow> int \<Rightarrow> json" where
  "or_count x n = (case jor x None of Some j \<Rightarrow> j | None \<Rightarrow> JNum (of_int n))"

definition read_answer :: "string list \<Rightarrow> json \<Rightarrow> push_result option" where
  "read_answer tokens data =
     (if data = JNull then None
      else
        case (case jget ''results'' data of Some (JList rs) \<Rightarrow> invalid_tokens tokens rs | _ \<Rightarrow> Some []) of
          None \<Rightarrow> None
        | Some invalid \<Rightarrow>
            Some \<lparr>psr_sentCount = or_count (jget ''success'' data) (int (length tokens) - int (length invalid)),
                  psr_failedCount = or_count (jget ''failure'' data) (int (length invalid)),
                  psr_invalidTokens = invalid\<rparr>)"

text \<open>Everything that goes wrong ends in the fallback, which reports every token as sent.\<close>

definition sendPushNotification :: "string option \<Rightarrow> fcm_response \<Rightarrow> string list \<Rightarrow> push_result" where
  "sendPushNotification fcmServerKey answer tokens =
     (if tokens = [] then \<lparr>psr_sentCount = JNum 0, psr_failedCount = JNum 0, psr_invalidTokens = []\<rparr>
      else if \<not> truthy fcmServerKey then all_sent tokens
      else case answer of
             Body (Some data) \<Rightarrow>
               (case read_answer tokens data of None \<Rightarrow> all_sent tokens | Some r \<Rightarrow> r)
           | _ \<Rightarrow> all_sent tokens)"

section \<open>Push tokens\<close>

record push_token_dto =
  ptd_deviceId :: uuid
  ptd_pushToken :: string

definition valid_push_token :: "push_token_dto \<Rightarrow> bool" where
  "valid_push_token dto \<longleftrightarrow> ptd_deviceId dto \<noteq> [] \<and> ptd_pushToken dto \<noteq> []"

definition registerPushToken :: "push_token_dto \<Rightarrow> uuid \<Rightarrow> note_world \<Rightarrow> (uuid, note_world) outcome" where
  "registerPushToken dto actorUserId w =
     (case find_row dvc_id (ptd_deviceId dto) (aw_devices (nw_auth w)) of
        None \<Rightarrow> (fail_with NotFound ''DEVICE_NOT_FOUND'', w)
      | Some device \<Rightarrow>
          if dvc_userId device \<noteq> actorUserId then (fail_with Forbidden ''DEVICE_OWNERSHIP_REQUIRED'', w)
          else
            let a = (nw_auth w)\<lparr>aw_devices := update_row dvc_id (ptd_deviceId dto)
                      (\<lambda>d. d\<lparr>dvc_pushToken := Some (ptd_pushToken dto), dvc_status := DEV_ACTIVE\<rparr>)
                      (aw_devices (nw_auth w))\<rparr>
            in (Inr (ptd_deviceId dto),
                w\<lparr>nw_auth := log_audit (success_audit actorUserId ''PUSH_TOKEN_REGISTERED'' ''DEVICE''
                     (ptd_deviceId dto) JNull) a\<rparr>))"

section \<open>Sending\<close>

text \<open>The insert fails on an overflow of a column.\<close>

definition new_notification ::
  "uuid \<Rightarrow> string \<Rightarrow> string \<Rightarrow> string \<Rightarrow> json \<Rightarrow> uuid \<Rightarrow> timestamp \<Rightarrow> note_world \<Rightarrow> notification option" where
  "new_notification userId type title body payload newId now w =
     (if 50 < length type \<or> 255 < length title \<or> find_row ntf_id newId (nw_notifications w) \<noteq> None \<or>
         find_row usr_id userId (aw_users (nw_auth w)) = None
      then None
      else Some \<lparr>ntf_id = newId, ntf_userId = userId, ntf_type = type, ntf_title = title, ntf_body = body,
             ntf_payloadJson = payload, ntf_status = NTF_QUEUED, ntf_createdAt = now\<rparr>)"

definition push_tokens :: "uuid \<Rightarrow> note_world \<Rightarrow> string list" where
  "push_tokens userId w =
     filter (\<lambda>t. 0 < length t)
       (List.map_filter dvc_pushToken
         (filter (\<lambda>d. dvc_userId d = userId \<and> dvc_status d = DEV_ACTIVE) (aw_devices (nw_auth w))))"

definition send_create ::
  "uuid \<Rightarrow> string \<Rightarrow> string \<Rightarrow> string \<Rightarrow> json \<Rightarrow> uuid \<Rightarrow> timestamp \<Rightarrow> note_world \<Rightarrow>
   (notification \<times> string list, note_world) outcome" where
  "send_create targetUserId type title body payload newId now w =
     (case new_notification targetUserId type title body payload newId now w of
        None \<Rightarrow> (fail_with Internal [], w)
      | Some n \<Rightarrow> (Inr (n, push_tokens targetUserId w), w\<lparr>nw_notifications := nw_notifications w @ [n]\<rparr>))"

definition clear_token :: "device \<Rightarrow> device" where
  "clear_token d = d\<lparr>dvc_pushToken := None\<rparr>"

text \<open>A list with \<open>undefined\<close> in it is refused by Prisma; an update of a missing row throws.\<close>

definition clear_tokens :: "string option list \<Rightarrow> note_world \<Rightarrow> note_world" where
  "clear_tokens invalid w =
     (if invalid = [] then w
      else w\<lparr>nw_auth := (nw_auth w)\<lparr>aw_devices :=
             update_where (\<lambda>d. dvc_pushToken d \<noteq> None \<and> dvc_pushToken d \<in> set invalid) clear_token
               (aw_devices (nw_auth w))\<rparr>\<rparr>)"

definition with_status :: "notification_status \<Rightarrow> notification \<Rightarrow> notification" where
  "with_status st n = n\<lparr>ntf_status := st\<rparr>"

definition send_finish :: "uuid \<Rightarrow> push_result \<Rightarrow> note_world \<Rightarrow> (notification, note_world) outcome" where
  "send_finish notifId result w =
     (if None \<in> set (psr_invalidTokens result) then (fail_with Internal [], w)
      else
        let w1 = clear_tokens (psr_invalidTokens result) w in
        case find_row ntf_id notifId (nw_notifications w1) of
          None \<Rightarrow> (fail_with Internal [], w1)
        | Some n \<Rightarrow>
            (Inr (with_status NTF_SENT n),
             w1\<lparr>nw_notifications := update_row ntf_id notifId (with_status NTF_SENT) (nw_notifications w1)\<rparr>))"

definition sendOperationalNotification ::
  "string option \<Rightarrow> fcm_response \<Rightarrow> uuid \<Rightarrow> string \<Rightarrow> string \<Rightarrow> string \<Rightarrow> json \<Rightarrow> uuid \<Rightarrow> timestamp \<Rightarrow> note_world \<Rightarrow>
   (notification, note_world) outcome" where
  "sendOperationalNotification fcmServerKey answer targetUserId type title body payload newId now w =
     (case send_create targetUserId type title body payload newId now w of
        (Inl e, w1) \<Rightarrow> (Inl e, w1)
      | (Inr (n, tokens), w1) \<Rightarrow>
          if tokens = [] then (Inr n, w1)
          else send_finish (ntf_id n) (sendPushNotification fcmServerKey answer tokens) w1)"

section \<open>Reading\<close>

definition valid_notification_query :: "int option \<Rightarrow> int option \<Rightarrow> bool" where
  "valid_notification_query limit offset \<longleftrightarrow>
     (case limit of None \<Rightarrow> True | Some l \<Rightarrow> 1 \<le> l \<and> l \<le> 100) \<and> (case offset of None \<Rightarrow> True | Some k \<Rightarrow> 0 \<le> k)"

record notification_page =
  npg_notifications :: "notification list"
  npg_limit :: nat
  npg_offset :: nat
  npg_total :: nat

definition or_default :: "int option \<Rightarrow> nat \<Rightarrow> nat" where
  "or_default x n = (case x of None \<Rightarrow> n | Some i \<Rightarrow> if i = 0 then n else nat i)"

definition notifications_of :: "uuid \<Rightarrow> note_world \<Rightarrow> notification list" where
  "notifications_of userId w = filter (\<lambda>n. ntf_userId n = userId) (nw_notifications w)"

definition getUserNotifications :: "uuid \<Rightarrow> int option \<Rightarrow> int option \<Rightarrow> note_world \<Rightarrow> notification_page" where
  "getUserNotifications actorUserId limit offset w =
     (let l = or_default limit 20; k = or_default offset 0; own = notifications_of actorUserId w in
      \<lparr>npg_notifications = take l (drop k (sort_key (\<lambda>n. - ntf_createdAt n) own)), npg_limit = l, npg_offset = k,
       npg_total = length own\<rparr>)"

definition markAsRead :: "uuid \<Rightarrow> uuid \<Rightarrow> note_world \<Rightarrow> (notification, note_world) outcome" where
  "markAsRead notificationId actorUserId w =
     (case find_row ntf_id notificationId (nw_notifications w) of
        None \<Rightarrow> (fail_with NotFound ''NOTIFICATION_NOT_FOUND'', w)
      | Some n \<Rightarrow>
          if ntf_userId n \<noteq> actorUserId then (fail_with Forbidden ''RESOURCE_FORBIDDEN'', w)
          else (Inr (with_status NTF_READ n),
                w\<lparr>nw_notifications := update_row ntf_id notificationId (with_status NTF_READ) (nw_notifications w)\<rparr>))"

section \<open>The endpoints\<close>

definition every_role :: "string list" where
  "every_role = [''ADMIN'', ''SUPER_ADMIN'', ''OWNER'', ''DRIVER'']"

definition post_push_token :: "principal \<Rightarrow> push_token_dto \<Rightarrow> note_world \<Rightarrow> (uuid, note_world) outcome" where
  "post_push_token user dto w =
     (case roles_guard (Some every_role) (Some user) of
        Inl e \<Rightarrow> (Inl e, w)
      | Inr _ \<Rightarrow> if \<not> valid_push_token dto then (fail_with BadRequest [], w) else registerPushToken dto (prn_id user) w)"

definition get_notifications :: "principal \<Rightarrow> int option \<Rightarrow> int option \<Rightarrow> note_world \<Rightarrow> api_error + notification_page" where
  "get_notifications user limit offset w =
     (case roles_guard (Some every_role) (Some user) of
        Inl e \<Rightarrow> Inl e
      | Inr _ \<Rightarrow> if \<not> valid_notification_query limit offset then fail_with BadRequest []
          else Inr (getUserNotifications (prn_id user) limit offset w))"

definition patch_notification_read :: "principal \<Rightarrow> uuid \<Rightarrow> note_world \<Rightarrow> (notification, note_world) outcome" where
  "patch_notification_read user i w =
     (case roles_guard (Some every_role) (Some user) of
        Inl e \<Rightarrow> (Inl e, w)
      | Inr _ \<Rightarrow> markAsRead i (prn_id user) w)"

end
