(* ===== verification/NoteProps.thy ===== *)
theory NoteProps
  imports Notifications EmergencyProps
begin

text \<open>
  Properties of push notifications: whose requests touch whose notifications and devices, what becomes of
  tokens that the server rejects, and what a failed dispatch looks like.
\<close>

section \<open>Requests\<close>

text \<open>A finish may come at any time after its creation, and with any answer.\<close>

datatype note_request =
    Register_token principal push_token_dto
  | Send uuid string string string json uuid timestamp
  | Finish_send uuid push_result
  | Mark_read principal uuid

fun note_exec :: "note_request \<Rightarrow> note_world \<Rightarrow> note_world" where
  "note_exec (Register_token user dto) w = snd (post_push_token user dto w)"
| "note_exec (Send userId ty title body payload i now) w = snd (send_create userId ty title body payload i now w)"
| "note_exec (Finish_send i result) w = snd (send_finish i result w)"
| "note_exec (Mark_read user i) w = snd (patch_notification_read user i w)"

text \<open>Requests that are neither by the user nor about the user.\<close>

fun foreign :: "uuid \<Rightarrow> note_request \<Rightarrow> note_world \<Rightarrow> bool" where
  "foreign u (Register_token user dto) w = (prn_id user \<noteq> u)"
| "foreign u (Send userId ty title body payload i now) w = (userId \<noteq> u)"
| "foreign u (Finish_send i result) w = (\<forall>n \<in> set_option (find_row ntf_id i (nw_notifications w)). ntf_userId n \<noteq> u)"
| "foreign u (Mark_read user i) w = (prn_id user \<noteq> u)"

fun foreign_run :: "uuid \<Rightarrow> note_request list \<Rightarrow> note_world \<Rightarrow> bool" where
  "foreign_run u [] w = True"
| "foreign_run u (q # qs) w = (foreign u q w \<and> foreign_run u qs (note_exec q w))"

definition note_run :: "note_request list \<Rightarrow> note_world \<Rightarrow> note_world" where
  "note_run qs w = fold note_exec qs w"

definition note_keys :: "note_world \<Rightarrow> bool" where
  "note_keys w \<longleftrightarrow> unique_keys ntf_id (nw_notifications w) \<and> unique_keys dvc_id (aw_devices (nw_auth w))"

text \<open>The devices of a user, as they were or with the token cleared.\<close>

definition device_kept :: "device \<Rightarrow> device \<Rightarrow> bool" where
  "device_kept d d' \<longleftrightarrow> d' = d \<or> d' = clear_token d"

definition own_devices :: "uuid \<Rightarrow> note_world \<Rightarrow> device list" where
  "own_devices u w = filter (\<lambda>d. dvc_userId d = u) (aw_devices (nw_auth w))"

lemma with_status_frame [simp]:
  "ntf_id (with_status st n) = ntf_id n" "ntf_userId (with_status st n) = ntf_userId n"
  by (simp_all add: with_status_def)

lemma filter_update_row:
  assumes "unique_keys key rows" and "find_row key k rows = Some r" and "\<not> P r" and "\<And>x. P (f x) = P x"
  shows "filter P (update_row key k f rows) = filter P rows"
proof -
  have "key x = k \<Longrightarrow> x \<in> set rows \<Longrightarrow> \<not> P x" for x
    using assms(1-3) by (metis find_row_eq_iff option.inject)
  then have "\<forall>x \<in> set rows. filter P [if key x = k then f x else x] = filter P [x]"
    using assms(4) by auto
  then show ?thesis
    by (induction rows) (auto simp: update_row_def update_where_def split: if_splits)
qed

lemma clear_frame [simp]: "dvc_userId (clear_token d) = dvc_userId d" "dvc_id (clear_token d) = dvc_id d"
  by (simp_all add: clear_token_def)

lemma own_devices_cleared:
  "list_all2 device_kept (filter (\<lambda>d. dvc_userId d = u) ds)
     (filter (\<lambda>d. dvc_userId d = u) (update_where P clear_token ds))"
  by (induction ds) (auto simp: update_where_def device_kept_def)

lemma device_kept_refl [simp]: "list_all2 device_kept ds ds"
  by (simp add: device_kept_def list_all2_refl)

lemma device_kept_trans: "device_kept a b \<Longrightarrow> device_kept b c \<Longrightarrow> device_kept a c"
  by (auto simp: device_kept_def clear_token_def)

lemma devices_kept_trans:
  assumes "list_all2 device_kept a b" and "list_all2 device_kept b c"
  shows "list_all2 device_kept a c"
  using list_all2_trans[of device_kept device_kept device_kept, OF _ assms] device_kept_trans by blast

lemma foreign_step:
  assumes "note_keys w" and "foreign u q w"
  shows "note_keys (note_exec q w) \<and> notifications_of u (note_exec q w) = notifications_of u w \<and>
    list_all2 device_kept (own_devices u w) (own_devices u (note_exec q w))"
proof (cases q)
  case (Register_token user dto)
  show ?thesis
  proof (cases "find_row dvc_id (ptd_deviceId dto) (aw_devices (nw_auth w))")
    case None
    with Register_token assms show ?thesis
      by (auto simp: post_push_token_def registerPushToken_def split: sum.split)
  next
    case (Some d)
    then have "dvc_userId d \<noteq> u \<Longrightarrow> filter (\<lambda>d. dvc_userId d = u) (update_row dvc_id (ptd_deviceId dto)
        (\<lambda>d. d\<lparr>dvc_pushToken := t, dvc_status := DEV_ACTIVE\<rparr>) (aw_devices (nw_auth w))) = own_devices u w" for t
      unfolding own_devices_def using assms(1)
      by (intro filter_update_row[where r = d]) (auto simp: note_keys_def)
    with Some Register_token assms show ?thesis
      by (auto simp: post_push_token_def registerPushToken_def Let_def note_keys_def notifications_of_def
          map_key_update_row own_devices_def split: sum.split)
  qed
next
  case (Send userId ty title body payload i now)
  with assms show ?thesis
    by (auto simp: send_create_def new_notification_def note_keys_def notifications_of_def own_devices_def
        find_row_None_iff_keys split: option.split)
next
  case (Finish_send i result)
  have e: "nw_notifications (clear_tokens ts w) = nw_notifications w"
    "note_keys (clear_tokens ts w) \<longleftrightarrow> note_keys w"
    "list_all2 device_kept (own_devices u w) (own_devices u (clear_tokens ts w))" for ts
    by (simp_all add: clear_tokens_def note_keys_def own_devices_def map_key_update_where own_devices_cleared)
  have "notifications_of u (w'\<lparr>nw_notifications := update_row ntf_id i (with_status st) (nw_notifications w)\<rparr>) =
      notifications_of u w" if "find_row ntf_id i (nw_notifications w) = Some n" for n w' st
    unfolding notifications_of_def using that assms Finish_send
    by (simp add: note_keys_def filter_update_row)
  with e Finish_send assms show ?thesis
    by (auto simp: send_finish_def Let_def notifications_of_def note_keys_def own_devices_def map_key_update_row
        split: option.split)
next
  case (Mark_read user i)
  have "notifications_of u (w\<lparr>nw_notifications := update_row ntf_id i (with_status st) (nw_notifications w)\<rparr>) =
      notifications_of u w" if "find_row ntf_id i (nw_notifications w) = Some n" "ntf_userId n \<noteq> u" for n st
    unfolding notifications_of_def using that assms
    by (simp add: note_keys_def filter_update_row)
  with Mark_read assms show ?thesis
    by (auto simp: patch_notification_read_def markAsRead_def note_keys_def own_devices_def map_key_update_row
        split: sum.split option.split)
qed

text \<open>
  C40. Requests of others, whatever they are and whatever the push server answers, leave the notifications that
  a user reads as they are, and of the user's devices can only clear the push token.
\<close>

theorem notifications_stay_apart:
  assumes "note_keys w" and "foreign_run u qs w"
  shows "getUserNotifications u limit offset (note_run qs w) = getUserNotifications u limit offset w \<and>
    list_all2 device_kept (own_devices u w) (own_devices u (note_run qs w))"
proof -
  have "notifications_of u (note_run qs w) = notifications_of u w \<and>
      list_all2 device_kept (own_devices u w) (own_devices u (note_run qs w))"
    using assms
  proof (induction qs arbitrary: w)
    case Nil
    then show ?case by (simp add: note_run_def)
  next
    case (Cons q qs)
    from Cons.prems foreign_step[of w u q] have k: "note_keys (note_exec q w)" "foreign_run u qs (note_exec q w)"
      "notifications_of u (note_exec q w) = notifications_of u w"
      "list_all2 device_kept (own_devices u w) (own_devices u (note_exec q w))"
      by auto
    with Cons.IH[OF k(1,2)] have "notifications_of u (note_run qs (note_exec q w)) = notifications_of u w"
      "list_all2 device_kept (own_devices u w) (own_devices u (note_exec q w))"
      "list_all2 device_kept (own_devices u (note_exec q w)) (own_devices u (note_run qs (note_exec q w)))"
      by auto
    moreover from this(2,3) have "list_all2 device_kept (own_devices u w) (own_devices u (note_run qs (note_exec q w)))"
      by (rule devices_kept_trans)
    ultimately show ?case by (simp add: note_run_def)
  qed
  then show ?thesis by (simp add: getUserNotifications_def Let_def)
qed

text \<open>Tokens that the server rejected are gone from every device.\<close>

lemma rejected_tokens_gone:
  assumes "send_finish i r w = (res, w')" and "None \<notin> set (psr_invalidTokens r)" and "Some t \<in> set (psr_invalidTokens r)"
    and "d \<in> set (aw_devices (nw_auth w'))"
  shows "dvc_pushToken d \<noteq> Some t"
proof -
  have "aw_devices (nw_auth w') = update_where (\<lambda>d. dvc_pushToken d \<noteq> None \<and> dvc_pushToken d \<in> set (psr_invalidTokens r))
      clear_token (aw_devices (nw_auth w))"
    using assms(1-3) by (auto simp: send_finish_def clear_tokens_def Let_def split: option.splits if_splits)
  with assms(3,4) show ?thesis by (auto simp: set_update_where clear_token_def)
qed

text \<open>
  A dispatch that failed in any way is recorded as sent: the status FAILED is never stored.
\<close>

lemma failed_dispatch_is_sent:
  assumes "send_create u ty title body payload i now w = (Inr (n, tokens), w1)" and "tokens \<noteq> []"
    and "answer = Fetch_throws \<or> answer = Not_ok"
  shows "fst (sendOperationalNotification key answer u ty title body payload i now w) = Inr (with_status NTF_SENT n)"
proof -
  have n: "w1 = w\<lparr>nw_notifications := nw_notifications w @ [n]\<rparr>" "find_row ntf_id (ntf_id n) (nw_notifications w) = None"
    using assms(1) by (auto simp: send_create_def new_notification_def split: option.splits if_splits)
  have "psr_invalidTokens (sendPushNotification key answer tokens) = []"
    using assms(3) by (auto simp: sendPushNotification_def all_sent_def)
  with assms(1,2) n show ?thesis
    by (simp add: sendOperationalNotification_def send_finish_def clear_tokens_def find_row_append)
qed

text \<open>Registering a push token makes a revoked device active again.\<close>

lemma push_token_reactivates:
  assumes "find_row dvc_id (ptd_deviceId dto) (aw_devices (nw_auth w)) = Some d" and "dvc_userId d = u"
  shows "\<exists>d'. find_row dvc_id (ptd_deviceId dto) (aw_devices (nw_auth (snd (registerPushToken dto u w)))) = Some d' \<and>
    dvc_status d' = DEV_ACTIVE"
  using assms by (simp add: registerPushToken_def Let_def find_row_update_row)

text \<open>One notification, and requests of a stranger and of the push server.\<close>

definition sample_note :: note_world where
  "sample_note = \<lparr>nw_auth = sample_auth ''DRIVER'',
     nw_notifications = [\<lparr>ntf_id = ''n'', ntf_userId = ''u'', ntf_type = ''T'', ntf_title = ''t'', ntf_body = ''b'',
       ntf_payloadJson = JObj [], ntf_status = NTF_QUEUED, ntf_createdAt = 1\<rparr>]\<rparr>"

definition stranger :: principal where
  "stranger = sample_principal ''x'' ''OWNER'' None"

definition sample_note_requests :: "note_request list" where
  "sample_note_requests =
     [Mark_read stranger ''n'', Register_token stranger \<lparr>ptd_deviceId = ''d'', ptd_pushToken = ''p''\<rparr>,
      Finish_send ''m'' \<lparr>psr_sentCount = JNum 0, psr_failedCount = JNum 1, psr_invalidTokens = [Some ''p'']\<rparr>]"

theorem notifications_stay_apart_witness:
  "npg_total (getUserNotifications ''u'' None None (note_run sample_note_requests sample_note)) = 1 \<and>
   list_all2 device_kept (own_devices ''u'' sample_note) (own_devices ''u'' (note_run sample_note_requests sample_note))"
proof -
  have k: "note_keys sample_note"
    by (simp add: note_keys_def sample_note_def sample_auth_def)
  have m: "snd (patch_notification_read stranger ''n'' sample_note) = sample_note"
    by (simp add: patch_notification_read_def roles_guard_def every_role_def stranger_def sample_principal_def
        markAsRead_def sample_note_def)
  have r: "snd (post_push_token stranger \<lparr>ptd_deviceId = ''d'', ptd_pushToken = ''p''\<rparr> sample_note) = sample_note"
    by (simp add: post_push_token_def registerPushToken_def valid_push_token_def roles_guard_def every_role_def
        stranger_def sample_principal_def sample_note_def sample_auth_def sample_device_def)
  have "foreign_run ''u'' sample_note_requests sample_note"
    using m r by (simp add: sample_note_requests_def stranger_def sample_principal_def)
       (simp add: sample_note_def)
  from notifications_stay_apart[OF k this, of None None] show ?thesis
    by (simp add: getUserNotifications_def Let_def notifications_of_def sample_note_def)
qed

end
