(* ===== verification/Fleet.thy ===== *)
theory Fleet
  imports Emergencies
begin

text \<open>
  The fleet view and the location history: \<open>fleet.service.ts\<close>, its query and its controller.  The view reads
  the cache of \<open>Tracking\<close> first and the table of points when the cache has nothing.
\<close>

section \<open>State\<close>

record vehicle_assignment =
  vas_driverId :: uuid
  vas_vehicleId :: uuid
  vas_active :: bool

record fleet_vehicle =
  veh_id :: uuid
  veh_plateNumber :: string

record fleet_world =
  flt_track :: track_world
  flt_drivers :: "driver_profile list"
  flt_assignments :: "vehicle_assignment list"
  flt_vehicles :: "fleet_vehicle list"

section \<open>The live view\<close>

record fleet_item =
  fli_driverId :: uuid
  fli_driverName :: string
  fli_employeeCode :: string
  fli_operationalStatus :: operational_status
  fli_activeVehicleId :: "uuid option"
  fli_plateNumber :: "string option"
  fli_currentDeliveryId :: json
  fli_location :: "json option"

text \<open>The \<open>where\<close> clause.\<close>

definition fleet_visible :: "string \<Rightarrow> uuid option \<Rightarrow> track_world \<Rightarrow> driver_profile \<Rightarrow> bool" where
  "fleet_visible actorRole actorOrgId w d \<longleftrightarrow>
     (case find_row usr_id (drv_userId d) (tk_users w) of None \<Rightarrow> False | Some u \<Rightarrow> usr_status u = ACTIVE) \<and>
     drp_operationalStatus d \<in> {AVAILABLE, ON_DELIVERY, IN_EMERGENCY} \<and>
     (actorRole \<noteq> ''SUPER_ADMIN'' \<and> truthy actorOrgId \<longrightarrow> drv_organizationId d = actorOrgId)"

definition active_assignment :: "uuid \<Rightarrow> fleet_world \<Rightarrow> vehicle_assignment option" where
  "active_assignment driverId w = List.find (\<lambda>a. vas_driverId a = driverId \<and> vas_active a) (flt_assignments w)"

definition active_delivery :: "uuid \<Rightarrow> fleet_world \<Rightarrow> delivery option" where
  "active_delivery driverId w =
     List.find (\<lambda>d. dlv_driverId d = Some driverId \<and> dlv_status d \<in> {ASSIGNED, ACCEPTED, EN_ROUTE})
       (cm_deliveries (tk_comm (flt_track w)))"

text \<open>The newest valid point of the table, in the form of the cache.\<close>

definition valid_points :: "uuid \<Rightarrow> track_world \<Rightarrow> location_point list" where
  "valid_points driverId w =
     sort_key (\<lambda>p. - lpt_recordedAt p)
       (filter (\<lambda>p. lpt_driverId p = driverId \<and> lpt_status p = ''VALID'') (tk_points w))"

definition point_json :: "uuid \<Rightarrow> uuid option \<Rightarrow> location_point \<Rightarrow> json" where
  "point_json driverId deliveryId p =
     cached_json \<lparr>cl_driverId = driverId, cl_deliveryId = deliveryId, cl_latitude = lpt_latitude p,
       cl_longitude = lpt_longitude p, cl_accuracyM = lpt_accuracyM p, cl_speedMps = lpt_speedMps p,
       cl_headingDeg = lpt_headingDeg p, cl_recordedAt = Some (lpt_recordedAt p), cl_receivedAt = lpt_receivedAt p\<rparr>"

definition table_location :: "uuid \<Rightarrow> fleet_world \<Rightarrow> json option" where
  "table_location driverId w =
     (case valid_points driverId (flt_track w) of
        [] \<Rightarrow> None
      | p # _ \<Rightarrow> Some (point_json driverId (or_null (map_option dlv_id (active_delivery driverId w))) p))"

text \<open>Undefined properties do not appear in the response; speed and heading become \<open>null\<close>.\<close>

definition copied :: "string \<Rightarrow> json \<Rightarrow> (string \<times> json) list" where
  "copied k j = (case jget k j of None \<Rightarrow> [] | Some v \<Rightarrow> [(k, v)])"

definition copied_or_null :: "string \<Rightarrow> json \<Rightarrow> (string \<times> json) list" where
  "copied_or_null k j = [(k, case jget k j of None \<Rightarrow> JNull | Some v \<Rightarrow> v)]"

definition location_json :: "json \<Rightarrow> json" where
  "location_json j =
     JObj (copied ''latitude'' j @ copied ''longitude'' j @ copied ''accuracyM'' j @ copied_or_null ''speedMps'' j @
           copied_or_null ''headingDeg'' j @ copied ''recordedAt'' j @ copied ''receivedAt'' j)"

definition jnull_or :: "json option \<Rightarrow> json" where
  "jnull_or x = (if jtruthy x then the x else JNull)"

definition fleet_item_of :: "driver_profile \<Rightarrow> json option \<Rightarrow> fleet_world \<Rightarrow> fleet_item" where
  "fleet_item_of drv locData w =
     (let activeAssignment = active_assignment (drv_id drv) w;
          activeDelivery = active_delivery (drv_id drv) w
      in \<lparr>fli_driverId = drv_id drv, fli_driverName = drp_displayName drv, fli_employeeCode = drp_employeeCode drv,
          fli_operationalStatus = drp_operationalStatus drv,
          fli_activeVehicleId = (if truthy (drp_activeVehicleId drv) then drp_activeVehicleId drv
             else or_null (map_option vas_vehicleId activeAssignment)),
          fli_plateNumber = (case activeAssignment of None \<Rightarrow> None
             | Some a \<Rightarrow> or_null (map_option veh_plateNumber (find_row veh_id (vas_vehicleId a) (flt_vehicles w)))),
          fli_currentDeliveryId = jnull_or (jor (map_option (\<lambda>d. JStr (dlv_id d)) activeDelivery)
             (case locData of None \<Rightarrow> None | Some j \<Rightarrow> jget ''deliveryId'' j)),
          fli_location = map_option location_json locData\<rparr>)"

text \<open>A cached value that is falsy counts as a miss.\<close>

fun fleet_loop :: "driver_profile list \<Rightarrow> timestamp \<Rightarrow> fleet_world \<Rightarrow> redis \<Rightarrow> fleet_item list \<times> redis" where
  "fleet_loop [] now w rd = ([], rd)"
| "fleet_loop (drv # ds) now w rd =
     (let (cached, rd1) = getLatestLocation (drv_id drv) now rd;
          locData = (if jtruthy cached then cached else table_location (drv_id drv) w);
          (items, rd2) = fleet_loop ds now w rd1
      in (fleet_item_of drv locData w # items, rd2))"

definition getAllActiveDriverLocations ::
  "string \<Rightarrow> uuid option \<Rightarrow> timestamp \<Rightarrow> fleet_world \<Rightarrow> (fleet_item list, fleet_world) outcome" where
  "getAllActiveDriverLocations actorRole actorOrgId now w =
     (if actorRole = ''DRIVER'' then (fail_with Forbidden ''FLEET_ACCESS_DENIED'', w)
      else
        let activeDrivers = filter (fleet_visible actorRole actorOrgId (flt_track w)) (flt_drivers w);
            (items, rd) = fleet_loop activeDrivers now w (tk_redis (flt_track w))
        in (Inr items, w\<lparr>flt_track := with_redis rd (flt_track w)\<rparr>))"

section \<open>The history of a driver\<close>

text \<open>The dates of the query: the text is absent, or denotes a time, or denotes none.\<close>

datatype query_date = Absent | Invalid_date | At timestamp

record history_query =
  hq_from :: query_date
  hq_to :: query_date
  hq_limit :: "int option"
  hq_offset :: "int option"

definition valid_history_query :: "history_query \<Rightarrow> bool" where
  "valid_history_query q \<longleftrightarrow> hq_from q \<noteq> Absent \<and>
     (case hq_limit q of None \<Rightarrow> True | Some l \<Rightarrow> 1 \<le> l \<and> l \<le> 500) \<and>
     (case hq_offset q of None \<Rightarrow> True | Some k \<Rightarrow> 0 \<le> k)"

definition number_or :: "int option \<Rightarrow> nat \<Rightarrow> nat" where
  "number_or x n = (case x of None \<Rightarrow> n | Some i \<Rightarrow> if i = 0 then n else nat i)"

record location_history =
  lhs_driverId :: uuid
  lhs_points :: "location_point list"
  lhs_limit :: nat
  lhs_offset :: nat
  lhs_total :: nat

definition points_between :: "uuid \<Rightarrow> timestamp \<Rightarrow> timestamp \<Rightarrow> track_world \<Rightarrow> location_point list" where
  "points_between driverId fromDate toDate w =
     filter (\<lambda>p. fromDate \<le> lpt_recordedAt p \<and> lpt_recordedAt p \<le> toDate) (valid_points driverId w)"

text \<open>
  The formatting of a point keeps every column but the driver, with the empty delivery id as \<open>null\<close>.  The
  guards come before the table is read.
\<close>

definition history_range :: "history_query \<Rightarrow> timestamp \<Rightarrow> api_error + timestamp \<times> timestamp" where
  "history_range q now =
     (case hq_from q of
        At a \<Rightarrow>
          (case (case hq_to q of Absent \<Rightarrow> At now | x \<Rightarrow> x) of
             At b \<Rightarrow> if b < a then fail_with BadRequest ''INVALID_DATE_RANGE'' else Inr (a, b)
           | _ \<Rightarrow> fail_with BadRequest ''INVALID_DATE_RANGE'')
      | _ \<Rightarrow> fail_with BadRequest ''INVALID_DATE_RANGE'')"

definition getDriverLocationHistory ::
  "uuid \<Rightarrow> history_query \<Rightarrow> string \<Rightarrow> uuid option \<Rightarrow> timestamp \<Rightarrow> fleet_world \<Rightarrow> api_error + location_history" where
  "getDriverLocationHistory targetDriverId q actorRole actorDriverId now w =
     (case find_row drv_id targetDriverId (flt_drivers w) of
        None \<Rightarrow> fail_with NotFound ''DRIVER_NOT_FOUND''
      | Some _ \<Rightarrow>
          if actorRole = ''DRIVER'' \<and> (\<not> truthy actorDriverId \<or> actorDriverId \<noteq> Some targetDriverId)
          then fail_with Forbidden ''RESOURCE_FORBIDDEN''
          else case history_range q now of
                 Inl e \<Rightarrow> Inl e
               | Inr (a, b) \<Rightarrow>
                   let limit = number_or (hq_limit q) 100; offset = number_or (hq_offset q) 0;
                       ps = points_between targetDriverId a b (flt_track w)
                   in Inr \<lparr>lhs_driverId = targetDriverId,
                           lhs_points = map (\<lambda>p. p\<lparr>lpt_deliveryId := or_null (lpt_deliveryId p)\<rparr>) (take limit (drop offset ps)),
                           lhs_limit = limit, lhs_offset = offset, lhs_total = length ps\<rparr>)"

section \<open>The endpoints\<close>

definition getFleetLocations :: "principal \<Rightarrow> timestamp \<Rightarrow> fleet_world \<Rightarrow> (fleet_item list, fleet_world) outcome" where
  "getFleetLocations user now w =
     (case roles_guard (Some operator_roles) (Some user) of
        Inl e \<Rightarrow> (Inl e, w)
      | Inr _ \<Rightarrow> getAllActiveDriverLocations (prn_role user) (or_null (prn_organizationId user)) now w)"

definition getLocationHistory ::
  "principal \<Rightarrow> uuid \<Rightarrow> history_query \<Rightarrow> timestamp \<Rightarrow> fleet_world \<Rightarrow> api_error + location_history" where
  "getLocationHistory user driverId q now w =
     (case roles_guard (Some [''ADMIN'', ''SUPER_ADMIN'', ''OWNER'', ''DRIVER'']) (Some user) of
        Inl e \<Rightarrow> Inl e
      | Inr _ \<Rightarrow>
          if \<not> valid_history_query q then fail_with BadRequest []
          else getDriverLocationHistory driverId q (prn_role user) (or_null (prn_driverId user)) now w)"

end
