(* ===== verification/FleetProps.thy ===== *)
theory FleetProps
  imports Fleet EmergencyProps TrackProps
begin

text \<open>
  Properties of the fleet view: which drivers it lists and with which location, and who reads whose history.
\<close>

section \<open>The loop\<close>

lemma healthy_latest_get: "healthy rd \<Longrightarrow> snd (getLatestLocation d now rd) = rd"
  by (simp add: getLatestLocation_def healthy_get)

lemma fleet_loop_healthy:
  "healthy rd \<Longrightarrow> fleet_loop ds now w rd =
     (map (\<lambda>d. fleet_item_of d
        (let c = fst (getLatestLocation (drv_id d) now rd) in if jtruthy c then c else table_location (drv_id d) w) w) ds, rd)"
proof (induction ds)
  case Nil
  then show ?case by simp
next
  case (Cons d ds)
  obtain c where c: "getLatestLocation (drv_id d) now rd = (c, rd)"
    using healthy_latest_get[OF Cons.prems] by (metis prod.collapse)
  with Cons show ?case by (simp add: Let_def)
qed

text \<open>A location of the view that is the point \<open>p\<close>; the table has the coordinates rounded.\<close>

definition shows_coordinate :: "string \<Rightarrow> json \<Rightarrow> rat \<Rightarrow> bool" where
  "shows_coordinate k j x \<longleftrightarrow> (\<exists>v. jget k j = Some (JNum v) \<and> (v = x \<or> decimal 10 7 v = Some x))"

definition shows_point :: "json \<Rightarrow> location_point \<Rightarrow> bool" where
  "shows_point j p \<longleftrightarrow>
     shows_coordinate ''latitude'' j (lpt_latitude p) \<and> shows_coordinate ''longitude'' j (lpt_longitude p) \<and>
     jget ''recordedAt'' j = Some (JNum (of_int (lpt_recordedAt p))) \<and>
     jget ''receivedAt'' j = Some (JNum (of_int (lpt_receivedAt p)))"

lemma location_json_of_cached:
  "jget ''latitude'' (location_json (cached_json c)) = Some (JNum (cl_latitude c))"
  "jget ''longitude'' (location_json (cached_json c)) = Some (JNum (cl_longitude c))"
  "jget ''recordedAt'' (location_json (cached_json c)) = Some (jdate (cl_recordedAt c))"
  "jget ''receivedAt'' (location_json (cached_json c)) = Some (jdate (Some (cl_receivedAt c)))"
  by (simp_all add: location_json_def cached_json_def copied_def copied_or_null_def)

lemma caches_shown: "caches c p \<Longrightarrow> shows_point (location_json (cached_json c)) p"
  by (simp add: shows_point_def shows_coordinate_def location_json_of_cached caches_def jdate_def)

lemma point_shown: "shows_point (location_json (point_json d v p)) p"
  by (simp add: shows_point_def shows_coordinate_def point_json_def location_json_of_cached jdate_def)

section \<open>The cache and the table\<close>

lemma cached_is_newest:
  assumes "cache_ok t w" and "d \<noteq> []" and "fst (getLatestLocation d t (tk_redis w)) = Some j"
  shows "\<exists>c p. j = cached_json c \<and> caches c p \<and> newest_of p d w"
proof -
  have e: "entry_ok d w (rd_data (tk_redis w) (latest_key d))" and h: "healthy (tk_redis w)"
    using assms(1) by (simp_all add: cache_ok_def)
  have j: "parse_cached (live (tk_redis w) t (latest_key d)) = Some j"
    using assms(2,3) h by (simp add: getLatestLocation_def healthy_get)
  then obtain v x where v: "rd_data (tk_redis w) (latest_key d) = Some (v, x)" "parse_cached (Some v) = Some j"
    by (auto simp: live_def parse_cached_def split: option.splits if_splits)
  with e show ?thesis by (auto simp: entry_ok_def parse_cached_def)
qed

lemma sort_desc_hd:
  assumes "sort_key (\<lambda>x. - f x :: int) xs = y # ys" and "z \<in> set xs"
  shows "f z \<le> f y"
proof -
  have "sorted (map (\<lambda>x. - f x) (y # ys))"
    unfolding assms(1)[symmetric] by (rule sorted_sort_key)
  then have "\<forall>x \<in> set ys. f x \<le> f y" by simp
  moreover have "set (y # ys) = set xs" unfolding assms(1)[symmetric] by (rule set_sort)
  ultimately show ?thesis using assms(2) by auto
qed

definition newest_shown :: "json option \<Rightarrow> uuid \<Rightarrow> track_world \<Rightarrow> bool" where
  "newest_shown location d w \<longleftrightarrow>
     (case location of
        None \<Rightarrow> \<forall>q \<in> points_of d w. lpt_status q \<noteq> ''VALID''
      | Some j \<Rightarrow> \<exists>p \<in> points_of d w. shows_point j p \<and>
          (\<forall>q \<in> points_of d w. lpt_status q = ''VALID'' \<longrightarrow> lpt_recordedAt q \<le> lpt_recordedAt p))"

lemma set_valid_points: "set (valid_points d w) = {p \<in> points_of d w. lpt_status p = ''VALID''}"
  by (auto simp: valid_points_def points_of_def)

lemma table_newest: "newest_shown (map_option location_json (table_location d w)) d (flt_track w)"
proof (cases "valid_points d (flt_track w)")
  case Nil
  with set_valid_points[of d "flt_track w"] show ?thesis by (auto simp: newest_shown_def table_location_def)
next
  case (Cons p ps)
  with set_valid_points[of d "flt_track w"] have v: "p \<in> points_of d (flt_track w)" by auto
  have "lpt_recordedAt q \<le> lpt_recordedAt p" if "q \<in> points_of d (flt_track w)" "lpt_status q = ''VALID''" for q
    using sort_desc_hd[OF Cons[unfolded valid_points_def], of q] that by (simp add: points_of_def)
  with Cons v show ?thesis
    by (auto simp: newest_shown_def table_location_def intro!: bexI[of _ p] point_shown)
qed

lemma item_newest:
  assumes "cache_ok t (flt_track w)" and "d \<noteq> []"
  shows "newest_shown (map_option location_json
     (let c = fst (getLatestLocation d t (tk_redis (flt_track w))) in if jtruthy c then c else table_location d w)) d
     (flt_track w)"
proof (cases "jtruthy (fst (getLatestLocation d t (tk_redis (flt_track w))))")
  case True
  then obtain j where j: "fst (getLatestLocation d t (tk_redis (flt_track w))) = Some j"
    by (cases "fst (getLatestLocation d t (tk_redis (flt_track w)))") auto
  from cached_is_newest[OF assms j] obtain c p where "j = cached_json c" "caches c p" "newest_of p d (flt_track w)" by blast
  with True j show ?thesis by (auto simp: newest_shown_def newest_of_def intro!: bexI[of _ p] caches_shown)
next
  case False
  then show ?thesis using table_newest by simp
qed

section \<open>The view\<close>

lemma with_same_redis [simp]: "with_redis (tk_redis w) w = w"
  by (simp add: with_redis_def tk_redis_def)


text \<open>A driver on the road, and an operator who looks at the fleet after one point.\<close>

definition sample_fleet :: fleet_world where
  "sample_fleet =
     \<lparr>flt_track = snd (processTelemetry (sample_location 1 5) ''drv'' ''DRIVER'' 5 ''/v1/me/location'' True ''p'' 5 sample_track),
      flt_drivers = [sample_driver\<lparr>drv_userId := ''u''\<rparr>], flt_assignments = [], flt_vehicles = []\<rparr>"

lemma sample_fleet_users: "tk_users (flt_track sample_fleet) = [sample_user ''DRIVER'']"
  by (simp add: sample_fleet_def sample_track_defs Let_def floor_half save_record_def broadcast_location_def comm_emit_def)


section \<open>Histories\<close>

text \<open>
  A driver reads only the own history, and the pages of a range are all its valid points, the newest first.
\<close>

lemma history_of_others:
  assumes "prn_role user = ''DRIVER''" and "prn_driverId user \<noteq> Some d"
  shows "\<exists>e. getLocationHistory user d q now w = Inl e"
  using assms
  by (auto simp: getLocationHistory_def getDriverLocationHistory_def roles_guard_def or_null_def truthy_iff
      split: option.split sum.split)

lemma history_pages:
  assumes "find_row drv_id d (flt_drivers w) \<noteq> None" and "prn_role user \<in> set operator_roles" and "a \<le> b"
    and "1 \<le> L" and "L \<le> 500" and "length (points_between d a b (flt_track w)) \<le> n * L"
    and "list_all (\<lambda>p. lpt_deliveryId p \<noteq> Some []) (points_between d a b (flt_track w))"
  shows "\<exists>pages. map (\<lambda>k. getLocationHistory user d \<lparr>hq_from = At a, hq_to = At b, hq_limit = Some (int L),
      hq_offset = Some (int (k * L))\<rparr> now w) [0..<n] = map Inr pages \<and>
    concat (map lhs_points pages) = points_between d a b (flt_track w)"
proof -
  let ?ps = "points_between d a b (flt_track w)"
  let ?page = "\<lambda>k. \<lparr>lhs_driverId = d, lhs_points = take L (drop (k * L) ?ps), lhs_limit = L, lhs_offset = k * L,
    lhs_total = length ?ps\<rparr>"
  have same: "map (\<lambda>p. p\<lparr>lpt_deliveryId := or_null (lpt_deliveryId p)\<rparr>) (take L (drop m ?ps)) = take L (drop m ?ps)" for m
  proof (rule map_idI)
    fix p assume "p \<in> set (take L (drop m ?ps))"
    then have "lpt_deliveryId p \<noteq> Some []" using assms(7) by (auto simp: list_all_iff dest: in_set_takeD in_set_dropD)
    then show "p\<lparr>lpt_deliveryId := or_null (lpt_deliveryId p)\<rparr> = p"
      by (cases "lpt_deliveryId p") (auto simp: or_null_def)
  qed
  have g: "roles_guard (Some [''ADMIN'', ''SUPER_ADMIN'', ''OWNER'', ''DRIVER'']) (Some user) = Inr ()"
    "prn_role user \<noteq> ''DRIVER''"
    using assms(2) by (auto simp: roles_guard_def operator_roles_def)
  have "getLocationHistory user d \<lparr>hq_from = At a, hq_to = At b, hq_limit = Some (int L), hq_offset = Some (int (k * L))\<rparr>
      now w = Inr (?page k)" for k
  proof -
    have "number_or (Some (int L)) 100 = L" using assms(4) by (simp add: number_or_def)
    moreover have "number_or (Some (int (k * L))) 0 = k * L" by (simp only: number_or_def option.case of_nat_eq_0_iff nat_int) simp
    ultimately show ?thesis
      using assms(1,3,4,5) g same
      by (auto simp: getLocationHistory_def getDriverLocationHistory_def valid_history_query_def history_range_def Let_def)
  qed
  then have "map (\<lambda>k. getLocationHistory user d \<lparr>hq_from = At a, hq_to = At b, hq_limit = Some (int L),
      hq_offset = Some (int (k * L))\<rparr> now w) [0..<n] = map Inr (map ?page [0..<n])" by simp
  moreover have "concat (map lhs_points (map ?page [0..<n])) = ?ps"
    using take_drop_pages[of L ?ps n] assms(4,6) by (simp add: comp_def)
  ultimately show ?thesis by blast
qed

end
