(* ===== verification/Endpoints.thy ===== *)
theory Endpoints
  imports Service Auth
begin

text \<open>
  The HTTP endpoints of the delivery core: \<open>deliveries.controller.ts\<close>, \<open>stops.controller.ts\<close>,
  \<open>conflicts.controller.ts\<close>, \<open>routes.controller.ts\<close> and the proof endpoints of \<open>pod.controller.ts\<close>.  The user
  is the principal that the token guard has put into the request (\<open>validate\<close>).  Then follow the roles of the
  method, the validation of the body, the driver profile, and the service, in this order.
\<close>

section \<open>Guards\<close>

abbreviation operators :: "string list" where
  "operators \<equiv> [''ADMIN'', ''SUPER_ADMIN'', ''OWNER'']"

abbreviation everyone :: "string list" where
  "everyone \<equiv> [''ADMIN'', ''SUPER_ADMIN'', ''OWNER'', ''DRIVER'']"

text \<open>The roles and the body; what the method does comes as a function of the world.\<close>

definition endpoint :: "string list \<Rightarrow> principal \<Rightarrow> bool \<Rightarrow> ('w \<Rightarrow> ('a, 'w) outcome) \<Rightarrow> 'w \<Rightarrow> ('a, 'w) outcome" where
  "endpoint roles user valid_body handler w =
     (case roles_guard (Some roles) (Some user) of
        Inl e \<Rightarrow> (Inl e, w)
      | Inr _ \<Rightarrow> if \<not> valid_body then (fail_with BadRequest [], w) else handler w)"

definition driver_endpoint :: "principal \<Rightarrow> bool \<Rightarrow> (uuid \<Rightarrow> world \<Rightarrow> ('a, world) outcome) \<Rightarrow> world \<Rightarrow> ('a, world) outcome" where
  "driver_endpoint user valid_body handler w =
     endpoint [''DRIVER''] user valid_body
       (\<lambda>w. if \<not> truthy (prn_driverId user) then (fail_with Forbidden ''DRIVER_PROFILE_REQUIRED'', w)
             else handler (the (prn_driverId user)) w) w"

definition reading :: "('w \<Rightarrow> api_error + 'a) \<Rightarrow> 'w \<Rightarrow> ('a, 'w) outcome" where
  "reading f w = (f w, w)"

definition extractActor :: "principal \<Rightarrow> delivery_actor" where
  "extractActor user =
     \<lparr>act_userId = prn_id user, act_role = prn_role user, act_driverId = or_null (prn_driverId user),
      act_organizationId = None\<rparr>"

definition extractRouteActor :: "principal \<Rightarrow> route_actor" where
  "extractRouteActor user =
     \<lparr>ra_userId = prn_id user, ra_role = prn_role user, ra_driverId = or_null (prn_driverId user)\<rparr>"

section \<open>Deliveries\<close>

definition post_delivery where
  "post_delivery user dto ids = endpoint operators user (valid_create_delivery dto) (createDelivery dto (prn_id user) ids)"

definition get_delivery where
  "get_delivery user i = endpoint everyone user True (reading (getDeliveryById i (extractActor user)))"

definition post_assign where
  "post_assign user i dto = endpoint operators user True (assignDelivery i dto (extractActor user))"

definition post_accept where
  "post_accept user i = driver_endpoint user True (\<lambda>driverId. acceptDelivery i driverId (prn_id user))"

definition post_start where
  "post_start user i now = driver_endpoint user True (\<lambda>driverId. startDelivery i driverId (prn_id user) now)"

definition post_complete where
  "post_complete user i now = endpoint everyone user True (completeDelivery i (extractActor user) now)"

definition valid_cancel :: "string \<Rightarrow> bool" where
  "valid_cancel reason \<longleftrightarrow> text_upto 255 reason"

definition post_cancel where
  "post_cancel user i reason = endpoint operators user (valid_cancel reason) (cancelDelivery i reason (extractActor user))"

section \<open>Stops\<close>

definition valid_reason :: "string option \<Rightarrow> bool" where
  "valid_reason reason \<longleftrightarrow> (case reason of None \<Rightarrow> True | Some r \<Rightarrow> length r \<le> 255)"

definition post_depart where
  "post_depart user j = driver_endpoint user True (\<lambda>driverId. departToStop j driverId (prn_id user))"

definition post_arrive where
  "post_arrive user j now = driver_endpoint user True (\<lambda>driverId. arriveAtStop j driverId (prn_id user) now)"

definition post_unload where
  "post_unload user j = driver_endpoint user True (\<lambda>driverId. startUnloading j driverId (prn_id user))"

definition post_fail where
  "post_fail user j reason now =
     driver_endpoint user (valid_reason reason) (\<lambda>driverId. failStop j reason driverId (prn_id user) now)"

definition post_skip where
  "post_skip user j reason now = endpoint everyone user (valid_reason reason) (skipStop j reason (extractActor user) now)"

section \<open>Proofs\<close>

definition pod_actor :: "principal \<Rightarrow> uuid \<Rightarrow> delivery_actor" where
  "pod_actor user driverId =
     \<lparr>act_userId = prn_id user, act_role = prn_role user, act_driverId = Some driverId, act_organizationId = None\<rparr>"

text \<open>The status is 200 for a replay and 201 otherwise.\<close>

definition pod_response :: "json \<Rightarrow> nat \<times> json" where
  "pod_response result =
     (if jtruthy (jget ''idempotent'' result) \<or> jtruthy (jget ''alreadySubmitted'' result) then 200 else 201, result)"

definition post_pod where
  "post_pod user j dto podId now =
     driver_endpoint user (valid_submit_pod dto)
       (\<lambda>driverId w. map_prod (map_sum id pod_response) id
          (submitPod j dto (pod_actor user driverId) podEndpoint podId now w))"

definition get_pods where
  "get_pods user i = endpoint everyone user True (reading (getPodForDelivery i (extractActor user)))"

section \<open>Offline synchronisation and conflicts\<close>

definition post_outbox where
  "post_outbox user items ids now =
     driver_endpoint user (valid_outbox items)
       (\<lambda>driverId w. map_prod Inr id (syncOutbox items driverId (prn_id user) ids now w))"

definition get_conflicts where
  "get_conflicts user = endpoint operators user True (reading (getOpenConflicts (prn_role user)))"

definition post_resolve where
  "post_resolve user k dto podId now =
     endpoint operators user (valid_resolve_conflict dto) (resolveConflict k dto (prn_id user) (prn_role user) podId now)"

section \<open>Routes\<close>

definition post_recommend where
  "post_recommend user osrm i preferred now =
     endpoint everyone user True (recommendRoute osrm i preferred (extractRouteActor user) now)"

definition select_response :: "json \<Rightarrow> nat \<times> json" where
  "select_response result = (if jtruthy (jget ''idempotent'' result) then 200 else 201, result)"

definition post_select where
  "post_select user i dto routeId now =
     endpoint everyone user (valid_select_route dto)
       (\<lambda>w. map_prod (map_sum id select_response) id
          (selectRoute i dto (extractRouteActor user) selectEndpoint routeId now w))"

definition patch_reorder where
  "patch_reorder user i dto routeId now =
     endpoint everyone user (valid_manual_reorder dto)
       (reorderStops i dto (extractRouteActor user) reorderEndpoint routeId now)"

definition get_current_route where
  "get_current_route user i = endpoint everyone user True (reading (getCurrentRoute i (extractRouteActor user)))"

definition get_route_versions where
  "get_route_versions user i = endpoint everyone user True (reading (getRouteVersions i (extractRouteActor user)))"

section \<open>Requests\<close>

datatype http_request =
    PostDelivery create_delivery_dto "nat \<Rightarrow> uuid"
  | GetDelivery uuid
  | PostAssign uuid assign_delivery_dto
  | PostAccept uuid
  | PostStart uuid timestamp
  | PostComplete uuid timestamp
  | PostCancel uuid string
  | PostDepart uuid
  | PostArrive uuid timestamp
  | PostUnload uuid
  | PostFail uuid "string option" timestamp
  | PostSkip uuid "string option" timestamp
  | PostPod uuid submit_pod_dto uuid timestamp
  | GetPods uuid
  | PostOutbox "outbox_item list" "nat \<Rightarrow> uuid" timestamp
  | GetConflicts
  | PostResolve uuid resolve_conflict_dto uuid timestamp
  | PostRecommend osrm_service uuid "preferred option" timestamp
  | PostSelect uuid select_route_dto uuid timestamp
  | PatchReorder uuid manual_reorder_dto uuid timestamp
  | GetCurrentRoute uuid
  | GetRouteVersions uuid

text \<open>The error of a request, if any, and the world it leaves.\<close>

definition answered :: "('a, 'w) outcome \<Rightarrow> (unit, 'w) outcome" where
  "answered r = map_prod (map_sum id (\<lambda>_. ())) id r"

fun http :: "principal \<Rightarrow> http_request \<Rightarrow> world \<Rightarrow> (unit, world) outcome" where
  "http user (PostDelivery dto ids) w = answered (post_delivery user dto ids w)"
| "http user (GetDelivery i) w = answered (get_delivery user i w)"
| "http user (PostAssign i dto) w = answered (post_assign user i dto w)"
| "http user (PostAccept i) w = answered (post_accept user i w)"
| "http user (PostStart i now) w = answered (post_start user i now w)"
| "http user (PostComplete i now) w = answered (post_complete user i now w)"
| "http user (PostCancel i reason) w = answered (post_cancel user i reason w)"
| "http user (PostDepart j) w = answered (post_depart user j w)"
| "http user (PostArrive j now) w = answered (post_arrive user j now w)"
| "http user (PostUnload j) w = answered (post_unload user j w)"
| "http user (PostFail j reason now) w = answered (post_fail user j reason now w)"
| "http user (PostSkip j reason now) w = answered (post_skip user j reason now w)"
| "http user (PostPod j dto podId now) w = answered (post_pod user j dto podId now w)"
| "http user (GetPods i) w = answered (get_pods user i w)"
| "http user (PostOutbox items ids now) w = answered (post_outbox user items ids now w)"
| "http user GetConflicts w = answered (get_conflicts user w)"
| "http user (PostResolve k dto podId now) w = answered (post_resolve user k dto podId now w)"
| "http user (PostRecommend osrm i p now) w = answered (post_recommend user osrm i p now w)"
| "http user (PostSelect i dto routeId now) w = answered (post_select user i dto routeId now w)"
| "http user (PatchReorder i dto routeId now) w = answered (patch_reorder user i dto routeId now w)"
| "http user (GetCurrentRoute i) w = answered (get_current_route user i w)"
| "http user (GetRouteVersions i) w = answered (get_route_versions user i w)"

lemma snd_answered [simp]: "snd (answered r) = snd r"
  by (simp add: answered_def)

lemma reading_world [simp]: "snd (reading f w) = w"
  by (simp add: reading_def)

end
