(* ===== verification/EndpointProps.thy ===== *)
theory EndpointProps
  imports Endpoints EmergencyProps
begin

text \<open>
  Who can do what over HTTP: a driver's requests leave other drivers' deliveries and stops alone, and the
  endpoints of operators are closed to drivers.
\<close>

section \<open>What is not a driver's stays as it is\<close>

definition own_delivery :: "uuid \<Rightarrow> world \<Rightarrow> uuid \<Rightarrow> bool" where
  "own_delivery d w i \<longleftrightarrow> (\<exists>v. find_row dlv_id i (deliveries w) = Some v \<and> dlv_driverId v = Some d)"

definition untouched :: "uuid \<Rightarrow> world \<Rightarrow> world \<Rightarrow> bool" where
  "untouched d w w' \<longleftrightarrow>
     (\<forall>i. own_delivery d w' i = own_delivery d w i) \<and>
     (\<forall>i. \<not> own_delivery d w i \<longrightarrow> find_row dlv_id i (deliveries w') = find_row dlv_id i (deliveries w)) \<and>
     (\<forall>j s. find_row stp_id j (deliveryStops w) = Some s \<and> \<not> own_delivery d w (stp_deliveryId s) \<longrightarrow>
        find_row stp_id j (deliveryStops w') = Some s)"

lemma untouched_refl [simp]: "untouched d w w"
  by (simp add: untouched_def)

lemma untouched_trans: "untouched d w1 w2 \<Longrightarrow> untouched d w2 w3 \<Longrightarrow> untouched d w1 w3"
  unfolding untouched_def by metis

lemma untouched_frame:
  "deliveries w' = deliveries w \<Longrightarrow> deliveryStops w' = deliveryStops w \<Longrightarrow> untouched d w w'"
  by (simp add: untouched_def own_delivery_def)

text \<open>One own delivery is updated, or one stop of an own delivery.\<close>

lemma untouched_delivery:
  assumes "own_delivery d w i" and "\<And>r. dlv_id (f r) = dlv_id r" and "\<And>r. dlv_driverId (f r) = dlv_driverId r"
    and "deliveries w' = update_where (\<lambda>r. dlv_id r = i \<and> P r) f (deliveries w)" and "deliveryStops w' = deliveryStops w"
  shows "untouched d w w'"
proof -
  have f: "find_row dlv_id k (deliveries w') =
      map_option (\<lambda>r. if dlv_id r = i \<and> P r then f r else r) (find_row dlv_id k (deliveries w))" for k
    unfolding assms(4) using assms(2) by (rule find_row_update_where)
  have "own_delivery d w' k = own_delivery d w k" for k
    unfolding own_delivery_def f by (cases "find_row dlv_id k (deliveries w)") (auto simp: assms(3))
  moreover have "\<not> own_delivery d w k \<Longrightarrow> find_row dlv_id k (deliveries w') = find_row dlv_id k (deliveries w)" for k
    using assms(1) unfolding f
    by (cases "k = i"; cases "find_row dlv_id k (deliveries w)") (auto dest: find_row_SomeD)
  ultimately show ?thesis by (simp add: untouched_def assms(5))
qed

lemma untouched_stops:
  assumes "deliveries w' = deliveries w"
    and "\<And>j s. find_row stp_id j (deliveryStops w) = Some s \<Longrightarrow> \<not> own_delivery d w (stp_deliveryId s) \<Longrightarrow>
       find_row stp_id j (deliveryStops w') = Some s"
  shows "untouched d w w'"
  using assms by (simp add: untouched_def own_delivery_def)

section \<open>The services\<close>

lemma eligible_untouched:
  assumes "own_delivery d w i"
  shows "untouched d w (completeDeliveryIfEligible i a now w)"
proof (cases "evaluateDeliveryCompletion i (deliveryStops w)")
  case (Eligible t)
  define w' where "w' = completeDeliveryIfEligible i a now w"
  have "w' = w \<or> deliveries w' = update_where (\<lambda>r. dlv_id r = i \<and> is_en_route r) (finish_row t now) (deliveries w) \<and>
      deliveryStops w' = deliveryStops w"
    using Eligible by (auto simp: w'_def completeDeliveryIfEligible_def claim_def Let_def broadcastStatusChanged_def
        split: option.split)
  then have "untouched d w w'"
    using untouched_delivery[OF assms, of "finish_row t now"] by (auto simp: row_defs)
  then show ?thesis by (simp add: w'_def)
qed (simp_all add: completeDeliveryIfEligible_def)

lemma stop_update_untouched:
  assumes "updateStopIfOperational j E f w = (r, w')" and "\<And>s. stp_id (f s) = stp_id s"
    and "find_row stp_id j (deliveryStops w) = Some s" and "own_delivery d w (stp_deliveryId s)"
  shows "untouched d w w' \<and> own_delivery d w' (stp_deliveryId s)"
proof -
  have "w' = w \<or> w' = w\<lparr>deliveryStops := update_where (\<lambda>s. stp_id s = j \<and> stop_open (deliveries w) E s) f (deliveryStops w)\<rparr>"
    using assms(1) by (auto simp: updateStopIfOperational_def claim_def Let_def split: option.splits if_splits)
  moreover have "untouched d w (w\<lparr>deliveryStops := update_where (\<lambda>s. stp_id s = j \<and> P s) f (deliveryStops w)\<rparr>)" for P
  proof (rule untouched_stops)
    fix k t assume t: "find_row stp_id k (deliveryStops w) = Some t" "\<not> own_delivery d w (stp_deliveryId t)"
    then have "k \<noteq> j" using assms(3,4) by auto
    moreover have "stp_id t = k" using find_row_SomeD[OF t(1)] by simp
    ultimately show "find_row stp_id k (deliveryStops (w\<lparr>deliveryStops := update_where (\<lambda>s. stp_id s = j \<and> P s) f
        (deliveryStops w)\<rparr>)) = Some t"
      using t(1) assms(2) by (simp add: find_row_update_where)
  qed simp
  ultimately have "untouched d w w'" by auto
  with assms(4) show ?thesis by (simp add: untouched_def)
qed

lemma verified_own:
  assumes "getStopAndVerifyDriver j (Some d) w = Inr (s, v)" and "d \<noteq> []"
  shows "find_row stp_id j (deliveryStops w) = Some s \<and> own_delivery d w (stp_deliveryId s)"
  using verify_stop_found[OF assms(1)] assms(2) by (auto simp: own_delivery_def)

lemma broadcast_own [simp]:
  "own_delivery d (broadcastStopStatusChanged i j s a w) k = own_delivery d w k"
  "own_delivery d (add_event e w) k = own_delivery d w k"
  "own_delivery d (broadcastPodCreated i j p a w) k = own_delivery d w k"
  by (simp_all add: own_delivery_def)

text \<open>The five stop handlers end in one of two ways after their update.\<close>

definition stop_tail :: "uuid \<Rightarrow> uuid \<Rightarrow> (world \<Rightarrow> world) \<Rightarrow> bool" where
  "stop_tail d i k \<longleftrightarrow> (\<forall>w. own_delivery d w i \<longrightarrow> untouched d w (k w))"

lemma tail_broadcast: "stop_tail d i (broadcastStopStatusChanged i j st a)"
  by (simp add: stop_tail_def untouched_frame)

lemma tail_eligible:
  assumes "\<And>w. deliveries (k w) = deliveries w" and "\<And>w. deliveryStops (k w) = deliveryStops w"
  shows "stop_tail d i (\<lambda>w. completeDeliveryIfEligible i a now (k w))"
proof -
  have "untouched d w (completeDeliveryIfEligible i a now (k w))" if "own_delivery d w i" for w
  proof -
    have "own_delivery d (k w) i" using that assms by (simp add: own_delivery_def)
    then show ?thesis using untouched_trans[OF untouched_frame[OF assms] eligible_untouched] by blast
  qed
  then show ?thesis by (simp add: stop_tail_def)
qed

lemma stop_handler_untouched:
  assumes "find_row stp_id j (deliveryStops w) = Some s \<and> own_delivery d w (stp_deliveryId s)"
    and "\<And>s. stp_id (f s) = stp_id s" and "stop_tail d (stp_deliveryId s) k"
  shows "untouched d w (snd (case updateStopIfOperational j E f w of
           (Inl e, w1) \<Rightarrow> (Inl e, w1) | (Inr x, w1) \<Rightarrow> (Inr x, k w1)))"
proof -
  obtain r w' where u: "updateStopIfOperational j E f w = (r, w')" by fastforce
  from stop_update_untouched[OF u assms(2)] assms(1) have "untouched d w w'" "own_delivery d w' (stp_deliveryId s)" by auto
  with u assms(3) untouched_trans show ?thesis by (cases r) (auto simp: stop_tail_def)
qed

lemma depart_untouched: "d \<noteq> [] \<Longrightarrow> untouched d w (snd (departToStop j d u w))"
  by (cases "departToStop_guard j d w")
     (auto simp: departToStop_def departToStop_guard_def row_defs tail_broadcast split: sum.splits if_splits
        dest!: verified_own intro: stop_handler_untouched)

lemma arrive_untouched: "d \<noteq> [] \<Longrightarrow> untouched d w (snd (arriveAtStop j d u now w))"
  by (cases "arriveAtStop_guard j d w")
     (auto simp: arriveAtStop_def arriveAtStop_guard_def row_defs tail_broadcast split: sum.splits if_splits
        dest!: verified_own intro: stop_handler_untouched)

lemma unload_untouched: "d \<noteq> [] \<Longrightarrow> untouched d w (snd (startUnloading j d u w))"
  by (cases "startUnloading_guard j d w")
     (auto simp: startUnloading_def startUnloading_guard_def row_defs tail_broadcast split: sum.splits if_splits
        dest!: verified_own intro: stop_handler_untouched)

lemma fail_untouched:
  assumes "d \<noteq> []"
  shows "untouched d w (snd (failStop j reason d u now w))"
proof (cases "failStop_guard j d w")
  case (Inr s)
  then have "find_row stp_id j (deliveryStops w) = Some s \<and> own_delivery d w (stp_deliveryId s)"
    using assms by (auto simp: failStop_guard_def split: sum.splits if_splits dest!: verified_own)
  from this show ?thesis
    unfolding failStop_def Inr sum.case Let_def
    by (rule stop_handler_untouched[OF _ _ tail_eligible]) (simp_all add: row_defs)
qed (simp add: failStop_def)

lemma skip_untouched:
  assumes "act_role a = ''DRIVER''" and "act_driverId a = Some d" and "d \<noteq> []"
  shows "untouched d w (snd (skipStop j reason a now w))"
proof (cases "skipStop_guard j a w")
  case (Inr s)
  then have "find_row stp_id j (deliveryStops w) = Some s \<and> own_delivery d w (stp_deliveryId s)"
    using assms by (auto simp: skipStop_guard_def split: sum.splits if_splits dest!: verified_own)
  from this show ?thesis
    unfolding skipStop_def Inr sum.case Let_def
    by (rule stop_handler_untouched[OF _ _ tail_eligible]) (simp_all add: row_defs)
qed (simp add: skipStop_def)

section \<open>Proofs and the outbox\<close>

lemma pod_tx_untouched:
  assumes "submitPod_tx i j dto u key podId now w = (r, w')" and "find_row stp_id j (deliveryStops w) = Some s"
    and "own_delivery d w (stp_deliveryId s)"
  shows "untouched d w w' \<and> own_delivery d w' (stp_deliveryId s)"
proof -
  have "w' = w \<or> deliveries w' = deliveries w \<and> deliveryStops w' =
      update_where (\<lambda>s. stp_id s = j \<and> stop_open (deliveries w) {S_UNLOADING, S_ARRIVED} s) (pod_row now) (deliveryStops w)"
    using assms(1) by (auto simp: submitPod_tx_def claim_def Let_def split: sum.splits if_splits option.splits)
  moreover have "untouched d w w'" if w': "deliveries w' = deliveries w"
    "deliveryStops w' = update_where (\<lambda>s. stp_id s = j \<and> P s) (pod_row now) (deliveryStops w)" for P
  proof (rule untouched_stops)
    fix k t assume t: "find_row stp_id k (deliveryStops w) = Some t" "\<not> own_delivery d w (stp_deliveryId t)"
    then have "k \<noteq> j" using assms(2,3) by auto
    moreover have "stp_id t = k" using find_row_SomeD[OF t(1)] by simp
    ultimately show "find_row stp_id k (deliveryStops w') = Some t"
      using t(1) by (simp add: w' find_row_update_where row_defs)
  qed (rule w')
  ultimately have "untouched d w w'" by auto
  with assms(3) show ?thesis by (simp add: untouched_def)
qed

lemma pod_untouched:
  assumes "act_role a = ''DRIVER''" and "act_driverId a = Some d" and "d \<noteq> []"
  shows "untouched d w (snd (submitPod j dto a ep podId now w))"
proof (cases "getStopAndVerifyDriver j (Some d) w")
  case (Inl e)
  with assms show ?thesis by (simp add: submitPod_def)
next
  case (Inr x)
  then obtain s v where sv: "x = (s, v)" "find_row stp_id j (deliveryStops w) = Some s" "own_delivery d w (stp_deliveryId s)"
    using verified_own assms(3) by (cases x) blast
  let ?key = "request_key (sp_idempotencyKey dto) (act_userId a) ep"
  obtain r w' where tx: "submitPod_tx (stp_deliveryId s) j dto (act_userId a) ?key podId now w = (r, w')" by fastforce
  note t = pod_tx_untouched[OF tx sv(2,3)]
  let ?w2 = "broadcastPodCreated (stp_deliveryId s) j podId a w'"
  have "own_delivery d ?w2 (stp_deliveryId s)" using t by simp
  moreover have "untouched d w' ?w2" by (simp add: untouched_frame)
  ultimately have "untouched d w (completeDeliveryIfEligible (stp_deliveryId s) a now ?w2)"
    using t untouched_trans eligible_untouched by meson
  with Inr sv(1) tx t assms show ?thesis
    by (cases r) (auto simp: submitPod_def Let_def split: option.split)
qed

lemma map_sum_snd: "snd (case x of (r, w1) \<Rightarrow> (map_sum id (\<lambda>_. ()) r, w1)) = snd x"
  by (cases x) simp

lemma dispatch_untouched:
  assumes "d \<noteq> []"
  shows "untouched d w (snd (dispatch_event it j d u podId now w))"
  using assms pod_untouched[of "driver_actor u d" d]
  by (simp add: dispatch_event_def map_sum_snd depart_untouched arrive_untouched unload_untouched driver_actor_def)

lemma sync_one_untouched: "d \<noteq> [] \<Longrightarrow> untouched d w (snd (sync_one it d u i now w))"
proof -
  assume d: "d \<noteq> []"
  have "untouched d w (snd (case dispatch_event it j d u i now w of
       (Inl e, w1) \<Rightarrow> (Dropped, w1) | (Inr y, w1) \<Rightarrow> (Acked c, w1)))" for j c
    using dispatch_untouched[OF d, of w it j u i now]
    by (cases "dispatch_event it j d u i now w"; cases "fst (dispatch_event it j d u i now w)") auto
  then show ?thesis by (simp add: sync_one_def Let_def untouched_frame split: option.split)
qed

lemma sync_untouched: "d \<noteq> [] \<Longrightarrow> untouched d w (snd (sync_loop its d u ids n now acc w))"
proof (induction its arbitrary: n acc w)
  case Nil
  then show ?case by simp
next
  case (Cons it its)
  obtain r w1 where o: "sync_one it d u (ids n) now w = (r, w1)" by fastforce
  obtain a c where acc: "acc = (a, c)" by (cases acc)
  have "untouched d w w1" using sync_one_untouched[OF Cons.prems, of w it u "ids n" now] o by simp
  then show ?case
    using untouched_trans Cons.IH[OF Cons.prems] by (cases r) (auto simp: o acc)
qed

section \<open>Accepting, starting and completing\<close>

lemma untouched_broadcast: "untouched d w w' \<Longrightarrow> untouched d w (broadcastStatusChanged i st a w')"
  and untouched_audit: "untouched d w w' \<Longrightarrow> untouched d w (add_audit e w')"
  by (rule untouched_trans, assumption, simp add: untouched_frame broadcastStatusChanged_def)+

lemma write_untouched:
  assumes "own_delivery d w i" and "\<And>r. dlv_id (f r) = dlv_id r" and "\<And>r. dlv_driverId (f r) = dlv_driverId r"
  shows "untouched d w (snd (write_delivery i f w))"
  using untouched_delivery[OF assms, where P = "\<lambda>_. True"]
  by (simp add: write_delivery_def update_row_def split: option.split)

lemma driver_guard_own: "driver_guard i d st w = Inr v \<Longrightarrow> own_delivery d w i"
  by (auto simp: driver_guard_def own_delivery_def split: option.splits if_splits)

lemma accept_untouched: "untouched d w (snd (acceptDelivery i d u w))"
proof (cases "driver_guard i d ASSIGNED w")
  case (Inr v)
  have "untouched d w (snd (write_delivery i accept_row w))"
    by (rule write_untouched[OF driver_guard_own[OF Inr]]) (simp_all add: row_defs)
  then show ?thesis
    by (auto simp: acceptDelivery_def acceptDelivery_write_def Inr untouched_broadcast untouched_audit
        split: prod.split sum.split)
qed (simp add: acceptDelivery_def)

lemma start_untouched: "untouched d w (snd (startDelivery i d u now w))"
proof (cases "driver_guard i d ACCEPTED w")
  case (Inr v)
  have "untouched d w (snd (write_delivery i (start_row now) w))"
    by (rule write_untouched[OF driver_guard_own[OF Inr]]) (simp_all add: row_defs)
  then show ?thesis
    by (auto simp: startDelivery_def startDelivery_write_def Inr untouched_broadcast untouched_audit
        split: prod.split sum.split)
qed (simp add: startDelivery_def)

lemma complete_tx_untouched:
  assumes "own_delivery d w i"
  shows "untouched d w (snd (completeDelivery_tx i a now w))"
proof (cases "evaluateDeliveryCompletion i (deliveryStops w)")
  case (Eligible t)
  let ?ds = "update_where (\<lambda>r. dlv_id r = i \<and> is_en_route r) (finish_row t now) (deliveries w)"
  have "untouched d w (w\<lparr>deliveries := ?ds\<rparr>)"
    by (rule untouched_delivery[OF assms, where f = "finish_row t now" and P = is_en_route]) (simp_all add: row_defs)
  then show ?thesis
    by (auto simp: completeDelivery_tx_def Eligible claim_def untouched_audit split: option.split)
qed (simp_all add: completeDelivery_tx_def)

lemma complete_untouched:
  assumes "act_role a = ''DRIVER''" and "act_driverId a = Some d"
  shows "untouched d w (snd (completeDelivery i a now w))"
proof (cases "getDeliveryById i a w")
  case (Inr v)
  then have "own_delivery d w i"
    using assms by (auto simp: getDeliveryById_def own_delivery_def split: option.splits if_splits)
  then have "untouched d w (snd (completeDelivery_tx i a now w))" by (rule complete_tx_untouched)
  then show ?thesis
    by (auto simp: completeDelivery_def Inr untouched_broadcast split: prod.split sum.split)
qed (simp add: completeDelivery_def)

section \<open>Choosing routes\<close>

lemma set_sequences_others:
  "set_sequences items ss = Inr ss' \<Longrightarrow> j \<notin> fst ` set items \<Longrightarrow> find_row stp_id j ss' = find_row stp_id j ss"
proof (induction items arbitrary: ss)
  case (Cons it items)
  obtain k n where it: "it = (k, n)" by (cases it)
  from Cons.prems obtain ss1 where "set_sequence k n ss = Inr ss1" and rest: "set_sequences items ss1 = Inr ss'"
    by (auto simp: it split: sum.splits)
  then have "ss1 = update_row stp_id k (\<lambda>s. s\<lparr>stp_sequence := n\<rparr>) ss"
    by (auto simp: set_sequence_def split: option.splits if_splits)
  moreover have "j \<noteq> k" using Cons.prems(2) by (auto simp: it)
  ultimately have "find_row stp_id j ss1 = find_row stp_id j ss"
    by (cases "find_row stp_id j ss") (auto simp: find_row_update_row)
  then show ?case using Cons.IH[OF rest] Cons.prems(2) by simp
qed simp

lemma renumber_others:
  assumes "renumber items ss = Inr ss'" and "j \<notin> si_deliveryStopId ` set items"
  shows "find_row stp_id j ss' = find_row stp_id j ss"
proof -
  obtain ss1 where s: "set_sequences (map (\<lambda>it. (si_deliveryStopId it, - si_sequence it)) items) ss = Inr ss1"
      "set_sequences (map (\<lambda>it. (si_deliveryStopId it, si_sequence it)) items) ss1 = Inr ss'"
    using assms(1) by (auto simp: renumber_def split: sum.splits)
  from set_sequences_others[OF s(1), of j] set_sequences_others[OF s(2), of j] assms(2)
  show ?thesis by (simp add: image_image)
qed

lemma write_route_untouched:
  assumes "r = new_route routeId i source distance duration now (routes w)"
    and "write_route key status field r dur stops w = Inr (result, w')" and "own_delivery d w i"
  shows "untouched d w w'"
proof (rule untouched_delivery[OF assms(3), where f = "mode_row source" and P = "\<lambda>_. True"])
  have "deliveries w' = update_row dlv_id i (mode_row source) (deliveries w) \<and> deliveryStops w' = deliveryStops w"
    using assms(1,2) by (auto simp: write_route_def new_route_def Let_def split: sum.splits)
  then show "deliveries w' = update_where (\<lambda>r. dlv_id r = i \<and> True) (mode_row source) (deliveries w)"
    and "deliveryStops w' = deliveryStops w"
    by (simp_all add: update_row_def)
qed (simp_all add: row_defs)

lemma run_keyed_untouched:
  assumes "\<And>w' result. tx w = Inr (result, w') \<Longrightarrow> untouched d w w'"
  shows "untouched d w (snd (run_keyed key tx (\<lambda>result. broadcastRouteUpdated i result a) w))"
proof (cases "tx w")
  case (Inr x)
  obtain result w1 where x: "x = (result, w1)" by (cases x)
  have "untouched d w1 (broadcastRouteUpdated i result a w1)"
    by (simp add: untouched_frame broadcastRouteUpdated_def Let_def)
  with assms[of result w1] show ?thesis
    using Inr x by (auto simp: run_keyed_def intro: untouched_trans)
qed (simp add: run_keyed_def split: option.split)

lemma select_tx_untouched:
  assumes "selectRoute_tx i dto key routeId now w = Inr (result, w')" and "own_delivery d w i"
  shows "untouched d w w'"
proof -
  obtain w1 where w1: "claim_key key now w = Inr w1"
    and wr: "write_route key 201 ''selectedAt'' (new_route routeId i (sr_source dto) (sr_totalDistanceMeters dto)
        (sr_estimatedDurationSeconds dto) now (routes w1)) (sr_estimatedDurationSeconds dto)
        (selected_stops routeId (sr_recommendedSequence dto)) w1 = Inr (result, w')"
    using assms(1) by (auto simp: selectRoute_tx_def Let_def split: sum.splits)
  have "own_delivery d w1 i" "untouched d w w1"
    using claim_key_frame[OF w1] assms(2) by (simp_all add: own_delivery_def untouched_frame)
  moreover note write_route_untouched[OF refl wr]
  ultimately show ?thesis using untouched_trans by blast
qed

lemma reorder_tx_untouched:
  assumes "reorderStops_tx i dto key routeId now w = Inr (result, w')" and "own_delivery d w i"
    and ids: "si_deliveryStopId ` set (mr_stopSequence dto) \<subseteq> stp_id ` set (stops_of i (deliveryStops w))"
    and "unique_keys stp_id (deliveryStops w)"
  shows "untouched d w w'"
proof -
  obtain w1 ss where w1: "claim_key key now w = Inr w1"
    and ss: "renumber (mr_stopSequence dto) (deliveryStops w1) = Inr ss"
    and wr: "write_route key 200 ''updatedAt'' (new_route routeId i SRC_MANUAL 0 0 now (routes (w1\<lparr>deliveryStops := ss\<rparr>))) 0
        (reordered_stops routeId (mr_stopSequence dto)) (w1\<lparr>deliveryStops := ss\<rparr>) = Inr (result, w')"
    using assms(1) by (auto simp: reorderStops_tx_def Let_def split: sum.splits)
  note frame = claim_key_frame[OF w1]
  have "untouched d w (w1\<lparr>deliveryStops := ss\<rparr>)"
  proof (rule untouched_stops)
    fix j s assume s: "find_row stp_id j (deliveryStops w) = Some s" "\<not> own_delivery d w (stp_deliveryId s)"
    have "j \<notin> si_deliveryStopId ` set (mr_stopSequence dto)"
    proof
      assume "j \<in> si_deliveryStopId ` set (mr_stopSequence dto)"
      with ids obtain t where "t \<in> set (deliveryStops w)" "stp_id t = j" "stp_deliveryId t = i"
        by (auto simp: stops_of_def)
      then have "s = t" using find_row_unique[OF assms(4)] s(1) by fastforce
      with s(2) assms(2) \<open>stp_deliveryId t = i\<close> show False by simp
    qed
    with renumber_others[OF ss] s(1) frame show "find_row stp_id j (deliveryStops (w1\<lparr>deliveryStops := ss\<rparr>)) = Some s"
      by simp
  qed (simp add: frame)
  moreover have "own_delivery d (w1\<lparr>deliveryStops := ss\<rparr>) i"
    using assms(2) frame by (simp add: own_delivery_def)
  ultimately show ?thesis using write_route_untouched[OF refl wr] untouched_trans by blast
qed

text \<open>What passes the beginning of a route request, for a driver.\<close>

lemma route_guard_own:
  assumes "route_request_guard i a now w = (Inr (v, stops), w1)" and "ra_role a = ''DRIVER''" and "ra_driverId a = Some d"
  shows "own_delivery d w i" and "set stops = set (stops_of i (deliveryStops w))"
  using assms
  by (auto simp: route_request_guard_def verifyDeliveryAccess_def enforceRouteRateLimit_def own_delivery_def Let_def
      split: option.splits if_splits sum.splits prod.splits)

lemma route_guard_untouched: "route_request_guard i a now w = (r, w1) \<Longrightarrow> untouched d w w1"
  using route_guard_world by (fastforce intro: untouched_frame)

lemma recommend_untouched: "untouched d w (snd (recommendRoute osrm i p a now w))"
  using route_guard_untouched[of i a now w]
  by (auto simp: recommendRoute_def Let_def split: prod.split sum.split)

lemma select_untouched:
  assumes "ra_role a = ''DRIVER''" and "ra_driverId a = Some d"
  shows "untouched d w (snd (selectRoute i dto a ep routeId now w))"
proof (cases "route_request_guard i a now w")
  case (Pair r w1)
  note w1 = route_guard_untouched[OF Pair]
  show ?thesis
  proof (cases r)
    case (Inr x)
    obtain v stops where x: "x = (v, stops)" by (cases x)
    have "own_delivery d w i" using route_guard_own(1)[of i a now w] Pair Inr x assms by simp
    with w1 have own: "own_delivery d w1 i" by (simp add: untouched_def)
    have "untouched d w1 (snd (run_keyed key (selectRoute_tx i dto key routeId now)
        (\<lambda>result. broadcastRouteUpdated i result a) w1))" for key
      using select_tx_untouched[OF _ own] by (intro run_keyed_untouched)
    with w1 untouched_trans[OF w1] show ?thesis
      by (auto simp: selectRoute_def Pair Inr x Let_def split: option.split sum.split)
  qed (simp add: selectRoute_def Pair w1)
qed

lemma reorder_untouched:
  assumes "ra_role a = ''DRIVER''" and "ra_driverId a = Some d" and "unique_keys stp_id (deliveryStops w)"
  shows "untouched d w (snd (reorderStops i dto a ep routeId now w))"
proof (cases "route_request_guard i a now w")
  case (Pair r w1)
  note w1 = route_guard_untouched[OF Pair]
  have stops: "deliveryStops w1 = deliveryStops w" using route_guard_world[OF Pair] by auto
  show ?thesis
  proof (cases r)
    case (Inr x)
    obtain v stops where x: "x = (v, stops)" by (cases x)
    note g = route_guard_own[of i a now w v stops w1]
    have own: "own_delivery d w1 i" using g(1) w1 Pair Inr x assms by (simp add: untouched_def)
    have "untouched d w1 (snd (run_keyed key (reorderStops_tx i dto key routeId now)
        (\<lambda>result. broadcastRouteUpdated i result a) w1))"
      if "stops_belong stops (map si_deliveryStopId (mr_stopSequence dto)) = Inr ()" for key
    proof (rule run_keyed_untouched)
      fix w' result assume "reorderStops_tx i dto key routeId now w1 = Inr (result, w')"
      moreover have "si_deliveryStopId ` set (mr_stopSequence dto) \<subseteq> stp_id ` set (stops_of i (deliveryStops w1))"
        using that g(2) Pair Inr x assms stops by (simp add: stops_belong_iff)
      ultimately show "untouched d w1 w'" using reorder_tx_untouched own assms(3) stops by simp
    qed
    with w1 untouched_trans[OF w1] show ?thesis
      by (auto simp: reorderStops_def Pair Inr x Let_def split: option.split sum.split)
  qed (simp add: reorderStops_def Pair w1)
qed

section \<open>Over HTTP\<close>

definition working_driver :: "uuid \<Rightarrow> principal \<Rightarrow> bool" where
  "working_driver d user \<longleftrightarrow> prn_role user = ''DRIVER'' \<and> prn_driverId user = Some d \<and> d \<noteq> []"

lemma snd_map_prod_id [simp]: "snd (map_prod f id r) = snd r"
  by (cases r) simp

lemma working_driver_actors:
  assumes "working_driver d user"
  shows "act_role (extractActor user) = ''DRIVER''" and "act_driverId (extractActor user) = Some d"
    and "ra_role (extractRouteActor user) = ''DRIVER''" and "ra_driverId (extractRouteActor user) = Some d"
    and "act_role (pod_actor user d) = ''DRIVER''" and "act_driverId (pod_actor user d) = Some d"
  using assms by (simp_all add: working_driver_def extractActor_def extractRouteActor_def pod_actor_def or_null_def)

lemma endpoint_untouched:
  "untouched d w (snd (handler w)) \<Longrightarrow> untouched d w (snd (endpoint roles user ok handler w))"
  by (simp add: endpoint_def split: sum.split)

lemma driver_endpoint_untouched:
  assumes "working_driver d user" and "untouched d w (snd (handler d w))"
  shows "untouched d w (snd (driver_endpoint user ok handler w))"
  using assms by (auto simp: driver_endpoint_def working_driver_def intro: endpoint_untouched)

text \<open>The methods of operators do nothing for a driver.\<close>

lemma operators_only:
  "prn_role user = ''DRIVER'' \<Longrightarrow> endpoint operators user ok handler w = (fail_with Forbidden ''INSUFFICIENT_ROLE'', w)"
  by (simp add: endpoint_def roles_guard_def)

lemmas operator_methods = post_delivery_def post_assign_def post_cancel_def get_conflicts_def post_resolve_def

lemma http_untouched:
  assumes "working_driver d user" and "unique_keys stp_id (deliveryStops w)"
  shows "untouched d w (snd (http user q w))"
proof -
  have d: "d \<noteq> []" and role: "prn_role user = ''DRIVER''" using assms(1) by (simp_all add: working_driver_def)
  note actors = working_driver_actors[OF assms(1)]
  note own = driver_endpoint_untouched[OF assms(1)]
  show ?thesis
  proof (cases q)
    case (PostPod j dto podId now)
    then show ?thesis using pod_untouched[OF actors(5,6) d] by (simp add: post_pod_def own)
  next
    case (PostOutbox items ids now)
    then show ?thesis using sync_untouched[OF d] by (simp add: post_outbox_def own syncOutbox_def)
  next
    case (PostSelect i dto routeId now)
    then show ?thesis using select_untouched[OF actors(3,4)] by (simp add: post_select_def endpoint_untouched)
  next
    case (PatchReorder i dto routeId now)
    then show ?thesis
      using reorder_untouched[OF actors(3,4) assms(2)] by (simp add: patch_reorder_def endpoint_untouched)
  next
    case (PostComplete i now)
    then show ?thesis using complete_untouched[OF actors(1,2)] by (simp add: post_complete_def endpoint_untouched)
  next
    case (PostSkip j reason now)
    then show ?thesis using skip_untouched[OF actors(1,2) d] by (simp add: post_skip_def endpoint_untouched)
  qed (simp_all add: operator_methods operators_only[OF role] own endpoint_untouched accept_untouched start_untouched
      depart_untouched[OF d] arrive_untouched[OF d] unload_untouched[OF d] fail_untouched[OF d] recommend_untouched
      get_delivery_def post_accept_def post_start_def post_depart_def post_arrive_def post_unload_def post_fail_def
      get_pods_def post_recommend_def get_current_route_def get_route_versions_def)
qed

section \<open>Requests of other drivers\<close>

fun http_run :: "(principal \<times> http_request) list \<Rightarrow> world \<Rightarrow> world" where
  "http_run [] w = w"
| "http_run ((user, q) # reqs) w = http_run reqs (snd (http user q w))"

text \<open>Each request of a driver is a run of the abstract lifecycle, so the invariant of the core survives it.\<close>

lemma endpoint_steps: "steps_to w (snd (handler w)) \<Longrightarrow> steps_to w (snd (endpoint roles user ok handler w))"
  by (simp add: endpoint_def split: sum.split)

lemma driver_endpoint_steps:
  "(\<And>d. steps_to w (snd (handler d w))) \<Longrightarrow> steps_to w (snd (driver_endpoint user ok handler w))"
  by (auto simp: driver_endpoint_def intro!: endpoint_steps)

lemma http_steps:
  assumes "prn_role user = ''DRIVER''" and "core_inv (core_of w)"
  shows "steps_to w (snd (http user q w))"
proof (cases q)
  case (PostOutbox items ids now)
  then show ?thesis
    using sync_loop_steps assms(2) by (simp add: post_outbox_def driver_endpoint_steps syncOutbox_def)
next
  case (PostRecommend osrm i p now)
  then show ?thesis by (simp add: post_recommend_def endpoint_steps recommend_core)
qed (simp_all add: operator_methods operators_only[OF assms(1)] driver_endpoint_steps endpoint_steps request_steps assms(2)
    get_delivery_def post_accept_def post_start_def post_depart_def post_arrive_def post_unload_def post_fail_def
    post_complete_def post_skip_def post_pod_def post_select_def patch_reorder_def
    get_pods_def get_current_route_def get_route_versions_def)

lemma http_core_inv: "prn_role user = ''DRIVER'' \<Longrightarrow> core_inv (core_of w) \<Longrightarrow> core_inv (core_of (snd (http user q w)))"
  using http_steps core_steps_inv by blast

text \<open>The delivery and its stops, with their statuses, are the same rows.\<close>

definition same_delivery :: "uuid \<Rightarrow> world \<Rightarrow> world \<Rightarrow> bool" where
  "same_delivery i w w' \<longleftrightarrow> find_row dlv_id i (deliveries w') = find_row dlv_id i (deliveries w) \<and>
     (\<forall>j s. find_row stp_id j (deliveryStops w) = Some s \<and> stp_deliveryId s = i \<longrightarrow>
        find_row stp_id j (deliveryStops w') = Some s)"

text \<open>
  C5. No sequence of requests of other drivers, over any of the endpoints of the delivery core and with any
  bodies, changes a delivery or a stop of it.
\<close>

theorem other_drivers_kept_out:
  assumes "core_inv (core_of w)" and "\<forall>(user, q) \<in> set reqs. \<exists>e. e \<noteq> d \<and> working_driver e user"
    and "find_row dlv_id i (deliveries w) = Some v" and "dlv_driverId v = Some d"
  shows "same_delivery i w (http_run reqs w)"
  using assms
proof (induction reqs arbitrary: w)
  case Nil
  then show ?case by (simp add: same_delivery_def)
next
  case (Cons r reqs)
  obtain user q where r: "r = (user, q)" by (cases r)
  obtain e where e: "e \<noteq> d" "working_driver e user" using Cons.prems(2) r by auto
  let ?w1 = "snd (http user q w)"
  have "unique_keys stp_id (deliveryStops w)"
    using Cons.prems(1) by (simp add: core_inv_def keys_ok_def core_of_def)
  then have "untouched e w ?w1" using http_untouched e(2) by blast
  moreover have "\<not> own_delivery e w i" using Cons.prems(3,4) e(1) by (simp add: own_delivery_def)
  ultimately have one: "same_delivery i w ?w1" by (auto simp: untouched_def same_delivery_def)
  moreover have "same_delivery i ?w1 (http_run reqs ?w1)"
  proof (rule Cons.IH)
    show "core_inv (core_of ?w1)" using http_core_inv Cons.prems(1) e(2) by (simp add: working_driver_def)
    show "find_row dlv_id i (deliveries ?w1) = Some v" using one Cons.prems(3) by (simp add: same_delivery_def)
  qed (use Cons.prems in auto)
  ultimately show ?case by (simp add: r same_delivery_def)
qed

theorem other_drivers_kept_out_witness:
  "same_delivery ''dlv1'' (sample_world EN_ROUTE S_PENDING S_PENDING)
     (http_run [(driver_user, PostDepart ''stp1''), (driver_user, PostSkip ''stp1'' None 7), (driver_user, PostComplete ''dlv1'' 8)]
       (sample_world EN_ROUTE S_PENDING S_PENDING))"
proof (rule other_drivers_kept_out[where d = "''drv1''" and v = "sample_delivery EN_ROUTE"])
  show "core_inv (core_of (sample_world EN_ROUTE S_PENDING S_PENDING))" by (rule core_inv_sample) simp
qed (simp_all add: sample_defs working_driver_def driver_user_def sample_principal_def)

text \<open>
  A user with the role of a driver and no driver profile is no working driver, and skipping a stop does not ask
  for the profile: such a user can skip any pending stop of any open delivery.
\<close>

theorem stranger_skips_stops:
  assumes "prn_role user = ''DRIVER''" and "prn_driverId user = None" and "valid_reason reason"
    and "find_row stp_id j (deliveryStops w) = Some s" and "stp_status s = S_PENDING"
    and "find_row dlv_id (stp_deliveryId s) (deliveries w) = Some v" and "\<not> terminal_delivery (dlv_status v)"
    and "unique_keys stp_id (deliveryStops w)"
  shows "fst (http user (PostSkip j reason now) w) = Inr ()"
proof -
  have g: "skipStop_guard j (extractActor user) w = Inr s"
    using assms by (simp add: skipStop_guard_def getStopAndVerifyDriver_def extractActor_def or_null_def
        ensureDeliveryOperational_def)
  have "fst (skipStop j reason (extractActor user) now w) = Inr (skip_row s)"
    unfolding skipStop_eq[OF assms(8)] g by simp
  then show ?thesis
    using assms(1,3) by (simp add: post_skip_def endpoint_def roles_guard_def answered_def)
qed

theorem stranger_skips_stops_witness:
  "fst (http (sample_principal ''du'' ''DRIVER'' None) (PostSkip ''stp1'' None 7) (sample_world EN_ROUTE S_PENDING S_PENDING)) = Inr ()"
  by (rule stranger_skips_stops[where s = "sample_stop ''stp1'' 1 S_PENDING" and v = "sample_delivery EN_ROUTE"])
     (simp_all add: sample_defs sample_principal_def valid_reason_def terminal_delivery_def)

end
