(* ===== verification/Accounts.thy ===== *)
theory Accounts
  imports Endpoints
begin

text \<open>
  The endpoints of accounts: \<open>auth.controller.ts\<close>, \<open>users.controller.ts\<close> and \<open>device.controller.ts\<close>.  A request
  carries the payload of its bearer token, if there is one whose signature and lifetime the JWT library
  accepts; the token guard is then \<open>validate\<close>.
\<close>

section \<open>Guards\<close>

definition authenticated ::
  "jwt_payload option \<Rightarrow> timestamp \<Rightarrow> (principal \<Rightarrow> auth_world \<Rightarrow> ('a, auth_world) outcome) \<Rightarrow> auth_world \<Rightarrow>
   ('a, auth_world) outcome" where
  "authenticated token now handler w =
     (case token of
        None \<Rightarrow> (fail_with Unauthorized [], w)
      | Some p \<Rightarrow>
          case validate p now w of
            (Inl e, w1) \<Rightarrow> (Inl e, w1)
          | (Inr user, w1) \<Rightarrow> handler user w1)"

abbreviation managers :: "string list" where
  "managers \<equiv> [''SUPER_ADMIN'', ''ADMIN'']"

text \<open>Token, role and permission, then the body.\<close>

definition managed ::
  "jwt_payload option \<Rightarrow> timestamp \<Rightarrow> bool \<Rightarrow> (principal \<Rightarrow> auth_world \<Rightarrow> ('a, auth_world) outcome) \<Rightarrow> auth_world \<Rightarrow>
   ('a, auth_world) outcome" where
  "managed token now valid_body handler =
     authenticated token now (\<lambda>user w.
       case roles_guard (Some managers) (Some user) of
         Inl e \<Rightarrow> (Inl e, w)
       | Inr _ \<Rightarrow>
           case permissions_guard (Some [''user:manage'']) (Some user) of
             Inl e \<Rightarrow> (Inl e, w)
           | Inr _ \<Rightarrow> if \<not> valid_body then (fail_with BadRequest [], w) else handler user w)"

section \<open>Authentication\<close>

definition or_text :: "string option \<Rightarrow> string \<Rightarrow> string" where
  "or_text x t = (if truthy x then the x else t)"

definition post_login ::
  "argon2 \<Rightarrow> (string \<Rightarrow> string) \<Rightarrow> login_dto \<Rightarrow> string option \<Rightarrow> fresh_values \<Rightarrow> timestamp \<Rightarrow> auth_world \<Rightarrow>
   (login_answer, auth_world) outcome" where
  "post_login lib hashToken dto ip fv now w =
     (if \<not> valid_login dto then (fail_with BadRequest [], w)
      else login lib hashToken dto (or_text ip ''127.0.0.1'') True fv now w)"

definition csrf_guarded ::
  "(string \<Rightarrow> string option) \<Rightarrow> string list \<Rightarrow> csrf_request \<Rightarrow> (auth_world \<Rightarrow> ('a, auth_world) outcome) \<Rightarrow> auth_world \<Rightarrow>
   ('a, auth_world) outcome" where
  "csrf_guarded origin_of allowedOrigins r handler w =
     (case csrf_guard origin_of allowedOrigins r of Inl e \<Rightarrow> (Inl e, w) | Inr _ \<Rightarrow> handler w)"

definition post_refresh ::
  "(string \<Rightarrow> string option) \<Rightarrow> string list \<Rightarrow> (string \<Rightarrow> string) \<Rightarrow> csrf_request \<Rightarrow> string option \<Rightarrow> fresh_values \<Rightarrow>
   timestamp \<Rightarrow> auth_world \<Rightarrow> (login_answer, auth_world) outcome" where
  "post_refresh origin_of allowedOrigins hashToken r refreshToken fv now =
     csrf_guarded origin_of allowedOrigins r
       (let cookieToken = cr_refreshCookie r;
            rawToken = (if truthy refreshToken then refreshToken else cookieToken);
            clientType = (if truthy cookieToken \<or> cr_clientType r = Some ''WEB'' then WEB_CLIENT else MOBILE_CLIENT)
        in refresh hashToken rawToken clientType True fv now)"

text \<open>The telephone number in the form of E.164; \<open>is_email\<close> is the check of the validation library.\<close>

definition e164 :: "string \<Rightarrow> bool" where
  "e164 s \<longleftrightarrow>
     (let ds = (if take 1 s = ''+'' then drop 1 s else s) in
      2 \<le> length ds \<and> length ds \<le> 15 \<and> hd ds \<in> set ''123456789'' \<and> list_all (\<lambda>c. c \<in> set ''0123456789'') ds)"

definition valid_register :: "(string \<Rightarrow> bool) \<Rightarrow> register_user_dto \<Rightarrow> bool" where
  "valid_register is_email dto \<longleftrightarrow>
     3 \<le> length (reg_username dto) \<and> length (reg_username dto) \<le> 50 \<and>
     (case reg_email dto of None \<Rightarrow> True | Some m \<Rightarrow> is_email m) \<and> e164 (reg_phone dto) \<and>
     8 \<le> length (reg_password dto) \<and> length (reg_password dto) \<le> 100"

definition post_register ::
  "(string \<Rightarrow> bool) \<Rightarrow> argon2 \<Rightarrow> register_user_dto \<Rightarrow> uuid \<Rightarrow> auth_world \<Rightarrow> (user, auth_world) outcome" where
  "post_register is_email lib dto newId w =
     (if \<not> valid_register is_email dto then (fail_with BadRequest [], w) else registerUser lib dto newId w)"

text \<open>
  \<open>req.user\<close> of the two logout routes: their only guard is the one against CSRF, no guard is registered
  globally, and neither that guard nor the middleware puts a user into the request.
\<close>

definition logout_user :: "principal option" where
  "logout_user = None"

definition post_logout ::
  "(string \<Rightarrow> string option) \<Rightarrow> string list \<Rightarrow> csrf_request \<Rightarrow> timestamp \<Rightarrow> auth_world \<Rightarrow> (unit, auth_world) outcome" where
  "post_logout origin_of allowedOrigins r now =
     csrf_guarded origin_of allowedOrigins r
       (\<lambda>w. (Inr (), logout (map_option prn_sessionId logout_user) (map_option prn_id logout_user) now w))"

definition post_logout_all ::
  "(string \<Rightarrow> string option) \<Rightarrow> string list \<Rightarrow> csrf_request \<Rightarrow> timestamp \<Rightarrow> auth_world \<Rightarrow> (unit, auth_world) outcome" where
  "post_logout_all origin_of allowedOrigins r now =
     csrf_guarded origin_of allowedOrigins r (\<lambda>w. (Inr (), logoutAll (map_option prn_id logout_user) now w))"

section \<open>Users\<close>

definition get_me where
  "get_me token now = authenticated token now (\<lambda>user. reading (getUserById (prn_id user)))"

definition patch_role where
  "patch_role token target roleCode now =
     managed token now (roleCode \<noteq> []) (\<lambda>user. updateUserRole target roleCode (prn_id user) now)"

definition patch_status where
  "patch_status token target status now =
     managed token now True (\<lambda>user. updateUserStatus target status (prn_id user) now)"

definition valid_password :: "string \<Rightarrow> bool" where
  "valid_password p \<longleftrightarrow> 8 \<le> length p \<and> length p \<le> 100"

definition post_reset_password where
  "post_reset_password lib token target newPassword now =
     managed token now (valid_password newPassword)
       (\<lambda>user. adminResetPassword lib target newPassword (prn_id user) now)"

section \<open>Devices\<close>

definition valid_register_device :: "register_device_dto \<Rightarrow> bool" where
  "valid_register_device dto \<longleftrightarrow> text_upto 100 (rd_deviceIdentifier dto) \<and> text_upto 50 (rd_appVersion dto)"

definition post_register_device where
  "post_register_device token dto newId now =
     authenticated token now (\<lambda>user w.
       if \<not> valid_register_device dto then (fail_with BadRequest [], w) else registerDevice (prn_id user) dto newId w)"

definition post_revoke_device where
  "post_revoke_device token deviceId now =
     authenticated token now (\<lambda>user. revokeDevice deviceId (prn_id user) (prn_role user) now)"

definition get_my_devices where
  "get_my_devices token now = authenticated token now (\<lambda>user. reading (\<lambda>w. Inr (getUserDevices (prn_id user) w)))"

section \<open>Requests\<close>

datatype account_request =
    LoginRequest login_dto "string option" fresh_values timestamp
  | RefreshRequest csrf_request "string option" fresh_values timestamp
  | RegisterRequest register_user_dto uuid
  | LogoutRequest csrf_request timestamp
  | LogoutAllRequest csrf_request timestamp
  | GetMe "jwt_payload option" timestamp
  | PatchRole "jwt_payload option" uuid string timestamp
  | PatchStatus "jwt_payload option" uuid account_status timestamp
  | PostResetPassword "jwt_payload option" uuid string timestamp
  | PostRegisterDevice "jwt_payload option" register_device_dto uuid timestamp
  | PostRevokeDevice "jwt_payload option" uuid timestamp
  | GetMyDevices "jwt_payload option" timestamp

text \<open>What the deployment and the libraries provide.\<close>

record account_config =
  acf_originOf :: "string \<Rightarrow> string option"
  acf_allowedOrigins :: "string list"
  acf_isEmail :: "string \<Rightarrow> bool"
  acf_argon :: argon2
  acf_hashToken :: "string \<Rightarrow> string"

fun account_http :: "account_config \<Rightarrow> account_request \<Rightarrow> auth_world \<Rightarrow> (unit, auth_world) outcome" where
  "account_http cf (LoginRequest dto ip fv now) w = answered (post_login (acf_argon cf) (acf_hashToken cf) dto ip fv now w)"
| "account_http cf (RefreshRequest r raw fv now) w =
     answered (post_refresh (acf_originOf cf) (acf_allowedOrigins cf) (acf_hashToken cf) r raw fv now w)"
| "account_http cf (RegisterRequest dto newId) w = answered (post_register (acf_isEmail cf) (acf_argon cf) dto newId w)"
| "account_http cf (LogoutRequest r now) w = post_logout (acf_originOf cf) (acf_allowedOrigins cf) r now w"
| "account_http cf (LogoutAllRequest r now) w = post_logout_all (acf_originOf cf) (acf_allowedOrigins cf) r now w"
| "account_http cf (GetMe token now) w = answered (get_me token now w)"
| "account_http cf (PatchRole token target roleCode now) w = answered (patch_role token target roleCode now w)"
| "account_http cf (PatchStatus token target status now) w = answered (patch_status token target status now w)"
| "account_http cf (PostResetPassword token target p now) w = answered (post_reset_password (acf_argon cf) token target p now w)"
| "account_http cf (PostRegisterDevice token dto newId now) w = answered (post_register_device token dto newId now w)"
| "account_http cf (PostRevokeDevice token i now) w = answered (post_revoke_device token i now w)"
| "account_http cf (GetMyDevices token now) w = answered (get_my_devices token now w)"

end
