(* ===== verification/AccountProps.thy ===== *)
theory AccountProps
  imports Accounts AuthProps
begin

text \<open>
  Who can change accounts over HTTP: only holders of the permission to manage users, whatever else is sent;
  and two things the endpoints do not do: a logout ends no session, and a manager may promote itself.
\<close>

section \<open>Role and status of the accounts\<close>

definition standing :: "user \<Rightarrow> uuid \<times> string \<times> account_status" where
  "standing u = (usr_id u, usr_role u, usr_status u)"

definition accounts_of :: "auth_world \<Rightarrow> role list \<times> (uuid \<times> string \<times> account_status) list" where
  "accounts_of w = (aw_roles w, map standing (aw_users w))"

lemma accounts_frame:
  "aw_roles w' = aw_roles w \<Longrightarrow> aw_users w' = aw_users w \<Longrightarrow> accounts_of w' = accounts_of w"
  by (simp add: accounts_of_def)

lemma accounts_session_frame [simp]:
  "accounts_of (log_audit a w) = accounts_of w" "accounts_of (on_redis f w) = accounts_of w"
  "accounts_of (revoke_key k now w) = accounts_of w" "accounts_of (announce m w) = accounts_of w"
  "accounts_of (revoke_user_rows i w) = accounts_of w" "accounts_of (w\<lparr>aw_sessions := ss\<rparr>) = accounts_of w"
  "accounts_of (w\<lparr>aw_devices := ds\<rparr>) = accounts_of w" "accounts_of (w\<lparr>aw_redis := rd\<rparr>) = accounts_of w"
  by (rule accounts_frame; simp)+

lemma accounts_update_user [simp]:
  "(\<And>r. standing (f r) = standing r) \<Longrightarrow> accounts_of (update_user i f w) = accounts_of w"
  by (simp add: accounts_of_def map_key_update_row)

lemma accounts_revoke_keys [simp]: "accounts_of (revoke_session_keys ss now w) = accounts_of w"
  by (induction ss arbitrary: w) (simp_all add: revoke_session_keys_def)

lemma accounts_evict [simp]: "accounts_of (foldl (evict now) w ss) = accounts_of w"
  by (induction ss arbitrary: w) (simp_all add: evict_def)

lemma accounts_insert_session: "insert_session s w = Inr w' \<Longrightarrow> accounts_of w' = accounts_of w"
  by (auto simp: insert_session_def split: if_splits)

lemma accounts_create [simp]: "accounts_of (snd (createSession h u d role raw fam i now w)) = accounts_of w"
  by (auto simp: createSession_def create_driver_session_def create_limited_session_def Let_def
      dest: accounts_insert_session split: sum.split)

lemma accounts_family [simp]: "accounts_of (revokeTokenFamily s now w) = accounts_of w"
  by (simp add: revokeTokenFamily_def Let_def)

lemma accounts_rotate_claim:
  assumes "rotate_claim h s newRaw i now w = Some (Inr (r, w'))"
  shows "accounts_of w' = accounts_of w"
proof -
  obtain ss t where "insert_session t (w\<lparr>aw_sessions := ss\<rparr>) = Inr w'"
    using assms by (auto simp: rotate_claim_def Let_def split: prod.splits if_splits sum.splits)
  then show ?thesis using accounts_insert_session by fastforce
qed

lemma accounts_rotate_finish: "accounts_of (snd (rotate_finish h s newRaw i now w)) = accounts_of w"
proof (cases "rotate_claim h s newRaw i now w")
  case (Some x)
  then show ?thesis using accounts_rotate_claim by (cases x) (auto simp: rotate_finish_def)
qed (simp add: rotate_finish_def reuse_detected_def)

lemma accounts_rotate [simp]: "accounts_of (snd (rotateSession h raw newRaw i now w)) = accounts_of w"
  by (simp add: rotateSession_def reuse_detected_def accounts_rotate_finish split: rotate_check.split)

lemma accounts_login [simp]: "accounts_of (snd (login lib h dto ip hasRes fv now w)) = accounts_of w"
proof -
  obtain r1 w1 where t: "login_throttle (lgn_username dto) ip now w = (r1, w1)" by fastforce
  obtain r2 w2 where c: "login_credentials lib dto w1 = (r2, w2)" by fastforce
  obtain u where u: "r2 = Inr u \<or> (\<exists>e. r2 = Inl e)" by (cases r2) auto
  let ?w4 = "rehash lib u (lgn_password dto) (on_redis (resetRateLimit (user_throttle_key (lgn_username dto))) w2)"
  obtain d w5 where d: "login_device dto (usr_id u) (fv_deviceId fv) now ?w4 = (d, w5)" by fastforce
  obtain rs w6 where s: "createSession h (usr_id u) d (usr_role u) (fv_rawToken fv) (fv_family fv)
      (fv_sessionId fv) now w5 = (rs, w6)" by fastforce
  have w1: "accounts_of w1 = accounts_of w" using login_throttle_frame[OF t] by auto
  have w2: "accounts_of w2 = accounts_of w1" using login_credentials_frame[OF c] by (intro accounts_frame) simp_all
  have "accounts_of ?w4 = accounts_of w2" by (simp add: rehash_def standing_def)
  moreover have "accounts_of w5 = accounts_of ?w4" using login_device_frame[OF d] by (intro accounts_frame) simp_all
  moreover have "accounts_of w6 = accounts_of w5"
    using accounts_create[of h "usr_id u" d "usr_role u" "fv_rawToken fv" "fv_family fv" "fv_sessionId fv" now w5] s by simp
  ultimately have w6: "accounts_of w6 = accounts_of w" using w1 w2 by simp
  show ?thesis
    using u t c d s w1 w2 w6
    by (cases r1; cases rs) (auto simp: login_def Let_def standing_def)
qed

lemma accounts_refresh [simp]: "accounts_of (snd (refresh h raw ct hasRes fv now w)) = accounts_of w"
proof -
  obtain r w1 where r: "rotateSession h (the raw) (fv_rawToken fv) (fv_sessionId fv) now w = (r, w1)" by fastforce
  then have "accounts_of w1 = accounts_of w"
    using accounts_rotate[of h "the raw" "fv_rawToken fv" "fv_sessionId fv" now w] by simp
  then show ?thesis using r by (simp add: refresh_def Let_def split: sum.split option.split)
qed

lemma accounts_validate [simp]: "accounts_of (snd (validate p now w)) = accounts_of w"
  by (simp add: validate_def Let_def split: prod.split option.split)

lemma accounts_devices [simp]:
  "accounts_of (snd (registerDevice u dto i w)) = accounts_of w"
  "accounts_of (snd (revokeDevice d u role now w)) = accounts_of w"
  by (simp_all add: registerDevice_def revokeDevice_def Let_def split: option.split)

text \<open>A registration appends an account that waits for its activation.\<close>

definition pending_drivers :: "(uuid \<times> string \<times> account_status) list \<Rightarrow> bool" where
  "pending_drivers ss \<longleftrightarrow> (\<forall>(i, role, status) \<in> set ss. role = ''DRIVER'' \<and> status = PENDING_ACTIVATION)"

lemma accounts_register:
  "\<exists>new. accounts_of (snd (registerUser lib dto i w)) = (aw_roles w, map standing (aw_users w) @ new) \<and> pending_drivers new"
  by (cases "fst (registerUser lib dto i w)")
     (auto simp: registerUser_def Let_def accounts_of_def standing_def pending_drivers_def split: if_splits)

section \<open>Who passes the guards of the managers\<close>

text \<open>Whether the account a token was issued for may manage accounts.\<close>

definition may_manage :: "jwt_payload \<Rightarrow> auth_world \<Rightarrow> bool" where
  "may_manage p w \<longleftrightarrow> (\<exists>u. find_row usr_id (jwt_sub p) (aw_users w) = Some u \<and> usr_role u \<in> set managers \<and>
     ''user:manage'' \<in> set (permissions_of (usr_role u) w))"

lemma validate_principal:
  assumes "validate p now w = (Inr user, w')"
  shows "\<exists>u. find_row usr_id (jwt_sub p) (aw_users w) = Some u \<and> prn_role user = usr_role u \<and>
    prn_permissions user = permissions_of (usr_role u) w"
proof (cases "find_row usr_id (jwt_sub p) (aw_users w)")
  case None
  then show ?thesis using assms by (simp add: validate_def Let_def split: prod.splits if_splits)
next
  case (Some u)
  then show ?thesis
    using assms by (auto simp: validate_def Let_def permissions_of_def split: prod.splits if_splits)
qed

lemma authenticated_accounts:
  assumes "\<And>user w'. accounts_of (snd (handler user w')) = accounts_of w'"
  shows "accounts_of (snd (authenticated token now handler w)) = accounts_of w"
proof (cases token)
  case (Some p)
  obtain r w1 where v: "validate p now w = (r, w1)" by fastforce
  then have "accounts_of w1 = accounts_of w" using accounts_validate[of p now w] by simp
  then show ?thesis using assms v by (cases r) (simp_all add: authenticated_def Some)
qed (simp add: authenticated_def)

lemma managed_refused:
  assumes "\<And>p. token = Some p \<Longrightarrow> \<not> may_manage p w"
  shows "accounts_of (snd (managed token now ok handler w)) = accounts_of w"
proof (cases token)
  case (Some p)
  obtain r w1 where v: "validate p now w = (r, w1)" by fastforce
  then have w1: "accounts_of w1 = accounts_of w" using accounts_validate[of p now w] by simp
  show ?thesis
  proof (cases r)
    case (Inr user)
    obtain u where "find_row usr_id (jwt_sub p) (aw_users w) = Some u" "prn_role user = usr_role u"
      "prn_permissions user = permissions_of (usr_role u) w"
      using validate_principal v Inr by blast
    then have "prn_role user \<notin> set managers \<or> ''user:manage'' \<notin> set (prn_permissions user)"
      using assms[OF Some] by (auto simp: may_manage_def)
    then have "\<exists>e. managed token now ok handler w = (Inl e, w1)"
      using v Inr by (auto simp: managed_def authenticated_def Some roles_guard_def permissions_guard_def)
    then show ?thesis using w1 by auto
  qed (use v w1 in \<open>simp add: managed_def authenticated_def Some\<close>)
qed (simp add: managed_def authenticated_def)

section \<open>Sequences of requests\<close>

fun manager_token :: "account_request \<Rightarrow> jwt_payload option" where
  "manager_token (PatchRole token target roleCode now) = token"
| "manager_token (PatchStatus token target status now) = token"
| "manager_token (PostResetPassword token target p now) = token"
| "manager_token _ = None"

fun account_run :: "account_config \<Rightarrow> account_request list \<Rightarrow> auth_world \<Rightarrow> auth_world" where
  "account_run cf [] w = w"
| "account_run cf (q # qs) w = account_run cf qs (snd (account_http cf q w))"

definition grown :: "auth_world \<Rightarrow> auth_world \<Rightarrow> bool" where
  "grown w w' \<longleftrightarrow>
     (\<exists>new. accounts_of w' = (aw_roles w, map standing (aw_users w) @ new) \<and> pending_drivers new)"

lemma grown_same: "accounts_of w' = accounts_of w \<Longrightarrow> grown w w'"
  by (auto simp: grown_def accounts_of_def pending_drivers_def)

lemma grown_trans: "grown w w1 \<Longrightarrow> grown w1 w2 \<Longrightarrow> grown w w2"
  by (auto simp: grown_def accounts_of_def pending_drivers_def)

lemma find_standing: "find_row fst i (map standing us) = map_option standing (find_row usr_id i us)"
  by (induction us) (auto simp: standing_def)

lemma grown_managers:
  assumes "grown w w'" and "may_manage p w'"
  shows "may_manage p w"
proof -
  obtain new where new: "aw_roles w' = aw_roles w" "map standing (aw_users w') = map standing (aw_users w) @ new"
    "pending_drivers new"
    using assms(1) by (auto simp: grown_def accounts_of_def)
  obtain u where u: "find_row usr_id (jwt_sub p) (aw_users w') = Some u" "usr_role u \<in> set managers"
    "''user:manage'' \<in> set (permissions_of (usr_role u) w)"
    using assms(2) new(1) by (auto simp: may_manage_def permissions_of_def)
  have f: "find_row fst (jwt_sub p) (map standing (aw_users w) @ new) = Some (standing u)"
    using find_standing[of "jwt_sub p" "aw_users w'"] u(1) new(2) by simp
  show ?thesis
  proof (cases "find_row usr_id (jwt_sub p) (aw_users w)")
    case None
    then have "standing u \<in> set new"
      using f find_standing[of "jwt_sub p" "aw_users w"] by (auto simp: find_row_append dest: find_row_SomeD)
    then show ?thesis using new(3) u(2) by (auto simp: pending_drivers_def standing_def)
  next
    case (Some v)
    then have "standing v = standing u"
      using f find_standing[of "jwt_sub p" "aw_users w"] by (simp add: find_row_append)
    then show ?thesis using Some u by (auto simp: may_manage_def standing_def)
  qed
qed

lemma csrf_guarded_kept: "accounts_of (snd (handler w)) = accounts_of w \<Longrightarrow>
   accounts_of (snd (csrf_guarded origin_of allowed r handler w)) = accounts_of w"
  by (simp add: csrf_guarded_def split: sum.split)

lemma account_http_grown:
  assumes "\<And>p. manager_token q = Some p \<Longrightarrow> \<not> may_manage p w"
  shows "grown w (snd (account_http cf q w))"
proof (cases q)
  case (RegisterRequest dto i)
  then show ?thesis
    using accounts_register[of "acf_argon cf" dto i w] grown_same[of w w]
    by (auto simp: post_register_def grown_def)
next
  case (RefreshRequest r raw fv now)
  then show ?thesis by (simp add: post_refresh_def grown_same csrf_guarded_kept Let_def)
next
  case (LogoutRequest r now)
  then show ?thesis
    by (simp add: post_logout_def logout_user_def logout_def revokeSession_def grown_same csrf_guarded_kept)
next
  case (LogoutAllRequest r now)
  then show ?thesis
    by (simp add: post_logout_all_def logout_user_def logoutAll_def revokeAllUserSessions_def grown_same csrf_guarded_kept)
next
  case (PostRegisterDevice token dto i now)
  then show ?thesis by (simp add: post_register_device_def grown_same authenticated_accounts)
qed (use assms in \<open>simp_all add: grown_same managed_refused authenticated_accounts post_login_def get_me_def patch_role_def
    patch_status_def post_reset_password_def post_revoke_device_def get_my_devices_def\<close>)

text \<open>
  C18. Whatever sequence of requests arrives at the endpoints of accounts, as long as no token of a role or
  status change or a password reset belongs to an account with the permission to manage users: the existing
  accounts keep their role and status, and what is added are drivers that wait for their activation.
\<close>

theorem accounts_changed_by_managers_only:
  assumes "\<forall>q \<in> set qs. \<forall>p. manager_token q = Some p \<longrightarrow> \<not> may_manage p w"
  shows "\<exists>new. accounts_of (account_run cf qs w) = (aw_roles w, map standing (aw_users w) @ new) \<and> pending_drivers new"
proof -
  have "grown w (account_run cf qs w)"
    using assms
  proof (induction qs arbitrary: w)
    case Nil
    then show ?case by (simp add: grown_same)
  next
    case (Cons q qs)
    have step: "grown w (snd (account_http cf q w))" using Cons.prems by (intro account_http_grown) simp
    moreover have "\<forall>q \<in> set qs. \<forall>p. manager_token q = Some p \<longrightarrow> \<not> may_manage p (snd (account_http cf q' w))"
      if "q' = q" for q'
      using Cons.prems grown_managers[OF step] that by auto
    ultimately show ?case using grown_trans Cons.IH by auto
  qed
  then show ?thesis by (simp add: grown_def)
qed

definition sample_config :: account_config where
  "sample_config = \<lparr>acf_originOf = Some, acf_allowedOrigins = [''https://dms''], acf_isEmail = (\<lambda>s. True),
     acf_argon = sample_argon, acf_hashToken = sample_hash\<rparr>"

definition sample_register :: register_user_dto where
  "sample_register = \<lparr>reg_username = ''budi'', reg_email = None, reg_phone = ''+6281'', reg_password = ''12345678''\<rparr>"

theorem accounts_changed_by_managers_only_witness:
  "\<exists>new. accounts_of (account_run sample_config
       [PatchRole (Some sample_token) ''u'' ''OWNER'' 5, PatchStatus None ''u'' DISABLED 6, RegisterRequest sample_register ''v'']
       (sample_auth ''DRIVER'')) =
     (aw_roles (sample_auth ''DRIVER''), map standing (aw_users (sample_auth ''DRIVER'')) @ new) \<and> pending_drivers new"
  by (rule accounts_changed_by_managers_only) (simp add: may_manage_def sample_auth_defs)

section \<open>Logging out\<close>

text \<open>
  The two logout routes have no guard that knows the user, so they end no session, although they answer with
  success: every token and every refresh token stays as good as it was.
\<close>

lemma logout_answers_success:
  assumes "truthy (cr_authorization r)" and "prefix ''Bearer '' (the (cr_authorization r))"
  shows "fst (account_http cf (LogoutRequest r t) w) = Inr ()" and "fst (account_http cf (LogoutAllRequest r t) w) = Inr ()"
  using assms by (simp_all add: post_logout_def post_logout_all_def csrf_guarded_def csrf_guard_def)

fun is_logout :: "account_request \<Rightarrow> bool" where
  "is_logout (LogoutRequest r t) = True"
| "is_logout (LogoutAllRequest r t) = True"
| "is_logout _ = False"

lemma logout_changes_nothing: "is_logout q \<Longrightarrow> snd (account_http cf q w) = w"
  by (cases q) (auto simp: post_logout_def post_logout_all_def csrf_guarded_def logout_user_def logout_def logoutAll_def
      revokeSession_def revokeAllUserSessions_def split: sum.split)

theorem logouts_make_no_difference:
  "account_run cf qs w = account_run cf (filter (\<lambda>q. \<not> is_logout q) qs) w"
  by (induction qs arbitrary: w) (simp_all add: logout_changes_nothing)

section \<open>Promotion\<close>

text \<open>An administrator with the permission to manage users can take any role, its own account included.\<close>

theorem administrator_promotes_itself:
  assumes "validate p now w = (Inr user, w1)" and "prn_role user = ''ADMIN''" and "''user:manage'' \<in> set (prn_permissions user)"
    and "find_row rol_code ''SUPER_ADMIN'' (aw_roles w) \<noteq> None"
  shows "\<exists>u. fst (patch_role (Some p) (jwt_sub p) ''SUPER_ADMIN'' now w) = Inr u \<and> usr_role u = ''SUPER_ADMIN''"
proof -
  have "accounts_of w1 = accounts_of w" using accounts_validate[of p now w] assms(1) by simp
  then have roles: "aw_roles w1 = aw_roles w" by (simp add: accounts_of_def)
  have users: "aw_users w1 = aw_users w" using validate_frame[of p now w] assms(1) by simp
  obtain u where u: "find_row usr_id (jwt_sub p) (aw_users w1) = Some u"
    using validate_principal[OF assms(1)] users by auto
  then show ?thesis
    using assms roles
    by (auto simp: patch_role_def managed_def authenticated_def roles_guard_def permissions_guard_def updateUserRole_def Let_def)
qed

end
