(* ===== verification/CommEndpoints.thy ===== *)
theory CommEndpoints
  imports Endpoints Chat Keys
begin

text \<open>
  The endpoints of communication: \<open>conversations.controller.ts\<close>, \<open>communication.controller.ts\<close> and
  \<open>e2ee-keys.controller.ts\<close>.  The user is the principal of the token guard; the last controller has no roles.
\<close>

definition comm_actor :: "principal \<Rightarrow> user_actor" where
  "comm_actor user =
     \<lparr>ua_userId = prn_id user, ua_role = prn_role user, ua_driverId = or_null (prn_driverId user),
      ua_deviceId = (if prn_deviceId user = [] then None else Some (prn_deviceId user))\<rparr>"

section \<open>Conversations\<close>

definition post_conversation where
  "post_conversation user driverId newId =
     endpoint operators user (driverId \<noteq> []) (createConversation driverId (comm_actor user) newId)"

definition get_conversations where
  "get_conversations user = endpoint everyone user True (reading (\<lambda>w. Inr (getUserConversations (comm_actor user) w)))"

definition get_conversation where
  "get_conversation user i = endpoint everyone user True (reading (verifyConversationAccess i (comm_actor user)))"

definition valid_messages_query :: "nat option \<Rightarrow> nat option \<Rightarrow> bool" where
  "valid_messages_query limit offset \<longleftrightarrow> (case limit of None \<Rightarrow> True | Some l \<Rightarrow> 1 \<le> l \<and> l \<le> 100)"

definition get_messages where
  "get_messages user i limit offset =
     endpoint everyone user (valid_messages_query limit offset) (reading (getMessages i limit offset (comm_actor user)))"

definition valid_send_message :: "send_message_dto \<Rightarrow> bool" where
  "valid_send_message dto \<longleftrightarrow>
     smd_recipientDeviceId dto \<noteq> [] \<and> (case smd_protocolVersion dto of None \<Rightarrow> True | Some v \<Rightarrow> 1 \<le> v) \<and>
     smd_ciphertextBlob dto \<noteq> [] \<and> (case smd_headerJson dto of JObj _ \<Rightarrow> True | _ \<Rightarrow> False)"

definition messagesEndpoint :: string where
  "messagesEndpoint = ''/v1/conversations/:id/messages''"

text \<open>The status is 200 for a replay and 201 otherwise.\<close>

definition message_response :: "message_result \<Rightarrow> nat \<times> message_result" where
  "message_response r = (if mrs_idempotent r then 200 else 201, r)"

definition post_message where
  "post_message user i dto newId now =
     endpoint everyone user (valid_send_message dto)
       (\<lambda>w. map_prod (map_sum id message_response) id (sendMessage i dto (comm_actor user) messagesEndpoint newId now w))"

section \<open>Calls\<close>

text \<open>The type of the body is overwritten by the route.\<close>

definition post_voice_session where
  "post_voice_session user cfg dto sessionId now =
     endpoint operators user (icd_driverId dto \<noteq> [])
       (initiateCallSession cfg (dto\<lparr>icd_type := VOICE_PTT\<rparr>) (comm_actor user) sessionId now)"

definition post_video_session where
  "post_video_session user cfg dto sessionId now =
     endpoint operators user (icd_driverId dto \<noteq> [])
       (initiateCallSession cfg (dto\<lparr>icd_type := VIDEO\<rparr>) (comm_actor user) sessionId now)"

definition post_respond where
  "post_respond user sessionId action now now' =
     endpoint everyone user True (respondToCallSession sessionId action (comm_actor user) now now')"

definition post_end where
  "post_end user sessionId now = endpoint everyone user True (endCallSession sessionId (comm_actor user) now)"

section \<open>Keys\<close>

definition valid_register_keys :: "register_device_keys_dto \<Rightarrow> bool" where
  "valid_register_keys dto \<longleftrightarrow> rdk_deviceId dto \<noteq> [] \<and> rdk_identityKeyPublic dto \<noteq> [] \<and>
     rdk_signedPrekeyPublic dto \<noteq> [] \<and> rdk_signedPrekeySig dto \<noteq> []"

definition post_register_keys where
  "post_register_keys user dto newId w =
     (if \<not> valid_register_keys dto then (fail_with BadRequest [], w) else registerDeviceKeys dto (prn_id user) newId w)"

definition post_prekeys where
  "post_prekeys user dto newIds w =
     (if \<not> valid_upload dto then (fail_with BadRequest [], w) else uploadPrekeys dto (prn_id user) newIds w)"

definition get_bundle :: "principal \<Rightarrow> uuid \<Rightarrow> uuid list \<Rightarrow> timestamp \<Rightarrow> comm_world \<Rightarrow> (prekey_bundle, comm_world) outcome" where
  "get_bundle user targetDeviceId locked now = consumePrekeyBundle targetDeviceId locked now"

definition get_key_status where
  "get_key_status user deviceId = reading (getPrekeyStatus deviceId (prn_id user))"

end
