(* ===== verification/Responses.thy ===== *)
theory Responses
  imports Json
begin

text \<open>
  What goes out: the global exception filter, the envelope of answers, the request id and the sanitiser of log
  data (\<open>common/filters\<close>, \<open>common/interceptors\<close>, \<open>common/middleware\<close>, \<open>common/dto\<close>, \<open>common/utils\<close>).
\<close>

section \<open>Sanitising log data\<close>

definition sensitive_keys :: "string list" where
  "sensitive_keys = [''password'', ''passwordhash'', ''authorization'', ''token'', ''accesstoken'', ''refreshtoken'',
     ''secret'', ''key'', ''privatekey'', ''cookie'', ''databaseurl'', ''postgres_password'', ''jwt_secret_or_key'']"

definition sensitive :: "string \<Rightarrow> bool" where
  "sensitive k \<longleftrightarrow> lower k \<in> set sensitive_keys"

text \<open>A value that is no object is copied, which is what the function does with it as well.\<close>

fun sanitizeLogData :: "json \<Rightarrow> json" where
  "sanitizeLogData (JList xs) = JList (map sanitizeLogData xs)"
| "sanitizeLogData (JObj kvs) =
     JObj (map (\<lambda>(k, v). (k, if sensitive k then JStr ''[REDACTED]'' else sanitizeLogData v)) kvs)"
| "sanitizeLogData j = j"

text \<open>Whether a value has, at any depth, a sensitive property that is readable.\<close>

fun leaks :: "json \<Rightarrow> bool" where
  "leaks (JList xs) = (\<exists>x \<in> set xs. leaks x)"
| "leaks (JObj kvs) = (\<exists>(k, v) \<in> set kvs. if sensitive k then v \<noteq> JStr ''[REDACTED]'' else leaks v)"
| "leaks j = False"

lemma sanitized_keeps_nothing: "\<not> leaks (sanitizeLogData j)"
  by (induction j rule: sanitizeLogData.induct) (auto split: if_splits)

lemma sanitize_kept: "\<not> leaks j \<Longrightarrow> sanitizeLogData j = j"
  by (induction j rule: sanitizeLogData.induct) (force intro!: map_idI)+

lemma sanitize_twice: "sanitizeLogData (sanitizeLogData j) = sanitizeLogData j"
  by (rule sanitize_kept) (rule sanitized_keeps_nothing)

section \<open>The envelope\<close>

definition api_success :: "json \<Rightarrow> string \<Rightarrow> int \<Rightarrow> json" where
  "api_success data requestId now =
     JObj [(''success'', JBool True), (''data'', data), (''error'', JNull), (''timestamp'', JNum (of_int now)),
           (''requestId'', JStr requestId)]"

definition api_failure :: "json \<Rightarrow> string \<Rightarrow> int \<Rightarrow> json" where
  "api_failure err requestId now =
     JObj [(''success'', JBool False), (''data'', JNull), (''error'', err), (''timestamp'', JNum (of_int now)),
           (''requestId'', JStr requestId)]"

definition request_id_or_unknown :: "string option \<Rightarrow> string" where
  "request_id_or_unknown i = (if truthy i then the i else ''unknown'')"

text \<open>An answer that already is an envelope passes.\<close>

definition transform :: "string option \<Rightarrow> int \<Rightarrow> json \<Rightarrow> json" where
  "transform reqId now data =
     (if jget ''success'' data \<noteq> None \<and> jget ''requestId'' data \<noteq> None then data
      else api_success data (request_id_or_unknown reqId) now)"

lemma transform_once: "transform i' t' (transform i t j) = transform i t j"
  by (simp add: transform_def api_success_def)

section \<open>Exceptions\<close>

text \<open>
  An \<open>HttpException\<close> with its status, its response (a text or an object) and its message, or anything else that
  is thrown.  \<open>status_name\<close> is the reverse mapping of the enumeration \<open>HttpStatus\<close>.
\<close>

datatype http_body = TextBody string | ObjectBody json

datatype thrown = Http nat http_body string | Other json

definition masked_payload :: json where
  "masked_payload = JObj [(''code'', JStr ''INTERNAL_SERVER_ERROR''), (''message'', JStr ''An internal server error occurred'')]"

fun is_jlist :: "json option \<Rightarrow> bool" where
  "is_jlist (Some (JList _)) = True"
| "is_jlist _ = False"

fun text_or :: "json option \<Rightarrow> string \<Rightarrow> string" where
  "text_or (Some (JStr s)) t = (if s = [] then t else s)"
| "text_or _ t = t"

definition http_payload :: "(nat \<Rightarrow> string option) \<Rightarrow> nat \<Rightarrow> http_body \<Rightarrow> string \<Rightarrow> json" where
  "http_payload status_name status body message =
     (let errorCode = (case status_name status of Some s \<Rightarrow> if s = [] then ''HTTP_EXCEPTION'' else s | None \<Rightarrow> ''HTTP_EXCEPTION'') in
      case body of
        TextBody s \<Rightarrow> JObj [(''code'', JStr errorCode), (''message'', JStr s)]
      | ObjectBody res \<Rightarrow>
          (case jget ''message'' res of
             Some (JList ds) \<Rightarrow>
               JObj [(''code'', JStr ''VALIDATION_ERROR''), (''message'', JStr ''Validation failed''), (''details'', JList ds)]
           | m \<Rightarrow>
               JObj [(''code'', JStr (text_or (jget ''code'' res) errorCode)),
                     (''message'', the (jor m (Some (JStr message))))]))"

definition catch_exception :: "(nat \<Rightarrow> string option) \<Rightarrow> string option \<Rightarrow> int \<Rightarrow> thrown \<Rightarrow> nat \<times> json" where
  "catch_exception status_name reqId now exn =
     (case exn of
        Http status body message \<Rightarrow>
          (status, api_failure (http_payload status_name status body message) (request_id_or_unknown reqId) now)
      | Other _ \<Rightarrow> (500, api_failure masked_payload (request_id_or_unknown reqId) now))"

text \<open>What is logged of an exception that is no \<open>HttpException\<close>; an \<open>Error\<close> gives its message and its stack.\<close>

definition logged_error :: "string \<Rightarrow> string \<Rightarrow> json" where
  "logged_error message stack = sanitizeLogData (JObj [(''message'', JStr message), (''stack'', JStr stack)])"

text \<open>Nothing of an unexpected exception reaches the client.\<close>

lemma unexpected_masked: "catch_exception names i t (Other x) = catch_exception names i t (Other y)"
  by (simp add: catch_exception_def)

text \<open>The text of an error is logged as it is, whatever it contains.\<close>

lemma error_text_logged: "logged_error m s = JObj [(''message'', JStr m), (''stack'', JStr s)]"
  by (simp add: logged_error_def sensitive_def sensitive_keys_def lower_def lower_char_def Let_def)

text \<open>An answer of the filter is an envelope, which the interceptor would leave alone.\<close>

lemma caught_is_envelope: "transform i' t' (snd (catch_exception names i t e)) = snd (catch_exception names i t e)"
  by (cases e) (simp_all add: catch_exception_def transform_def api_failure_def)

section \<open>The request id\<close>

definition is_hex :: "char \<Rightarrow> bool" where
  "is_hex c \<longleftrightarrow> lower_char c \<in> set ''0123456789abcdef''"

text \<open>The groups of the regular expression, without regard to case.\<close>

definition is_request_id :: "string \<Rightarrow> bool" where
  "is_request_id s \<longleftrightarrow>
     length s = 36 \<and> s ! 8 = CHR ''-'' \<and> s ! 13 = CHR ''-'' \<and> s ! 18 = CHR ''-'' \<and> s ! 23 = CHR ''-'' \<and>
     list_all (\<lambda>i. i \<in> {8, 13, 18, 23} \<or> is_hex (s ! i)) [0..<36] \<and>
     s ! 14 \<in> set ''12345'' \<and> lower_char (s ! 19) \<in> set ''89ab''"

definition request_id :: "string option \<Rightarrow> string \<Rightarrow> string" where
  "request_id incoming newId =
     (case incoming of
        Some s \<Rightarrow> if length s = 36 \<and> is_request_id s then s else newId
      | None \<Rightarrow> newId)"

lemma request_id_well_formed: "is_request_id newId \<Longrightarrow> is_request_id (request_id incoming newId)"
  by (simp add: request_id_def split: option.split)

end
