(* ===== verification/Config.thy ===== *)
theory Config
  imports Notifications WsGuard
begin

text \<open>
  Configuration: the schema of the environment (\<open>config/env.validation.ts\<close>), the configuration tree
  (\<open>config/configuration.ts\<close>) and the settings that the components read out of it.
\<close>

section \<open>The environment\<close>

type_synonym env = "string \<Rightarrow> string option"

text \<open>
  A rule of the schema: a text with its allowed values, its least length, whether it is required, and its
  default; or a number with its default.  Joi refuses the empty text.  \<open>is_number\<close> is Joi's test of numerals.
\<close>

datatype env_rule = Text_rule "string list option" nat bool "string option" | Number_rule string

definition env_schema :: "(string \<times> env_rule) list" where
  "env_schema =
     [(''NODE_ENV'', Text_rule (Some [''development'', ''production'', ''test'', ''staging'']) 1 False (Some ''development'')),
      (''PORT'', Number_rule ''3000''),
      (''API_PREFIX'', Text_rule None 1 False (Some ''v1'')),
      (''DATABASE_URL'', Text_rule None 1 True None),
      (''REDIS_HOST'', Text_rule None 1 False (Some ''localhost'')),
      (''REDIS_PORT'', Number_rule ''6379''),
      (''JWT_ALGORITHM'', Text_rule (Some [''HS256'', ''RS256'', ''EdDSA'']) 1 False (Some ''HS256'')),
      (''JWT_SECRET_OR_KEY'', Text_rule None 32 True None),
      (''JWT_ISSUER'', Text_rule None 1 False (Some ''dms-api'')),
      (''JWT_AUDIENCE'', Text_rule None 1 False (Some ''dms-clients'')),
      (''JWT_ACCESS_EXPIRATION'', Text_rule None 1 False (Some ''15m'')),
      (''JWT_REFRESH_EXPIRATION'', Text_rule None 1 False (Some ''7d'')),
      (''CORS_ALLOWED_ORIGINS'', Text_rule None 1 False (Some ''http://localhost:3000,http://localhost:5173'')),
      (''WS_HEARTBEAT_INTERVAL_MS'', Number_rule ''25000''),
      (''WS_PONG_TIMEOUT_MS'', Number_rule ''10000''),
      (''BACKUP_ENCRYPTION_KEY'', Text_rule None 32 False None),
      (''TURN_SECRET'', Text_rule None 32 False None),
      (''FCM_SERVER_KEY'', Text_rule None 1 False None)]"

fun rule_ok :: "(string \<Rightarrow> bool) \<Rightarrow> env_rule \<Rightarrow> string option \<Rightarrow> bool" where
  "rule_ok is_number (Text_rule allowed least required default_value) None = (\<not> required)"
| "rule_ok is_number (Text_rule allowed least required default_value) (Some s) =
     (s \<noteq> [] \<and> least \<le> length s \<and> (case allowed of None \<Rightarrow> True | Some vs \<Rightarrow> s \<in> set vs))"
| "rule_ok is_number (Number_rule default_value) None = True"
| "rule_ok is_number (Number_rule default_value) (Some s) = is_number s"

fun rule_default :: "env_rule \<Rightarrow> string option" where
  "rule_default (Text_rule allowed least required default_value) = default_value"
| "rule_default (Number_rule default_value) = Some default_value"

text \<open>
  \<open>None\<close>: the application does not start.  A default is written into the environment; other variables are
  kept (\<open>allowUnknown\<close>).
\<close>

definition validate_env :: "(string \<Rightarrow> bool) \<Rightarrow> env \<Rightarrow> env option" where
  "validate_env is_number e =
     (if list_all (\<lambda>(k, rule). rule_ok is_number rule (e k)) env_schema
      then Some (\<lambda>k. case e k of
             Some v \<Rightarrow> Some v
           | None \<Rightarrow> (case map_of env_schema k of None \<Rightarrow> None | Some rule \<Rightarrow> rule_default rule))
      else None)"

section \<open>The tree\<close>

definition env_or :: "env \<Rightarrow> string \<Rightarrow> string \<Rightarrow> string" where
  "env_or e k d = (if truthy (e k) then the (e k) else d)"

definition env_json :: "env \<Rightarrow> string \<Rightarrow> (string \<times> json) list" where
  "env_json e field = (case e field of None \<Rightarrow> [] | Some s \<Rightarrow> [(field, JStr s)])"

text \<open>\<open>parseInt(s, 10)\<close>: leading blanks, a sign, and the digits up to the first other character; \<open>NaN\<close> is \<open>JNull\<close>.\<close>

definition is_digit :: "char \<Rightarrow> bool" where
  "is_digit c \<longleftrightarrow> c \<in> set ''0123456789''"

definition digits_value :: "string \<Rightarrow> int" where
  "digits_value s = foldl (\<lambda>n c. 10 * n + (int (of_char c) - 48)) 0 s"

definition parse_int :: "string \<Rightarrow> json" where
  "parse_int s =
     (let t = dropWhile blank s;
          (sign, u) = (if take 1 t = ''-'' then (- 1, drop 1 t) else if take 1 t = ''+'' then (1, drop 1 t) else (1, t));
          ds = takeWhile is_digit u
      in if ds = [] then JNull else JNum (of_int (sign * digits_value ds)))"

fun split_on :: "char \<Rightarrow> string \<Rightarrow> string list" where
  "split_on c [] = [[]]"
| "split_on c (x # xs) =
     (case split_on c xs of
        [] \<Rightarrow> [[x]]
      | part # parts \<Rightarrow> if x = c then [] # part # parts else (x # part) # parts)"

definition optional_text :: "string \<Rightarrow> string option \<Rightarrow> (string \<times> json) list" where
  "optional_text field x = (case x of None \<Rightarrow> [] | Some s \<Rightarrow> [(field, JStr s)])"

definition configuration :: "env \<Rightarrow> json" where
  "configuration e =
     JObj [(''nodeEnv'', JStr (env_or e ''NODE_ENV'' ''development'')),
           (''port'', parse_int (env_or e ''PORT'' ''3000'')),
           (''apiPrefix'', JStr (env_or e ''API_PREFIX'' ''v1'')),
           (''database'', JObj (optional_text ''url'' (e ''DATABASE_URL''))),
           (''redis'', JObj [(''host'', JStr (env_or e ''REDIS_HOST'' ''localhost'')),
                             (''port'', parse_int (env_or e ''REDIS_PORT'' ''6379''))]),
           (''jwt'', JObj ([(''algorithm'', JStr (env_or e ''JWT_ALGORITHM'' ''HS256''))] @
                           optional_text ''secretOrKey'' (e ''JWT_SECRET_OR_KEY'') @
                           [(''issuer'', JStr (env_or e ''JWT_ISSUER'' ''dms-api'')),
                            (''audience'', JStr (env_or e ''JWT_AUDIENCE'' ''dms-clients'')),
                            (''accessExpiration'', JStr (env_or e ''JWT_ACCESS_EXPIRATION'' ''15m'')),
                            (''refreshExpiration'', JStr (env_or e ''JWT_REFRESH_EXPIRATION'' ''7d''))])),
           (''cors'', JObj [(''allowedOrigins'', JList (map JStr (split_on (CHR '','') (env_or e ''CORS_ALLOWED_ORIGINS'' []))))]),
           (''realtime'', JObj [(''heartbeatIntervalMs'', parse_int (env_or e ''WS_HEARTBEAT_INTERVAL_MS'' ''25000'')),
                                (''pongTimeoutMs'', parse_int (env_or e ''WS_PONG_TIMEOUT_MS'' ''10000''))])]"

section \<open>Reading a setting\<close>

fun jpath :: "string list \<Rightarrow> json \<Rightarrow> json option" where
  "jpath [] j = Some j"
| "jpath (k # ks) j = (case jget k j of None \<Rightarrow> None | Some v \<Rightarrow> jpath ks v)"

text \<open>
  \<open>ConfigService.get\<close>: a variable of the environment that has the dotted path as its name comes first, then the
  tree, then the default.
\<close>

definition config_get :: "env \<Rightarrow> string \<Rightarrow> json option" where
  "config_get e path =
     (case e path of Some s \<Rightarrow> Some (JStr s) | None \<Rightarrow> jpath (split_on (CHR ''.'') path) (configuration e))"

definition config_text :: "env \<Rightarrow> string \<Rightarrow> string \<Rightarrow> string" where
  "config_text e path d = (case config_get e path of Some (JStr s) \<Rightarrow> s | _ \<Rightarrow> d)"

definition config_optional :: "env \<Rightarrow> string \<Rightarrow> string option" where
  "config_optional e path = (case config_get e path of Some (JStr s) \<Rightarrow> Some s | _ \<Rightarrow> None)"

text \<open>The constructors of the components.\<close>

definition jwt_secret :: "env \<Rightarrow> string" where
  "jwt_secret e = config_text e ''jwt.secretOrKey'' ''default_long_secret_key_32_characters!''"

definition ws_settings :: "env \<Rightarrow> ws_config" where
  "ws_settings e =
     \<lparr>wsc_jwtSecret = jwt_secret e, wsc_previousSecret = config_optional e ''jwt.previousSecretOrKey'',
      wsc_previousKeyId = e ''JWT_PREVIOUS_KEY_ID'',
      wsc_jwtIssuer = config_text e ''jwt.issuer'' ''dms-api'',
      wsc_jwtAudience = config_text e ''jwt.audience'' ''dms-clients''\<rparr>"

definition fcm_server_key :: "env \<Rightarrow> string option" where
  "fcm_server_key e = config_optional e ''notifications.fcmServerKey''"

definition turn_secret :: "env \<Rightarrow> string" where
  "turn_secret e = config_text e ''turn.secret'' ''test_turn_secret_min_32_chars_long''"

text \<open>\<open>hmac\<close> is HMAC-SHA1 in Base64, with the secret as its first argument.\<close>

definition turn_settings :: "(string \<Rightarrow> string \<Rightarrow> string) \<Rightarrow> env \<Rightarrow> turn_config" where
  "turn_settings hmac e =
     \<lparr>tc_hmac = hmac (turn_secret e),
      tc_serverUrl = config_text e ''turn.serverUrl'' ''turn:turn.domain.com:3478?transport=udp''\<rparr>"

definition osrm_base_url :: "env \<Rightarrow> string" where
  "osrm_base_url e = config_text e ''routing.osrmBaseUrl'' ''http://router.project-osrm.org''"

text \<open>The origins the CSRF guard allows.\<close>

definition json_texts :: "json option \<Rightarrow> string list" where
  "json_texts x = (case x of Some (JList xs) \<Rightarrow> List.map_filter (\<lambda>j. case j of JStr s \<Rightarrow> Some s | _ \<Rightarrow> None) xs | _ \<Rightarrow> [])"

definition csrf_origins :: "env \<Rightarrow> string list" where
  "csrf_origins e = map (\<lambda>o'. lower (trim o')) (json_texts (config_get e ''cors.allowedOrigins''))"

section \<open>Starting with a validated environment\<close>

lemma validated_given: "validate_env is_number e = Some e' \<Longrightarrow> e k = Some v \<Longrightarrow> e' k = Some v"
  by (auto simp: validate_env_def split: if_splits)

lemma validated_rule:
  assumes "validate_env is_number e = Some e'" and "(k, rule) \<in> set env_schema"
  shows "rule_ok is_number rule (e k)"
  using assms by (auto simp: validate_env_def list_all_iff split: if_splits)

lemma schema_rules:
  "(''JWT_SECRET_OR_KEY'', Text_rule None 32 True None) \<in> set env_schema"
  "(''CORS_ALLOWED_ORIGINS'', Text_rule None 1 False (Some ''http://localhost:3000,http://localhost:5173'')) \<in> set env_schema"
  by (simp_all add: env_schema_def)

lemma missing_sections:
  "jget ''turn'' (configuration e) = None" "jget ''notifications'' (configuration e) = None"
  "jget ''routing'' (configuration e) = None"
  by (simp_all add: configuration_def)

lemma jwt_section:
  "jpath [''jwt'', ''secretOrKey''] (configuration e) = map_option JStr (e ''JWT_SECRET_OR_KEY'')"
  "jpath [''jwt'', ''previousSecretOrKey''] (configuration e) = None"
  by (cases "e ''JWT_SECRET_OR_KEY''"; simp add: configuration_def optional_text_def)+

lemma dotted_paths:
  "split_on (CHR ''.'') ''jwt.secretOrKey'' = [''jwt'', ''secretOrKey'']"
  "split_on (CHR ''.'') ''jwt.previousSecretOrKey'' = [''jwt'', ''previousSecretOrKey'']"
  "split_on (CHR ''.'') ''turn.secret'' = [''turn'', ''secret'']"
  "split_on (CHR ''.'') ''notifications.fcmServerKey'' = [''notifications'', ''fcmServerKey'']"
  "split_on (CHR ''.'') ''routing.osrmBaseUrl'' = [''routing'', ''osrmBaseUrl'']"
  by simp_all

lemma config_get_secret:
  assumes "e ''jwt.secretOrKey'' = None"
  shows "config_get e ''jwt.secretOrKey'' = map_option JStr (e ''JWT_SECRET_OR_KEY'')"
  unfolding config_get_def assms option.case dotted_paths(1) by (rule jwt_section(1))

lemma config_get_missing:
  "e ''turn.secret'' = None \<Longrightarrow> config_get e ''turn.secret'' = None"
  "e ''notifications.fcmServerKey'' = None \<Longrightarrow> config_get e ''notifications.fcmServerKey'' = None"
  "e ''routing.osrmBaseUrl'' = None \<Longrightarrow> config_get e ''routing.osrmBaseUrl'' = None"
  "e ''jwt.previousSecretOrKey'' = None \<Longrightarrow> config_get e ''jwt.previousSecretOrKey'' = None"
  unfolding config_get_def dotted_paths using jwt_section(2) by (simp_all add: missing_sections)

text \<open>The fallback of the signing secret is never used: without a secret of 32 characters nothing starts.\<close>

theorem started_with_own_secret:
  assumes "validate_env is_number e = Some e'" and "e ''jwt.secretOrKey'' = None"
  shows "\<exists>s. e ''JWT_SECRET_OR_KEY'' = Some s \<and> 32 \<le> length s \<and> jwt_secret e' = s \<and> wsc_jwtSecret (ws_settings e') = s"
proof -
  obtain s where s: "e ''JWT_SECRET_OR_KEY'' = Some s" "32 \<le> length s"
    using validated_rule[OF assms(1) schema_rules(1)] by (cases "e ''JWT_SECRET_OR_KEY''") auto
  have "e' ''jwt.secretOrKey'' = None"
    using assms by (auto simp: validate_env_def env_schema_def split: if_splits)
  then have "config_get e' ''jwt.secretOrKey'' = Some (JStr s)"
    using config_get_secret validated_given[OF assms(1) s(1)] by simp
  then show ?thesis using s by (simp add: jwt_secret_def ws_settings_def config_text_def)
qed

text \<open>
  Four settings that the components read are missing in the tree, so the variables the schema has for them are
  without effect: TURN credentials are signed with the secret in the source, pushes are never sent, the previous
  JWT secret is never accepted, and the OSRM server is the public one.
\<close>

definition dotted_names :: "string list" where
  "dotted_names = [''turn.secret'', ''notifications.fcmServerKey'', ''jwt.previousSecretOrKey'', ''routing.osrmBaseUrl'']"

theorem settings_out_of_reach:
  assumes "\<forall>k \<in> set dotted_names. e k = None"
  shows "turn_secret e = ''test_turn_secret_min_32_chars_long''" and "fcm_server_key e = None"
    and "wsc_previousSecret (ws_settings e) = None" and "osrm_base_url e = ''http://router.project-osrm.org''"
  using assms config_get_missing
  by (simp_all add: dotted_names_def turn_secret_def fcm_server_key_def ws_settings_def osrm_base_url_def config_text_def
      config_optional_def)

lemma no_push_is_sent:
  assumes "\<forall>k \<in> set dotted_names. e k = None" and "tokens \<noteq> []"
  shows "sendPushNotification (fcm_server_key e) answer tokens = all_sent tokens"
  using settings_out_of_reach(2)[OF assms(1)] assms(2) by (simp add: sendPushNotification_def)

text \<open>Whoever knows the source can make valid TURN credentials for any user.\<close>

lemma turn_credentials_of_the_source:
  assumes "\<forall>k \<in> set dotted_names. e k = None"
  shows "trn_credential (generateEphemeralCredentials (turn_settings hmac e) userId ttl now) =
    hmac ''test_turn_secret_min_32_chars_long'' (trn_username (generateEphemeralCredentials (turn_settings hmac e) userId ttl now))"
  using settings_out_of_reach(1)[OF assms] by (simp add: generateEphemeralCredentials_def turn_settings_def Let_def)

end
