(* ===== verification/Pubsub.thy ===== *)
theory Pubsub
  imports Json
begin

text \<open>
  The subscriber connection of \<open>redis.service.ts\<close>: the handlers by channel, the state of the connection, and the
  subscriptions that the server has for it.  A command of the connection may fail.  \<open>subscribe\<close> and
  \<open>unsubscribe\<close> await the server in the middle, so \<open>subscribe\<close> is split there.
\<close>

section \<open>State\<close>

type_synonym handler_id = nat

record pubsub =
  pb_handlers :: "(string \<times> handler_id list) list"
  pb_connected :: bool
  pb_subscribed :: "string list"

text \<open>The maps of JavaScript keep the order of insertion, and \<open>set\<close> and \<open>add\<close> keep what is there.\<close>

definition add_handler :: "handler_id \<Rightarrow> handler_id list \<Rightarrow> handler_id list" where
  "add_handler h hs = (if h \<in> set hs then hs else hs @ [h])"

definition set_handlers :: "string \<Rightarrow> handler_id list \<Rightarrow> (string \<times> handler_id list) list \<Rightarrow> (string \<times> handler_id list) list" where
  "set_handlers ch hs m =
     (if ch \<in> fst ` set m then map (\<lambda>(c, x). (c, if c = ch then hs else x)) m else m @ [(ch, hs)])"

definition server_subscribe :: "string \<Rightarrow> bool \<Rightarrow> pubsub \<Rightarrow> pubsub" where
  "server_subscribe ch ok s = (if ok then s\<lparr>pb_subscribed := ch # removeAll ch (pb_subscribed s)\<rparr> else s)"

section \<open>Subscribing\<close>

text \<open>Up to the answer of the server; the command is only sent for a channel that is new.\<close>

definition subscribe_start :: "string \<Rightarrow> bool \<Rightarrow> pubsub \<Rightarrow> pubsub" where
  "subscribe_start ch ok s =
     (if map_of (pb_handlers s) ch \<noteq> None then s
      else
        let s1 = s\<lparr>pb_handlers := set_handlers ch [] (pb_handlers s)\<rparr>
        in if pb_connected s1 then server_subscribe ch ok s1 else s1)"

text \<open>After it; \<open>None\<close> when the channel was removed meanwhile, which throws.\<close>

definition subscribe_finish :: "string \<Rightarrow> handler_id \<Rightarrow> pubsub \<Rightarrow> pubsub option" where
  "subscribe_finish ch h s =
     (case map_of (pb_handlers s) ch of
        None \<Rightarrow> None
      | Some hs \<Rightarrow> Some (s\<lparr>pb_handlers := set_handlers ch (add_handler h hs) (pb_handlers s)\<rparr>))"

definition subscribe :: "string \<Rightarrow> handler_id \<Rightarrow> bool \<Rightarrow> pubsub \<Rightarrow> pubsub option" where
  "subscribe ch h ok s = subscribe_finish ch h (subscribe_start ch ok s)"

definition unsubscribe :: "string \<Rightarrow> handler_id \<Rightarrow> bool \<Rightarrow> pubsub \<Rightarrow> pubsub" where
  "unsubscribe ch h ok s =
     (case map_of (pb_handlers s) ch of
        None \<Rightarrow> s
      | Some hs \<Rightarrow>
          let rest = removeAll h hs in
          if rest \<noteq> [] then s\<lparr>pb_handlers := set_handlers ch rest (pb_handlers s)\<rparr>
          else
            let s1 = s\<lparr>pb_handlers := filter (\<lambda>(c, x). c \<noteq> ch) (pb_handlers s)\<rparr>
            in if pb_connected s1 \<and> ok then s1\<lparr>pb_subscribed := removeAll ch (pb_subscribed s1)\<rparr> else s1)"

section \<open>Events of the connection\<close>

text \<open>Every known channel is subscribed again; \<open>oks\<close> says which of these commands succeed.\<close>

definition on_connect :: "(string \<Rightarrow> bool) \<Rightarrow> pubsub \<Rightarrow> pubsub" where
  "on_connect oks s =
     foldl (\<lambda>s ch. server_subscribe ch (oks ch) s) (s\<lparr>pb_connected := True\<rparr>) (map fst (pb_handlers s))"

text \<open>The server forgets the subscriptions of a connection that is closed.\<close>

definition on_close :: "pubsub \<Rightarrow> pubsub" where
  "on_close s = s\<lparr>pb_connected := False, pb_subscribed := []\<rparr>"

text \<open>The handlers that get a message: one that throws does not keep it from the others.\<close>

definition on_message :: "string \<Rightarrow> pubsub \<Rightarrow> handler_id list" where
  "on_message ch s =
     (if pb_connected s \<and> ch \<in> set (pb_subscribed s)
      then (case map_of (pb_handlers s) ch of None \<Rightarrow> [] | Some hs \<Rightarrow> hs) else [])"

datatype pubsub_event =
    Subscribe string handler_id bool
  | Unsubscribe string handler_id bool
  | Connect "string \<Rightarrow> bool"
  | Close

fun pubsub_step :: "pubsub_event \<Rightarrow> pubsub \<Rightarrow> pubsub" where
  "pubsub_step (Subscribe ch h ok) s = (case subscribe ch h ok s of None \<Rightarrow> s | Some s' \<Rightarrow> s')"
| "pubsub_step (Unsubscribe ch h ok) s = unsubscribe ch h ok s"
| "pubsub_step (Connect oks) s = on_connect oks s"
| "pubsub_step Close s = on_close s"

definition pubsub_run :: "pubsub_event list \<Rightarrow> pubsub \<Rightarrow> pubsub" where
  "pubsub_run es s = fold pubsub_step es s"

definition new_pubsub :: pubsub where
  "new_pubsub = \<lparr>pb_handlers = [], pb_connected = False, pb_subscribed = []\<rparr>"

section \<open>What is heard\<close>

text \<open>While the connection is up, exactly the channels with handlers are subscribed.\<close>

definition listening :: "pubsub \<Rightarrow> bool" where
  "listening s \<longleftrightarrow> (pb_connected s \<longrightarrow> set (pb_subscribed s) = fst ` set (pb_handlers s)) \<and>
     (\<not> pb_connected s \<longrightarrow> pb_subscribed s = [])"

fun no_failure :: "pubsub_event \<Rightarrow> bool" where
  "no_failure (Subscribe ch h ok) = ok"
| "no_failure (Unsubscribe ch h ok) = ok"
| "no_failure (Connect oks) = (\<forall>ch. oks ch)"
| "no_failure Close = True"

lemma set_handlers_keys [simp]: "fst ` set (set_handlers ch hs m) = insert ch (fst ` set m)"
  by (auto simp: set_handlers_def image_iff split: if_splits) force+

lemma map_of_overwrite:
  "map_of (map (\<lambda>(c, x). (c, if c = ch then hs else x)) m) k = (if k = ch \<and> ch \<in> fst ` set m then Some hs else map_of m k)"
proof (induction m)
  case (Cons p m)
  then show ?case by (cases p; cases "fst p = ch"; cases "k = ch") simp_all
qed simp

lemma map_of_set_handlers: "map_of (set_handlers ch hs m) k = (if k = ch then Some hs else map_of m k)"
proof (cases "ch \<in> fst ` set m")
  case True
  then show ?thesis by (simp add: set_handlers_def map_of_overwrite)
next
  case False
  then have "map_of m ch = None" by (simp add: map_of_eq_None_iff)
  with False show ?thesis
    by (auto simp: set_handlers_def map_add_def split: option.split)
qed

lemma map_of_dropped: "map_of (filter (\<lambda>(c, x). c \<noteq> ch) m) = (map_of m)(ch := None)"
  by (induction m) (auto simp: fun_eq_iff)

lemma resubscribed:
  "pb_handlers (foldl (\<lambda>s ch. server_subscribe ch (oks ch) s) s chs) = pb_handlers s"
  "pb_connected (foldl (\<lambda>s ch. server_subscribe ch (oks ch) s) s chs) = pb_connected s"
  "set (pb_subscribed (foldl (\<lambda>s ch. server_subscribe ch (oks ch) s) s chs)) =
     {ch \<in> set chs. oks ch} \<union> set (pb_subscribed s)"
  by (induction chs arbitrary: s) (auto simp: server_subscribe_def)

lemma handled_iff: "map_of m ch \<noteq> None \<longleftrightarrow> ch \<in> fst ` set m"
  by (simp add: map_of_eq_None_iff)

lemma listening_step:
  assumes "listening s" and "no_failure e"
  shows "listening (pubsub_step e s)"
proof (cases e)
  case (Subscribe ch h ok)
  have "listening (subscribe_start ch True s) \<and> map_of (pb_handlers (subscribe_start ch True s)) ch \<noteq> None"
    using assms(1) by (auto simp: subscribe_start_def listening_def server_subscribe_def map_of_set_handlers Let_def)
  moreover have "listening t" if l: "listening s'" and f: "subscribe_finish ch h s' = Some t" for s' t
  proof -
    obtain hs where "map_of (pb_handlers s') ch = Some hs" "t = s'\<lparr>pb_handlers := set_handlers ch (add_handler h hs) (pb_handlers s')\<rparr>"
      using f by (auto simp: subscribe_finish_def split: option.splits)
    moreover have "ch \<in> fst ` set (pb_handlers s')"
      using calculation(1) handled_iff by fastforce
    ultimately show ?thesis using l by (simp add: listening_def insert_absorb)
  qed
  ultimately show ?thesis using Subscribe assms by (auto simp: subscribe_def split: option.split)
next
  case (Unsubscribe ch h ok)
  then show ?thesis
    using assms handled_iff[of "pb_handlers s" ch]
    by (auto simp: unsubscribe_def listening_def Let_def image_iff split: option.split)
next
  case (Connect oks)
  then show ?thesis using assms by (auto simp: on_connect_def listening_def resubscribed)
next
  case Close
  then show ?thesis by (simp add: on_close_def listening_def)
qed

lemma listening_run: "listening s \<Longrightarrow> list_all no_failure es \<Longrightarrow> listening (pubsub_run es s)"
  unfolding pubsub_run_def by (induction es arbitrary: s) (auto intro: listening_step)

lemma listening_new: "listening new_pubsub"
  by (simp add: listening_def new_pubsub_def)

text \<open>A handler stays registered until it is taken out.\<close>

definition registered :: "string \<Rightarrow> handler_id \<Rightarrow> pubsub \<Rightarrow> bool" where
  "registered ch h s \<longleftrightarrow> (\<exists>hs. map_of (pb_handlers s) ch = Some hs \<and> h \<in> set hs)"

lemma registered_step:
  assumes "registered ch h s" and "\<And>ok. e \<noteq> Unsubscribe ch h ok"
  shows "registered ch h (pubsub_step e s)"
proof (cases e)
  case (Subscribe c k ok)
  then show ?thesis
    using assms(1)
    by (auto simp: registered_def subscribe_def subscribe_start_def subscribe_finish_def server_subscribe_def add_handler_def
        map_of_set_handlers Let_def split: option.split)
next
  case (Unsubscribe c k ok)
  then have "c \<noteq> ch \<or> k \<noteq> h" using assms(2) by auto
  moreover have "h \<in> set hs \<Longrightarrow> k \<noteq> h \<Longrightarrow> removeAll k hs \<noteq> []" for hs by (induction hs) auto
  ultimately show ?thesis
    using assms(1) Unsubscribe
    by (auto simp: registered_def unsubscribe_def map_of_set_handlers map_of_dropped Let_def split: option.split)
qed (use assms(1) in \<open>auto simp: registered_def on_connect_def resubscribed on_close_def\<close>)

lemma registered_run:
  "registered ch h s \<Longrightarrow> (\<And>ok. Unsubscribe ch h ok \<notin> set es) \<Longrightarrow> registered ch h (pubsub_run es s)"
  unfolding pubsub_run_def
proof (induction es arbitrary: s)
  case (Cons e es)
  then have "registered ch h (pubsub_step e s)" by (intro registered_step) auto
  with Cons show ?case by simp
qed simp

text \<open>
  A handler that has been registered gets every message of its channel that is published while the connection is
  up, through any number of losses of the connection, as long as the commands succeed and nobody takes it out.
\<close>

theorem handler_hears:
  assumes "list_all no_failure es" and "es = es1 @ Subscribe ch h True # es2" and "\<And>ok. Unsubscribe ch h ok \<notin> set es2"
    and "pb_connected (pubsub_run es new_pubsub)"
  shows "h \<in> set (on_message ch (pubsub_run es new_pubsub))"
proof -
  let ?s = "pubsub_run es new_pubsub" and ?s1 = "pubsub_run es1 new_pubsub"
  have "registered ch h (pubsub_step (Subscribe ch h True) ?s1)"
    by (auto simp: registered_def subscribe_def subscribe_start_def subscribe_finish_def server_subscribe_def add_handler_def
        map_of_set_handlers Let_def split: option.split)
  then have "registered ch h (pubsub_run es2 (pubsub_step (Subscribe ch h True) ?s1))"
    using assms(3) by (rule registered_run)
  then have "registered ch h ?s" by (simp add: assms(2) pubsub_run_def)
  then obtain hs where hs: "map_of (pb_handlers ?s) ch = Some hs" "h \<in> set hs" by (auto simp: registered_def)
  moreover have "listening ?s" using listening_run[OF listening_new assms(1)] .
  ultimately show ?thesis
    using assms(4) handled_iff[of "pb_handlers ?s" ch] by (simp add: listening_def on_message_def)
qed

text \<open>When the command fails, the channel stays deaf: a further \<open>subscribe\<close> does not send the command again.\<close>

lemma failed_subscribe_is_not_repeated:
  "on_message ch (pubsub_run [Connect (\<lambda>_. True), Subscribe ch h False, Subscribe ch k True] new_pubsub) = []"
  by (simp add: pubsub_run_def new_pubsub_def on_connect_def subscribe_def subscribe_start_def subscribe_finish_def
      server_subscribe_def on_message_def set_handlers_def add_handler_def Let_def)

end
