(* ===== verification/Spec2Isabelle.thy ===== *)
theory Spec2Isabelle
  imports HandlerProps SignalProps TrackProps FileProps NoteProps FleetProps EndpointProps
    AccountProps CommEndpoints Responses Config Pubsub
begin

text \<open>
  Verification of the backend of the distribution management system (\<open>src/src\<close>, NestJS on PostgreSQL and
  Redis).  Owners and administrators plan deliveries with stops; drivers accept them, drive the stops, submit
  proofs of delivery, report their position and raise emergencies; both sides talk over encrypted messages
  and calls.  This development models the services behind the endpoints as functions on explicit tables and
  proves what they guarantee, alone and when requests overlap.

  \<^bold>\<open>How the code is modelled.\<close>  A table is a list of rows (\<open>Tables\<close>); \<open>findUnique\<close>, \<open>update\<close>, \<open>updateMany\<close> and
  \<open>create\<close> are \<open>find_row\<close>, \<open>update_row\<close>, \<open>update_where\<close> or \<open>claim\<close>, and append.  A handler is a function of its
  arguments, the time, the random ids it draws, and the world; it returns \<open>Inl\<close> the exception (its HTTP class
  and code) or \<open>Inr\<close> the result, with the world it leaves.  A transaction that throws leaves the world as it
  was.  Where a handler reads in one query and writes in a later one, it is split into a guard and a write
  (\<open>assignDelivery_guard\<close>, \<open>send_check\<close>, \<open>triggerEmergency_write\<close>, ...), so that other requests can be put
  between the two; the handler itself is their composition.  JSON, JavaScript truthiness and \<open>x || null\<close> are
  written out (\<open>Json\<close>, \<open>Prelude\<close>).  Decimal columns are rationals, rounded and checked for overflow where a
  value is stored; times are integers in milliseconds, a date text is the time it denotes.

  \<^bold>\<open>The theories.\<close>
  \<^item> \<open>Prelude\<close>, \<open>Tables\<close>, \<open>Json\<close>: shared vocabulary; the contracts \<open>claiming\<close> and \<open>edge_claiming\<close> of a
    conditional update and \<open>status_graph\<close> of a status column, which the components interpret.
  \<^item> \<open>Redis\<close> (\<open>common/redis/redis.service.ts\<close>): values with expiry, revocation keys with the local list of
    uncertain keys, rate limits, sequences, publication.  Each command may fail, as an oracle in the state
    says.  \<open>RedisProps\<close>: a revocation is never lost to a failure.
  \<^item> \<open>DataModel\<close> (\<open>prisma/schema.prisma\<close>), \<open>Deliveries\<close>, \<open>Stops\<close>, \<open>Pod\<close>, \<open>Conflicts\<close>
    (\<open>modules/deliveries\<close>, \<open>modules/pod\<close>): the delivery core.  \<open>Lifecycle\<close> is its abstract specification, one
    relation \<open>core_step\<close> on four tables; \<open>Refinement\<close> and \<open>RouteSteps\<close> show that every request is a run of it;
    \<open>Service\<close> puts the requests together.  \<open>DeliveryProps\<close>, \<open>HandlerProps\<close>, \<open>PodProps\<close>, \<open>TicketProps\<close>: verdicts,
    final statuses, single handlers, races between guard and write, replays, conflict tickets.
  \<^item> \<open>Geo\<close>, \<open>Tours\<close>, \<open>TourSolvers\<close>, \<open>Routes\<close>, \<open>RouteLemmas\<close>, \<open>RouteProps\<close> (\<open>modules/routes\<close>,
    \<open>gps-validator.util.ts\<close>): providers, the exhaustive and the 2-opt solver under the contract \<open>tour_solver\<close>,
    recommendation, selection and reordering under the contract \<open>keyed_transaction\<close>.
  \<^item> \<open>Sessions\<close>, \<open>Auth\<close>, \<open>AuthSteps\<close>, \<open>AuthProps\<close> (\<open>modules/auth\<close>, \<open>sessions\<close>, \<open>users\<close>, \<open>devices\<close>,
    \<open>common/guards\<close>): login, rotation of refresh tokens, revocation, account administration, the guards.
  \<^item> \<open>Calls\<close>, \<open>CallProps\<close>, \<open>Keys\<close>, \<open>KeyProps\<close>, \<open>Chat\<close>, \<open>ChatProps\<close> (\<open>modules/communication\<close>, \<open>e2ee-keys\<close>,
    \<open>conversations\<close>): calls with their timer, one-time prekeys, messages with idempotency keys.
  \<^item> \<open>WsGuard\<close>, \<open>ConnManager\<close>, \<open>ConnLemmas\<close>, \<open>ConnProps\<close>, \<open>Rooms\<close>, \<open>Gateway\<close>, \<open>GatewayLemmas\<close>,
    \<open>GatewaySteps\<close>, \<open>GatewayProps\<close>, \<open>SignalProps\<close> (\<open>modules/realtime\<close>): sockets as a heap of mutable objects
    shared by the indexes, authentication, rooms, and the handlers of the gateway; properties over all
    histories of its events.
  \<^item> \<open>Tracking\<close>, \<open>TrackLemmas\<close>, \<open>TrackProps\<close> (\<open>modules/tracking\<close>): telemetry and its cache.
  \<^item> \<open>Emergencies\<close>, \<open>EmergencyProps\<close> (\<open>modules/emergencies\<close>): emergencies, alone and overlapping.
  \<^item> \<open>Images\<close>, \<open>ImageProps\<close>, \<open>Files\<close>, \<open>FileProps\<close> (\<open>modules/pod/services\<close>, \<open>modules/pod/adapters\<close>): the limiter
    of image processing as a state machine, the two pipelines, the disk as a map of paths, uploads and downloads.
  \<^item> \<open>Notifications\<close>, \<open>NoteProps\<close> (\<open>modules/notifications\<close>): push tokens, sending over the FCM server with its
    partial and failed answers, pages and read marks; what other users' requests cannot reach.
  \<^item> \<open>Fleet\<close>, \<open>FleetProps\<close> (\<open>modules/fleet\<close>): live locations and the history of a driver, over the histories of
    telemetry of \<open>Tracking\<close>.
  \<^item> \<open>Endpoints\<close>, \<open>EndpointProps\<close> (\<open>deliveries\<close>, \<open>stops\<close>, \<open>conflicts\<close>, \<open>routes\<close> and \<open>pod.controller.ts\<close>): the
    delivery core as its users reach it, with roles, bodies and driver profiles; drivers are kept apart.
  \<^item> \<open>Accounts\<close>, \<open>AccountProps\<close>, \<open>CommEndpoints\<close> (\<open>auth\<close>, \<open>users\<close>, \<open>device\<close>, \<open>conversations\<close>, \<open>communication\<close> and
    \<open>e2ee-keys.controller.ts\<close>): the other endpoints; accounts change by managers only, and a logout ends nothing.
  \<^item> \<open>Responses\<close> (\<open>common/filters\<close>, \<open>interceptors\<close>, \<open>middleware\<close>, \<open>log-sanitizer.util.ts\<close>): what is answered and logged.
  \<^item> \<open>Config\<close> (\<open>config\<close>): which environments start, and which settings reach the components.
  \<^item> \<open>Pubsub\<close> (\<open>redis.service.ts\<close>): the subscriber connection, through losses and failing commands.

  \<^bold>\<open>Interaction.\<close>  The delivery core, routes and proofs share the record \<open>world\<close>; accounts and sessions have
  \<open>auth_world\<close>, communication \<open>comm_world\<close>, telemetry \<open>track_world\<close>, and the gateway \<open>rt_world\<close>, which contains
  the last two and the connection registry.  Revocations travel from \<open>Auth\<close> through \<open>Redis\<close> to the gateway;
  telemetry arrives by HTTP or through the gateway; a stop becomes DELIVERED by a proof or an override.

  \<^bold>\<open>Bounds.\<close>  The 2-opt loop runs at most its 100 iterations and the model counts them down as the code does; all
  other loops run over lists.  The code's limits are kept: 10000 uncertain keys, five sessions per account, 50
  points per batch, 24 hours for idempotency records, one hour of signalling after an accepted call, clock
  skew of one hour back and five minutes ahead, two images at a time with ten seconds of waiting.  No
  definition needs fuel.

  \<^bold>\<open>Parameters.\<close>  Code that is not in the repository is an argument: SHA-256, Argon2, HMAC and JWT
  verification, the OSRM server, the image library (whose documented behaviour is the named hypothesis
  \<open>honest_sharp\<close>), and the outcomes of disk operations.  Random values are arguments, and where a theorem needs
  them to be new it says so.

  \<^bold>\<open>Not modelled.\<close>  Messages and logging; columns that only record history; the module and decorator
  declarations, start-up and health checks, which only wire the parts together; Prisma's and
  Socket.IO's own behaviour beyond the calls above.  An event of the gateway runs without interruption,
  although its handlers await the database; the splits into guard and write cover the services below it.
\<close>

end
